theory Spec2Isabelle
  imports Complex_Main
begin

section \<open>JavaScript numbers\<close>

text \<open>
  The geometry module computes with JavaScript numbers, that is IEEE 754 binary64 values.
  A number is a finite value, one of the two infinities, or NaN. A finite value is kept as
  the real number it denotes. The sign of zero is not represented: \<open>Finite 0\<close> stands for
  both zeros. No operation of \<open>triangleData\<close> tells them apart except a division by zero,
  which is taken as a division by the positive zero.
\<close>

datatype number = Finite real | PosInf | NegInf | NaN

subsection \<open>Rounding to the nearest double, ties to even\<close>

text \<open>\<open>rne\<close> rounds a real to the nearest integer, a tie going to the even neighbour.\<close>

definition rne :: "real \<Rightarrow> int" where
  "rne v = (let f = \<lfloor>v\<rfloor>; d = v - of_int f in
            if d < 1 / 2 then f
            else if 1 / 2 < d then f + 1
            else if even f then f else f + 1)"

text \<open>
  The spacing of the doubles around \<open>v\<close>: 52 fraction bits below the binary exponent of
  \<open>v\<close>, the exponent never taken below that of the smallest normal number.
\<close>

definition ulp_of :: "real \<Rightarrow> real" where
  "ulp_of v = 2 powr (of_int (max \<lfloor>log 2 \<bar>v\<bar>\<rfloor> (- 1022) - 52))"

definition round_double :: "real \<Rightarrow> real" where
  "round_double v = (if v = 0 then 0 else of_int (rne (v / ulp_of v)) * ulp_of v)"

text \<open>The result of an arithmetic operation whose exact value is \<open>v\<close>: overflow gives an infinity.\<close>

definition rnd :: "real \<Rightarrow> number" where
  "rnd v = (let r = round_double v in
            if 2 ^ 1024 \<le> \<bar>r\<bar> then (if 0 < v then PosInf else NegInf) else Finite r)"

subsection \<open>Arithmetic operators\<close>

definition is_neg :: "number \<Rightarrow> bool" where
  "is_neg n = (case n of Finite v \<Rightarrow> v < 0 | NegInf \<Rightarrow> True | _ \<Rightarrow> False)"

fun js_add :: "number \<Rightarrow> number \<Rightarrow> number" where
  "js_add (Finite p) (Finite q) = rnd (p + q)"
| "js_add NaN _ = NaN"
| "js_add _ NaN = NaN"
| "js_add PosInf NegInf = NaN"
| "js_add NegInf PosInf = NaN"
| "js_add PosInf _ = PosInf"
| "js_add _ PosInf = PosInf"
| "js_add NegInf _ = NegInf"
| "js_add _ NegInf = NegInf"

fun js_sub :: "number \<Rightarrow> number \<Rightarrow> number" where
  "js_sub (Finite p) (Finite q) = rnd (p - q)"
| "js_sub NaN _ = NaN"
| "js_sub _ NaN = NaN"
| "js_sub PosInf PosInf = NaN"
| "js_sub NegInf NegInf = NaN"
| "js_sub PosInf _ = PosInf"
| "js_sub _ NegInf = PosInf"
| "js_sub NegInf _ = NegInf"
| "js_sub _ PosInf = NegInf"

fun js_mul :: "number \<Rightarrow> number \<Rightarrow> number" where
  "js_mul (Finite p) (Finite q) = rnd (p * q)"
| "js_mul NaN _ = NaN"
| "js_mul _ NaN = NaN"
| "js_mul m n =
     (if m = Finite 0 \<or> n = Finite 0 then NaN
      else if is_neg m = is_neg n then PosInf else NegInf)"

fun js_div :: "number \<Rightarrow> number \<Rightarrow> number" where
  "js_div (Finite p) (Finite q) =
     (if q = 0 then (if p = 0 then NaN else if 0 < p then PosInf else NegInf)
      else rnd (p / q))"
| "js_div NaN _ = NaN"
| "js_div _ NaN = NaN"
| "js_div (Finite p) _ = Finite 0"
| "js_div m (Finite q) = (if is_neg m = (q < 0) then PosInf else NegInf)"
| "js_div _ _ = NaN"

subsection \<open>Comparisons\<close>

text \<open>A comparison with NaN on either side is false.\<close>

fun js_lt :: "number \<Rightarrow> number \<Rightarrow> bool" where
  "js_lt (Finite p) (Finite q) = (p < q)"
| "js_lt NaN _ = False"
| "js_lt _ NaN = False"
| "js_lt _ NegInf = False"
| "js_lt PosInf _ = False"
| "js_lt _ _ = True"

fun js_le :: "number \<Rightarrow> number \<Rightarrow> bool" where
  "js_le (Finite p) (Finite q) = (p \<le> q)"
| "js_le NaN _ = False"
| "js_le _ NaN = False"
| "js_le NegInf _ = True"
| "js_le _ PosInf = True"
| "js_le _ _ = False"

subsection \<open>The global functions and the Math object\<close>

fun isFinite :: "number \<Rightarrow> bool" where
  "isFinite (Finite p) = True"
| "isFinite _ = False"

fun Math_abs :: "number \<Rightarrow> number" where
  "Math_abs (Finite p) = Finite \<bar>p\<bar>"
| "Math_abs NaN = NaN"
| "Math_abs _ = PosInf"

fun Math_max :: "number \<Rightarrow> number \<Rightarrow> number" where
  "Math_max NaN _ = NaN"
| "Math_max _ NaN = NaN"
| "Math_max m n = (if js_lt m n then n else m)"

fun Math_min :: "number \<Rightarrow> number \<Rightarrow> number" where
  "Math_min NaN _ = NaN"
| "Math_min _ NaN = NaN"
| "Math_min m n = (if js_lt n m then n else m)"

text \<open>\<open>Math.sqrt\<close> is a basic operation of IEEE 754 and is correctly rounded.\<close>

fun Math_sqrt :: "number \<Rightarrow> number" where
  "Math_sqrt (Finite p) = (if p < 0 then NaN else rnd (sqrt p))"
| "Math_sqrt PosInf = PosInf"
| "Math_sqrt _ = NaN"

text \<open>
  \<open>Math.hypot\<close>: an infinite argument gives \<open>+Infinity\<close> even beside a NaN, otherwise a NaN
  argument gives NaN. ECMAScript leaves the accuracy on finite arguments to the engine.
  The model follows V8 (\<open>builtins/math.tq\<close>), the engine of Chrome and Node: the largest
  absolute value \<open>max\<close> is found, the absolute values are divided by it, their squares are
  added by a Kahan summation, and the square root of the sum is multiplied by \<open>max\<close>.
\<close>

definition kahan_step :: "number \<Rightarrow> number \<times> number \<Rightarrow> number \<Rightarrow> number \<times> number" where
  "kahan_step mx acc absValue = (case acc of (sum_so_far, compensation) \<Rightarrow>
     let n = js_div absValue mx;
         summand = js_sub (js_mul n n) compensation;
         preliminary = js_add sum_so_far summand
     in (preliminary, js_sub (js_sub preliminary sum_so_far) summand))"

fun Math_hypot :: "number \<Rightarrow> number \<Rightarrow> number" where
  "Math_hypot (Finite p) (Finite q) =
     (let absValues = [Finite \<bar>p\<bar>, Finite \<bar>q\<bar>];
          mx = foldl (\<lambda>m v. if js_lt m v then v else m) (Finite 0) absValues
      in if mx = Finite 0 then Finite 0
         else js_mul (Math_sqrt (fst (foldl (kahan_step mx) (Finite 0, Finite 0) absValues))) mx)"
| "Math_hypot PosInf _ = PosInf"
| "Math_hypot NegInf _ = PosInf"
| "Math_hypot _ PosInf = PosInf"
| "Math_hypot _ NegInf = PosInf"
| "Math_hypot _ _ = NaN"

text \<open>
  \<open>Math.acos\<close>: NaN outside \<open>[-1, 1]\<close>. Inside, V8 (\<open>base/ieee754.cc\<close>) computes it as fdlibm
  does (\<open>e_acos.c\<close>), with these constants, each of them a double.
\<close>

definition pi_dbl :: real where "pi_dbl = 884279719003555 / 2 ^ 48"
definition pio2_hi :: real where "pio2_hi = 884279719003555 / 2 ^ 49"
definition pio2_lo :: real where "pio2_lo = 4967757600021511 / 2 ^ 106"
definition pS0 :: real where "pS0 = 6004799503160661 / 2 ^ 55"
definition pS1 :: real where "pS1 = - (5864872397729661 / 2 ^ 54)"
definition pS2 :: real where "pS2 = 7249445477958741 / 2 ^ 55"
definition pS3 :: real where "pS3 = - (5772610888044347 / 2 ^ 57)"
definition pS4 :: real where "pS4 = 912577716565585 / 2 ^ 60"
definition pS5 :: real where "pS5 = 5134586392475401 / 2 ^ 67"
definition qS1 :: real where "qS1 = - (5411964214455627 / 2 ^ 51)"
definition qS2 :: real where "qS2 = 568845660795225 / 2 ^ 48"
definition qS3 :: real where "qS3 = - (6199510876094809 / 2 ^ 53)"
definition qS4 :: real where "qS4 = 2775591889094977 / 2 ^ 55"

text \<open>The quotient \<open>r = p / q\<close> of the two polynomials in \<open>z\<close> that the three branches share.\<close>

definition acos_ratio :: "number \<Rightarrow> number" where
  "acos_ratio z =
     (let p = js_mul z (js_add (Finite pS0) (js_mul z (js_add (Finite pS1) (js_mul z
                (js_add (Finite pS2) (js_mul z (js_add (Finite pS3) (js_mul z
                (js_add (Finite pS4) (js_mul z (Finite pS5)))))))))));
          q = js_add (Finite 1) (js_mul z (js_add (Finite qS1) (js_mul z (js_add (Finite qS2)
                (js_mul z (js_add (Finite qS3) (js_mul z (Finite qS4))))))))
      in js_div p q)"

text \<open>
  \<open>SET_LOW_WORD(df, 0)\<close> clears the low 32 bits of a double: of the 52 fraction bits the
  upper 20 remain, the value is cut towards zero.
\<close>

definition clear_low_word :: "number \<Rightarrow> number" where
  "clear_low_word n = (case n of
     Finite v \<Rightarrow>
       if v = 0 then Finite 0
       else let u = 2 powr of_int (max \<lfloor>log 2 \<bar>v\<bar>\<rfloor> (- 1022) - 20)
            in Finite (sgn v * (of_int \<lfloor>\<bar>v\<bar> / u\<rfloor> * u))
   | _ \<Rightarrow> n)"

text \<open>
  The tests on the high word \<open>ix\<close> of \<open>x\<close> are tests on \<open>|x|\<close>: \<open>ix >= 0x3ff00000\<close> is
  \<open>|x| >= 1\<close>, \<open>ix < 0x3fe00000\<close> is \<open>|x| < 1/2\<close>, and \<open>ix <= 0x3c600000\<close> holds of the doubles
  below \<open>2^-57 (1 + 2^-20)\<close>.
\<close>

fun Math_acos :: "number \<Rightarrow> number" where
  "Math_acos (Finite x) =
     (if 1 \<le> \<bar>x\<bar> then
        (if x = 1 then Finite 0
         else if x = - 1 then js_add (Finite pi_dbl) (js_mul (Finite 2) (Finite pio2_lo))
         else NaN)
      else if \<bar>x\<bar> < 1 / 2 then
        (if \<bar>x\<bar> < (1 + 1 / 2 ^ 20) / 2 ^ 57 then js_add (Finite pio2_hi) (Finite pio2_lo)
         else
           let z = js_mul (Finite x) (Finite x);
               r = acos_ratio z
           in js_sub (Finite pio2_hi)
                (js_sub (Finite x) (js_sub (Finite pio2_lo) (js_mul r (Finite x)))))
      else if x < 0 then
        (let z = js_mul (js_add (Finite 1) (Finite x)) (Finite (1 / 2));
             s = Math_sqrt z;
             r = acos_ratio z;
             w = js_sub (js_mul r s) (Finite pio2_lo)
         in js_sub (Finite pi_dbl) (js_mul (Finite 2) (js_add s w)))
      else
        (let z = js_mul (js_sub (Finite 1) (Finite x)) (Finite (1 / 2));
             s = Math_sqrt z;
             df = clear_low_word s;
             c = js_div (js_sub z (js_mul df df)) (js_add s df);
             r = acos_ratio z;
             w = js_add (js_mul r s) c
         in js_mul (Finite 2) (js_add df w)))"
| "Math_acos _ = NaN"

text \<open>\<open>Math.PI\<close> is the double \<open>0x1.921fb54442d18p+1\<close>.\<close>

definition Math_PI :: number where
  "Math_PI = Finite (884279719003555 / 2 ^ 48)"

section \<open>The geometry module\<close>

record Pt =
  px :: number
  py :: number

record TriangleSides =
  side_a :: number
  side_b :: number
  side_c :: number

record TriangleAngles =
  angle_A :: number
  angle_B :: number
  angle_C :: number

record Mids =
  mid_a :: Pt
  mid_b :: Pt
  mid_c :: Pt

text \<open>Every field but \<open>valid\<close> is optional in the interface.\<close>

record TriangleData =
  valid :: bool
  reasonIfInvalid :: "string option"
  sides :: "TriangleSides option"
  angles :: "TriangleAngles option"
  perimeter :: "number option"
  area :: "number option"
  mids :: "Mids option"

text \<open>The literal \<open>1e-9\<close> denotes the double nearest to it.\<close>

definition EPS :: number where
  "EPS = rnd (1 / 10 ^ 9)"

definition clamp :: "number \<Rightarrow> number \<Rightarrow> number \<Rightarrow> number" where
  "clamp v lo hi = Math_max lo (Math_min hi v)"

definition distance :: "Pt \<Rightarrow> Pt \<Rightarrow> number" where
  "distance p q = Math_hypot (js_sub (px q) (px p)) (js_sub (py q) (py p))"

definition toDeg :: "number \<Rightarrow> number" where
  "toDeg rad = js_div (js_mul rad (Finite 180)) Math_PI"

definition doubleSignedArea :: "Pt \<Rightarrow> Pt \<Rightarrow> Pt \<Rightarrow> number" where
  "doubleSignedArea A B C =
     js_add (js_add (js_mul (px A) (js_sub (py B) (py C)))
                    (js_mul (px B) (js_sub (py C) (py A))))
            (js_mul (px C) (js_sub (py A) (py B)))"

definition isCollinear :: "Pt \<Rightarrow> Pt \<Rightarrow> Pt \<Rightarrow> bool" where
  "isCollinear A B C = js_le (Math_abs (doubleSignedArea A B C)) EPS"

definition midpoint :: "Pt \<Rightarrow> Pt \<Rightarrow> Pt" where
  "midpoint P Q =
     \<lparr>px = js_div (js_add (px P) (px Q)) (Finite 2),
      py = js_div (js_add (py P) (py Q)) (Finite 2)\<rparr>"

text \<open>The object literal of the three early returns.\<close>

definition invalid :: "string \<Rightarrow> TriangleData" where
  "invalid reason =
     \<lparr>valid = False, reasonIfInvalid = Some reason, sides = None, angles = None,
      perimeter = None, area = None, mids = None\<rparr>"

definition triangleData :: "Pt \<times> Pt \<times> Pt \<Rightarrow> TriangleData" where
  "triangleData points = (case points of (A, B, C) \<Rightarrow>
     if (js_lt (Math_abs (js_sub (px A) (px B))) EPS \<and> js_lt (Math_abs (js_sub (py A) (py B))) EPS) \<or>
        (js_lt (Math_abs (js_sub (px A) (px C))) EPS \<and> js_lt (Math_abs (js_sub (py A) (py C))) EPS) \<or>
        (js_lt (Math_abs (js_sub (px B) (px C))) EPS \<and> js_lt (Math_abs (js_sub (py B) (py C))) EPS)
     then invalid ''Two or more points coincide.''
     else
       let a = distance B C;
           b = distance A C;
           c = distance A B
       in
       if \<not> isFinite a \<or> \<not> isFinite b \<or> \<not> isFinite c
       then invalid ''Non-finite side length detected.''
       else
         let area2 = js_div (Math_abs (doubleSignedArea A B C)) (Finite 2) in
         if js_le area2 EPS
         then invalid ''Degenerate (collinear) triangle.''
         else
           let cosA = clamp (js_div (js_sub (js_add (js_mul b b) (js_mul c c)) (js_mul a a))
                                    (js_mul (js_mul (Finite 2) b) c)) (Finite (- 1)) (Finite 1);
               cosB = clamp (js_div (js_sub (js_add (js_mul a a) (js_mul c c)) (js_mul b b))
                                    (js_mul (js_mul (Finite 2) a) c)) (Finite (- 1)) (Finite 1);
               cosC = clamp (js_div (js_sub (js_add (js_mul a a) (js_mul b b)) (js_mul c c))
                                    (js_mul (js_mul (Finite 2) a) b)) (Finite (- 1)) (Finite 1);
               Adeg = toDeg (Math_acos cosA);
               Bdeg = toDeg (Math_acos cosB);
               Cdeg = toDeg (Math_acos cosC);
               perimeter = js_add (js_add a b) c;
               mids = \<lparr>mid_a = midpoint B C, mid_b = midpoint A C, mid_c = midpoint A B\<rparr>
           in
           \<lparr>valid = True, reasonIfInvalid = None,
            sides = Some \<lparr>side_a = a, side_b = b, side_c = c\<rparr>,
            angles = Some \<lparr>angle_A = Adeg, angle_B = Bdeg, angle_C = Cdeg\<rparr>,
            perimeter = Some perimeter, area = Some area2, mids = Some mids\<rparr>)"


section \<open>Vocabulary of the properties\<close>

text \<open>
  The three tests of \<open>triangleData\<close>, named so that the properties can speak about them,
  and the clamped cosine that the three angle computations share.
\<close>

definition coincide :: "Pt \<Rightarrow> Pt \<Rightarrow> bool" where
  "coincide P Q \<longleftrightarrow>
     js_lt (Math_abs (js_sub (px P) (px Q))) EPS \<and> js_lt (Math_abs (js_sub (py P) (py Q))) EPS"

definition any_coincide :: "Pt \<Rightarrow> Pt \<Rightarrow> Pt \<Rightarrow> bool" where
  "any_coincide A B C \<longleftrightarrow> coincide A B \<or> coincide A C \<or> coincide B C"

definition sides_finite :: "Pt \<Rightarrow> Pt \<Rightarrow> Pt \<Rightarrow> bool" where
  "sides_finite A B C \<longleftrightarrow>
     isFinite (distance B C) \<and> isFinite (distance A C) \<and> isFinite (distance A B)"

definition unsigned_area :: "Pt \<Rightarrow> Pt \<Rightarrow> Pt \<Rightarrow> number" where
  "unsigned_area A B C = js_div (Math_abs (doubleSignedArea A B C)) (Finite 2)"

definition law_of_cosines :: "number \<Rightarrow> number \<Rightarrow> number \<Rightarrow> number" where
  "law_of_cosines p q r =
     clamp (js_div (js_sub (js_add (js_mul p p) (js_mul q q)) (js_mul r r))
                   (js_mul (js_mul (Finite 2) p) q)) (Finite (- 1)) (Finite 1)"

text \<open>A point with finite coordinates.\<close>

definition pt :: "real \<Rightarrow> real \<Rightarrow> Pt" where
  "pt u v = \<lparr>px = Finite u, py = Finite v\<rparr>"

text \<open>A length whose square is beyond the range of the doubles.\<close>

definition big :: real where
  "big = 2 ^ 512"

text \<open>
  The binary exponent that fixes the spacing around a value, the reals that are doubles
  (an integer of at most 53 bits times a power of two not below the smallest subnormal),
  and the change of sign of a number.
\<close>

definition expo :: "real \<Rightarrow> int" where
  "expo v = max \<lfloor>log 2 \<bar>v\<bar>\<rfloor> (- 1022)"

definition is_double :: "real \<Rightarrow> bool" where
  "is_double v \<longleftrightarrow> (\<exists>m e. \<bar>m\<bar> \<le> 2 ^ 53 \<and> - 1074 \<le> e \<and> v = of_int m * 2 powr of_int e)"

definition negate :: "number \<Rightarrow> number" where
  "negate n = (case n of Finite v \<Rightarrow> Finite (- v) | PosInf \<Rightarrow> NegInf | NegInf \<Rightarrow> PosInf | NaN \<Rightarrow> NaN)"

text \<open>
  The real value of a finite number, the rounded coordinate difference that \<open>distance\<close>
  computes, the Euclidean norm and the distance of two points in exact arithmetic, and the
  range of an angle: NaN, or between 0 and 180 degrees.
\<close>

fun val :: "number \<Rightarrow> real" where
  "val (Finite v) = v"
| "val _ = 0"

definition delta :: "number \<Rightarrow> number \<Rightarrow> real" where
  "delta m n = round_double (val n - val m)"

definition norm2 :: "real \<Rightarrow> real \<Rightarrow> real" where
  "norm2 p q = sqrt (p * p + q * q)"

definition exact_dist :: "Pt \<Rightarrow> Pt \<Rightarrow> real" where
  "exact_dist P Q = norm2 (val (px Q) - val (px P)) (val (py Q) - val (py P))"


text \<open>
  Relabelings of a result: \<open>swap_ab\<close> exchanges the labels of the first two points in
  the sides, the angles and the midpoints; the other four exchange the labels of two points
  in the sides and in the angles.
\<close>

definition swap_ab :: "TriangleData \<Rightarrow> TriangleData" where
  "swap_ab r = r
     \<lparr>sides := map_option (\<lambda>s. \<lparr>side_a = side_b s, side_b = side_a s, side_c = side_c s\<rparr>) (sides r),
      angles := map_option (\<lambda>g. \<lparr>angle_A = angle_B g, angle_B = angle_A g, angle_C = angle_C g\<rparr>) (angles r),
      mids := map_option (\<lambda>m. \<lparr>mid_a = mid_b m, mid_b = mid_a m, mid_c = mid_c m\<rparr>) (mids r)\<rparr>"

definition swap_bc_sides :: "TriangleSides \<Rightarrow> TriangleSides" where
  "swap_bc_sides s = \<lparr>side_a = side_a s, side_b = side_c s, side_c = side_b s\<rparr>"

definition swap_bc_angles :: "TriangleAngles \<Rightarrow> TriangleAngles" where
  "swap_bc_angles g = \<lparr>angle_A = angle_A g, angle_B = angle_C g, angle_C = angle_B g\<rparr>"

definition swap_ac_sides :: "TriangleSides \<Rightarrow> TriangleSides" where
  "swap_ac_sides s = \<lparr>side_a = side_c s, side_b = side_b s, side_c = side_a s\<rparr>"

definition swap_ac_angles :: "TriangleAngles \<Rightarrow> TriangleAngles" where
  "swap_ac_angles g = \<lparr>angle_A = angle_C g, angle_B = angle_B g, angle_C = angle_A g\<rparr>"


text \<open>
  What the Kahan summation of \<open>Math.hypot\<close> returns on two finite arguments of largest
  absolute value \<open>M\<close>: the rounded sum of the rounded squares of the rounded quotients.
\<close>

definition hypot_term :: "real \<Rightarrow> real \<Rightarrow> real" where
  "hypot_term M x = round_double (round_double (\<bar>x\<bar> / M) * round_double (\<bar>x\<bar> / M))"

definition hypot_sum :: "real \<Rightarrow> real \<Rightarrow> real" where
  "hypot_sum p q = round_double (hypot_term (max \<bar>p\<bar> \<bar>q\<bar>) p + hypot_term (max \<bar>p\<bar> \<bar>q\<bar>) q)"

section \<open>Rounding to the nearest double\<close>

lemma rne_of_int: "rne (of_int n) = n"
  by (simp add: rne_def Let_def)

lemma rne_near: "\<bar>v - of_int n\<bar> < 1 / 2 \<Longrightarrow> rne v = n"
proof -
  assume h: "\<bar>v - of_int n\<bar> < 1 / 2"
  show ?thesis
  proof (cases "of_int n \<le> v")
    case True
    with h have "\<lfloor>v\<rfloor> = n" by (intro floor_unique) auto
    with h True show ?thesis by (simp add: rne_def Let_def)
  next
    case False
    with h have "\<lfloor>v\<rfloor> = n - 1" by (intro floor_unique) auto
    with h False show ?thesis by (simp add: rne_def Let_def)
  qed
qed

lemma floor_log2_eq:
  fixes v :: real and k :: int
  assumes "2 powr of_int k \<le> \<bar>v\<bar>" "\<bar>v\<bar> < 2 powr of_int (k + 1)"
  shows "\<lfloor>log 2 \<bar>v\<bar>\<rfloor> = k"
proof -
  have pos: "0 < \<bar>v\<bar>" using assms(1) by (smt (verit) powr_gt_zero)
  have "of_int k \<le> log 2 \<bar>v\<bar>" using assms(1) pos by (simp add: le_log_iff)
  moreover have "log 2 \<bar>v\<bar> < of_int (k + 1)" using assms(2) pos by (simp add: log_less_iff)
  ultimately show ?thesis by (intro floor_unique) auto
qed

lemma floor_log2_bounds:
  fixes v :: real
  assumes "v \<noteq> 0"
  shows "2 powr of_int \<lfloor>log 2 \<bar>v\<bar>\<rfloor> \<le> \<bar>v\<bar>" "\<bar>v\<bar> < 2 powr of_int (\<lfloor>log 2 \<bar>v\<bar>\<rfloor> + 1)"
proof -
  have pos: "0 < \<bar>v\<bar>" using assms by simp
  have id: "2 powr log 2 \<bar>v\<bar> = \<bar>v\<bar>" using pos by simp
  have "2 powr of_int \<lfloor>log 2 \<bar>v\<bar>\<rfloor> \<le> 2 powr log 2 \<bar>v\<bar>"
    by (rule powr_mono) simp_all
  then show "2 powr of_int \<lfloor>log 2 \<bar>v\<bar>\<rfloor> \<le> \<bar>v\<bar>" by (simp only: id)
  have "log 2 \<bar>v\<bar> < of_int (\<lfloor>log 2 \<bar>v\<bar>\<rfloor> + 1)" by linarith
  then have "2 powr log 2 \<bar>v\<bar> < 2 powr of_int (\<lfloor>log 2 \<bar>v\<bar>\<rfloor> + 1)"
    by (rule powr_less_mono) simp_all
  then show "\<bar>v\<bar> < 2 powr of_int (\<lfloor>log 2 \<bar>v\<bar>\<rfloor> + 1)" by (simp only: id)
qed

lemma round_double_exact:
  fixes m e :: int
  assumes m: "\<bar>m\<bar> < 2 ^ 53" and e: "- 1074 \<le> e"
  shows "round_double (of_int m * 2 powr of_int e) = of_int m * 2 powr of_int e"
proof (cases "m = 0")
  case True
  then show ?thesis by (simp add: round_double_def)
next
  case False
  define v :: real where "v = of_int m * 2 powr of_int e"
  define k where "k = \<lfloor>log 2 \<bar>v\<bar>\<rfloor>"
  define j where "j = max k (- 1022) - 52"
  have v0: "v \<noteq> 0" using False by (simp add: v_def)
  have "\<bar>v\<bar> = of_int \<bar>m\<bar> * 2 powr of_int e" by (simp add: v_def abs_mult)
  also have "\<dots> < 2 ^ 53 * 2 powr of_int e"
  proof -
    have "(of_int \<bar>m\<bar> :: real) < of_int (2 ^ 53)" using m by (simp only: of_int_less_iff)
    then show ?thesis by simp
  qed
  also have "\<dots> = 2 powr of_int (e + 53)"
    by (simp add: powr_add powr_realpow)
  finally have up: "\<bar>v\<bar> < 2 powr of_int (e + 53)" .
  have "2 powr of_int k \<le> \<bar>v\<bar>" unfolding k_def using floor_log2_bounds(1)[OF v0] .
  with up have "2 powr (of_int k :: real) < 2 powr of_int (e + 53)" by linarith
  then have "k < e + 53" by simp
  then have je: "j \<le> e" using e by (simp add: j_def)
  have u: "ulp_of v = 2 powr of_int j" by (simp add: ulp_of_def j_def k_def)
  have "v / 2 powr of_int j = of_int m * 2 powr (of_int e - of_int j)"
    by (simp add: v_def powr_diff)
  also have "\<dots> = of_int m * 2 ^ nat (e - j)"
  proof -
    have "(of_int e - of_int j :: real) = real (nat (e - j))" using je by simp
    then show ?thesis by (simp only: powr_realpow[of 2, simplified])
  qed
  also have "\<dots> = of_int (m * 2 ^ nat (e - j))" by simp
  finally have q: "v / ulp_of v = of_int (m * 2 ^ nat (e - j))" by (simp add: u)
  have "round_double v = of_int (m * 2 ^ nat (e - j)) * ulp_of v"
    using v0 by (simp add: round_double_def q rne_of_int del: of_int_mult of_int_power)
  also have "\<dots> = v / ulp_of v * ulp_of v" by (simp only: q)
  also have "\<dots> = v" by (simp add: u)
  finally show ?thesis by (simp add: v_def)
qed

lemma rnd_exact:
  fixes m e :: int
  assumes m: "\<bar>m\<bar> < 2 ^ 53" and e: "- 1074 \<le> e" "e \<le> 971"
  shows "rnd (of_int m * 2 powr of_int e) = Finite (of_int m * 2 powr of_int e)"
proof -
  have "\<bar>of_int m * 2 powr of_int e\<bar> = (of_int \<bar>m\<bar> * 2 powr of_int e :: real)" by (simp add: abs_mult)
  also have "\<dots> \<le> of_int \<bar>m\<bar> * 2 powr of_int 971"
    using e by (intro mult_left_mono powr_mono) simp_all
  also have "\<dots> < 2 ^ 53 * 2 powr of_int 971"
  proof -
    have "(of_int \<bar>m\<bar> :: real) < of_int (2 ^ 53)" using m by (simp only: of_int_less_iff)
    then show ?thesis by simp
  qed
  also have "\<dots> = 2 ^ 1024"
  proof -
    have "(2::real) powr of_int 971 = 2 ^ 971" by (simp add: powr_realpow[symmetric])
    then show ?thesis by (simp add: power_add[symmetric])
  qed
  finally show ?thesis
    using round_double_exact[OF m e(1)] by (simp add: rnd_def Let_def)
qed

lemma round_double_eqI:
  fixes k n :: int
  assumes lo: "2 powr of_int k \<le> \<bar>v\<bar>" and hi: "\<bar>v\<bar> < 2 powr of_int (k + 1)"
    and k: "- 1022 \<le> k"
    and n: "\<bar>v / 2 powr of_int (k - 52) - of_int n\<bar> < 1 / 2"
  shows "round_double v = of_int n * 2 powr of_int (k - 52)"
proof -
  have v0: "v \<noteq> 0" using lo by (smt (verit) powr_gt_zero)
  have "\<lfloor>log 2 \<bar>v\<bar>\<rfloor> = k" using lo hi by (rule floor_log2_eq)
  then have u: "ulp_of v = 2 powr of_int (k - 52)" using k by (simp add: ulp_of_def max_def)
  show ?thesis using v0 rne_near[OF n] by (simp add: round_double_def u)
qed

lemma EPS_val: "EPS = Finite (4835703278458517 / 2 ^ 82)"
proof -
  have "round_double (1 / 10 ^ 9) = of_int 4835703278458517 * 2 powr of_int (- 30 - 52)"
    by (rule round_double_eqI) (simp_all add: powr_minus)
  then have "round_double (1 / 10 ^ 9) = 4835703278458517 / 2 ^ 82"
    by (simp add: powr_minus field_simps)
  then show ?thesis by (simp add: EPS_def rnd_def)
qed

lemma rnd_zero: "rnd 0 = Finite 0"
  by (simp add: rnd_def round_double_def)

lemma rnd_of_int: "\<bar>m\<bar> < 2 ^ 53 \<Longrightarrow> rnd (of_int m) = Finite (of_int m)"
  using rnd_exact[of m 0] by simp

lemma rnd_numeral: "numeral w < (2::int) ^ 53 \<Longrightarrow> rnd (numeral w) = Finite (numeral w)"
  using rnd_of_int[of "numeral w"] by simp

lemma rnd_neg_numeral:
  "numeral w < (2::int) ^ 53 \<Longrightarrow> rnd (- numeral w) = Finite (- numeral w)"
  using rnd_of_int[of "- numeral w"] by simp

lemma rnd_one: "rnd 1 = Finite 1"
  using rnd_of_int[of 1] by simp

lemma rnd_neg_one: "rnd (- 1) = Finite (- 1)"
  using rnd_of_int[of "- 1"] by simp

lemma rnd_pow2:
  "\<bar>m\<bar> < 2 ^ 53 \<Longrightarrow> n \<le> 971 \<Longrightarrow> rnd (of_int m * 2 ^ n) = Finite (of_int m * 2 ^ n)"
  using rnd_exact[of m "int n"] by (simp add: powr_realpow)

lemma rnd_div_pow2:
  "\<bar>m\<bar> < 2 ^ 53 \<Longrightarrow> n \<le> 1074 \<Longrightarrow> rnd (of_int m / 2 ^ n) = Finite (of_int m / 2 ^ n)"
  using rnd_exact[of m "- int n"] by (simp add: powr_minus_divide powr_realpow)

lemma rnd_overflow:
  assumes m: "m \<noteq> 0" "\<bar>m\<bar> < 2 ^ 53" and n: "1024 \<le> n"
  shows "rnd (of_int m * 2 ^ n) = (if 0 < m then PosInf else NegInf)"
proof -
  have r: "round_double (of_int m * 2 ^ n) = of_int m * 2 ^ n"
    using round_double_exact[of m "int n"] m by (simp add: powr_realpow)
  have "(2::real) ^ 1024 \<le> 2 ^ n" using n by (intro power_increasing) simp_all
  also have "\<dots> \<le> of_int \<bar>m\<bar> * 2 ^ n"
  proof -
    have "1 \<le> \<bar>m\<bar>" using m by simp
    then have "(1::real) \<le> of_int \<bar>m\<bar>" by (simp only: of_int_1_le_iff)
    then show ?thesis by simp
  qed
  finally have "(2::real) ^ 1024 \<le> \<bar>of_int m * 2 ^ n\<bar>" by (simp add: abs_mult)
  then show ?thesis using r m by (simp add: rnd_def Let_def zero_less_mult_iff del: power_numeral)
qed

lemma rne_err: "\<bar>of_int (rne t) - t\<bar> \<le> 1 / 2"
proof -
  have "of_int \<lfloor>t\<rfloor> \<le> t" "t < of_int \<lfloor>t\<rfloor> + 1" by linarith+
  then show ?thesis by (auto simp add: rne_def Let_def)
qed

lemma rne_uminus: "rne (- t) = - rne t"
proof (cases "t = of_int \<lfloor>t\<rfloor>")
  case True
  then obtain n :: int where "t = of_int n" ..
  then have "rne t = n" "rne (- t) = - n"
    using rne_of_int[of n] rne_of_int[of "- n"] by simp_all
  then show ?thesis by simp
next
  case False
  define f where "f = \<lfloor>t\<rfloor>"
  have ne: "of_int f \<noteq> t" unfolding f_def using False by (rule not_sym)
  have "of_int f \<le> t" unfolding f_def by (rule of_int_floor_le)
  with ne have lo: "of_int f < t" by (rule le_neq_trans[rotated])
  have hi: "t < of_int f + 1" by (simp add: f_def)
  have fl: "\<lfloor>- t\<rfloor> = - f - 1" using lo hi by (intro floor_unique) simp_all
  have ft: "\<lfloor>t\<rfloor> = f" by (simp add: f_def)
  show ?thesis
    using lo hi by (simp add: rne_def Let_def fl ft)
qed

lemma rne_mono: "s \<le> t \<Longrightarrow> rne s \<le> rne t"
proof (rule ccontr)
  assume st: "s \<le> t" and "\<not> rne s \<le> rne t"
  then have gt: "rne t + 1 \<le> rne s" by simp
  then have "(of_int (rne t) :: real) + 1 \<le> of_int (rne s)"
    by (metis of_int_1 of_int_add of_int_le_iff)
  moreover have "\<bar>of_int (rne s) - s\<bar> \<le> 1 / 2" "\<bar>of_int (rne t) - t\<bar> \<le> 1 / 2"
    by (rule rne_err)+
  ultimately have eq: "s = t" and rs: "of_int (rne s) = s + 1 / 2" and rt: "of_int (rne t) = t - 1 / 2"
    using st by linarith+
  from rs rt eq have "(of_int (rne s) :: real) = of_int (rne t) + 1" by simp
  with eq show False using gt by simp
qed

lemma rne_nonneg: "0 \<le> t \<Longrightarrow> 0 \<le> rne t"
  using rne_mono[of 0 t] rne_of_int[of 0] by simp

lemma rne_le_int: "t \<le> of_int n \<Longrightarrow> rne t \<le> n"
  using rne_mono[of t "of_int n"] by (simp add: rne_of_int)

lemma rne_ge_int: "of_int n \<le> t \<Longrightarrow> n \<le> rne t"
  using rne_mono[of "of_int n" t] by (simp add: rne_of_int)

lemma ulp_of_pos: "0 < ulp_of v"
  by (simp add: ulp_of_def)

lemma ulp_of_uminus: "ulp_of (- v) = ulp_of v"
  by (simp add: ulp_of_def)

lemma round_double_uminus: "round_double (- v) = - round_double v"
  by (simp add: round_double_def ulp_of_uminus rne_uminus)

lemma round_double_err: "\<bar>round_double v - v\<bar> \<le> ulp_of v / 2"
proof (cases "v = 0")
  case True
  then show ?thesis using ulp_of_pos[of v] by (simp add: round_double_def)
next
  case False
  define u where "u = ulp_of v"
  define q :: real where "q = of_int (rne (v / u))"
  have u: "0 < u" by (simp add: u_def ulp_of_pos)
  have "q * u - v = (q - v / u) * u" using u by (simp add: field_simps)
  then have "\<bar>q * u - v\<bar> = \<bar>q - v / u\<bar> * u" using u by (simp add: abs_mult)
  also have "\<dots> \<le> 1 / 2 * u"
    unfolding q_def using rne_err[of "v / u"] u by (intro mult_right_mono) simp_all
  finally show ?thesis using False by (simp add: round_double_def q_def u_def)
qed

lemma ulp_of_expo: "ulp_of v = 2 powr of_int (expo v - 52)"
  by (simp add: ulp_of_def expo_def)

lemma expo_ge: "- 1022 \<le> expo v"
  by (simp add: expo_def)

lemma expo_upper: "v \<noteq> 0 \<Longrightarrow> \<bar>v\<bar> < 2 powr of_int (expo v + 1)"
proof -
  assume "v \<noteq> 0"
  then have "\<bar>v\<bar> < 2 powr of_int (\<lfloor>log 2 \<bar>v\<bar>\<rfloor> + 1)" by (rule floor_log2_bounds(2))
  also have "\<dots> \<le> 2 powr of_int (expo v + 1)"
    by (rule powr_mono) (simp_all add: expo_def)
  finally show ?thesis .
qed

lemma expo_lower: "2 powr (- 1022) \<le> \<bar>v\<bar> \<Longrightarrow> 2 powr of_int (expo v) \<le> \<bar>v\<bar>"
proof -
  assume h: "2 powr (- 1022) \<le> \<bar>v\<bar>"
  then have v0: "v \<noteq> 0" by (smt (verit) powr_gt_zero)
  show ?thesis
  proof (cases "- 1022 \<le> \<lfloor>log 2 \<bar>v\<bar>\<rfloor>")
    case True
    then have "expo v = \<lfloor>log 2 \<bar>v\<bar>\<rfloor>" by (simp add: expo_def)
    then show ?thesis using floor_log2_bounds(1)[OF v0] by simp
  next
    case False
    then have "expo v = - 1022" by (simp add: expo_def)
    then show ?thesis using h by simp
  qed
qed

lemma expo_lower': "v \<noteq> 0 \<Longrightarrow> - 1022 < expo v \<Longrightarrow> 2 powr of_int (expo v) \<le> \<bar>v\<bar>"
proof -
  assume v0: "v \<noteq> 0" and h: "- 1022 < expo v"
  then have e: "expo v = \<lfloor>log 2 \<bar>v\<bar>\<rfloor>" by (simp add: expo_def max_def split: if_splits)
  then show ?thesis using floor_log2_bounds(1)[OF v0] by simp
qed

lemma expo_mono: "0 < v \<Longrightarrow> v \<le> w \<Longrightarrow> expo v \<le> expo w"
proof -
  assume "0 < v" "v \<le> w"
  then have "log 2 \<bar>v\<bar> \<le> log 2 \<bar>w\<bar>" by simp
  then have "\<lfloor>log 2 \<bar>v\<bar>\<rfloor> \<le> \<lfloor>log 2 \<bar>w\<bar>\<rfloor>" by (rule floor_mono)
  then show ?thesis by (simp add: expo_def)
qed

lemma round_double_pos_form:
  "v \<noteq> 0 \<Longrightarrow> round_double v = of_int (rne (v / 2 powr of_int (expo v - 52))) * 2 powr of_int (expo v - 52)"
  by (simp add: round_double_def ulp_of_expo)

lemma round_double_nonneg: "0 \<le> v \<Longrightarrow> 0 \<le> round_double v"
proof (cases "v = 0")
  case True
  then show ?thesis by (simp add: round_double_def)
next
  case False
  assume "0 \<le> v"
  then have "0 \<le> v / ulp_of v" using ulp_of_pos[of v] by simp
  then have "0 \<le> rne (v / ulp_of v)" by (rule rne_nonneg)
  then show ?thesis using False ulp_of_pos[of v] by (simp add: round_double_def)
qed

lemma round_double_upper:
  assumes "0 < v"
  shows "round_double v \<le> 2 powr of_int (expo v + 1)"
proof -
  define u :: real where "u = 2 powr of_int (expo v - 52)"
  have u: "0 < u" by (simp add: u_def)
  have "v < 2 powr of_int (expo v + 1)" using expo_upper[of v] assms by simp
  also have "\<dots> = 2 ^ 53 * u"
  proof -
    have "(of_int (expo v + 1) :: real) = 53 + of_int (expo v - 52)" by simp
    then have "(2::real) powr of_int (expo v + 1) = 2 powr (53 + of_int (expo v - 52))"
      by (simp only:)
    also have "\<dots> = 2 powr 53 * 2 powr of_int (expo v - 52)" by (rule powr_add)
    finally show ?thesis by (simp add: u_def)
  qed
  finally have "v / u \<le> of_int (2 ^ 53)" using u by (simp add: field_simps)
  then have "rne (v / u) \<le> 2 ^ 53" by (rule rne_le_int)
  then have "(of_int (rne (v / u)) :: real) \<le> of_int (2 ^ 53)" by (simp only: of_int_le_iff)
  then have "of_int (rne (v / u)) * u \<le> 2 ^ 53 * u" using u by simp
  moreover have "round_double v = of_int (rne (v / u)) * u"
    using assms by (simp add: round_double_pos_form u_def)
  ultimately show ?thesis using \<open>2 powr of_int (expo v + 1) = 2 ^ 53 * u\<close> by simp
qed

lemma round_double_lower:
  assumes "0 < v" "2 powr of_int (expo v) \<le> v"
  shows "2 powr of_int (expo v) \<le> round_double v"
proof -
  define u :: real where "u = 2 powr of_int (expo v - 52)"
  have u: "0 < u" by (simp add: u_def)
  have e: "(2::real) powr of_int (expo v) = 2 ^ 52 * u"
  proof -
    have "(of_int (expo v) :: real) = 52 + of_int (expo v - 52)" by simp
    then have "(2::real) powr of_int (expo v) = 2 powr (52 + of_int (expo v - 52))"
      by (simp only:)
    also have "\<dots> = 2 powr 52 * 2 powr of_int (expo v - 52)" by (rule powr_add)
    finally show ?thesis by (simp add: u_def)
  qed
  have "of_int (2 ^ 52) \<le> v / u" using assms(2) u by (simp add: e field_simps)
  then have "2 ^ 52 \<le> rne (v / u)" by (rule rne_ge_int)
  then have "(of_int (2 ^ 52) :: real) \<le> of_int (rne (v / u))" by (simp only: of_int_le_iff)
  then have "2 ^ 52 * u \<le> of_int (rne (v / u)) * u" using u by simp
  moreover have "round_double v = of_int (rne (v / u)) * u"
    using assms by (simp add: round_double_pos_form u_def)
  ultimately show ?thesis by (simp add: e)
qed

lemma round_double_mono_pos:
  assumes "0 < v" "v \<le> w"
  shows "round_double v \<le> round_double w"
proof (cases "expo v = expo w")
  case True
  define u :: real where "u = 2 powr of_int (expo v - 52)"
  have u: "0 < u" by (simp add: u_def)
  have "v / u \<le> w / u" using assms u by (simp add: divide_right_mono)
  then have "rne (v / u) \<le> rne (w / u)" by (rule rne_mono)
  then have "(of_int (rne (v / u)) :: real) \<le> of_int (rne (w / u))" by (simp only: of_int_le_iff)
  then have "of_int (rne (v / u)) * u \<le> of_int (rne (w / u)) * u" using u by simp
  then show ?thesis using assms True by (simp add: round_double_pos_form u_def)
next
  case False
  have w: "0 < w" using assms by simp
  have lt: "expo v < expo w" using expo_mono[OF assms] False by simp
  then have "- 1022 < expo w" using expo_ge[of v] by simp
  then have "2 powr of_int (expo w) \<le> w" using expo_lower'[of w] w by simp
  then have "2 powr of_int (expo w) \<le> round_double w" using w by (intro round_double_lower)
  moreover have "round_double v \<le> 2 powr of_int (expo v + 1)" using assms(1) by (rule round_double_upper)
  moreover have "(2::real) powr of_int (expo v + 1) \<le> 2 powr of_int (expo w)"
    using lt by (intro powr_mono) simp_all
  ultimately show ?thesis by linarith
qed

lemma round_double_mono: "v \<le> w \<Longrightarrow> round_double v \<le> round_double w"
proof -
  assume vw: "v \<le> w"
  consider "0 < v" | "v \<le> 0" "0 \<le> w" | "w < 0" by linarith
  then show ?thesis
  proof cases
    case 1
    then show ?thesis using vw by (rule round_double_mono_pos)
  next
    case 2
    have "round_double v \<le> 0" using round_double_nonneg[of "- v"] 2(1) by (simp add: round_double_uminus)
    moreover have "0 \<le> round_double w" using 2(2) by (rule round_double_nonneg)
    ultimately show ?thesis by simp
  next
    case 3
    then have "round_double (- w) \<le> round_double (- v)" using vw by (intro round_double_mono_pos) simp_all
    then show ?thesis by (simp add: round_double_uminus)
  qed
qed

lemma round_double_rel_err:
  assumes "2 powr (- 1022) \<le> \<bar>v\<bar>"
  shows "\<bar>round_double v - v\<bar> \<le> \<bar>v\<bar> / 2 ^ 53"
proof -
  have "(of_int (expo v - 52) :: real) = of_int (expo v) + (- 52)" by simp
  then have "ulp_of v = 2 powr (of_int (expo v) + (- 52))" by (simp only: ulp_of_expo)
  also have "\<dots> = 2 powr of_int (expo v) * 2 powr (- 52)" by (rule powr_add)
  also have "\<dots> \<le> \<bar>v\<bar> * 2 powr (- 52)"
    using expo_lower[OF assms] by (intro mult_right_mono) simp_all
  also have "\<dots> = \<bar>v\<bar> / 2 ^ 52" by (simp add: powr_minus_divide)
  finally have "ulp_of v / 2 \<le> \<bar>v\<bar> / 2 ^ 53" by simp
  then show ?thesis using round_double_err[of v] by linarith
qed

lemma round_double_abs_err: "\<bar>round_double v - v\<bar> \<le> \<bar>v\<bar> / 2 ^ 53 + 2 powr (- 1075)"
proof (cases "2 powr (- 1022) \<le> \<bar>v\<bar>")
  case True
  then show ?thesis using round_double_rel_err[of v] by (smt (verit) powr_gt_zero)
next
  case small: False
  show ?thesis
  proof (cases "v = 0")
    case True
    then show ?thesis by (simp add: round_double_def)
  next
    case False
    have "\<lfloor>log 2 \<bar>v\<bar>\<rfloor> < - 1022"
    proof (rule ccontr)
      assume "\<not> \<lfloor>log 2 \<bar>v\<bar>\<rfloor> < - 1022"
      then have "(- 1022 :: real) \<le> of_int \<lfloor>log 2 \<bar>v\<bar>\<rfloor>" by linarith
      then have "(2::real) powr (- 1022) \<le> 2 powr of_int \<lfloor>log 2 \<bar>v\<bar>\<rfloor>"
        by (intro powr_mono) simp_all
      with floor_log2_bounds(1)[OF False] small show False by linarith
    qed
    then have "expo v = - 1022" by (simp add: expo_def)
    then have "ulp_of v = 2 powr (- 1074)" by (simp add: ulp_of_expo)
    moreover have "(2::real) powr (- 1074) / 2 = 2 powr (- 1075)"
      using powr_add[of "2::real" "- 1075" 1] by simp
    ultimately have "\<bar>round_double v - v\<bar> \<le> 2 powr (- 1075)"
      using round_double_err[of v] by simp
    moreover have "0 \<le> \<bar>v\<bar> / 2 ^ 53" by simp
    ultimately show ?thesis by linarith
  qed
qed

lemma is_double_round:
  assumes "is_double v"
  shows "round_double v = v"
proof -
  from assms obtain m e :: int where m: "\<bar>m\<bar> \<le> 2 ^ 53" and e: "- 1074 \<le> e"
    and v: "v = of_int m * 2 powr of_int e" unfolding is_double_def by blast
  show ?thesis
  proof (cases "\<bar>m\<bar> < 2 ^ 53")
    case True
    then show ?thesis unfolding v using e by (rule round_double_exact)
  next
    case False
    with m have "m = 2 ^ 53 \<or> m = - (2 ^ 53)" by linarith
    then obtain s :: int where s: "\<bar>s\<bar> < 2 ^ 53" and ms: "m = s * 2 ^ 53" by auto
    have "(of_int (e + 53) :: real) = 53 + of_int e" by simp
    then have "(2::real) powr of_int (e + 53) = 2 powr (53 + of_int e)" by (simp only:)
    also have "\<dots> = 2 powr 53 * 2 powr of_int e" by (rule powr_add)
    finally have veq: "v = of_int s * 2 powr of_int (e + 53)" by (simp add: v ms)
    have "- 1074 \<le> e + 53" using e by simp
    with s show ?thesis unfolding veq by (rule round_double_exact)
  qed
qed

lemma round_double_is_double: "is_double (round_double v)"
proof (cases "v = 0")
  case True
  have "(0::real) = of_int 0 * 2 powr of_int 0" by simp
  then show ?thesis unfolding is_double_def using True
    by (metis abs_zero round_double_def zero_le_numeral zero_le_power neg_le_0_iff_le of_int_0 mult_zero_left)
next
  case False
  define n where "n = rne (v / 2 powr of_int (expo v - 52))"
  have rd: "round_double v = of_int n * 2 powr of_int (expo v - 52)"
    using False by (simp add: round_double_pos_form n_def)
  have e: "- 1074 \<le> expo v - 52" using expo_ge[of v] by simp
  have up: "\<bar>round_double v\<bar> \<le> 2 powr of_int (expo v + 1)"
  proof (cases "0 < v")
    case True
    then show ?thesis using round_double_upper[of v] round_double_nonneg[of v] by simp
  next
    case neg: False
    then have "0 < - v" using False by simp
    then show ?thesis
      using round_double_upper[of "- v"] round_double_nonneg[of "- v"]
      by (simp add: round_double_uminus expo_def)
  qed
  have "(of_int (expo v + 1) :: real) = 53 + of_int (expo v - 52)" by simp
  then have "(2::real) powr of_int (expo v + 1) = 2 powr (53 + of_int (expo v - 52))"
    by (simp only:)
  also have "\<dots> = 2 powr 53 * 2 powr of_int (expo v - 52)" by (rule powr_add)
  finally have "\<bar>of_int n :: real\<bar> * 2 powr of_int (expo v - 52) \<le> 2 ^ 53 * 2 powr of_int (expo v - 52)"
    using up by (simp add: rd abs_mult)
  then have "\<bar>of_int n :: real\<bar> \<le> 2 ^ 53" by simp
  then have "(of_int \<bar>n\<bar> :: real) \<le> of_int (2 ^ 53)" by simp
  then have "\<bar>n\<bar> \<le> 2 ^ 53" by (simp only: of_int_le_iff)
  then show ?thesis unfolding is_double_def using e rd by blast
qed

lemma round_double_idem: "round_double (round_double v) = round_double v"
  using round_double_is_double by (rule is_double_round)

lemma is_double_uminus: "is_double v \<Longrightarrow> is_double (- v)"
proof -
  assume "is_double v"
  then obtain m e :: int where "\<bar>m\<bar> \<le> 2 ^ 53" "- 1074 \<le> e" "v = of_int m * 2 powr of_int e"
    unfolding is_double_def by blast
  then have "\<bar>- m\<bar> \<le> 2 ^ 53 \<and> - 1074 \<le> e \<and> - v = of_int (- m) * 2 powr of_int e" by simp
  then show ?thesis unfolding is_double_def by blast
qed

lemma is_double_twice: "is_double v \<Longrightarrow> is_double (2 * v)"
proof -
  assume "is_double v"
  then obtain m e :: int where m: "\<bar>m\<bar> \<le> 2 ^ 53" and e: "- 1074 \<le> e"
    and v: "v = of_int m * 2 powr of_int e"
    unfolding is_double_def by blast
  have "(of_int (e + 1) :: real) = 1 + of_int e" by simp
  then have "(2::real) powr of_int (e + 1) = 2 powr (1 + of_int e)" by (simp only:)
  also have "\<dots> = 2 powr 1 * 2 powr of_int e" by (rule powr_add)
  finally have "2 * v = of_int m * 2 powr of_int (e + 1)" by (simp add: v)
  moreover have "- 1074 \<le> e + 1" using e by simp
  ultimately show ?thesis unfolding is_double_def using m by blast
qed

lemma rnd_eqI:
  fixes k n :: int
  assumes "2 powr of_int k \<le> \<bar>v\<bar>" "\<bar>v\<bar> < 2 powr of_int (k + 1)" "- 1022 \<le> k" "k \<le> 1022"
    and "\<bar>v / 2 powr of_int (k - 52) - of_int n\<bar> < 1 / 2"
  shows "rnd v = Finite (of_int n * 2 powr of_int (k - 52))"
proof -
  have rd: "round_double v = of_int n * 2 powr of_int (k - 52)"
    using assms(1,2,3,5) by (rule round_double_eqI)
  have v0: "v \<noteq> 0" using assms(1) by (smt (verit) powr_gt_zero)
  have "expo v = k" using floor_log2_eq[OF assms(1,2)] assms(3) by (simp add: expo_def)
  then have "\<bar>round_double v\<bar> \<le> 2 powr of_int (k + 1)"
    using round_double_is_double[of v] round_double_upper[of v] round_double_upper[of "- v"]
      round_double_nonneg[of v] round_double_nonneg[of "- v"] v0
    by (cases "0 < v") (simp_all add: round_double_uminus expo_def)
  also have "\<dots> \<le> 2 powr of_int 1023" using assms(4) by (intro powr_mono) simp_all
  also have "\<dots> < 2 powr of_int 1024" by (intro powr_less_mono) simp_all
  also have "\<dots> = 2 ^ 1024" by (simp add: powr_realpow[symmetric])
  finally show ?thesis using rd by (simp add: rnd_def)
qed

lemma sqrt_between:
  assumes "0 \<le> lo" "lo * lo \<le> v" "v < hi * hi" "0 \<le> hi"
  shows "lo \<le> sqrt v" "sqrt v < hi"
proof -
  show "lo \<le> sqrt v" using assms(1,2) by (intro real_le_rsqrt) (simp add: power2_eq_square)
  show "sqrt v < hi" using assms(3,4) by (intro real_less_lsqrt) (simp_all add: power2_eq_square)
qed

lemma rne_tie: "rne (of_int n + 1 / 2) = (if even n then n else n + 1)"
proof -
  have "\<lfloor>of_int n + 1 / 2 :: real\<rfloor> = n" by (intro floor_unique) simp_all
  then show ?thesis by (simp add: rne_def Let_def)
qed

lemma rnd_eqI_rne:
  fixes k n :: int
  assumes "2 powr of_int k \<le> \<bar>v\<bar>" "\<bar>v\<bar> < 2 powr of_int (k + 1)" "- 1022 \<le> k" "k \<le> 1022"
    and "rne (v / 2 powr of_int (k - 52)) = n"
  shows "rnd v = Finite (of_int n * 2 powr of_int (k - 52))"
proof -
  have v0: "v \<noteq> 0" using assms(1) by (smt (verit) powr_gt_zero)
  have e: "expo v = k" using floor_log2_eq[OF assms(1,2)] assms(3) by (simp add: expo_def)
  have rd: "round_double v = of_int n * 2 powr of_int (k - 52)"
    using v0 assms(5) by (simp add: round_double_pos_form e)
  have "\<bar>round_double v\<bar> \<le> 2 powr of_int (k + 1)"
    using round_double_upper[of v] round_double_upper[of "- v"]
      round_double_nonneg[of v] round_double_nonneg[of "- v"] v0 e
    by (cases "0 < v") (simp_all add: round_double_uminus expo_def)
  also have "\<dots> \<le> 2 powr of_int 1023" using assms(4) by (intro powr_mono) simp_all
  also have "\<dots> < 2 powr of_int 1024" by (intro powr_less_mono) simp_all
  also have "\<dots> = 2 ^ 1024" by (simp add: powr_realpow[symmetric])
  finally show ?thesis using rd by (simp add: rnd_def)
qed

lemma rnd_finite: "isFinite (rnd v) \<Longrightarrow> rnd v = Finite (round_double v) \<and> \<bar>round_double v\<bar> < 2 ^ 1024"
  by (simp add: rnd_def Let_def split: if_splits)

lemma isFinite_val: "isFinite n \<Longrightarrow> n = Finite (val n)"
  by (cases n) simp_all

lemma js_sub_finite:
  "isFinite (js_sub m n) \<Longrightarrow>
   m = Finite (val m) \<and> n = Finite (val n) \<and> js_sub m n = Finite (round_double (val m - val n))"
  by (cases m; cases n) (simp_all add: rnd_finite)

lemma rnd_uminus: "rnd (- v) = negate (rnd v)"
  by (simp add: rnd_def Let_def round_double_uminus negate_def) (auto simp add: round_double_def)

lemma js_sub_swap: "js_sub n m = negate (js_sub m n)"
  by (cases m; cases n) (simp_all add: negate_def, simp add: rnd_uminus[symmetric] negate_def[symmetric])

lemma Math_abs_negate: "Math_abs (negate n) = Math_abs n"
  by (cases n) (simp_all add: negate_def)

lemma rnd_between:
  assumes "lo \<le> v" "v \<le> hi" "rnd lo = Finite l" "rnd hi = Finite h"
  shows "\<exists>r. rnd v = Finite r \<and> l \<le> r \<and> r \<le> h"
proof -
  have L: "l = round_double lo" "\<bar>round_double lo\<bar> < 2 ^ 1024"
    using assms(3) by (simp_all add: rnd_def Let_def split: if_splits)
  have H: "h = round_double hi" "\<bar>round_double hi\<bar> < 2 ^ 1024"
    using assms(4) by (simp_all add: rnd_def Let_def split: if_splits)
  have m: "round_double lo \<le> round_double v" "round_double v \<le> round_double hi"
    using assms(1,2) by (simp_all add: round_double_mono)
  then have "\<bar>round_double v\<bar> < 2 ^ 1024" using L(2) H(2) by linarith
  then have "rnd v = Finite (round_double v)" by (simp add: rnd_def)
  then show ?thesis using m L(1) H(1) by simp
qed

lemma rnd_power2: "n \<le> 1023 \<Longrightarrow> rnd (2 ^ n) = Finite (2 ^ n)"
proof (cases "n \<le> 971")
  case True
  then show ?thesis using rnd_pow2[of 1 n] by simp
next
  case False
  assume n: "n \<le> 1023"
  define k where "k = n - 971"
  have k: "k \<le> 52" "n = k + 971" using n False by (simp_all add: k_def)
  have "(2::int) ^ k \<le> 2 ^ 52" using k(1) by (intro power_increasing) simp_all
  then have "\<bar>(2::int) ^ k\<bar> < 2 ^ 53" by simp
  then have "rnd (of_int (2 ^ k) * 2 ^ 971) = Finite (of_int (2 ^ k) * 2 ^ 971)"
    by (rule rnd_pow2) simp
  moreover have "(of_int (2 ^ k) * 2 ^ 971 :: real) = 2 ^ n" by (simp add: k(2) power_add)
  ultimately show ?thesis by (simp only:)
qed

lemma rnd_neg_power2: "n \<le> 1023 \<Longrightarrow> rnd (- (2 ^ n)) = Finite (- (2 ^ n))"
  unfolding rnd_uminus by (simp add: rnd_power2 negate_def)



lemma round_double_power2_1024: "round_double (2 ^ 1024) = 2 ^ 1024"
  using round_double_exact[of 1 1024] by (simp add: powr_realpow[symmetric])

lemma rnd_overflow_ge: "2 ^ 1024 \<le> v \<Longrightarrow> rnd v = PosInf"
proof -
  assume v: "2 ^ 1024 \<le> v"
  then have "round_double (2 ^ 1024) \<le> round_double v" by (rule round_double_mono)
  then have "2 ^ 1024 \<le> \<bar>round_double v\<bar>" unfolding round_double_power2_1024 by linarith
  moreover have "0 < v" using v by (smt (verit) zero_less_power)
  ultimately show ?thesis by (simp add: rnd_def del: power_numeral)
qed

lemma rnd_nonneg_cases:
  "0 \<le> v \<Longrightarrow> rnd v = PosInf \<or> (\<exists>r. rnd v = Finite r \<and> 0 \<le> r)"
proof (cases "v = 0")
  case True
  then show ?thesis by (simp add: rnd_zero)
next
  case False
  assume "0 \<le> v"
  with False have "0 < v" by simp
  then show ?thesis using round_double_nonneg[of v] by (simp add: rnd_def Let_def)
qed

lemma rnd_twice:
  assumes "is_double p" "0 < p"
  shows "rnd (2 * p) = (if 2 * p < 2 ^ 1024 then Finite (2 * p) else PosInf)"
proof -
  have "round_double (2 * p) = 2 * p" using assms(1) by (intro is_double_round is_double_twice)
  then show ?thesis using assms(2) by (simp add: rnd_def del: power_numeral)
qed

lemma js_add_commute: "js_add m n = js_add n m"
  by (cases m; cases n) (simp_all add: add.commute)

lemma js_mul_commute: "js_mul m n = js_mul n m"
  by (cases m; cases n) (auto simp add: mult.commute)

lemma js_add_negate: "js_add (negate m) (negate n) = negate (js_add m n)"
proof -
  have "rnd (- p - q) = negate (rnd (p + q))" for p q
    using rnd_uminus[of "p + q"] by simp
  then show ?thesis by (cases m; cases n) (simp_all add: negate_def)
qed

lemma js_mul_negate_right: "js_mul m (negate n) = negate (js_mul m n)"
proof -
  have "rnd (- (p * q)) = negate (rnd (p * q))" for p q by (rule rnd_uminus)
  then show ?thesis
    by (cases m; cases n) (auto simp add: negate_def is_neg_def)
qed

section \<open>The branches of \<open>triangleData\<close>\<close>

lemma triangleData_coincide:
  "any_coincide A B C \<Longrightarrow> triangleData (A, B, C) = invalid ''Two or more points coincide.''"
  by (simp add: triangleData_def any_coincide_def coincide_def)

lemma triangleData_nonfinite:
  "\<not> any_coincide A B C \<Longrightarrow> \<not> sides_finite A B C \<Longrightarrow>
   triangleData (A, B, C) = invalid ''Non-finite side length detected.''"
  by (auto simp add: triangleData_def any_coincide_def coincide_def sides_finite_def Let_def)

lemma triangleData_degenerate:
  "\<not> any_coincide A B C \<Longrightarrow> sides_finite A B C \<Longrightarrow> js_le (unsigned_area A B C) EPS \<Longrightarrow>
   triangleData (A, B, C) = invalid ''Degenerate (collinear) triangle.''"
  by (auto simp add: triangleData_def any_coincide_def coincide_def sides_finite_def Let_def
      unsigned_area_def)

lemma triangleData_valid:
  "\<not> any_coincide A B C \<Longrightarrow> sides_finite A B C \<Longrightarrow> \<not> js_le (unsigned_area A B C) EPS \<Longrightarrow>
   triangleData (A, B, C) =
     \<lparr>valid = True, reasonIfInvalid = None,
      sides = Some \<lparr>side_a = distance B C, side_b = distance A C, side_c = distance A B\<rparr>,
      angles = Some
        \<lparr>angle_A = toDeg (Math_acos (law_of_cosines (distance A C) (distance A B) (distance B C))),
         angle_B = toDeg (Math_acos (law_of_cosines (distance B C) (distance A B) (distance A C))),
         angle_C = toDeg (Math_acos (law_of_cosines (distance B C) (distance A C) (distance A B)))\<rparr>,
      perimeter = Some (js_add (js_add (distance B C) (distance A C)) (distance A B)),
      area = Some (unsigned_area A B C),
      mids = Some \<lparr>mid_a = midpoint B C, mid_b = midpoint A C, mid_c = midpoint A B\<rparr>\<rparr>"
  by (auto simp add: triangleData_def any_coincide_def coincide_def sides_finite_def Let_def
      unsigned_area_def law_of_cosines_def)

lemma valid_iff:
  "valid (triangleData (A, B, C)) \<longleftrightarrow>
     \<not> any_coincide A B C \<and> sides_finite A B C \<and> \<not> js_le (unsigned_area A B C) EPS"
proof (cases "any_coincide A B C")
  case True
  then show ?thesis by (simp add: triangleData_coincide invalid_def)
next
  case nc: False
  show ?thesis
  proof (cases "sides_finite A B C")
    case False
    with nc show ?thesis by (simp add: triangleData_nonfinite invalid_def)
  next
    case sf: True
    show ?thesis
    proof (cases "js_le (unsigned_area A B C) EPS")
      case True
      with nc sf show ?thesis by (simp add: triangleData_degenerate invalid_def)
    next
      case False
      with nc sf show ?thesis by (simp add: triangleData_valid)
    qed
  qed
qed

lemma js_cmp_NaN: "\<not> js_lt n NaN" "\<not> js_lt NaN n" "\<not> js_le n NaN" "\<not> js_le NaN n"
  by (cases n; simp)+

lemma not_le_EPS_iff: "\<not> js_le n EPS \<longleftrightarrow> js_lt EPS n \<or> n = NaN"
  by (cases n) (auto simp add: EPS_val)

lemma js_sub_nonfinite: "\<not> isFinite m \<or> \<not> isFinite n \<Longrightarrow> \<not> isFinite (js_sub m n)"
  by (cases m; cases n) simp_all

lemma NaN_never_coincides:
  "px P = NaN \<or> py P = NaN \<Longrightarrow> \<not> coincide P Q \<and> \<not> coincide Q P"
  by (cases "px Q"; cases "py Q"; cases "px P"; cases "py P") (auto simp add: coincide_def)

section \<open>Clamping and the conversion to degrees\<close>

lemma clamp_unit: "- 1 \<le> p \<Longrightarrow> p \<le> 1 \<Longrightarrow> clamp (Finite p) (Finite (- 1)) (Finite 1) = Finite p"
  by (simp add: clamp_def)



lemma toDeg_half_pi: "toDeg (Finite (884279719003555 / 2 ^ 49)) = Finite 90"
proof -
  have m: "rnd (884279719003555 / 2 ^ 49 * 180) = Finite (of_int 4974073419394997 * 2 powr of_int (8 - 52))"
    by (rule rnd_eqI) (simp_all add: powr_minus)
  have d: "rnd (4974073419394997 / 2 ^ 44 / (884279719003555 / 2 ^ 48)) = Finite (of_int 6333186975989760 * 2 powr of_int (6 - 52))"
    by (rule rnd_eqI) (simp_all add: powr_minus)
  have m': "rnd (884279719003555 / 2 ^ 49 * 180) = Finite (4974073419394997 / 2 ^ 44)"
    unfolding m by (simp add: powr_minus)
  have d': "rnd (4974073419394997 / 2 ^ 44 / (884279719003555 / 2 ^ 48)) = Finite 90"
    unfolding d by (simp add: powr_minus)
  show ?thesis
    unfolding toDeg_def Math_PI_def js_mul.simps m' js_div.simps using d' by simp
qed

lemma toDeg_pi: "toDeg Math_PI = Finite 180"
proof -
  have m: "rnd (884279719003555 / 2 ^ 48 * 180) = Finite (of_int 4974073419394997 * 2 powr of_int (9 - 52))"
    by (rule rnd_eqI) (simp_all add: powr_minus)
  have d: "rnd (4974073419394997 / 2 ^ 43 / (884279719003555 / 2 ^ 48)) = Finite (of_int 6333186975989760 * 2 powr of_int (7 - 52))"
    by (rule rnd_eqI) (simp_all add: powr_minus)
  have m': "rnd (884279719003555 / 2 ^ 48 * 180) = Finite (4974073419394997 / 2 ^ 43)"
    unfolding m by (simp add: powr_minus)
  have d': "rnd (4974073419394997 / 2 ^ 43 / (884279719003555 / 2 ^ 48)) = Finite 180"
    unfolding d by (simp add: powr_minus)
  show ?thesis
    unfolding toDeg_def Math_PI_def js_mul.simps m' js_div.simps using d' by simp
qed

lemma toDeg_zero: "toDeg (Finite 0) = Finite 0"
  by (simp add: toDeg_def Math_PI_def rnd_zero)



section \<open>The Euclidean norm\<close>

lemma norm2_nonneg: "0 \<le> norm2 p q"
  by (simp add: norm2_def)

lemma norm2_ge1: "\<bar>p\<bar> \<le> norm2 p q"
proof -
  have "sqrt (p * p) \<le> sqrt (p * p + q * q)" by (simp only: real_sqrt_le_iff) simp
  then show ?thesis by (simp add: norm2_def)
qed

lemma norm2_ge2: "\<bar>q\<bar> \<le> norm2 p q"
proof -
  have "sqrt (q * q) \<le> sqrt (p * p + q * q)" by (simp only: real_sqrt_le_iff) simp
  then show ?thesis by (simp add: norm2_def)
qed

lemma norm2_triangle: "norm2 (p + r) (q + s) \<le> norm2 p q + norm2 r s"
  using real_sqrt_sum_squares_triangle_ineq[of p r q s] by (simp add: norm2_def power2_eq_square)

lemma norm2_le_sum: "norm2 p q \<le> \<bar>p\<bar> + \<bar>q\<bar>"
  using sqrt_sum_squares_le_sum_abs[of p q] by (simp add: norm2_def power2_eq_square)

lemma norm2_perturb: "norm2 p q \<le> norm2 r s + \<bar>p - r\<bar> + \<bar>q - s\<bar>"
proof -
  have "norm2 p q = norm2 (r + (p - r)) (s + (q - s))" by simp
  also have "\<dots> \<le> norm2 r s + norm2 (p - r) (q - s)" by (rule norm2_triangle)
  also have "\<dots> \<le> norm2 r s + (\<bar>p - r\<bar> + \<bar>q - s\<bar>)" using norm2_le_sum[of "p - r" "q - s"] by simp
  finally show ?thesis by simp
qed

lemma eta_small: "(2::real) powr (- 1075) \<le> 1 / 2 ^ 200"
proof -
  have "(2::real) powr (- 1075) \<le> 2 powr (- 200)" by (intro powr_mono) simp_all
  then show ?thesis by (simp add: powr_minus_divide)
qed

lemma EPS_normal: "(2::real) powr (- 1022) \<le> 4835703278458517 / 2 ^ 82"
proof -
  have "(2::real) powr (- 1022) \<le> 2 powr (- 60)" by (intro powr_mono) simp_all
  also have "\<dots> \<le> 4835703278458517 / 2 ^ 82" by (simp add: powr_minus_divide)
  finally show ?thesis .
qed

lemma norm2_sum_le: "\<bar>p\<bar> + \<bar>q\<bar> \<le> 3 / 2 * norm2 p q"
proof -
  define a b where "a = \<bar>p\<bar>" and "b = \<bar>q\<bar>"
  have n: "p * p + q * q = a * a + b * b" by (simp add: a_def b_def)
  have "0 \<le> (a - b) * (a - b)" by simp
  then have c: "2 * (a * b) \<le> a * a + b * b" by (simp add: algebra_simps)
  have e: "(2 / 3 * (a + b))\<^sup>2 = 4 / 9 * (a * a) + 4 / 9 * (b * b) + 8 / 9 * (a * b)"
    by (simp add: power2_eq_square algebra_simps)
  have "0 \<le> a * a" "0 \<le> b * b" by simp_all
  with c have "(2 / 3 * (a + b))\<^sup>2 \<le> a * a + b * b" unfolding e by linarith
  then have "2 / 3 * (a + b) \<le> sqrt (a * a + b * b)" by (rule real_le_rsqrt)
  then show ?thesis unfolding norm2_def n a_def b_def by simp
qed

lemma delta_err:
  "\<bar>delta m n - (val n - val m)\<bar> \<le> \<bar>val n - val m\<bar> / 2 ^ 53 + 2 powr (- 1075)"
  unfolding delta_def by (rule round_double_abs_err)

section \<open>Symmetry of the operations\<close>

lemma coincide_sym: "coincide P Q = coincide Q P"
  unfolding coincide_def
  using js_sub_swap[of "px P" "px Q"] js_sub_swap[of "py P" "py Q"] by (simp add: Math_abs_negate)

lemma doubleSignedArea_swap: "doubleSignedArea B A C = negate (doubleSignedArea A B C)"
proof -
  have 1: "js_sub (py A) (py C) = negate (js_sub (py C) (py A))"
    and 2: "js_sub (py C) (py B) = negate (js_sub (py B) (py C))"
    and 3: "js_sub (py B) (py A) = negate (js_sub (py A) (py B))"
    by (rule js_sub_swap)+
  have c: "js_add (js_mul (px B) (js_sub (py C) (py A))) (js_mul (px A) (js_sub (py B) (py C))) =
      js_add (js_mul (px A) (js_sub (py B) (py C))) (js_mul (px B) (js_sub (py C) (py A)))"
    by (rule js_add_commute)
  show ?thesis
    unfolding doubleSignedArea_def 1 2 3 js_mul_negate_right js_add_negate c ..
qed

lemma unsigned_area_swap: "unsigned_area B A C = unsigned_area A B C"
  unfolding unsigned_area_def doubleSignedArea_swap[where A = A and B = B and C = C] Math_abs_negate ..

lemma midpoint_sym: "midpoint P Q = midpoint Q P"
  unfolding midpoint_def js_add_commute[of "px P" "px Q"] js_add_commute[of "py P" "py Q"] ..

lemma any_coincide_swap:
  "any_coincide B A C = any_coincide A B C"
  "any_coincide A C B = any_coincide A B C"
  "any_coincide C B A = any_coincide A B C"
  unfolding any_coincide_def
  using coincide_sym[of A B] coincide_sym[of A C] coincide_sym[of B C] by blast+

lemma denominator_swap:
  assumes "is_double p" "0 < p" "is_double q" "0 < q"
  shows "js_mul (js_mul (Finite 2) (Finite p)) (Finite q) =
         js_mul (js_mul (Finite 2) (Finite q)) (Finite p) \<or>
         (2 ^ 1023 \<le> p \<and> q < 1) \<or> (2 ^ 1023 \<le> q \<and> p < 1)"
proof -
  have P: "js_mul (Finite 2) (Finite p) = (if 2 * p < 2 ^ 1024 then Finite (2 * p) else PosInf)"
    using rnd_twice[OF assms(1,2)] by simp
  have Q: "js_mul (Finite 2) (Finite q) = (if 2 * q < 2 ^ 1024 then Finite (2 * q) else PosInf)"
    using rnd_twice[OF assms(3,4)] by simp
  have half: "(2::real) ^ 1024 = 2 * 2 ^ 1023" by simp
  consider "2 * p < 2 ^ 1024" "2 * q < 2 ^ 1024" | "\<not> 2 * p < 2 ^ 1024" "\<not> 2 * q < 2 ^ 1024"
    | "\<not> 2 * p < 2 ^ 1024" "2 * q < 2 ^ 1024" | "2 * p < 2 ^ 1024" "\<not> 2 * q < 2 ^ 1024"
    by blast
  then show ?thesis
  proof cases
    case 1
    then show ?thesis unfolding P Q by (simp add: mult.assoc mult.left_commute mult.commute del: power_numeral)
  next
    case 2
    then show ?thesis unfolding P Q using assms(2,4) by (simp add: is_neg_def del: power_numeral)
  next
    case 3
    have pl: "2 ^ 1023 \<le> p" using 3(1) unfolding half by simp
    show ?thesis
    proof (cases "2 ^ 1024 \<le> 2 * q * p")
      case True
      then have "rnd (2 * q * p) = PosInf" by (rule rnd_overflow_ge)
      then show ?thesis unfolding P Q using 3 assms(4) by (simp add: is_neg_def del: power_numeral)
    next
      case False
      then have "2 * q * p < 2 * 2 ^ 1023" unfolding half by simp
      moreover have "2 * q * 2 ^ 1023 \<le> 2 * q * p" using pl assms(4) by (intro mult_left_mono) simp_all
      ultimately have "q * 2 ^ 1023 < 1 * 2 ^ 1023" by linarith
      then have "q < 1" by (simp only: mult_less_cancel_right_pos zero_less_power zero_less_numeral)
      with pl show ?thesis by blast
    qed
  next
    case 4
    have ql: "2 ^ 1023 \<le> q" using 4(2) unfolding half by simp
    show ?thesis
    proof (cases "2 ^ 1024 \<le> 2 * p * q")
      case True
      then have "rnd (2 * p * q) = PosInf" by (rule rnd_overflow_ge)
      then show ?thesis unfolding P Q using 4 assms(2) by (simp add: is_neg_def del: power_numeral)
    next
      case False
      then have "2 * p * q < 2 * 2 ^ 1023" unfolding half by simp
      moreover have "2 * p * 2 ^ 1023 \<le> 2 * p * q" using ql assms(2) by (intro mult_left_mono) simp_all
      ultimately have "p * 2 ^ 1023 < 1 * 2 ^ 1023" by linarith
      then have "p < 1" by (simp only: mult_less_cancel_right_pos zero_less_power zero_less_numeral)
      with ql show ?thesis by blast
    qed
  qed
qed

lemma numerator_NaN:
  assumes "2 ^ 1023 \<le> p" "0 \<le> q" "q < 1" "0 \<le> r" "p \<le> (q + r) * (1 + 1 / 2 ^ 48)"
  shows "js_sub (js_add (js_mul (Finite p) (Finite p)) (js_mul (Finite q) (Finite q)))
           (js_mul (Finite r) (Finite r)) = NaN"
    and "js_sub (js_add (js_mul (Finite q) (Finite q)) (js_mul (Finite p) (Finite p)))
           (js_mul (Finite r) (Finite r)) = NaN"
proof -
  have p1: "(1::real) \<le> 2 ^ 1023" by simp
  have "2 ^ 1024 \<le> 2 ^ 1023 * (2 ^ 1023 :: real)" by simp
  also have "\<dots> \<le> p * p" using assms(1) by (intro mult_mono) simp_all
  finally have pp: "rnd (p * p) = PosInf" by (rule rnd_overflow_ge)
  have "2 ^ 1023 \<le> (q + r) * (1 + 1 / 2 ^ 48)" using assms(1,5) by linarith
  then have "2 ^ 1023 \<le> (1 + r) * (1 + 1 / 2 ^ 48)" using assms(2,3,4) by (simp add: field_simps)
  then have rl: "2 ^ 1022 \<le> r" by (simp add: field_simps)
  have "2 ^ 1024 \<le> 2 ^ 1022 * (2 ^ 1022 :: real)" by simp
  also have "\<dots> \<le> r * r" using rl by (intro mult_mono) simp_all
  finally have rr: "rnd (r * r) = PosInf" by (rule rnd_overflow_ge)
  have "q * q \<le> 1 * 1" using assms(2,3) by (intro mult_mono) simp_all
  then have "0 \<le> q * q" "q * q \<le> 1" by simp_all
  then obtain x where qq: "rnd (q * q) = Finite x"
    using rnd_between[OF _ _ rnd_zero rnd_one] by blast
  show "js_sub (js_add (js_mul (Finite p) (Finite p)) (js_mul (Finite q) (Finite q)))
           (js_mul (Finite r) (Finite r)) = NaN"
    by (simp add: pp qq rr)
  show "js_sub (js_add (js_mul (Finite q) (Finite q)) (js_mul (Finite p) (Finite p)))
           (js_mul (Finite r) (Finite r)) = NaN"
    by (simp add: pp qq rr)
qed

lemma law_of_cosines_sym:
  assumes "is_double p" "0 < p" "is_double q" "0 < q" "0 \<le> r"
    and "p \<le> (q + r) * (1 + 1 / 2 ^ 48)" "q \<le> (p + r) * (1 + 1 / 2 ^ 48)"
  shows "law_of_cosines (Finite p) (Finite q) (Finite r) = law_of_cosines (Finite q) (Finite p) (Finite r)"
proof -
  have num: "js_add (js_mul (Finite p) (Finite p)) (js_mul (Finite q) (Finite q)) =
             js_add (js_mul (Finite q) (Finite q)) (js_mul (Finite p) (Finite p))"
    by (rule js_add_commute)
  consider "js_mul (js_mul (Finite 2) (Finite p)) (Finite q) =
         js_mul (js_mul (Finite 2) (Finite q)) (Finite p)"
    | "2 ^ 1023 \<le> p" "q < 1" | "2 ^ 1023 \<le> q" "p < 1"
    using denominator_swap[OF assms(1,2,3,4)] by blast
  then show ?thesis
  proof cases
    case 1
    then show ?thesis unfolding law_of_cosines_def num by (simp only:)
  next
    case 2
    have q0: "0 \<le> q" using assms(4) by simp
    note N = numerator_NaN[OF 2(1) q0 2(2) assms(5,6)]
    show ?thesis unfolding law_of_cosines_def N by simp
  next
    case 3
    have p0: "0 \<le> p" using assms(2) by simp
    note N = numerator_NaN[OF 3(1) p0 3(2) assms(5,7)]
    show ?thesis unfolding law_of_cosines_def N by simp
  qed
qed

lemmas js_eval = pt_def coincide_def any_coincide_def sides_finite_def unsigned_area_def
  distance_def doubleSignedArea_def EPS_val rnd_zero rnd_one rnd_neg_one rnd_numeral rnd_neg_numeral

section \<open>The value of \<open>Math.hypot\<close>\<close>

lemma rnd_small: "\<bar>v\<bar> \<le> 2 ^ 1023 \<Longrightarrow> rnd v = Finite (round_double v)"
proof -
  assume v: "\<bar>v\<bar> \<le> 2 ^ 1023"
  have e: "round_double (2 ^ 1023) = 2 ^ 1023" "round_double (- (2 ^ 1023)) = - (2 ^ 1023)"
    using rnd_power2[of 1023] rnd_neg_power2[of 1023] by (simp_all add: rnd_def Let_def split: if_splits)
  have "round_double (- (2 ^ 1023)) \<le> round_double v" "round_double v \<le> round_double (2 ^ 1023)"
    using v by (intro round_double_mono; linarith)+
  then have "\<bar>round_double v\<bar> \<le> 2 ^ 1023" unfolding e by linarith
  also have "\<dots> < (2 ^ 1024 :: real)" by simp
  finally show ?thesis by (simp add: rnd_def)
qed

lemma round_double_one: "round_double 1 = 1"
  using rnd_one by (simp add: rnd_def Let_def split: if_splits)

lemma round_double_two: "round_double 2 = 2"
  using rnd_numeral[of "num.Bit0 num.One"] by (simp add: rnd_def Let_def split: if_splits)

lemma round_double_zero: "round_double 0 = 0"
  by (simp add: round_double_def)

lemma round_double_unit: "0 \<le> v \<Longrightarrow> v \<le> 1 \<Longrightarrow> 0 \<le> round_double v \<and> round_double v \<le> 1"
  using round_double_mono[of 0 v] round_double_mono[of v 1]
  by (simp add: round_double_zero round_double_one)

lemma rnd_round_double: "\<bar>round_double v\<bar> \<le> 2 ^ 1023 \<Longrightarrow> rnd (round_double v) = Finite (round_double v)"
  using rnd_small[of "round_double v"] by (simp add: round_double_idem)

lemma hypot_term_unit:
  assumes "0 < M" "\<bar>x\<bar> \<le> M"
  shows "0 \<le> hypot_term M x" "hypot_term M x \<le> 1"
proof -
  define n where "n = round_double (\<bar>x\<bar> / M)"
  have "0 \<le> \<bar>x\<bar> / M" "\<bar>x\<bar> / M \<le> 1" using assms by simp_all
  then have n: "0 \<le> n" "n \<le> 1" unfolding n_def using round_double_unit by blast+
  then have "0 \<le> n * n" "n * n \<le> 1" by (simp_all add: mult_le_one)
  then show "0 \<le> hypot_term M x" "hypot_term M x \<le> 1"
    unfolding hypot_term_def n_def[symmetric] using round_double_unit by blast+
qed

lemma hypot_term_max: "0 < M \<Longrightarrow> \<bar>x\<bar> = M \<Longrightarrow> hypot_term M x = 1"
  by (simp add: hypot_term_def round_double_one)

lemma kahan_first:
  assumes "0 < M" "\<bar>x\<bar> \<le> M"
  shows "kahan_step (Finite M) (Finite 0, Finite 0) (Finite \<bar>x\<bar>) = (Finite (hypot_term M x), Finite 0)"
proof -
  define n where "n = round_double (\<bar>x\<bar> / M)"
  define t where "t = hypot_term M x"
  have t: "t = round_double (n * n)" by (simp add: t_def hypot_term_def n_def)
  have "0 \<le> \<bar>x\<bar> / M" "\<bar>x\<bar> / M \<le> 1" using assms by simp_all
  then have n: "0 \<le> n" "n \<le> 1" unfolding n_def using round_double_unit by blast+
  have tu: "0 \<le> t" "t \<le> 1" unfolding t_def using assms by (rule hypot_term_unit)+
  have "\<bar>\<bar>x\<bar> / M\<bar> \<le> 1" using assms by simp
  then have "\<bar>\<bar>x\<bar> / M\<bar> \<le> 2 ^ 1023" by (rule order_trans) simp
  then have 1: "js_div (Finite \<bar>x\<bar>) (Finite M) = Finite n"
    using assms(1) by (simp add: n_def rnd_small)
  have "\<bar>n * n\<bar> \<le> 1" using n by (simp add: abs_mult mult_le_one)
  then have "\<bar>n * n\<bar> \<le> 2 ^ 1023" by (rule order_trans) simp
  then have 2: "js_mul (Finite n) (Finite n) = Finite t"
    by (simp add: t rnd_small)
  have rt: "rnd t = Finite t" unfolding t using tu t by (intro rnd_round_double) simp
  have 3: "js_sub (Finite t) (Finite 0) = Finite t" by (simp add: rt)
  have 4: "js_add (Finite 0) (Finite t) = Finite t" by (simp add: rt)
  have 5: "js_sub (Finite t) (Finite t) = Finite 0" by (simp add: rnd_zero)
  show ?thesis
    unfolding t_def[symmetric] by (simp only: kahan_step_def Let_def prod.case 1 2 3 4 5)
qed

lemma kahan_second:
  assumes "0 < M" "\<bar>x\<bar> \<le> M" "0 \<le> s" "s \<le> 1"
  shows "fst (kahan_step (Finite M) (Finite s, Finite 0) (Finite \<bar>x\<bar>)) =
    Finite (round_double (s + hypot_term M x))"
proof -
  define n where "n = round_double (\<bar>x\<bar> / M)"
  define t where "t = hypot_term M x"
  have t: "t = round_double (n * n)" by (simp add: t_def hypot_term_def n_def)
  have "0 \<le> \<bar>x\<bar> / M" "\<bar>x\<bar> / M \<le> 1" using assms by simp_all
  then have n: "0 \<le> n" "n \<le> 1" unfolding n_def using round_double_unit by blast+
  have tu: "0 \<le> t" "t \<le> 1" unfolding t_def using assms(1,2) by (rule hypot_term_unit)+
  have "\<bar>\<bar>x\<bar> / M\<bar> \<le> 1" using assms by simp
  then have "\<bar>\<bar>x\<bar> / M\<bar> \<le> 2 ^ 1023" by (rule order_trans) simp
  then have 1: "js_div (Finite \<bar>x\<bar>) (Finite M) = Finite n"
    using assms(1) by (simp add: n_def rnd_small)
  have "\<bar>n * n\<bar> \<le> 1" using n by (simp add: abs_mult mult_le_one)
  then have "\<bar>n * n\<bar> \<le> 2 ^ 1023" by (rule order_trans) simp
  then have 2: "js_mul (Finite n) (Finite n) = Finite t"
    by (simp add: t rnd_small)
  have rt: "rnd t = Finite t" unfolding t using tu t by (intro rnd_round_double) simp
  have 3: "js_sub (Finite t) (Finite 0) = Finite t" by (simp add: rt)
  have "\<bar>s + t\<bar> \<le> 2 ^ 1023" using assms(3,4) tu by simp
  then have 4: "js_add (Finite s) (Finite t) = Finite (round_double (s + t))"
    by (simp add: rnd_small)
  show ?thesis
    unfolding t_def[symmetric] by (simp only: kahan_step_def Let_def prod.case fst_conv 1 2 3 4)
qed

lemma hypot_sum_range:
  assumes "p \<noteq> 0 \<or> q \<noteq> 0"
  shows "1 \<le> hypot_sum p q" "hypot_sum p q \<le> 2"
proof -
  define M where "M = max \<bar>p\<bar> \<bar>q\<bar>"
  have M: "0 < M" "\<bar>p\<bar> \<le> M" "\<bar>q\<bar> \<le> M" using assms by (auto simp add: M_def)
  note P = hypot_term_unit[OF M(1,2)] and Q = hypot_term_unit[OF M(1,3)]
  have "hypot_term M p = 1 \<or> hypot_term M q = 1"
    using hypot_term_max[OF M(1), of p] hypot_term_max[OF M(1), of q] by (auto simp add: M_def max_def)
  then have "1 \<le> hypot_term M p + hypot_term M q" "hypot_term M p + hypot_term M q \<le> 2"
    using P Q by linarith+
  then show "1 \<le> hypot_sum p q" "hypot_sum p q \<le> 2"
    unfolding hypot_sum_def M_def[symmetric]
    using round_double_mono[of 1 "hypot_term M p + hypot_term M q"]
      round_double_mono[of "hypot_term M p + hypot_term M q" 2]
    by (simp_all add: round_double_one round_double_two)
qed

lemma Math_hypot_zero: "Math_hypot (Finite 0) (Finite 0) = Finite 0"
  by simp

lemma Math_hypot_form:
  assumes "p \<noteq> 0 \<or> q \<noteq> 0"
  shows "Math_hypot (Finite p) (Finite q) =
    rnd (round_double (sqrt (hypot_sum p q)) * max \<bar>p\<bar> \<bar>q\<bar>)"
proof -
  define M where "M = max \<bar>p\<bar> \<bar>q\<bar>"
  have M: "0 < M" "\<bar>p\<bar> \<le> M" "\<bar>q\<bar> \<le> M" using assms by (auto simp add: M_def)
  have mx: "foldl (\<lambda>m v. if js_lt m v then v else m) (Finite 0) [Finite \<bar>p\<bar>, Finite \<bar>q\<bar>] = Finite M"
    by (auto simp add: M_def max_def)
  note P = hypot_term_unit[OF M(1,2)]
  have k: "fst (foldl (kahan_step (Finite M)) (Finite 0, Finite 0) [Finite \<bar>p\<bar>, Finite \<bar>q\<bar>]) =
      Finite (hypot_sum p q)"
    unfolding hypot_sum_def M_def[symmetric]
    using kahan_second[OF M(1,3) P] by (simp add: kahan_first[OF M(1,2)])
  note S = hypot_sum_range[OF assms]
  have "sqrt (hypot_sum p q) \<le> sqrt 4" using S(2) by (intro real_sqrt_le_mono) simp
  then have "\<bar>sqrt (hypot_sum p q)\<bar> \<le> 2 ^ 1023" using S(1) by simp
  then have sq: "Math_sqrt (Finite (hypot_sum p q)) = Finite (round_double (sqrt (hypot_sum p q)))"
    using S(1) by (simp add: rnd_small)
  have M0: "Finite M \<noteq> Finite 0" using M(1) by simp
  show ?thesis
    unfolding Math_hypot.simps Let_def mx k sq M_def[symmetric] using M0 by simp
qed

lemma round_double_rel_pos:
  assumes "2 powr (- 1022) \<le> v"
  shows "v * (1 - 1 / 2 ^ 53) \<le> round_double v" "round_double v \<le> v * (1 + 1 / 2 ^ 53)"
proof -
  have v: "0 < v" using assms by (smt (verit) powr_gt_zero)
  then have "2 powr (- 1022) \<le> \<bar>v\<bar>" using assms by simp
  then have "\<bar>round_double v - v\<bar> \<le> \<bar>v\<bar> / 2 ^ 53" by (rule round_double_rel_err)
  then have "\<bar>round_double v - v\<bar> \<le> v / 2 ^ 53" using v by simp
  then have "round_double v - v \<le> v / 2 ^ 53" "- (round_double v - v) \<le> v / 2 ^ 53"
    by (simp_all only: abs_le_iff)
  then show "v * (1 - 1 / 2 ^ 53) \<le> round_double v" "round_double v \<le> v * (1 + 1 / 2 ^ 53)"
    by (simp_all add: field_simps)
qed

lemma one_normal: "(2::real) powr (- 1022) \<le> 1"
proof -
  have "(2::real) powr (- 1022) \<le> 2 powr 0" by (intro powr_mono) simp_all
  then show ?thesis by simp
qed

lemma hypot_term_err:
  assumes "0 < M" "\<bar>x\<bar> \<le> M"
  shows "\<bar>hypot_term M x - (\<bar>x\<bar> / M) * (\<bar>x\<bar> / M)\<bar> \<le> 7 / 2 ^ 54"
proof -
  define \<rho> where "\<rho> = \<bar>x\<bar> / M"
  define n where "n = round_double \<rho>"
  define t where "t = round_double (n * n)"
  define \<eta> :: real where "\<eta> = 2 powr (- 1075)"
  have eta: "0 < \<eta>" "\<eta> \<le> 1 / 2 ^ 200" using eta_small by (simp_all add: \<eta>_def)
  have r: "0 \<le> \<rho>" "\<rho> \<le> 1" using assms by (simp_all add: \<rho>_def)
  then have n: "0 \<le> n" "n \<le> 1" unfolding n_def using round_double_unit by blast+
  have nn: "0 \<le> n * n" "n * n \<le> 1" using n by (simp_all add: mult_le_one)
  have e1: "\<bar>n - \<rho>\<bar> \<le> \<rho> / 2 ^ 53 + \<eta>"
    using round_double_abs_err[of \<rho>] r(1) by (simp add: n_def \<eta>_def)
  have e2: "\<bar>t - n * n\<bar> \<le> n * n / 2 ^ 53 + \<eta>"
    using round_double_abs_err[of "n * n"] nn(1) by (simp add: t_def \<eta>_def)
  have "n * n - \<rho> * \<rho> = (n - \<rho>) * (n + \<rho>)" by (simp add: algebra_simps)
  then have "\<bar>n * n - \<rho> * \<rho>\<bar> = \<bar>n - \<rho>\<bar> * (n + \<rho>)" using n(1) r(1) by (simp add: abs_mult)
  also have "\<dots> \<le> (\<rho> / 2 ^ 53 + \<eta>) * 2"
    using e1 n r by (intro mult_mono) simp_all
  also have "\<dots> \<le> (1 / 2 ^ 53 + \<eta>) * 2" using r(2) by simp
  finally have e3: "\<bar>n * n - \<rho> * \<rho>\<bar> \<le> 2 / 2 ^ 53 + 2 * \<eta>" by simp
  have "\<bar>t - n * n\<bar> \<le> 1 / 2 ^ 53 + \<eta>" using e2 nn(2) by (simp add: field_simps)
  then have "\<bar>t - \<rho> * \<rho>\<bar> \<le> 3 / 2 ^ 53 + 3 * \<eta>" using e3 by linarith
  also have "\<dots> \<le> 7 / 2 ^ 54" using eta(2) by simp
  finally show ?thesis by (simp add: t_def n_def \<rho>_def hypot_term_def)
qed

lemma sqrt_ge_self: "0 \<le> x \<Longrightarrow> x \<le> 1 \<Longrightarrow> x \<le> sqrt x"
proof -
  assume x: "0 \<le> x" "x \<le> 1"
  then have "x * x \<le> x * 1" by (intro mult_left_mono) simp_all
  then have "x\<^sup>2 \<le> x" by (simp add: power2_eq_square)
  then show ?thesis using x(1) by (intro real_le_rsqrt)
qed

lemma sqrt_le_self: "1 \<le> x \<Longrightarrow> sqrt x \<le> x"
proof -
  assume x: "1 \<le> x"
  then have "x * 1 \<le> x * x" by (intro mult_left_mono) simp_all
  then have "x \<le> x\<^sup>2" by (simp add: power2_eq_square)
  then show ?thesis using x by (intro real_le_lsqrt) simp_all
qed

lemma norm2_scaled:
  assumes "0 < M"
  shows "norm2 p q = M * sqrt ((\<bar>p\<bar> / M) * (\<bar>p\<bar> / M) + (\<bar>q\<bar> / M) * (\<bar>q\<bar> / M))"
proof -
  have "(\<bar>p\<bar> / M) * (\<bar>p\<bar> / M) + (\<bar>q\<bar> / M) * (\<bar>q\<bar> / M) = (p * p + q * q) / (M * M)"
    by (simp add: add_divide_distrib)
  then have "M * sqrt ((\<bar>p\<bar> / M) * (\<bar>p\<bar> / M) + (\<bar>q\<bar> / M) * (\<bar>q\<bar> / M)) =
      M * (sqrt (p * p + q * q) / sqrt (M * M))"
    by (simp only: real_sqrt_divide)
  also have "\<dots> = sqrt (p * p + q * q)" using assms by simp
  finally show ?thesis by (simp add: norm2_def)
qed

lemma hypot_value_err:
  assumes "2 powr (- 1022) \<le> max \<bar>p\<bar> \<bar>q\<bar>"
  shows "norm2 p q * (1 - 10 / 2 ^ 53) \<le> round_double (round_double (sqrt (hypot_sum p q)) * max \<bar>p\<bar> \<bar>q\<bar>)"
    and "round_double (round_double (sqrt (hypot_sum p q)) * max \<bar>p\<bar> \<bar>q\<bar>) \<le> norm2 p q * (1 + 12 / 2 ^ 53)"
    and "max \<bar>p\<bar> \<bar>q\<bar> \<le> round_double (sqrt (hypot_sum p q)) * max \<bar>p\<bar> \<bar>q\<bar>"
proof -
  define M where "M = max \<bar>p\<bar> \<bar>q\<bar>"
  define u :: real where "u = 1 / 2 ^ 53"
  define \<sigma> where "\<sigma> = (\<bar>p\<bar> / M) * (\<bar>p\<bar> / M) + (\<bar>q\<bar> / M) * (\<bar>q\<bar> / M)"
  define T where "T = hypot_term M p + hypot_term M q"
  define S where "S = hypot_sum p q"
  define R where "R = sqrt S"
  define r where "r = round_double R"
  define h where "h = round_double (r * M)"
  define N where "N = norm2 p q"
  have Mn: "2 powr (- 1022) \<le> M" using assms by (simp add: M_def)
  then have M: "0 < M" by (smt (verit) powr_gt_zero)
  have Mp: "\<bar>p\<bar> \<le> M" and Mq: "\<bar>q\<bar> \<le> M" by (simp_all add: M_def)
  have nz: "p \<noteq> 0 \<or> q \<noteq> 0" using M by (auto simp add: M_def)
  have N: "N = M * sqrt \<sigma>" unfolding N_def \<sigma>_def using M by (rule norm2_scaled)
  have one: "(\<bar>p\<bar> / M) * (\<bar>p\<bar> / M) = 1 \<or> (\<bar>q\<bar> / M) * (\<bar>q\<bar> / M) = 1"
    using M by (auto simp add: M_def max_def)
  have "0 \<le> (\<bar>p\<bar> / M) * (\<bar>p\<bar> / M)" "0 \<le> (\<bar>q\<bar> / M) * (\<bar>q\<bar> / M)" by simp_all
  with one have s1: "1 \<le> \<sigma>" unfolding \<sigma>_def by linarith
  have eT: "\<bar>T - \<sigma>\<bar> \<le> 7 / 2 ^ 53"
  proof -
    define a b c d where "a = hypot_term M p" and "b = (\<bar>p\<bar> / M) * (\<bar>p\<bar> / M)"
      and "c = hypot_term M q" and "d = (\<bar>q\<bar> / M) * (\<bar>q\<bar> / M)"
    have "\<bar>a - b\<bar> \<le> 7 / 2 ^ 54" "\<bar>c - d\<bar> \<le> 7 / 2 ^ 54"
      unfolding a_def b_def c_def d_def by (rule hypot_term_err[OF M Mp] hypot_term_err[OF M Mq])+
    then have "\<bar>a + c - (b + d)\<bar> \<le> 7 / 2 ^ 54 + 7 / 2 ^ 54" by linarith
    then show ?thesis by (simp add: T_def \<sigma>_def a_def b_def c_def d_def)
  qed
  have T1: "1 \<le> T"
  proof -
    have "\<bar>p\<bar> = M \<or> \<bar>q\<bar> = M" by (auto simp add: M_def max_def)
    then have "hypot_term M p = 1 \<or> hypot_term M q = 1" using hypot_term_max[OF M] by blast
    then show ?thesis
      using hypot_term_unit(1)[OF M Mp] hypot_term_unit(1)[OF M Mq] unfolding T_def by linarith
  qed
  have Tlo: "\<sigma> * (1 - 7 * u) \<le> T" and Thi: "T \<le> \<sigma> * (1 + 7 * u)"
  proof -
    have "\<sigma> - 7 * u \<le> T" "T \<le> \<sigma> + 7 * u" using eT unfolding u_def by linarith+
    moreover have "7 * u \<le> \<sigma> * (7 * u)" using s1 unfolding u_def by simp
    ultimately show "\<sigma> * (1 - 7 * u) \<le> T" "T \<le> \<sigma> * (1 + 7 * u)"
      by (simp_all add: algebra_simps)
  qed
  have S: "S = round_double T" by (simp add: S_def hypot_sum_def T_def M_def)
  have "2 powr (- 1022) \<le> T" using T1 one_normal by linarith
  then have "T * (1 - 1 / 2 ^ 53) \<le> S" "S \<le> T * (1 + 1 / 2 ^ 53)"
    unfolding S by (rule round_double_rel_pos)+
  then have Slo': "T * (1 - u) \<le> S" and Shi': "S \<le> T * (1 + u)" by (simp_all add: u_def)
  have up: "0 \<le> 1 - u" "0 \<le> 1 + u" "0 \<le> 1 - 7 * u" by (simp_all add: u_def)
  have Slo: "\<sigma> * ((1 - 7 * u) * (1 - u)) \<le> S"
  proof -
    have "\<sigma> * (1 - 7 * u) * (1 - u) \<le> T * (1 - u)" using Tlo up(1) by (rule mult_right_mono)
    then show ?thesis using Slo' by (simp add: mult.assoc)
  qed
  have Shi: "S \<le> \<sigma> * ((1 + 7 * u) * (1 + u))"
  proof -
    have "T * (1 + u) \<le> \<sigma> * (1 + 7 * u) * (1 + u)" using Thi up(2) by (rule mult_right_mono)
    then show ?thesis using Shi' by (simp add: mult.assoc)
  qed
  have S1: "1 \<le> S" unfolding S_def using nz by (rule hypot_sum_range)
  have c1: "0 \<le> (1 - 7 * u) * (1 - u)" "(1 - 7 * u) * (1 - u) \<le> 1" by (simp_all add: u_def)
  have c2: "1 \<le> (1 + 7 * u) * (1 + u)" by (simp add: u_def)
  have s0: "0 \<le> sqrt \<sigma>" using s1 by simp
  have Rlo: "sqrt \<sigma> * ((1 - 7 * u) * (1 - u)) \<le> R"
  proof -
    have "sqrt (\<sigma> * ((1 - 7 * u) * (1 - u))) \<le> sqrt S" using Slo by simp
    then have "sqrt \<sigma> * sqrt ((1 - 7 * u) * (1 - u)) \<le> R" by (simp add: real_sqrt_mult R_def)
    moreover have "sqrt \<sigma> * ((1 - 7 * u) * (1 - u)) \<le> sqrt \<sigma> * sqrt ((1 - 7 * u) * (1 - u))"
      using sqrt_ge_self[OF c1] s0 by (rule mult_left_mono)
    ultimately show ?thesis by linarith
  qed
  have Rhi: "R \<le> sqrt \<sigma> * ((1 + 7 * u) * (1 + u))"
  proof -
    have "sqrt S \<le> sqrt (\<sigma> * ((1 + 7 * u) * (1 + u)))" using Shi by simp
    then have "R \<le> sqrt \<sigma> * sqrt ((1 + 7 * u) * (1 + u))" by (simp add: real_sqrt_mult R_def)
    moreover have "sqrt \<sigma> * sqrt ((1 + 7 * u) * (1 + u)) \<le> sqrt \<sigma> * ((1 + 7 * u) * (1 + u))"
      using sqrt_le_self[OF c2] s0 by (rule mult_left_mono)
    ultimately show ?thesis by linarith
  qed
  have R1: "1 \<le> R" unfolding R_def using S1 by simp
  then have "2 powr (- 1022) \<le> R" using one_normal by linarith
  then have "R * (1 - 1 / 2 ^ 53) \<le> r" "r \<le> R * (1 + 1 / 2 ^ 53)"
    unfolding r_def by (rule round_double_rel_pos)+
  then have rlo: "R * (1 - u) \<le> r" and rhi: "r \<le> R * (1 + u)" by (simp_all add: u_def)
  have r1: "1 \<le> r" unfolding r_def using round_double_mono[OF R1] by (simp add: round_double_one)
  have rM: "M \<le> r * M" using r1 M by simp
  then have "2 powr (- 1022) \<le> r * M" using Mn by linarith
  then have "r * M * (1 - 1 / 2 ^ 53) \<le> h" "h \<le> r * M * (1 + 1 / 2 ^ 53)"
    unfolding h_def by (rule round_double_rel_pos)+
  then have hlo: "r * M * (1 - u) \<le> h" and hhi: "h \<le> r * M * (1 + u)" by (simp_all add: u_def)
  have M0: "0 \<le> M" using M by simp
  have N0: "0 \<le> N" unfolding N_def by (rule norm2_nonneg)
  have lo: "N * ((1 - 7 * u) * (1 - u) * (1 - u) * (1 - u)) \<le> h"
  proof -
    have "sqrt \<sigma> * ((1 - 7 * u) * (1 - u)) * (1 - u) \<le> R * (1 - u)"
      using Rlo up(1) by (rule mult_right_mono)
    then have "sqrt \<sigma> * ((1 - 7 * u) * (1 - u)) * (1 - u) \<le> r" using rlo by linarith
    then have "sqrt \<sigma> * ((1 - 7 * u) * (1 - u)) * (1 - u) * M \<le> r * M"
      using M0 by (rule mult_right_mono)
    then have "sqrt \<sigma> * ((1 - 7 * u) * (1 - u)) * (1 - u) * M * (1 - u) \<le> r * M * (1 - u)"
      using up(1) by (rule mult_right_mono)
    then have "sqrt \<sigma> * ((1 - 7 * u) * (1 - u)) * (1 - u) * M * (1 - u) \<le> h" using hlo by linarith
    then show ?thesis unfolding N by (simp add: mult_ac)
  qed
  have hi: "h \<le> N * ((1 + 7 * u) * (1 + u) * (1 + u) * (1 + u))"
  proof -
    have "R * (1 + u) \<le> sqrt \<sigma> * ((1 + 7 * u) * (1 + u)) * (1 + u)"
      using Rhi up(2) by (rule mult_right_mono)
    then have "r \<le> sqrt \<sigma> * ((1 + 7 * u) * (1 + u)) * (1 + u)" using rhi by linarith
    then have "r * M \<le> sqrt \<sigma> * ((1 + 7 * u) * (1 + u)) * (1 + u) * M"
      using M0 by (rule mult_right_mono)
    then have "r * M * (1 + u) \<le> sqrt \<sigma> * ((1 + 7 * u) * (1 + u)) * (1 + u) * M * (1 + u)"
      using up(2) by (rule mult_right_mono)
    then have "h \<le> sqrt \<sigma> * ((1 + 7 * u) * (1 + u)) * (1 + u) * M * (1 + u)" using hhi by linarith
    then show ?thesis unfolding N by (simp add: mult_ac)
  qed
  have k1: "1 - 10 / 2 ^ 53 \<le> (1 - 7 * u) * (1 - u) * (1 - u) * (1 - u)" by (simp add: u_def)
  have k2: "(1 + 7 * u) * (1 + u) * (1 + u) * (1 + u) \<le> 1 + 12 / 2 ^ 53" by (simp add: u_def)
  have "N * (1 - 10 / 2 ^ 53) \<le> N * ((1 - 7 * u) * (1 - u) * (1 - u) * (1 - u))"
    using k1 N0 by (rule mult_left_mono)
  then show "norm2 p q * (1 - 10 / 2 ^ 53) \<le> round_double (round_double (sqrt (hypot_sum p q)) * max \<bar>p\<bar> \<bar>q\<bar>)"
    using lo by (simp add: N_def h_def r_def R_def S_def M_def)
  have "N * ((1 + 7 * u) * (1 + u) * (1 + u) * (1 + u)) \<le> N * (1 + 12 / 2 ^ 53)"
    using k2 N0 by (rule mult_left_mono)
  then show "round_double (round_double (sqrt (hypot_sum p q)) * max \<bar>p\<bar> \<bar>q\<bar>) \<le> norm2 p q * (1 + 12 / 2 ^ 53)"
    using hi by (simp add: N_def h_def r_def R_def S_def M_def)
  show "max \<bar>p\<bar> \<bar>q\<bar> \<le> round_double (sqrt (hypot_sum p q)) * max \<bar>p\<bar> \<bar>q\<bar>"
    using rM by (simp add: r_def R_def S_def M_def)
qed

section \<open>Side lengths\<close>

lemma Math_hypot_nonfinite: "\<not> isFinite m \<or> \<not> isFinite n \<Longrightarrow> \<not> isFinite (Math_hypot m n)"
  by (cases m; cases n) simp_all

lemma distance_nonfinite:
  "\<not> isFinite (px P) \<or> \<not> isFinite (py P) \<or> \<not> isFinite (px Q) \<or> \<not> isFinite (py Q) \<Longrightarrow>
   \<not> isFinite (distance P Q)"
  unfolding distance_def
  by (intro Math_hypot_nonfinite) (metis js_sub_nonfinite)

lemma Math_hypot_negate: "Math_hypot (negate m) (negate n) = Math_hypot m n"
  by (cases m; cases n) (simp_all add: negate_def)

lemma distance_sym: "distance P Q = distance Q P"
  unfolding distance_def
  using js_sub_swap[of "px P" "px Q"] js_sub_swap[of "py P" "py Q"] by (simp add: Math_hypot_negate)

lemma sides_finite_swap:
  "sides_finite B A C = sides_finite A B C"
  "sides_finite A C B = sides_finite A B C"
  "sides_finite C B A = sides_finite A B C"
  unfolding sides_finite_def
  using distance_sym[of A B] distance_sym[of A C] distance_sym[of B C] by auto

declare Math_hypot.simps(1) [simp del]

lemma Math_hypot_value:
  assumes "isFinite (Math_hypot (Finite p) (Finite q))" "p \<noteq> 0 \<or> q \<noteq> 0"
  shows "Math_hypot (Finite p) (Finite q) =
    Finite (round_double (round_double (sqrt (hypot_sum p q)) * max \<bar>p\<bar> \<bar>q\<bar>))"
  using assms(1) unfolding Math_hypot_form[OF assms(2)] by (simp add: rnd_finite)

lemma hypot_isFinite:
  assumes "\<bar>p\<bar> \<le> 2 ^ 100" "\<bar>q\<bar> \<le> 2 ^ 100"
  shows "isFinite (Math_hypot (Finite p) (Finite q))"
proof (cases "p \<noteq> 0 \<or> q \<noteq> 0")
  case False
  then show ?thesis by (simp add: Math_hypot_zero)
next
  case True
  define r where "r = round_double (sqrt (hypot_sum p q))"
  note S = hypot_sum_range[OF True]
  have "sqrt (hypot_sum p q) \<le> sqrt 4" using S(2) by (intro real_sqrt_le_mono) simp
  then have "sqrt (hypot_sum p q) \<le> 2" by simp
  then have "r \<le> 2" unfolding r_def using round_double_mono[of "sqrt (hypot_sum p q)" 2]
    by (simp add: round_double_two)
  moreover have r0: "0 \<le> r" unfolding r_def using S(1) by (intro round_double_nonneg) simp
  moreover have m: "0 \<le> max \<bar>p\<bar> \<bar>q\<bar>" "max \<bar>p\<bar> \<bar>q\<bar> \<le> 2 ^ 100" using assms by simp_all
  ultimately have "r * max \<bar>p\<bar> \<bar>q\<bar> \<le> 2 * 2 ^ 100" by (intro mult_mono) simp_all
  moreover have "0 \<le> r * max \<bar>p\<bar> \<bar>q\<bar>" using r0 m(1) by (rule mult_nonneg_nonneg)
  ultimately have "\<bar>r * max \<bar>p\<bar> \<bar>q\<bar>\<bar> \<le> 2 ^ 1023" by simp
  then show ?thesis unfolding Math_hypot_form[OF True] r_def[symmetric] by (simp add: rnd_small)
qed

lemma Math_hypot_finite:
  "isFinite (Math_hypot m n) \<Longrightarrow> m = Finite (val m) \<and> n = Finite (val n)"
  by (cases m; cases n) simp_all

lemma distance_finite:
  assumes "isFinite (distance P Q)"
  shows "isFinite (px P)" "isFinite (py P)" "isFinite (px Q)" "isFinite (py Q)"
    "distance P Q = Math_hypot (Finite (delta (px P) (px Q))) (Finite (delta (py P) (py Q)))"
    "js_sub (px Q) (px P) = Finite (delta (px P) (px Q))"
    "js_sub (py Q) (py P) = Finite (delta (py P) (py Q))"
proof -
  from assms have h: "isFinite (Math_hypot (js_sub (px Q) (px P)) (js_sub (py Q) (py P)))"
    by (simp add: distance_def)
  note H = Math_hypot_finite[OF h]
  from H have fx: "isFinite (js_sub (px Q) (px P))" and fy: "isFinite (js_sub (py Q) (py P))"
    by (metis isFinite.simps(1))+
  note X = js_sub_finite[OF fx] and Y = js_sub_finite[OF fy]
  show "isFinite (px P)" "isFinite (py P)" "isFinite (px Q)" "isFinite (py Q)"
    using X Y by (metis isFinite.simps(1))+
  show sx: "js_sub (px Q) (px P) = Finite (delta (px P) (px Q))" using X by (simp add: delta_def)
  show sy: "js_sub (py Q) (py P) = Finite (delta (py P) (py Q))" using Y by (simp add: delta_def)
  show "distance P Q = Math_hypot (Finite (delta (px P) (px Q))) (Finite (delta (py P) (py Q)))"
    unfolding distance_def sx sy ..
qed

lemma not_coincide_delta:
  assumes fin: "isFinite (distance P Q)" and nc: "\<not> coincide P Q"
  shows "4835703278458517 / 2 ^ 82 \<le> max \<bar>delta (px P) (px Q)\<bar> \<bar>delta (py P) (py Q)\<bar>"
proof -
  note D = distance_finite[OF fin]
  have sx: "js_sub (px P) (px Q) = Finite (- delta (px P) (px Q))"
    using js_sub_swap[of "px P" "px Q"] D(6) by (simp add: negate_def)
  have sy: "js_sub (py P) (py Q) = Finite (- delta (py P) (py Q))"
    using js_sub_swap[of "py P" "py Q"] D(7) by (simp add: negate_def)
  from nc have "4835703278458517 / 2 ^ 82 \<le> \<bar>delta (px P) (px Q)\<bar> \<or>
      4835703278458517 / 2 ^ 82 \<le> \<bar>delta (py P) (py Q)\<bar>"
    unfolding coincide_def sx sy by (auto simp add: EPS_val)
  then show ?thesis by (simp add: le_max_iff_disj)
qed

lemma norm2_ge_max: "max \<bar>p\<bar> \<bar>q\<bar> \<le> norm2 p q"
  using norm2_ge1[of p q] norm2_ge2[of q p] by simp

lemma distance_value:
  assumes fin: "isFinite (distance P Q)" and nc: "\<not> coincide P Q"
  shows "norm2 (delta (px P) (px Q)) (delta (py P) (py Q)) * (1 - 10 / 2 ^ 53) \<le> val (distance P Q)"
    and "val (distance P Q) \<le> norm2 (delta (px P) (px Q)) (delta (py P) (py Q)) * (1 + 12 / 2 ^ 53)"
    and "is_double (val (distance P Q))"
    and "max \<bar>delta (px P) (px Q)\<bar> \<bar>delta (py P) (py Q)\<bar> \<le> val (distance P Q)"
proof -
  define dx dy where "dx = delta (px P) (px Q)" and "dy = delta (py P) (py Q)"
  note D = distance_finite[OF fin, folded dx_def dy_def]
  have low: "4835703278458517 / 2 ^ 82 \<le> max \<bar>dx\<bar> \<bar>dy\<bar>"
    unfolding dx_def dy_def using fin nc by (rule not_coincide_delta)
  then have nrm: "2 powr (- 1022) \<le> max \<bar>dx\<bar> \<bar>dy\<bar>" using EPS_normal by linarith
  have "0 < max \<bar>dx\<bar> \<bar>dy\<bar>" using low by (smt (verit) divide_pos_pos zero_less_power zero_less_numeral)
  then have nz: "dx \<noteq> 0 \<or> dy \<noteq> 0" by auto
  have f: "isFinite (Math_hypot (Finite dx) (Finite dy))" using fin unfolding D(5) .
  have v: "val (distance P Q) = round_double (round_double (sqrt (hypot_sum dx dy)) * max \<bar>dx\<bar> \<bar>dy\<bar>)"
    unfolding D(5) Math_hypot_value[OF f nz] by simp
  show "norm2 dx dy * (1 - 10 / 2 ^ 53) \<le> val (distance P Q)"
    "val (distance P Q) \<le> norm2 dx dy * (1 + 12 / 2 ^ 53)"
    unfolding v by (rule hypot_value_err[OF nrm])+
  show "is_double (val (distance P Q))" unfolding v by (rule round_double_is_double)
  have dm: "is_double (max \<bar>dx\<bar> \<bar>dy\<bar>)"
  proof -
    have "is_double dx" "is_double dy" unfolding dx_def dy_def delta_def by (rule round_double_is_double)+
    then have "is_double \<bar>dx\<bar>" "is_double \<bar>dy\<bar>"
      using is_double_uminus[of dx] is_double_uminus[of dy] by (simp_all add: abs_if)
    then show ?thesis by (simp add: max_def)
  qed
  have "round_double (max \<bar>dx\<bar> \<bar>dy\<bar>) \<le>
      round_double (round_double (sqrt (hypot_sum dx dy)) * max \<bar>dx\<bar> \<bar>dy\<bar>)"
    using hypot_value_err(3)[OF nrm] by (rule round_double_mono)
  then show "max \<bar>dx\<bar> \<bar>dy\<bar> \<le> val (distance P Q)"
    unfolding v using is_double_round[OF dm] by simp
qed

lemma side_vs_exact:
  assumes fin: "isFinite (distance P Q)" and nc: "\<not> coincide P Q"
  shows "exact_dist P Q * (1 - 12 / 2 ^ 53) \<le> val (distance P Q)"
    and "val (distance P Q) \<le> exact_dist P Q * (1 + 15 / 2 ^ 53)"
    and "4835703278458517 / 2 ^ 83 \<le> exact_dist P Q"
proof -
  define dx dy where "dx = delta (px P) (px Q)" and "dy = delta (py P) (py Q)"
  define Dx Dy where "Dx = val (px Q) - val (px P)" and "Dy = val (py Q) - val (py P)"
  define N M where "N = norm2 dx dy" and "M = norm2 Dx Dy"
  define s where "s = val (distance P Q)"
  define \<eta> :: real where "\<eta> = 2 powr (- 1075)"
  have eta: "0 < \<eta>" "\<eta> \<le> 1 / 2 ^ 200" using eta_small by (simp_all add: \<eta>_def)
  note V = distance_value[OF fin nc, folded dx_def dy_def s_def N_def]
  have "4835703278458517 / 2 ^ 82 \<le> max \<bar>dx\<bar> \<bar>dy\<bar>"
    unfolding dx_def dy_def using fin nc by (rule not_coincide_delta)
  then have Nlow: "4835703278458517 / 2 ^ 82 \<le> N"
    unfolding N_def using norm2_ge_max[of dx dy] by linarith
  have ex: "\<bar>dx - Dx\<bar> \<le> \<bar>Dx\<bar> / 2 ^ 53 + \<eta>" and ey: "\<bar>dy - Dy\<bar> \<le> \<bar>Dy\<bar> / 2 ^ 53 + \<eta>"
    unfolding dx_def dy_def Dx_def Dy_def \<eta>_def by (rule delta_err)+
  have sum: "\<bar>Dx\<bar> + \<bar>Dy\<bar> \<le> 3 / 2 * M" unfolding M_def by (rule norm2_sum_le)
  have NM: "N \<le> M + \<bar>dx - Dx\<bar> + \<bar>dy - Dy\<bar>" unfolding N_def M_def by (rule norm2_perturb)
  have MN: "M \<le> N + \<bar>Dx - dx\<bar> + \<bar>Dy - dy\<bar>" unfolding N_def M_def by (rule norm2_perturb)
  have M0: "0 \<le> M" unfolding M_def by (rule norm2_nonneg)
  have N0: "0 \<le> N" unfolding N_def by (rule norm2_nonneg)
  have e1: "\<bar>dx - Dx\<bar> + \<bar>dy - Dy\<bar> \<le> 3 / 2 * M / 2 ^ 53 + 2 * \<eta>"
    using ex ey sum by (simp add: field_simps)
  have e1': "\<bar>Dx - dx\<bar> + \<bar>Dy - dy\<bar> \<le> 3 / 2 * M / 2 ^ 53 + 2 * \<eta>"
    using e1 by (simp add: abs_minus_commute)
  have N_hi: "N \<le> M + 3 / 2 * M / 2 ^ 53 + 2 * \<eta>" using NM e1 by linarith
  have N_lo: "M - 3 / 2 * M / 2 ^ 53 - 2 * \<eta> \<le> N" using MN e1' by linarith
  have Mlow: "4835703278458517 / 2 ^ 83 \<le> M"
    using N_hi Nlow eta M0 by (simp add: field_simps)
  have small: "2 * \<eta> \<le> M / 2 ^ 56" using Mlow eta(2) by simp
  have Nlo: "M * (1 - 2 / 2 ^ 53) \<le> N" using N_lo small M0 by (simp add: field_simps)
  have Nhi: "N \<le> M * (1 + 2 / 2 ^ 53)" using N_hi small M0 by (simp add: field_simps)
  have "M * (1 - 2 / 2 ^ 53) * (1 - 10 / 2 ^ 53) \<le> N * (1 - 10 / 2 ^ 53)"
    using Nlo by (rule mult_right_mono) simp
  moreover have "M * (1 - 12 / 2 ^ 53) \<le> M * ((1 - 2 / 2 ^ 53) * (1 - 10 / 2 ^ 53))"
    using _ M0 by (rule mult_left_mono) simp
  ultimately have lo: "M * (1 - 12 / 2 ^ 53) \<le> s" using V(1) by (simp add: mult.assoc)
  have "N * (1 + 12 / 2 ^ 53) \<le> M * (1 + 2 / 2 ^ 53) * (1 + 12 / 2 ^ 53)"
    using Nhi by (rule mult_right_mono) simp
  moreover have "M * ((1 + 2 / 2 ^ 53) * (1 + 12 / 2 ^ 53)) \<le> M * (1 + 15 / 2 ^ 53)"
    using _ M0 by (rule mult_left_mono) simp
  ultimately have hi: "s \<le> M * (1 + 15 / 2 ^ 53)" using V(2) by (simp add: mult.assoc)
  show "exact_dist P Q * (1 - 12 / 2 ^ 53) \<le> val (distance P Q)"
    unfolding exact_dist_def Dx_def[symmetric] Dy_def[symmetric] M_def[symmetric] s_def[symmetric]
    by (rule lo)
  show "val (distance P Q) \<le> exact_dist P Q * (1 + 15 / 2 ^ 53)"
    unfolding exact_dist_def Dx_def[symmetric] Dy_def[symmetric] M_def[symmetric] s_def[symmetric]
    by (rule hi)
  show "4835703278458517 / 2 ^ 83 \<le> exact_dist P Q"
    unfolding exact_dist_def Dx_def[symmetric] Dy_def[symmetric] M_def[symmetric] by (rule Mlow)
qed

lemma exact_dist_triangle: "exact_dist P Q \<le> exact_dist P R + exact_dist R Q"
proof -
  have "norm2 ((val (px R) - val (px P)) + (val (px Q) - val (px R)))
              ((val (py R) - val (py P)) + (val (py Q) - val (py R)))
        \<le> exact_dist P R + exact_dist R Q"
    unfolding exact_dist_def by (rule norm2_triangle)
  then show ?thesis by (simp add: exact_dist_def)
qed

lemma side_le_sum:
  assumes "isFinite (distance P Q)" "\<not> coincide P Q"
    and "isFinite (distance P R)" "\<not> coincide P R"
    and "isFinite (distance R Q)" "\<not> coincide R Q"
  shows "val (distance P Q) \<le> (val (distance P R) + val (distance R Q)) * (1 + 1 / 2 ^ 48)"
proof -
  define c b a where "c = val (distance P Q)" and "b = val (distance P R)" and "a = val (distance R Q)"
  define Mc Mb Ma where "Mc = exact_dist P Q" and "Mb = exact_dist P R" and "Ma = exact_dist R Q"
  have 1: "c \<le> Mc * (1 + 15 / 2 ^ 53)"
    unfolding c_def Mc_def using assms(1,2) by (rule side_vs_exact(2))
  have 2: "Mb * (1 - 12 / 2 ^ 53) \<le> b" "0 \<le> Mb"
    unfolding b_def Mb_def using side_vs_exact(1,3)[OF assms(3,4)] by simp_all
  have 3: "Ma * (1 - 12 / 2 ^ 53) \<le> a" "0 \<le> Ma"
    unfolding a_def Ma_def using side_vs_exact(1,3)[OF assms(5,6)] by simp_all
  have 4: "Mc \<le> Mb + Ma" unfolding Mc_def Mb_def Ma_def by (rule exact_dist_triangle)
  have "c \<le> (Mb + Ma) * (1 + 15 / 2 ^ 53)" using 1 4 by (simp add: field_simps)
  moreover have "(Mb + Ma) * (1 + 15 / 2 ^ 53) \<le> (Mb + Ma) * (1 - 12 / 2 ^ 53) * (1 + 1 / 2 ^ 48)"
    using 2(2) 3(2) by (simp add: field_simps)
  moreover have "(Mb + Ma) * (1 - 12 / 2 ^ 53) * (1 + 1 / 2 ^ 48) \<le> (b + a) * (1 + 1 / 2 ^ 48)"
    using 2(1) 3(1) by (simp add: field_simps)
  ultimately show ?thesis unfolding c_def b_def a_def by linarith
qed

lemma side_lower:
  assumes "isFinite (distance P Q)" "\<not> coincide P Q"
  shows "1 / 2 ^ 31 \<le> val (distance P Q)"
proof -
  have "4835703278458517 / 2 ^ 82 \<le> val (distance P Q)"
    using not_coincide_delta[OF assms] distance_value(4)[OF assms] by linarith
  then show ?thesis by simp
qed

lemma distance_is_double: "isFinite (distance P Q) \<Longrightarrow> \<not> coincide P Q \<Longrightarrow> is_double (val (distance P Q))"
  by (rule distance_value(3))

lemma rnd_Finite_round: "rnd v = Finite w \<Longrightarrow> round_double v = w"
  by (simp add: rnd_def Let_def split: if_splits)

lemma Math_hypot_eval:
  assumes "max \<bar>p\<bar> \<bar>q\<bar> = M" "0 < M"
    and "rnd (\<bar>p\<bar> / M) = Finite np" "rnd (np * np) = Finite tp"
    and "rnd (\<bar>q\<bar> / M) = Finite nq" "rnd (nq * nq) = Finite tq"
    and "rnd (tp + tq) = Finite S" "rnd (sqrt S) = Finite r"
  shows "Math_hypot (Finite p) (Finite q) = rnd (r * M)"
proof -
  have nz: "p \<noteq> 0 \<or> q \<noteq> 0" using assms(1,2) by auto
  have "hypot_term M p = tp" "hypot_term M q = tq"
    unfolding hypot_term_def
    using rnd_Finite_round[OF assms(3)] rnd_Finite_round[OF assms(4)]
      rnd_Finite_round[OF assms(5)] rnd_Finite_round[OF assms(6)] by simp_all
  then have "hypot_sum p q = S"
    unfolding hypot_sum_def assms(1) using rnd_Finite_round[OF assms(7)] by simp
  then show ?thesis
    unfolding Math_hypot_form[OF nz] assms(1) using rnd_Finite_round[OF assms(8)] by simp
qed

lemma Math_hypot_axis:
  assumes "0 < M" "\<bar>p\<bar> = M \<and> q = 0 \<or> p = 0 \<and> \<bar>q\<bar> = M"
  shows "Math_hypot (Finite p) (Finite q) = rnd M"
proof -
  have m: "max \<bar>p\<bar> \<bar>q\<bar> = M" using assms by auto
  have t: "rnd (\<bar>p\<bar> / M) = Finite (\<bar>p\<bar> / M)" "rnd (\<bar>q\<bar> / M) = Finite (\<bar>q\<bar> / M)"
    "rnd (\<bar>p\<bar> / M * (\<bar>p\<bar> / M)) = Finite (\<bar>p\<bar> / M * (\<bar>p\<bar> / M))"
    "rnd (\<bar>q\<bar> / M * (\<bar>q\<bar> / M)) = Finite (\<bar>q\<bar> / M * (\<bar>q\<bar> / M))"
    "rnd (\<bar>p\<bar> / M * (\<bar>p\<bar> / M) + \<bar>q\<bar> / M * (\<bar>q\<bar> / M)) = Finite 1"
    using assms by (auto simp add: rnd_zero rnd_one)
  have s: "rnd (sqrt 1) = Finite 1" by (simp add: rnd_one)
  show ?thesis using Math_hypot_eval[OF m assms(1) t(1) t(3) t(2) t(4) t(5) s] by simp
qed

lemma rnd_sqrt_exact: "0 \<le> r \<Longrightarrow> r * r = S \<Longrightarrow> rnd r = Finite r \<Longrightarrow> rnd (sqrt S) = Finite r"
proof -
  assume r: "0 \<le> r" "r * r = S" "rnd r = Finite r"
  have "sqrt S = sqrt (r * r)" by (simp only: r(2))
  also have "\<dots> = r" using r(1) by simp
  finally show ?thesis using r(3) by (simp only:)
qed

lemma hypot_345: "Math_hypot (Finite (- 4)) (Finite 3) = Finite 5"
proof -
  have 1: "rnd (\<bar>- 4\<bar> / 4) = Finite 1" by (simp add: rnd_one)
  have 2: "rnd (1 * 1) = Finite 1" by (simp add: rnd_one)
  have 3: "rnd (\<bar>3\<bar> / 4) = Finite (3 / 4)" using rnd_div_pow2[of 3 2] by simp
  have 4: "rnd (3 / 4 * (3 / 4)) = Finite (9 / 16)" using rnd_div_pow2[of 9 4] by simp
  have 5: "rnd (1 + 9 / 16) = Finite (25 / 16)" using rnd_div_pow2[of 25 4] by simp
  have "rnd (5 / 4) = Finite (5 / 4)" using rnd_div_pow2[of 5 2] by simp
  then have 6: "rnd (sqrt (25 / 16)) = Finite (5 / 4)" by (intro rnd_sqrt_exact) simp_all
  show ?thesis using Math_hypot_eval[OF _ _ 1 2 3 4 5 6] by (simp add: rnd_numeral)
qed

section \<open>The range of \<open>Math.acos\<close>\<close>






lemma ac_r1: "rnd (2 * (4967757600021511 / 2 ^ 106)) = Finite (4967757600021511 / 2 ^ 105)"
proof -
  have "rnd (2 * (4967757600021511 / 2 ^ 106)) = Finite (of_int 4967757600021511 * 2 powr of_int (-53 - 52))"
    by (rule rnd_eqI) (simp_all add: powr_minus)
  then show ?thesis by (simp add: powr_minus)
qed

lemma ac_r2: "rnd ((884279719003555 / 2 ^ 48) + (4967757600021511 / 2 ^ 105)) = Finite (884279719003555 / 2 ^ 48)"
proof -
  have "rnd ((884279719003555 / 2 ^ 48) + (4967757600021511 / 2 ^ 105)) = Finite (of_int 7074237752028440 * 2 powr of_int (1 - 52))"
    by (rule rnd_eqI) (simp_all add: powr_minus)
  then show ?thesis by (simp add: powr_minus)
qed

lemma ac_r3: "rnd ((884279719003555 / 2 ^ 49) + (4967757600021511 / 2 ^ 106)) = Finite (884279719003555 / 2 ^ 49)"
proof -
  have "rnd ((884279719003555 / 2 ^ 49) + (4967757600021511 / 2 ^ 106)) = Finite (of_int 7074237752028440 * 2 powr of_int (0 - 52))"
    by (rule rnd_eqI) (simp_all add: powr_minus)
  then show ?thesis by (simp add: powr_minus)
qed





lemma acos_one: "Math_acos (Finite 1) = Finite 0"
  by simp

lemma acos_minus_one: "Math_acos (Finite (- 1)) = Finite pi_dbl"
  using ac_r1 ac_r2 by (simp add: pi_dbl_def pio2_lo_def)

lemma acos_zero: "Math_acos (Finite 0) = Finite (884279719003555 / 2 ^ 49)"
  using ac_r3 by (simp add: pio2_hi_def pio2_lo_def)

declare Math_acos.simps(1) [simp del]








section \<open>The range of the angles\<close>








section \<open>The sides of a Valid result\<close>

lemma valid_sides:
  assumes "valid (triangleData (A, B, C))"
  shows "\<not> coincide A B" "\<not> coincide A C" "\<not> coincide B C"
    "isFinite (distance B C)" "isFinite (distance A C)" "isFinite (distance A B)"
    "sides (triangleData (A, B, C)) =
       Some \<lparr>side_a = Finite (val (distance B C)), side_b = Finite (val (distance A C)),
             side_c = Finite (val (distance A B))\<rparr>"
proof -
  from assms have v: "\<not> any_coincide A B C" "sides_finite A B C" "\<not> js_le (unsigned_area A B C) EPS"
    by (simp_all add: valid_iff)
  show "\<not> coincide A B" "\<not> coincide A C" "\<not> coincide B C"
    using v(1) by (simp_all add: any_coincide_def)
  show f: "isFinite (distance B C)" "isFinite (distance A C)" "isFinite (distance A B)"
    using v(2) by (simp_all add: sides_finite_def)
  show "sides (triangleData (A, B, C)) =
       Some \<lparr>side_a = Finite (val (distance B C)), side_b = Finite (val (distance A C)),
             side_c = Finite (val (distance A B))\<rparr>"
    using v f by (simp add: triangleData_valid isFinite_val[symmetric])
qed

section \<open>Exchanging two points\<close>

lemma triangle_up_to_rounding:
  assumes "\<not> any_coincide A B C" "sides_finite A B C"
  shows "val (distance B C) \<le> (val (distance A C) + val (distance A B)) * (1 + 1 / 2 ^ 48)"
    and "val (distance A C) \<le> (val (distance B C) + val (distance A B)) * (1 + 1 / 2 ^ 48)"
    and "val (distance A B) \<le> (val (distance B C) + val (distance A C)) * (1 + 1 / 2 ^ 48)"
proof -
  have nc: "\<not> coincide A B" "\<not> coincide A C" "\<not> coincide B C"
    using assms(1) by (simp_all add: any_coincide_def)
  have f: "isFinite (distance B C)" "isFinite (distance A C)" "isFinite (distance A B)"
    using assms(2) by (simp_all add: sides_finite_def)
  have nBA: "\<not> coincide B A" and nCB: "\<not> coincide C B" using nc coincide_sym by blast+
  have a: "val (distance B C) \<le> (val (distance B A) + val (distance A C)) * (1 + 1 / 2 ^ 48)"
    using f(1) nc(3) f(3)[unfolded distance_sym[of A B]] nBA f(2) nc(2) by (rule side_le_sum)
  have b: "val (distance A C) \<le> (val (distance A B) + val (distance B C)) * (1 + 1 / 2 ^ 48)"
    using f(2) nc(2) f(3) nc(1) f(1) nc(3) by (rule side_le_sum)
  have c: "val (distance A B) \<le> (val (distance A C) + val (distance C B)) * (1 + 1 / 2 ^ 48)"
    using f(3) nc(1) f(2) nc(2) f(1)[unfolded distance_sym[of B C]] nCB by (rule side_le_sum)
  show "val (distance B C) \<le> (val (distance A C) + val (distance A B)) * (1 + 1 / 2 ^ 48)"
    using a by (simp add: distance_sym[of B A] add.commute)
  show "val (distance A B) \<le> (val (distance B C) + val (distance A C)) * (1 + 1 / 2 ^ 48)"
    using c by (simp add: distance_sym[of C B] add.commute)
  show "val (distance A C) \<le> (val (distance B C) + val (distance A B)) * (1 + 1 / 2 ^ 48)"
    using b by (simp add: add.commute)
qed

lemma sides_cosines_sym:
  assumes "\<not> any_coincide A B C" "sides_finite A B C"
  shows "law_of_cosines (distance A C) (distance B C) (distance A B) =
         law_of_cosines (distance B C) (distance A C) (distance A B)"
    and "law_of_cosines (distance A B) (distance A C) (distance B C) =
         law_of_cosines (distance A C) (distance A B) (distance B C)"
    and "law_of_cosines (distance A B) (distance B C) (distance A C) =
         law_of_cosines (distance B C) (distance A B) (distance A C)"
proof -
  define a b c where "a = val (distance B C)" and "b = val (distance A C)" and "c = val (distance A B)"
  have nc: "\<not> coincide A B" "\<not> coincide A C" "\<not> coincide B C"
    using assms(1) by (simp_all add: any_coincide_def)
  have f: "isFinite (distance B C)" "isFinite (distance A C)" "isFinite (distance A B)"
    using assms(2) by (simp_all add: sides_finite_def)
  have e: "distance B C = Finite a" "distance A C = Finite b" "distance A B = Finite c"
    using f by (simp_all add: a_def b_def c_def isFinite_val[symmetric])
  have d: "is_double a" "is_double b" "is_double c"
    unfolding a_def b_def c_def using f nc by (simp_all add: distance_is_double)
  have "1 / 2 ^ 31 \<le> a" "1 / 2 ^ 31 \<le> b" "1 / 2 ^ 31 \<le> c"
    unfolding a_def b_def c_def
    by (rule side_lower[OF f(1) nc(3)] side_lower[OF f(2) nc(2)] side_lower[OF f(3) nc(1)])+
  then have pos: "0 < a" "0 < b" "0 < c"
    by (smt (verit) divide_pos_pos zero_less_power zero_less_numeral zero_less_one)+
  note T = triangle_up_to_rounding[OF assms, folded a_def b_def c_def]
  have t: "a \<le> (b + c) * (1 + 1 / 2 ^ 48)" "a \<le> (c + b) * (1 + 1 / 2 ^ 48)"
    "b \<le> (a + c) * (1 + 1 / 2 ^ 48)" "b \<le> (c + a) * (1 + 1 / 2 ^ 48)"
    "c \<le> (a + b) * (1 + 1 / 2 ^ 48)" "c \<le> (b + a) * (1 + 1 / 2 ^ 48)"
    using T by (simp_all add: add.commute)
  show "law_of_cosines (distance A C) (distance B C) (distance A B) =
         law_of_cosines (distance B C) (distance A C) (distance A B)"
    unfolding e using d(2) pos(2) d(1) pos(1) less_imp_le[OF pos(3)] t(3) t(1)
    by (rule law_of_cosines_sym)
  show "law_of_cosines (distance A B) (distance A C) (distance B C) =
         law_of_cosines (distance A C) (distance A B) (distance B C)"
    unfolding e using d(3) pos(3) d(2) pos(2) less_imp_le[OF pos(1)] t(6) t(4)
    by (rule law_of_cosines_sym)
  show "law_of_cosines (distance A B) (distance B C) (distance A C) =
         law_of_cosines (distance B C) (distance A B) (distance A C)"
    unfolding e using d(3) pos(3) d(1) pos(1) less_imp_le[OF pos(2)] t(5) t(2)
    by (rule law_of_cosines_sym)
qed

lemma swap_ab_invalid: "swap_ab (invalid reason) = invalid reason"
  by (simp add: swap_ab_def invalid_def)

lemma triangleData_swap_ab: "triangleData (B, A, C) = swap_ab (triangleData (A, B, C))"
proof (cases "any_coincide A B C")
  case True
  then show ?thesis
    by (simp add: triangleData_coincide any_coincide_swap(1) swap_ab_invalid)
next
  case nc: False
  show ?thesis
  proof (cases "sides_finite A B C")
    case False
    with nc show ?thesis
      by (simp add: triangleData_nonfinite any_coincide_swap(1) sides_finite_swap(1) swap_ab_invalid)
  next
    case sf: True
    show ?thesis
    proof (cases "js_le (unsigned_area A B C) EPS")
      case True
      with nc sf show ?thesis
        by (simp add: triangleData_degenerate any_coincide_swap(1) sides_finite_swap(1)
            unsigned_area_swap swap_ab_invalid)
    next
      case ar: False
      have nc': "\<not> any_coincide B A C" using nc by (simp add: any_coincide_swap(1))
      have sf': "sides_finite B A C" using sf by (simp add: sides_finite_swap(1))
      have ar': "\<not> js_le (unsigned_area B A C) EPS" using ar by (simp add: unsigned_area_swap)
      have p: "js_add (js_add (distance A C) (distance B C)) (distance A B) =
               js_add (js_add (distance B C) (distance A C)) (distance A B)"
        using js_add_commute[of "distance A C" "distance B C"] by simp
      show ?thesis
        unfolding triangleData_valid[OF nc sf ar] triangleData_valid[OF nc' sf' ar']
        by (simp add: swap_ab_def distance_sym[of B A] midpoint_sym[of B A] unsigned_area_swap p
            sides_cosines_sym(1)[OF nc sf])
    qed
  qed
qed

lemma triangleData_swap_bc:
  assumes "valid (triangleData (A, B, C))" "valid (triangleData (A, C, B))"
  shows "sides (triangleData (A, C, B)) = map_option swap_bc_sides (sides (triangleData (A, B, C)))"
    and "angles (triangleData (A, C, B)) = map_option swap_bc_angles (angles (triangleData (A, B, C)))"
proof -
  from assms(1) have v: "\<not> any_coincide A B C" "sides_finite A B C" "\<not> js_le (unsigned_area A B C) EPS"
    by (simp_all add: valid_iff)
  from assms(2) have v': "\<not> any_coincide A C B" "sides_finite A C B" "\<not> js_le (unsigned_area A C B) EPS"
    by (simp_all add: valid_iff)
  show "sides (triangleData (A, C, B)) = map_option swap_bc_sides (sides (triangleData (A, B, C)))"
    unfolding triangleData_valid[OF v] triangleData_valid[OF v']
    by (simp add: swap_bc_sides_def distance_sym[of C B])
  show "angles (triangleData (A, C, B)) = map_option swap_bc_angles (angles (triangleData (A, B, C)))"
    unfolding triangleData_valid[OF v] triangleData_valid[OF v']
    by (simp add: swap_bc_angles_def distance_sym[of C B] sides_cosines_sym(2)[OF v(1,2)])
qed

lemma triangleData_swap_ac:
  assumes "valid (triangleData (A, B, C))" "valid (triangleData (C, B, A))"
  shows "sides (triangleData (C, B, A)) = map_option swap_ac_sides (sides (triangleData (A, B, C)))"
    and "angles (triangleData (C, B, A)) = map_option swap_ac_angles (angles (triangleData (A, B, C)))"
proof -
  from assms(1) have v: "\<not> any_coincide A B C" "sides_finite A B C" "\<not> js_le (unsigned_area A B C) EPS"
    by (simp_all add: valid_iff)
  from assms(2) have v': "\<not> any_coincide C B A" "sides_finite C B A" "\<not> js_le (unsigned_area C B A) EPS"
    by (simp_all add: valid_iff)
  show "sides (triangleData (C, B, A)) = map_option swap_ac_sides (sides (triangleData (A, B, C)))"
    unfolding triangleData_valid[OF v] triangleData_valid[OF v']
    by (simp add: swap_ac_sides_def distance_sym[of C B] distance_sym[of C A] distance_sym[of B A])
  show "angles (triangleData (C, B, A)) = map_option swap_ac_angles (angles (triangleData (A, B, C)))"
    unfolding triangleData_valid[OF v] triangleData_valid[OF v']
    by (simp add: swap_ac_angles_def distance_sym[of C B] distance_sym[of C A] distance_sym[of B A]
        sides_cosines_sym[OF v(1,2)])
qed

section \<open>Evaluation at concrete points\<close>

lemma coincide_eval:
  assumes "rnd (ux - vx) = Finite dx" "rnd (uy - vy) = Finite dy"
  shows "coincide (pt ux uy) (pt vx vy) \<longleftrightarrow>
    \<bar>dx\<bar> < 4835703278458517 / 2 ^ 82 \<and> \<bar>dy\<bar> < 4835703278458517 / 2 ^ 82"
  by (simp only: coincide_def pt_def Pt.select_convs js_sub.simps assms Math_abs.simps EPS_val js_lt.simps)

lemma distance_eval:
  assumes "rnd (vx - ux) = Finite dx" "rnd (vy - uy) = Finite dy"
    and "Math_hypot (Finite dx) (Finite dy) = Finite h"
  shows "distance (pt ux uy) (pt vx vy) = Finite h"
  by (simp only: distance_def pt_def Pt.select_convs js_sub.simps assms)

lemma area_eval:
  assumes "rnd (vy - wy) = Finite d1" "rnd (ux * d1) = Finite m1"
    and "rnd (wy - uy) = Finite d2" "rnd (vx * d2) = Finite m2"
    and "rnd (uy - vy) = Finite d3" "rnd (wx * d3) = Finite m3"
    and "rnd (m1 + m2) = Finite s1" "rnd (s1 + m3) = Finite s2"
    and "rnd (\<bar>s2\<bar> / 2) = Finite ar"
  shows "unsigned_area (pt ux uy) (pt vx vy) (pt wx wy) = Finite ar"
proof -
  have "doubleSignedArea (pt ux uy) (pt vx vy) (pt wx wy) = Finite s2"
    by (simp only: doubleSignedArea_def pt_def Pt.select_convs js_sub.simps js_mul.simps js_add.simps assms)
  then show ?thesis using assms(9) by (simp add: unsigned_area_def)
qed

lemma cosine_eval:
  assumes "rnd (p * p) = Finite pp" "rnd (q * q) = Finite qq" "rnd (pp + qq) = Finite s"
    and "rnd (r * r) = Finite rr" "rnd (s - rr) = Finite n"
    and "rnd (2 * p) = Finite tp" "rnd (tp * q) = Finite d" "d \<noteq> 0" "rnd (n / d) = Finite x"
  shows "law_of_cosines (Finite p) (Finite q) (Finite r) = clamp (Finite x) (Finite (- 1)) (Finite 1)"
proof -
  have "js_div (Finite n) (Finite d) = Finite x" using assms(8,9) by simp
  then show ?thesis
    by (simp only: law_of_cosines_def js_mul.simps js_add.simps js_sub.simps assms)
qed

lemma toDeg_eval:
  assumes "rnd (r * 180) = Finite t" "rnd (t / (884279719003555 / 2 ^ 48)) = Finite d"
  shows "toDeg (Finite r) = Finite d"
proof -
  have "js_div (Finite t) (Finite (884279719003555 / 2 ^ 48)) = Finite d" using assms(2) by simp
  then show ?thesis by (simp only: toDeg_def Math_PI_def js_mul.simps assms(1))
qed

lemma perimeter_eval:
  assumes "rnd (a + b) = Finite s" "rnd (s + c) = Finite p"
  shows "js_add (js_add (Finite a) (Finite b)) (Finite c) = Finite p"
  by (simp only: js_add.simps assms)

lemma acos_ratio_eval:
  assumes "rnd (z * pS5) = Finite e5" "rnd (pS4 + e5) = Finite a4"
    and "rnd (z * a4) = Finite e4" "rnd (pS3 + e4) = Finite a3"
    and "rnd (z * a3) = Finite e3" "rnd (pS2 + e3) = Finite a2"
    and "rnd (z * a2) = Finite e2" "rnd (pS1 + e2) = Finite a1"
    and "rnd (z * a1) = Finite e1" "rnd (pS0 + e1) = Finite a0"
    and "rnd (z * a0) = Finite p"
    and "rnd (z * qS4) = Finite f4" "rnd (qS3 + f4) = Finite b3"
    and "rnd (z * b3) = Finite f3" "rnd (qS2 + f3) = Finite b2"
    and "rnd (z * b2) = Finite f2" "rnd (qS1 + f2) = Finite b1"
    and "rnd (z * b1) = Finite f1" "rnd (1 + f1) = Finite q"
    and "q \<noteq> 0" "rnd (p / q) = Finite r"
  shows "acos_ratio (Finite z) = Finite r"
proof -
  have "js_div (Finite p) (Finite q) = Finite r" using assms(20,21) by simp
  then show ?thesis
    by (simp only: acos_ratio_def Let_def js_mul.simps js_add.simps assms)
qed

lemma clear_low_word_eval:
  fixes k n :: int
  assumes "2 powr of_int k \<le> v" "v < 2 powr of_int (k + 1)" "- 1022 \<le> k"
    and "of_int n \<le> v / 2 powr of_int (k - 20)" "v / 2 powr of_int (k - 20) < of_int n + 1"
  shows "clear_low_word (Finite v) = Finite (of_int n * 2 powr of_int (k - 20))"
proof -
  have v0: "0 < v" using assms(1) by (smt (verit) powr_gt_zero)
  then have a: "\<bar>v\<bar> = v" by simp
  have "\<lfloor>log 2 \<bar>v\<bar>\<rfloor> = k" using assms(1,2) a by (intro floor_log2_eq) simp_all
  then have e: "max \<lfloor>log 2 \<bar>v\<bar>\<rfloor> (- 1022) = k" using assms(3) by simp
  have f: "\<lfloor>v / 2 powr of_int (k - 20)\<rfloor> = n" using assms(4,5) by (simp add: floor_eq_iff)
  have g: "sgn v = 1" using v0 by simp
  have "clear_low_word (Finite v) =
      Finite (sgn v * (of_int \<lfloor>\<bar>v\<bar> / 2 powr of_int (max \<lfloor>log 2 \<bar>v\<bar>\<rfloor> (- 1022) - 20)\<rfloor> *
        2 powr of_int (max \<lfloor>log 2 \<bar>v\<bar>\<rfloor> (- 1022) - 20)))"
    using v0 by (simp add: clear_low_word_def Let_def)
  also have "\<dots> = Finite (of_int n * 2 powr of_int (k - 20))"
    using e f by (simp add: a g)
  finally show ?thesis .
qed

lemma acos_pos_eval:
  assumes "1 / 2 \<le> x" "x < 1"
    and "rnd (1 - x) = Finite y" "rnd (y * (1 / 2)) = Finite z" "0 \<le> z"
    and "rnd (sqrt z) = Finite s" "clear_low_word (Finite s) = Finite df"
    and "rnd (df * df) = Finite dd" "rnd (z - dd) = Finite n" "rnd (s + df) = Finite dn" "dn \<noteq> 0"
    and "rnd (n / dn) = Finite c" "acos_ratio (Finite z) = Finite r"
    and "rnd (r * s) = Finite rs" "rnd (rs + c) = Finite w" "rnd (df + w) = Finite t"
    and "rnd (2 * t) = Finite res"
  shows "Math_acos (Finite x) = Finite res"
proof -
  have b: "\<not> 1 \<le> \<bar>x\<bar>" "\<not> \<bar>x\<bar> < 1 / 2" "\<not> x < 0" using assms(1,2) by simp_all
  have ms: "Math_sqrt (Finite z) = Finite s" using assms(5,6) by simp
  have dv: "js_div (Finite n) (Finite dn) = Finite c" using assms(11,12) by simp
  show ?thesis
    unfolding Math_acos.simps(1) using b
    by (simp only: if_False Let_def js_sub.simps js_mul.simps js_add.simps assms(3,4) ms assms(7,8,9,10) dv
        assms(13,14,15,16,17))
qed

lemma acos_neg_eval:
  assumes "x \<le> - (1 / 2)" "- 1 < x"
    and "rnd (1 + x) = Finite y" "rnd (y * (1 / 2)) = Finite z" "0 \<le> z"
    and "rnd (sqrt z) = Finite s" "acos_ratio (Finite z) = Finite r"
    and "rnd (r * s) = Finite rs" "rnd (rs - pio2_lo) = Finite w" "rnd (s + w) = Finite t"
    and "rnd (2 * t) = Finite t2" "rnd (pi_dbl - t2) = Finite res"
  shows "Math_acos (Finite x) = Finite res"
proof -
  have b: "\<not> 1 \<le> \<bar>x\<bar>" "\<not> \<bar>x\<bar> < 1 / 2" "x < 0" using assms(1,2) by simp_all
  have ms: "Math_sqrt (Finite z) = Finite s" using assms(5,6) by simp
  show ?thesis
    unfolding Math_acos.simps(1) using b
    by (simp only: if_False if_True Let_def js_sub.simps js_mul.simps js_add.simps assms(3,4) ms
        assms(7,8,9,10,11,12))
qed

lemma acos_mid_eval:
  assumes "\<bar>x\<bar> < 1 / 2" "(1 + 1 / 2 ^ 20) / 2 ^ 57 \<le> \<bar>x\<bar>"
    and "rnd (x * x) = Finite z" "acos_ratio (Finite z) = Finite r"
    and "rnd (r * x) = Finite t1" "rnd (pio2_lo - t1) = Finite t2" "rnd (x - t2) = Finite t3"
    and "rnd (pio2_hi - t3) = Finite res"
  shows "Math_acos (Finite x) = Finite res"
proof -
  have b: "\<not> 1 \<le> \<bar>x\<bar>" "\<bar>x\<bar> < 1 / 2" "\<not> \<bar>x\<bar> < (1 + 1 / 2 ^ 20) / 2 ^ 57" using assms(1,2) by simp_all
  show ?thesis
    unfolding Math_acos.simps(1) using b
    by (simp only: if_False if_True Let_def js_sub.simps js_mul.simps js_add.simps assms(3,4,5,6,7,8))
qed

lemma ex_coincident_coincide: "any_coincide (pt 0 0) (pt 0 0) (pt 1 1)"
  by (simp add: js_eval)

lemma ex_nan_not_coincide: "\<not> any_coincide \<lparr>px = NaN, py = Finite 0\<rparr> (pt 1 0) (pt 0 1)"
  by (simp add: js_eval)

lemma ex_nan_not_finite: "\<not> sides_finite \<lparr>px = NaN, py = Finite 0\<rparr> (pt 1 0) (pt 0 1)"
  by (simp add: js_eval)

lemma hypot_axis_int:
  "Math_hypot (Finite 1) (Finite 0) = Finite 1"
  "Math_hypot (Finite 2) (Finite 0) = Finite 2"
proof -
  have "Math_hypot (Finite 1) (Finite 0) = rnd 1" by (rule Math_hypot_axis) simp_all
  then show "Math_hypot (Finite 1) (Finite 0) = Finite 1" by (simp only: rnd_one)
  have "Math_hypot (Finite 2) (Finite 0) = rnd 2" by (rule Math_hypot_axis) simp_all
  then show "Math_hypot (Finite 2) (Finite 0) = Finite 2" by (simp add: rnd_numeral)
qed

lemma ex_collinear_not_coincide: "\<not> any_coincide (pt 0 0) (pt 1 0) (pt 2 0)"
  by (simp add: js_eval)

lemma ex_collinear_finite: "sides_finite (pt 0 0) (pt 1 0) (pt 2 0)"
  by (simp add: js_eval hypot_axis_int)

lemma ex_collinear_area: "unsigned_area (pt 0 0) (pt 1 0) (pt 2 0) = Finite 0"
  by (simp add: js_eval)

section \<open>A triangle whose shoelace products overflow\<close>

lemma rnd_big: "\<bar>m\<bar> < 2 ^ 53 \<Longrightarrow> rnd (of_int m * big) = Finite (of_int m * big)"
  unfolding big_def by (rule rnd_pow2) simp_all

lemma rnd_big_sq:
  "m \<noteq> 0 \<Longrightarrow> \<bar>m\<bar> < 2 ^ 53 \<Longrightarrow> rnd (of_int m * (big * big)) = (if 0 < m then PosInf else NegInf)"
  using rnd_overflow[of m 1024] by (simp add: big_def power_add[symmetric] del: power_numeral)

lemma big_pos: "0 < big" by (simp add: big_def del: power_numeral)

lemma big_gt: "1 < big" by (simp add: big_def del: power_numeral)

lemma EPS_lt_big: "4835703278458517 / 2 ^ 82 < big"
proof -
  have "(4835703278458517 / 2 ^ 82 :: real) < 1" by simp
  then show ?thesis using big_gt by linarith
qed

lemma big_facts:
  "rnd big = Finite big"
  "rnd (- big) = Finite (- big)"
  "rnd (3 * big) = Finite (3 * big)"
  "rnd (- (3 * big)) = Finite (- (3 * big))"
  "rnd (4 * big) = Finite (4 * big)"
  "rnd (- (4 * big)) = Finite (- (4 * big))"
  "rnd (5 * big) = Finite (5 * big)"
  "rnd (- (big * (3 * big))) = NegInf"
  "rnd (15 * (big * big)) = PosInf"
  using rnd_big[of 1] rnd_big[of "- 1"] rnd_big[of 3] rnd_big[of "- 3"] rnd_big[of 4]
    rnd_big[of "- 4"] rnd_big[of 5] rnd_big_sq[of "- 3"] rnd_big_sq[of 15]
  by (simp_all add: mult.left_commute)

lemma big_hypot:
  "Math_hypot (Finite (- (4 * big))) (Finite (3 * big)) = Finite (5 * big)"
  "Math_hypot (Finite 0) (Finite (3 * big)) = Finite (3 * big)"
  "Math_hypot (Finite (4 * big)) (Finite 0) = Finite (4 * big)"
proof -
  have m: "max \<bar>- (4 * big)\<bar> \<bar>3 * big\<bar> = 4 * big" "0 < 4 * big" using big_pos by simp_all
  have 1: "rnd (\<bar>- (4 * big)\<bar> / (4 * big)) = Finite 1" using big_pos by (simp add: rnd_one)
  have 2: "rnd (1 * 1) = Finite 1" by (simp add: rnd_one)
  have 3: "rnd (\<bar>3 * big\<bar> / (4 * big)) = Finite (3 / 4)" using big_pos rnd_div_pow2[of 3 2] by simp
  have 4: "rnd (3 / 4 * (3 / 4)) = Finite (9 / 16)" using rnd_div_pow2[of 9 4] by simp
  have 5: "rnd (1 + 9 / 16) = Finite (25 / 16)" using rnd_div_pow2[of 25 4] by simp
  have "rnd (5 / 4) = Finite (5 / 4)" using rnd_div_pow2[of 5 2] by simp
  then have 6: "rnd (sqrt (25 / 16)) = Finite (5 / 4)" by (intro rnd_sqrt_exact) simp_all
  show "Math_hypot (Finite (- (4 * big))) (Finite (3 * big)) = Finite (5 * big)"
    using Math_hypot_eval[OF m 1 2 3 4 5 6] by (simp add: big_facts)
  have "Math_hypot (Finite 0) (Finite (3 * big)) = rnd (3 * big)"
    using big_pos by (intro Math_hypot_axis) simp_all
  then show "Math_hypot (Finite 0) (Finite (3 * big)) = Finite (3 * big)" by (simp only: big_facts)
  have "Math_hypot (Finite (4 * big)) (Finite 0) = rnd (4 * big)"
    using big_pos by (intro Math_hypot_axis) simp_all
  then show "Math_hypot (Finite (4 * big)) (Finite 0) = Finite (4 * big)" by (simp only: big_facts)
qed

lemma big_nc: "\<not> any_coincide (pt big 0) (pt (5 * big) 0) (pt big (3 * big))"
  using EPS_lt_big big_pos by (simp add: js_eval big_facts)

lemma big_sf: "sides_finite (pt big 0) (pt (5 * big) 0) (pt big (3 * big))"
  by (simp add: js_eval big_facts big_hypot)

lemma big_area: "unsigned_area (pt big 0) (pt (5 * big) 0) (pt big (3 * big)) = NaN"
  by (simp add: js_eval big_facts)

section \<open>A triangle whose squared sides overflow\<close>






lemma Math_acos_NaN: "Math_acos NaN = NaN"
  by simp


section \<open>The 3-4-5 triangle\<close>

lemma ex_345_r1: "rnd (0 - 4) = Finite (- 4)"
proof -
  have "rnd (0 - 4) = Finite (of_int (- 4503599627370496) * 2 powr of_int (2 - 52))"
    by (rule rnd_eqI) (simp_all add: powr_minus)
  then show ?thesis by (simp add: powr_minus)
qed

lemma ex_345_r2: "rnd (0 - 0) = Finite 0"
  by (simp add: rnd_zero)

lemma ex_345_r3: "rnd (0 - 3) = Finite (- 3)"
proof -
  have "rnd (0 - 3) = Finite (of_int (- 6755399441055744) * 2 powr of_int (1 - 52))"
    by (rule rnd_eqI) (simp_all add: powr_minus)
  then show ?thesis by (simp add: powr_minus)
qed

lemma ex_345_r4: "rnd (4 - 0) = Finite 4"
proof -
  have "rnd (4 - 0) = Finite (of_int 4503599627370496 * 2 powr of_int (2 - 52))"
    by (rule rnd_eqI) (simp_all add: powr_minus)
  then show ?thesis by (simp add: powr_minus)
qed

lemma ex_345_not_coincide: "\<not> any_coincide (pt 0 0) (pt 4 0) (pt 0 3)"
  using coincide_eval[OF ex_345_r1 ex_345_r2] coincide_eval[OF ex_345_r2 ex_345_r3] coincide_eval[OF ex_345_r4 ex_345_r3]
  by (simp add: any_coincide_def)

lemma ex_345_r5: "rnd (3 - 0) = Finite 3"
proof -
  have "rnd (3 - 0) = Finite (of_int 6755399441055744 * 2 powr of_int (1 - 52))"
    by (rule rnd_eqI) (simp_all add: powr_minus)
  then show ?thesis by (simp add: powr_minus)
qed

lemma ex_345_r6: "rnd (\<bar>(- 4)\<bar> / 4) = Finite 1"
proof -
  have "rnd (\<bar>(- 4)\<bar> / 4) = Finite (of_int 4503599627370496 * 2 powr of_int (0 - 52))"
    by (rule rnd_eqI) (simp_all add: powr_minus)
  then show ?thesis by (simp add: powr_minus)
qed

lemma ex_345_r7: "rnd (1 * 1) = Finite 1"
proof -
  have "rnd (1 * 1) = Finite (of_int 4503599627370496 * 2 powr of_int (0 - 52))"
    by (rule rnd_eqI) (simp_all add: powr_minus)
  then show ?thesis by (simp add: powr_minus)
qed

lemma ex_345_r8: "rnd (\<bar>3\<bar> / 4) = Finite (3 / 2 ^ 2)"
proof -
  have "rnd (\<bar>3\<bar> / 4) = Finite (of_int 6755399441055744 * 2 powr of_int (-1 - 52))"
    by (rule rnd_eqI) (simp_all add: powr_minus)
  then show ?thesis by (simp add: powr_minus)
qed

lemma ex_345_r9: "rnd ((3 / 2 ^ 2) * (3 / 2 ^ 2)) = Finite (9 / 2 ^ 4)"
proof -
  have "rnd ((3 / 2 ^ 2) * (3 / 2 ^ 2)) = Finite (of_int 5066549580791808 * 2 powr of_int (-1 - 52))"
    by (rule rnd_eqI) (simp_all add: powr_minus)
  then show ?thesis by (simp add: powr_minus)
qed

lemma ex_345_r10: "rnd (1 + (9 / 2 ^ 4)) = Finite (25 / 2 ^ 4)"
proof -
  have "rnd (1 + (9 / 2 ^ 4)) = Finite (of_int 7036874417766400 * 2 powr of_int (0 - 52))"
    by (rule rnd_eqI) (simp_all add: powr_minus)
  then show ?thesis by (simp add: powr_minus)
qed

lemma ex_345_r12: "rnd ((5 / 2 ^ 2)) = Finite (5 / 2 ^ 2)"
proof -
  have "rnd ((5 / 2 ^ 2)) = Finite (of_int 5629499534213120 * 2 powr of_int (0 - 52))"
    by (rule rnd_eqI) (simp_all add: powr_minus)
  then show ?thesis by (simp add: powr_minus)
qed

lemma ex_345_r11: "rnd (sqrt (25 / 2 ^ 4)) = Finite (5 / 2 ^ 2)"
  using ex_345_r12 by (intro rnd_sqrt_exact) simp_all

lemma ex_345_r13: "rnd ((5 / 2 ^ 2) * 4) = Finite 5"
proof -
  have "rnd ((5 / 2 ^ 2) * 4) = Finite (of_int 5629499534213120 * 2 powr of_int (2 - 52))"
    by (rule rnd_eqI) (simp_all add: powr_minus)
  then show ?thesis by (simp add: powr_minus)
qed

lemma ex_345_hyp1: "Math_hypot (Finite (- 4)) (Finite 3) = Finite 5"
  using Math_hypot_eval[OF _ _ ex_345_r6 ex_345_r7 ex_345_r8 ex_345_r9 ex_345_r10 ex_345_r11] ex_345_r13 by simp

lemma ex_345_r14: "rnd (3) = Finite 3"
proof -
  have "rnd (3) = Finite (of_int 6755399441055744 * 2 powr of_int (1 - 52))"
    by (rule rnd_eqI) (simp_all add: powr_minus)
  then show ?thesis by (simp add: powr_minus)
qed

lemma ex_345_hyp2: "Math_hypot (Finite 0) (Finite 3) = Finite 3"
proof -
  have "Math_hypot (Finite 0) (Finite 3) = rnd 3" by (rule Math_hypot_axis) simp_all
  then show ?thesis by (simp only: ex_345_r14)
qed

lemma ex_345_r15: "rnd (4) = Finite 4"
proof -
  have "rnd (4) = Finite (of_int 4503599627370496 * 2 powr of_int (2 - 52))"
    by (rule rnd_eqI) (simp_all add: powr_minus)
  then show ?thesis by (simp add: powr_minus)
qed

lemma ex_345_hyp3: "Math_hypot (Finite 4) (Finite 0) = Finite 4"
proof -
  have "Math_hypot (Finite 4) (Finite 0) = rnd 4" by (rule Math_hypot_axis) simp_all
  then show ?thesis by (simp only: ex_345_r15)
qed

lemma ex_345_sides:
  "distance (pt 4 0) (pt 0 3) = Finite 5"
  "distance (pt 0 0) (pt 0 3) = Finite 3"
  "distance (pt 0 0) (pt 4 0) = Finite 4"
  by (rule distance_eval[OF ex_345_r1 ex_345_r5 ex_345_hyp1] distance_eval[OF ex_345_r2 ex_345_r5 ex_345_hyp2] distance_eval[OF ex_345_r4 ex_345_r2 ex_345_hyp3])+

lemma ex_345_finite: "sides_finite (pt 0 0) (pt 4 0) (pt 0 3)"
  by (simp only: sides_finite_def ex_345_sides isFinite.simps simp_thms)

lemma ex_345_r16: "rnd (0 * (- 3)) = Finite 0"
  by (simp add: rnd_zero)

lemma ex_345_r17: "rnd (4 * 3) = Finite 12"
proof -
  have "rnd (4 * 3) = Finite (of_int 6755399441055744 * 2 powr of_int (3 - 52))"
    by (rule rnd_eqI) (simp_all add: powr_minus)
  then show ?thesis by (simp add: powr_minus)
qed

lemma ex_345_r18: "rnd (0 * 0) = Finite 0"
  by (simp add: rnd_zero)

lemma ex_345_r19: "rnd (0 + 12) = Finite 12"
proof -
  have "rnd (0 + 12) = Finite (of_int 6755399441055744 * 2 powr of_int (3 - 52))"
    by (rule rnd_eqI) (simp_all add: powr_minus)
  then show ?thesis by (simp add: powr_minus)
qed

lemma ex_345_r20: "rnd (12 + 0) = Finite 12"
proof -
  have "rnd (12 + 0) = Finite (of_int 6755399441055744 * 2 powr of_int (3 - 52))"
    by (rule rnd_eqI) (simp_all add: powr_minus)
  then show ?thesis by (simp add: powr_minus)
qed

lemma ex_345_r21: "rnd (\<bar>12\<bar> / 2) = Finite 6"
proof -
  have "rnd (\<bar>12\<bar> / 2) = Finite (of_int 6755399441055744 * 2 powr of_int (2 - 52))"
    by (rule rnd_eqI) (simp_all add: powr_minus)
  then show ?thesis by (simp add: powr_minus)
qed

lemma ex_345_area: "unsigned_area (pt 0 0) (pt 4 0) (pt 0 3) = Finite 6"
  by (rule area_eval[OF ex_345_r3 ex_345_r16 ex_345_r5 ex_345_r17 ex_345_r2 ex_345_r18 ex_345_r19 ex_345_r20 ex_345_r21])

lemma ex_345_area_ok: "\<not> js_le (unsigned_area (pt 0 0) (pt 4 0) (pt 0 3)) EPS"
  unfolding ex_345_area EPS_val by simp

lemma ex_345_valid: "valid (triangleData ((pt 0 0), (pt 4 0), (pt 0 3)))"
  using ex_345_not_coincide ex_345_finite ex_345_area_ok by (simp only: valid_iff simp_thms)

lemma ex_345_r22: "rnd (5 + 3) = Finite 8"
proof -
  have "rnd (5 + 3) = Finite (of_int 4503599627370496 * 2 powr of_int (3 - 52))"
    by (rule rnd_eqI) (simp_all add: powr_minus)
  then show ?thesis by (simp add: powr_minus)
qed

lemma ex_345_r23: "rnd (8 + 4) = Finite 12"
proof -
  have "rnd (8 + 4) = Finite (of_int 6755399441055744 * 2 powr of_int (3 - 52))"
    by (rule rnd_eqI) (simp_all add: powr_minus)
  then show ?thesis by (simp add: powr_minus)
qed

lemma ex_345_perimeter: "js_add (js_add (Finite 5) (Finite 3)) (Finite 4) = Finite 12"
  by (rule perimeter_eval[OF ex_345_r22 ex_345_r23])

lemma ex_345_r24: "rnd (3 * 3) = Finite 9"
proof -
  have "rnd (3 * 3) = Finite (of_int 5066549580791808 * 2 powr of_int (3 - 52))"
    by (rule rnd_eqI) (simp_all add: powr_minus)
  then show ?thesis by (simp add: powr_minus)
qed

lemma ex_345_r25: "rnd (4 * 4) = Finite 16"
proof -
  have "rnd (4 * 4) = Finite (of_int 4503599627370496 * 2 powr of_int (4 - 52))"
    by (rule rnd_eqI) (simp_all add: powr_minus)
  then show ?thesis by (simp add: powr_minus)
qed

lemma ex_345_r26: "rnd (9 + 16) = Finite 25"
proof -
  have "rnd (9 + 16) = Finite (of_int 7036874417766400 * 2 powr of_int (4 - 52))"
    by (rule rnd_eqI) (simp_all add: powr_minus)
  then show ?thesis by (simp add: powr_minus)
qed

lemma ex_345_r27: "rnd (5 * 5) = Finite 25"
proof -
  have "rnd (5 * 5) = Finite (of_int 7036874417766400 * 2 powr of_int (4 - 52))"
    by (rule rnd_eqI) (simp_all add: powr_minus)
  then show ?thesis by (simp add: powr_minus)
qed

lemma ex_345_r28: "rnd (25 - 25) = Finite 0"
  by (simp add: rnd_zero)

lemma ex_345_r29: "rnd (2 * 3) = Finite 6"
proof -
  have "rnd (2 * 3) = Finite (of_int 6755399441055744 * 2 powr of_int (2 - 52))"
    by (rule rnd_eqI) (simp_all add: powr_minus)
  then show ?thesis by (simp add: powr_minus)
qed

lemma ex_345_r30: "rnd (6 * 4) = Finite 24"
proof -
  have "rnd (6 * 4) = Finite (of_int 6755399441055744 * 2 powr of_int (4 - 52))"
    by (rule rnd_eqI) (simp_all add: powr_minus)
  then show ?thesis by (simp add: powr_minus)
qed

lemma ex_345_r31: "rnd (0 / 24) = Finite 0"
  by (simp add: rnd_zero)

lemma ex_345_cos1: "law_of_cosines (Finite 3) (Finite 4) (Finite 5) = Finite 0"
proof -
  have "law_of_cosines (Finite 3) (Finite 4) (Finite 5) = clamp (Finite 0) (Finite (- 1)) (Finite 1)"
    by (rule cosine_eval[OF ex_345_r24 ex_345_r25 ex_345_r26 ex_345_r27 ex_345_r28 ex_345_r29 ex_345_r30 _ ex_345_r31]) simp
  also have "\<dots> = Finite 0" by (simp add: clamp_def)
  finally show ?thesis .
qed

lemma ex_345_acos1: "Math_acos (Finite 0) = Finite (884279719003555 / 2 ^ 49)"
  using ac_r3 by (simp add: Math_acos.simps(1) pio2_hi_def pio2_lo_def)

lemma ex_345_r32: "rnd ((884279719003555 / 2 ^ 49) * 180) = Finite (4974073419394997 / 2 ^ 44)"
proof -
  have "rnd ((884279719003555 / 2 ^ 49) * 180) = Finite (of_int 4974073419394997 * 2 powr of_int (8 - 52))"
    by (rule rnd_eqI) (simp_all add: powr_minus)
  then show ?thesis by (simp add: powr_minus)
qed

lemma ex_345_r33: "rnd ((4974073419394997 / 2 ^ 44) / (884279719003555 / 2 ^ 48)) = Finite 90"
proof -
  have "rnd ((4974073419394997 / 2 ^ 44) / (884279719003555 / 2 ^ 48)) = Finite (of_int 6333186975989760 * 2 powr of_int (6 - 52))"
    by (rule rnd_eqI) (simp_all add: powr_minus)
  then show ?thesis by (simp add: powr_minus)
qed

lemma ex_345_r34: "rnd (25 + 16) = Finite 41"
proof -
  have "rnd (25 + 16) = Finite (of_int 5770237022568448 * 2 powr of_int (5 - 52))"
    by (rule rnd_eqI) (simp_all add: powr_minus)
  then show ?thesis by (simp add: powr_minus)
qed

lemma ex_345_r35: "rnd (41 - 9) = Finite 32"
proof -
  have "rnd (41 - 9) = Finite (of_int 4503599627370496 * 2 powr of_int (5 - 52))"
    by (rule rnd_eqI) (simp_all add: powr_minus)
  then show ?thesis by (simp add: powr_minus)
qed

lemma ex_345_r36: "rnd (2 * 5) = Finite 10"
proof -
  have "rnd (2 * 5) = Finite (of_int 5629499534213120 * 2 powr of_int (3 - 52))"
    by (rule rnd_eqI) (simp_all add: powr_minus)
  then show ?thesis by (simp add: powr_minus)
qed

lemma ex_345_r37: "rnd (10 * 4) = Finite 40"
proof -
  have "rnd (10 * 4) = Finite (of_int 5629499534213120 * 2 powr of_int (5 - 52))"
    by (rule rnd_eqI) (simp_all add: powr_minus)
  then show ?thesis by (simp add: powr_minus)
qed

lemma ex_345_r38: "rnd (32 / 40) = Finite (3602879701896397 / 2 ^ 52)"
proof -
  have "rnd (32 / 40) = Finite (of_int 7205759403792794 * 2 powr of_int (-1 - 52))"
    by (rule rnd_eqI) (simp_all add: powr_minus)
  then show ?thesis by (simp add: powr_minus)
qed

lemma ex_345_cos2: "law_of_cosines (Finite 5) (Finite 4) (Finite 3) = Finite (3602879701896397 / 2 ^ 52)"
proof -
  have "law_of_cosines (Finite 5) (Finite 4) (Finite 3) = clamp (Finite (3602879701896397 / 2 ^ 52)) (Finite (- 1)) (Finite 1)"
    by (rule cosine_eval[OF ex_345_r27 ex_345_r25 ex_345_r34 ex_345_r24 ex_345_r35 ex_345_r36 ex_345_r37 _ ex_345_r38]) simp
  also have "\<dots> = Finite (3602879701896397 / 2 ^ 52)" by (simp add: clamp_def)
  finally show ?thesis .
qed

lemma ex_345_r39: "rnd (1 - (3602879701896397 / 2 ^ 52)) = Finite (900719925474099 / 2 ^ 52)"
proof -
  have "rnd (1 - (3602879701896397 / 2 ^ 52)) = Finite (of_int 7205759403792792 * 2 powr of_int (-3 - 52))"
    by (rule rnd_eqI) (simp_all add: powr_minus)
  then show ?thesis by (simp add: powr_minus)
qed

lemma ex_345_r40: "rnd ((900719925474099 / 2 ^ 52) * (1 / 2)) = Finite (900719925474099 / 2 ^ 53)"
proof -
  have "rnd ((900719925474099 / 2 ^ 52) * (1 / 2)) = Finite (of_int 7205759403792792 * 2 powr of_int (-4 - 52))"
    by (rule rnd_eqI) (simp_all add: powr_minus)
  then show ?thesis by (simp add: powr_minus)
qed

lemma ex_345_r41: "rnd (sqrt (900719925474099 / 2 ^ 53)) = Finite (2848326498395271 / 2 ^ 53)"
proof -
  define s :: real where "s = sqrt (900719925474099 / 2 ^ 53)"
  define P :: real where "P = s / (1 / 2 ^ 54)"
  have b: "(91146447948648665 / 2 ^ 58) \<le> s" "s < (11393305993581085 / 2 ^ 55)"
    unfolding s_def by (rule sqrt_between[of "(91146447948648665 / 2 ^ 58)" _ "(11393305993581085 / 2 ^ 55)"]; simp)+
  have "(91146447948648665 / 2 ^ 58) / (1 / 2 ^ 54) \<le> P" "P < (11393305993581085 / 2 ^ 55) / (1 / 2 ^ 54)"
    unfolding P_def using b by (simp_all add: divide_right_mono divide_strict_right_mono)
  moreover have "(of_int 5696652996790542 - 1 / 2 :: real) < (91146447948648665 / 2 ^ 58) / (1 / 2 ^ 54)"
    "((11393305993581085 / 2 ^ 55) / (1 / 2 ^ 54) :: real) \<le> of_int 5696652996790542 + 1 / 2"
    by simp_all
  ultimately have "of_int 5696652996790542 - 1 / 2 < P" "P < of_int 5696652996790542 + 1 / 2" by linarith+
  then have "\<bar>P - of_int 5696652996790542\<bar> < 1 / 2" by (simp only: abs_less_iff) linarith
  moreover have "s / 2 powr of_int (-2 - 52) = P" by (simp add: P_def powr_minus)
  ultimately have n: "\<bar>s / 2 powr of_int (-2 - 52) - of_int 5696652996790542\<bar> < 1 / 2" by (simp only:)
  have "(2::real) powr of_int (-2) \<le> (91146447948648665 / 2 ^ 58)" "((11393305993581085 / 2 ^ 55) :: real) \<le> 2 powr of_int (-2 + 1)"
    by (simp_all add: powr_minus)
  then have "2 powr of_int (-2) \<le> s" "s < 2 powr of_int (-2 + 1)"
    using b by linarith+
  moreover have "\<bar>s\<bar> = s" unfolding s_def by simp
  ultimately have k: "2 powr of_int (-2) \<le> \<bar>s\<bar>" "\<bar>s\<bar> < 2 powr of_int (-2 + 1)"
    by (simp_all only:)
  have "rnd s = Finite (of_int 5696652996790542 * 2 powr of_int (-2 - 52))"
    by (rule rnd_eqI[OF k _ _ n]) simp_all
  then show ?thesis unfolding s_def by (simp add: powr_minus)
qed

lemma ex_345_r42: "clear_low_word (Finite (2848326498395271 / 2 ^ 53)) = Finite (1326355 / 2 ^ 22)"
proof -
  have "clear_low_word (Finite (2848326498395271 / 2 ^ 53)) = Finite (of_int 1326355 * 2 powr of_int (-2 - 20))"
    by (rule clear_low_word_eval) (simp_all add: powr_minus)
  then show ?thesis by (simp add: powr_minus)
qed

lemma ex_345_r43: "rnd ((1326355 / 2 ^ 22) * (1326355 / 2 ^ 22)) = Finite (1759217586025 / 2 ^ 44)"
proof -
  have "rnd ((1326355 / 2 ^ 22) * (1326355 / 2 ^ 22)) = Finite (of_int 7205755232358400 * 2 powr of_int (-4 - 52))"
    by (rule rnd_eqI) (simp_all add: powr_minus)
  then show ?thesis by (simp add: powr_minus)
qed

lemma ex_345_r44: "rnd ((900719925474099 / 2 ^ 53) - (1759217586025 / 2 ^ 44)) = Finite (521429299 / 2 ^ 53)"
proof -
  have "rnd ((900719925474099 / 2 ^ 53) - (1759217586025 / 2 ^ 44)) = Finite (of_int 8748131978051584 * 2 powr of_int (-25 - 52))"
    by (rule rnd_eqI) (simp_all add: powr_minus)
  then show ?thesis by (simp add: powr_minus)
qed

lemma ex_345_r45: "rnd ((2848326498395271 / 2 ^ 53) + (1326355 / 2 ^ 22)) = Finite (5696652172338311 / 2 ^ 53)"
proof -
  have "rnd ((2848326498395271 / 2 ^ 53) + (1326355 / 2 ^ 22)) = Finite (of_int 5696652172338311 * 2 powr of_int (-1 - 52))"
    by (rule rnd_eqI) (simp_all add: powr_minus)
  then show ?thesis by (simp add: powr_minus)
qed

lemma ex_345_r46: "rnd ((521429299 / 2 ^ 53) / (5696652172338311 / 2 ^ 53)) = Finite (1729001645380837 / 2 ^ 74)"
proof -
  have "rnd ((521429299 / 2 ^ 53) / (5696652172338311 / 2 ^ 53)) = Finite (of_int 6916006581523348 * 2 powr of_int (-24 - 52))"
    by (rule rnd_eqI) (simp_all add: powr_minus)
  then show ?thesis by (simp add: powr_minus)
qed

lemma ex_345_r47: "rnd ((900719925474099 / 2 ^ 53) * (5134586392475401 / 2 ^ 67)) = Finite (128364659811885 / 2 ^ 65)"
proof -
  have "rnd ((900719925474099 / 2 ^ 53) * (5134586392475401 / 2 ^ 67)) = Finite (of_int 8215338227960640 * 2 powr of_int (-19 - 52))"
    by (rule rnd_eqI) (simp_all add: powr_minus)
  then show ?thesis by (simp add: powr_minus)
qed

lemma ex_345_r48: "rnd ((912577716565585 / 2 ^ 60) + (128364659811885 / 2 ^ 65)) = Finite (7332712897477651 / 2 ^ 63)"
proof -
  have "rnd ((912577716565585 / 2 ^ 60) + (128364659811885 / 2 ^ 65)) = Finite (of_int 7332712897477651 * 2 powr of_int (-11 - 52))"
    by (rule rnd_eqI) (simp_all add: powr_minus)
  then show ?thesis by (simp add: powr_minus)
qed

lemma ex_345_r49: "rnd ((900719925474099 / 2 ^ 53) * (7332712897477651 / 2 ^ 63)) = Finite (5866170317982119 / 2 ^ 66)"
proof -
  have "rnd ((900719925474099 / 2 ^ 53) * (7332712897477651 / 2 ^ 63)) = Finite (of_int 5866170317982119 * 2 powr of_int (-14 - 52))"
    by (rule rnd_eqI) (simp_all add: powr_minus)
  then show ?thesis by (simp add: powr_minus)
qed

lemma ex_345_r50: "rnd ((- (5772610888044347 / 2 ^ 57)) + (5866170317982119 / 2 ^ 66)) = Finite (- (2880576762071019 / 2 ^ 56))"
proof -
  have "rnd ((- (5772610888044347 / 2 ^ 57)) + (5866170317982119 / 2 ^ 66)) = Finite (of_int (- 5761153524142038) * 2 powr of_int (-5 - 52))"
    by (rule rnd_eqI) (simp_all add: powr_minus)
  then show ?thesis by (simp add: powr_minus)
qed

lemma ex_345_r51: "rnd ((900719925474099 / 2 ^ 53) * (- (2880576762071019 / 2 ^ 56))) = Finite (- (4608922819313629 / 2 ^ 60))"
proof -
  have "rnd ((900719925474099 / 2 ^ 53) * (- (2880576762071019 / 2 ^ 56))) = Finite (of_int (- 4608922819313629) * 2 powr of_int (-8 - 52))"
    by (rule rnd_eqI) (simp_all add: powr_minus)
  then show ?thesis by (simp add: powr_minus)
qed

lemma ex_345_r52: "rnd ((7249445477958741 / 2 ^ 55) + (- (4608922819313629 / 2 ^ 60))) = Finite (3552708319927595 / 2 ^ 54)"
proof -
  have "rnd ((7249445477958741 / 2 ^ 55) + (- (4608922819313629 / 2 ^ 60))) = Finite (of_int 7105416639855190 * 2 powr of_int (-3 - 52))"
    by (rule rnd_eqI) (simp_all add: powr_minus)
  then show ?thesis by (simp add: powr_minus)
qed

lemma ex_345_r53: "rnd ((900719925474099 / 2 ^ 53) * (3552708319927595 / 2 ^ 54)) = Finite (5684333311884151 / 2 ^ 58)"
proof -
  have "rnd ((900719925474099 / 2 ^ 53) * (3552708319927595 / 2 ^ 54)) = Finite (of_int 5684333311884151 * 2 powr of_int (-6 - 52))"
    by (rule rnd_eqI) (simp_all add: powr_minus)
  then show ?thesis by (simp add: powr_minus)
qed

lemma ex_345_r54: "rnd ((- (5864872397729661 / 2 ^ 54)) + (5684333311884151 / 2 ^ 58)) = Finite (- (2754800782868451 / 2 ^ 53))"
proof -
  have "rnd ((- (5864872397729661 / 2 ^ 54)) + (5684333311884151 / 2 ^ 58)) = Finite (of_int (- 5509601565736902) * 2 powr of_int (-2 - 52))"
    by (rule rnd_eqI) (simp_all add: powr_minus)
  then show ?thesis by (simp add: powr_minus)
qed

lemma ex_345_r55: "rnd ((900719925474099 / 2 ^ 53) * (- (2754800782868451 / 2 ^ 53))) = Finite (- (8815362505179041 / 2 ^ 58))"
proof -
  have "rnd ((900719925474099 / 2 ^ 53) * (- (2754800782868451 / 2 ^ 53))) = Finite (of_int (- 8815362505179041) * 2 powr of_int (-6 - 52))"
    by (rule rnd_eqI) (simp_all add: powr_minus)
  then show ?thesis by (simp add: powr_minus)
qed

lemma ex_345_r56: "rnd ((6004799503160661 / 2 ^ 55) + (- (8815362505179041 / 2 ^ 58))) = Finite (4902879190013281 / 2 ^ 55)"
proof -
  have "rnd ((6004799503160661 / 2 ^ 55) + (- (8815362505179041 / 2 ^ 58))) = Finite (of_int 4902879190013281 * 2 powr of_int (-3 - 52))"
    by (rule rnd_eqI) (simp_all add: powr_minus)
  then show ?thesis by (simp add: powr_minus)
qed

lemma ex_345_r57: "rnd ((900719925474099 / 2 ^ 53) * (4902879190013281 / 2 ^ 55)) = Finite (30642994937583 / 2 ^ 51)"
proof -
  have "rnd ((900719925474099 / 2 ^ 53) * (4902879190013281 / 2 ^ 55)) = Finite (of_int 7844606704021248 * 2 powr of_int (-7 - 52))"
    by (rule rnd_eqI) (simp_all add: powr_minus)
  then show ?thesis by (simp add: powr_minus)
qed

lemma ex_345_r58: "rnd ((900719925474099 / 2 ^ 53) * (2775591889094977 / 2 ^ 55)) = Finite (2220473511275981 / 2 ^ 58)"
proof -
  have "rnd ((900719925474099 / 2 ^ 53) * (2775591889094977 / 2 ^ 55)) = Finite (of_int 8881894045103924 * 2 powr of_int (-8 - 52))"
    by (rule rnd_eqI) (simp_all add: powr_minus)
  then show ?thesis by (simp add: powr_minus)
qed

lemma ex_345_r59: "rnd ((- (6199510876094809 / 2 ^ 53)) + (2220473511275981 / 2 ^ 58)) = Finite (- (6130121078867435 / 2 ^ 53))"
proof -
  have "rnd ((- (6199510876094809 / 2 ^ 53)) + (2220473511275981 / 2 ^ 58)) = Finite (of_int (- 6130121078867435) * 2 powr of_int (-1 - 52))"
    by (rule rnd_eqI) (simp_all add: powr_minus)
  then show ?thesis by (simp add: powr_minus)
qed

lemma ex_345_r60: "rnd ((900719925474099 / 2 ^ 53) * (- (6130121078867435 / 2 ^ 53))) = Finite (- (4904096863093947 / 2 ^ 56))"
proof -
  have "rnd ((900719925474099 / 2 ^ 53) * (- (6130121078867435 / 2 ^ 53))) = Finite (of_int (- 4904096863093947) * 2 powr of_int (-4 - 52))"
    by (rule rnd_eqI) (simp_all add: powr_minus)
  then show ?thesis by (simp add: powr_minus)
qed

lemma ex_345_r61: "rnd ((568845660795225 / 2 ^ 48) + (- (4904096863093947 / 2 ^ 56))) = Finite (2198756129695057 / 2 ^ 50)"
proof -
  have "rnd ((568845660795225 / 2 ^ 48) + (- (4904096863093947 / 2 ^ 56))) = Finite (of_int 8795024518780228 * 2 powr of_int (0 - 52))"
    by (rule rnd_eqI) (simp_all add: powr_minus)
  then show ?thesis by (simp add: powr_minus)
qed

lemma ex_345_r62: "rnd ((900719925474099 / 2 ^ 53) * (2198756129695057 / 2 ^ 50)) = Finite (7036019615024181 / 2 ^ 55)"
proof -
  have "rnd ((900719925474099 / 2 ^ 53) * (2198756129695057 / 2 ^ 50)) = Finite (of_int 7036019615024181 * 2 powr of_int (-3 - 52))"
    by (rule rnd_eqI) (simp_all add: powr_minus)
  then show ?thesis by (simp add: powr_minus)
qed

lemma ex_345_r63: "rnd ((- (5411964214455627 / 2 ^ 51)) + (7036019615024181 / 2 ^ 55)) = Finite (- (621526623564577 / 2 ^ 48))"
proof -
  have "rnd ((- (5411964214455627 / 2 ^ 51)) + (7036019615024181 / 2 ^ 55)) = Finite (of_int (- 4972212988516616) * 2 powr of_int (1 - 52))"
    by (rule rnd_eqI) (simp_all add: powr_minus)
  then show ?thesis by (simp add: powr_minus)
qed

lemma ex_345_r64: "rnd ((900719925474099 / 2 ^ 53) * (- (621526623564577 / 2 ^ 48))) = Finite (- (994442597703323 / 2 ^ 52))"
proof -
  have "rnd ((900719925474099 / 2 ^ 53) * (- (621526623564577 / 2 ^ 48))) = Finite (of_int (- 7955540781626584) * 2 powr of_int (-3 - 52))"
    by (rule rnd_eqI) (simp_all add: powr_minus)
  then show ?thesis by (simp add: powr_minus)
qed

lemma ex_345_r65: "rnd (1 + (- (994442597703323 / 2 ^ 52))) = Finite (3509157029667173 / 2 ^ 52)"
proof -
  have "rnd (1 + (- (994442597703323 / 2 ^ 52))) = Finite (of_int 7018314059334346 * 2 powr of_int (-1 - 52))"
    by (rule rnd_eqI) (simp_all add: powr_minus)
  then show ?thesis by (simp add: powr_minus)
qed

lemma ex_345_r66: "rnd ((30642994937583 / 2 ^ 51) / (3509157029667173 / 2 ^ 52)) = Finite (5033825435912307 / 2 ^ 58)"
proof -
  have "rnd ((30642994937583 / 2 ^ 51) / (3509157029667173 / 2 ^ 52)) = Finite (of_int 5033825435912307 * 2 powr of_int (-6 - 52))"
    by (rule rnd_eqI) (simp_all add: powr_minus)
  then show ?thesis by (simp add: powr_minus)
qed

lemma ex_345_r67: "acos_ratio (Finite (900719925474099 / 2 ^ 53)) = Finite (5033825435912307 / 2 ^ 58)"
  by (rule acos_ratio_eval[unfolded pS0_def pS1_def pS2_def pS3_def pS4_def pS5_def qS1_def qS2_def qS3_def qS4_def pio2_hi_def pio2_lo_def pi_dbl_def, OF ex_345_r47 ex_345_r48 ex_345_r49 ex_345_r50 ex_345_r51 ex_345_r52 ex_345_r53 ex_345_r54 ex_345_r55 ex_345_r56 ex_345_r57 ex_345_r58 ex_345_r59 ex_345_r60 ex_345_r61 ex_345_r62 ex_345_r63 ex_345_r64 ex_345_r65 _ ex_345_r66]) simp

lemma ex_345_r68: "rnd ((5033825435912307 / 2 ^ 58) * (2848326498395271 / 2 ^ 53)) = Finite (397958843029321 / 2 ^ 56)"
proof -
  have "rnd ((5033825435912307 / 2 ^ 58) * (2848326498395271 / 2 ^ 53)) = Finite (of_int 6367341488469136 * 2 powr of_int (-8 - 52))"
    by (rule rnd_eqI) (simp_all add: powr_minus)
  then show ?thesis by (simp add: powr_minus)
qed

lemma ex_345_r69: "rnd ((397958843029321 / 2 ^ 56) + (1729001645380837 / 2 ^ 74)) = Finite (3183723509177359 / 2 ^ 59)"
proof -
  have "rnd ((397958843029321 / 2 ^ 56) + (1729001645380837 / 2 ^ 74)) = Finite (of_int 6367447018354718 * 2 powr of_int (-8 - 52))"
    by (rule rnd_eqI) (simp_all add: powr_minus)
  then show ?thesis by (simp add: powr_minus)
qed

lemma ex_345_r70: "rnd ((1326355 / 2 ^ 22) + (3183723509177359 / 2 ^ 59)) = Finite (181129459610871 / 2 ^ 49)"
proof -
  have "rnd ((1326355 / 2 ^ 22) + (3183723509177359 / 2 ^ 59)) = Finite (of_int 5796142707547872 * 2 powr of_int (-2 - 52))"
    by (rule rnd_eqI) (simp_all add: powr_minus)
  then show ?thesis by (simp add: powr_minus)
qed

lemma ex_345_r71: "rnd (2 * (181129459610871 / 2 ^ 49)) = Finite (181129459610871 / 2 ^ 48)"
proof -
  have "rnd (2 * (181129459610871 / 2 ^ 49)) = Finite (of_int 5796142707547872 * 2 powr of_int (-1 - 52))"
    by (rule rnd_eqI) (simp_all add: powr_minus)
  then show ?thesis by (simp add: powr_minus)
qed

lemma ex_345_acos2: "Math_acos (Finite (3602879701896397 / 2 ^ 52)) = Finite (181129459610871 / 2 ^ 48)"
  by (rule acos_pos_eval[OF _ _ ex_345_r39 ex_345_r40 _ ex_345_r41 ex_345_r42 ex_345_r43 ex_345_r44 ex_345_r45 _ ex_345_r46 ex_345_r67 ex_345_r68 ex_345_r69 ex_345_r70 ex_345_r71]) simp_all

lemma ex_345_r72: "rnd ((181129459610871 / 2 ^ 48) * 180) = Finite (8150825682489195 / 2 ^ 46)"
proof -
  have "rnd ((181129459610871 / 2 ^ 48) * 180) = Finite (of_int 8150825682489195 * 2 powr of_int (6 - 52))"
    by (rule rnd_eqI) (simp_all add: powr_minus)
  then show ?thesis by (simp add: powr_minus)
qed

lemma ex_345_r73: "rnd ((8150825682489195 / 2 ^ 46) / (884279719003555 / 2 ^ 48)) = Finite (5188976790594107 / 2 ^ 47)"
proof -
  have "rnd ((8150825682489195 / 2 ^ 46) / (884279719003555 / 2 ^ 48)) = Finite (of_int 5188976790594107 * 2 powr of_int (5 - 52))"
    by (rule rnd_eqI) (simp_all add: powr_minus)
  then show ?thesis by (simp add: powr_minus)
qed

lemma ex_345_r74: "rnd (25 + 9) = Finite 34"
proof -
  have "rnd (25 + 9) = Finite (of_int 4785074604081152 * 2 powr of_int (5 - 52))"
    by (rule rnd_eqI) (simp_all add: powr_minus)
  then show ?thesis by (simp add: powr_minus)
qed

lemma ex_345_r75: "rnd (34 - 16) = Finite 18"
proof -
  have "rnd (34 - 16) = Finite (of_int 5066549580791808 * 2 powr of_int (4 - 52))"
    by (rule rnd_eqI) (simp_all add: powr_minus)
  then show ?thesis by (simp add: powr_minus)
qed

lemma ex_345_r76: "rnd (10 * 3) = Finite 30"
proof -
  have "rnd (10 * 3) = Finite (of_int 8444249301319680 * 2 powr of_int (4 - 52))"
    by (rule rnd_eqI) (simp_all add: powr_minus)
  then show ?thesis by (simp add: powr_minus)
qed

lemma ex_345_r77: "rnd (18 / 30) = Finite (5404319552844595 / 2 ^ 53)"
proof -
  have "rnd (18 / 30) = Finite (of_int 5404319552844595 * 2 powr of_int (-1 - 52))"
    by (rule rnd_eqI) (simp_all add: powr_minus)
  then show ?thesis by (simp add: powr_minus)
qed

lemma ex_345_cos3: "law_of_cosines (Finite 5) (Finite 3) (Finite 4) = Finite (5404319552844595 / 2 ^ 53)"
proof -
  have "law_of_cosines (Finite 5) (Finite 3) (Finite 4) = clamp (Finite (5404319552844595 / 2 ^ 53)) (Finite (- 1)) (Finite 1)"
    by (rule cosine_eval[OF ex_345_r27 ex_345_r24 ex_345_r74 ex_345_r25 ex_345_r75 ex_345_r36 ex_345_r76 _ ex_345_r77]) simp
  also have "\<dots> = Finite (5404319552844595 / 2 ^ 53)" by (simp add: clamp_def)
  finally show ?thesis .
qed

lemma ex_345_r78: "rnd (1 - (5404319552844595 / 2 ^ 53)) = Finite (3602879701896397 / 2 ^ 53)"
proof -
  have "rnd (1 - (5404319552844595 / 2 ^ 53)) = Finite (of_int 7205759403792794 * 2 powr of_int (-2 - 52))"
    by (rule rnd_eqI) (simp_all add: powr_minus)
  then show ?thesis by (simp add: powr_minus)
qed

lemma ex_345_r79: "rnd ((3602879701896397 / 2 ^ 53) * (1 / 2)) = Finite (3602879701896397 / 2 ^ 54)"
proof -
  have "rnd ((3602879701896397 / 2 ^ 53) * (1 / 2)) = Finite (of_int 7205759403792794 * 2 powr of_int (-3 - 52))"
    by (rule rnd_eqI) (simp_all add: powr_minus)
  then show ?thesis by (simp add: powr_minus)
qed

lemma ex_345_r80: "rnd (sqrt (3602879701896397 / 2 ^ 54)) = Finite (8056283928194521 / 2 ^ 54)"
proof -
  define s :: real where "s = sqrt (3602879701896397 / 2 ^ 54)"
  define P :: real where "P = s / (1 / 2 ^ 54)"
  have b: "(128900542851112329 / 2 ^ 58) \<le> s" "s < (16112567856389043 / 2 ^ 55)"
    unfolding s_def by (rule sqrt_between[of "(128900542851112329 / 2 ^ 58)" _ "(16112567856389043 / 2 ^ 55)"]; simp)+
  have "(128900542851112329 / 2 ^ 58) / (1 / 2 ^ 54) \<le> P" "P < (16112567856389043 / 2 ^ 55) / (1 / 2 ^ 54)"
    unfolding P_def using b by (simp_all add: divide_right_mono divide_strict_right_mono)
  moreover have "(of_int 8056283928194521 - 1 / 2 :: real) < (128900542851112329 / 2 ^ 58) / (1 / 2 ^ 54)"
    "((16112567856389043 / 2 ^ 55) / (1 / 2 ^ 54) :: real) \<le> of_int 8056283928194521 + 1 / 2"
    by simp_all
  ultimately have "of_int 8056283928194521 - 1 / 2 < P" "P < of_int 8056283928194521 + 1 / 2" by linarith+
  then have "\<bar>P - of_int 8056283928194521\<bar> < 1 / 2" by (simp only: abs_less_iff) linarith
  moreover have "s / 2 powr of_int (-2 - 52) = P" by (simp add: P_def powr_minus)
  ultimately have n: "\<bar>s / 2 powr of_int (-2 - 52) - of_int 8056283928194521\<bar> < 1 / 2" by (simp only:)
  have "(2::real) powr of_int (-2) \<le> (128900542851112329 / 2 ^ 58)" "((16112567856389043 / 2 ^ 55) :: real) \<le> 2 powr of_int (-2 + 1)"
    by (simp_all add: powr_minus)
  then have "2 powr of_int (-2) \<le> s" "s < 2 powr of_int (-2 + 1)"
    using b by linarith+
  moreover have "\<bar>s\<bar> = s" unfolding s_def by simp
  ultimately have k: "2 powr of_int (-2) \<le> \<bar>s\<bar>" "\<bar>s\<bar> < 2 powr of_int (-2 + 1)"
    by (simp_all only:)
  have "rnd s = Finite (of_int 8056283928194521 * 2 powr of_int (-2 - 52))"
    by (rule rnd_eqI[OF k _ _ n]) simp_all
  then show ?thesis unfolding s_def by (simp add: powr_minus)
qed

lemma ex_345_r81: "clear_low_word (Finite (8056283928194521 / 2 ^ 54)) = Finite (1875749 / 2 ^ 22)"
proof -
  have "clear_low_word (Finite (8056283928194521 / 2 ^ 54)) = Finite (of_int 1875749 * 2 powr of_int (-2 - 20))"
    by (rule clear_low_word_eval) (simp_all add: powr_minus)
  then show ?thesis by (simp add: powr_minus)
qed

lemma ex_345_r82: "rnd ((1875749 / 2 ^ 22) * (1875749 / 2 ^ 22)) = Finite (3518434311001 / 2 ^ 44)"
proof -
  have "rnd ((1875749 / 2 ^ 22) * (1875749 / 2 ^ 22)) = Finite (of_int 7205753468930048 * 2 powr of_int (-3 - 52))"
    by (rule rnd_eqI) (simp_all add: powr_minus)
  then show ?thesis by (simp add: powr_minus)
qed

lemma ex_345_r83: "rnd ((3602879701896397 / 2 ^ 54) - (3518434311001 / 2 ^ 44)) = Finite (2967431373 / 2 ^ 54)"
proof -
  have "rnd ((3602879701896397 / 2 ^ 54) - (3518434311001 / 2 ^ 44)) = Finite (of_int 6223154638749696 * 2 powr of_int (-23 - 52))"
    by (rule rnd_eqI) (simp_all add: powr_minus)
  then show ?thesis by (simp add: powr_minus)
qed

lemma ex_345_r84: "rnd ((8056283928194521 / 2 ^ 54) + (1875749 / 2 ^ 22)) = Finite (2014070567337403 / 2 ^ 51)"
proof -
  have q: "((8056283928194521 / 2 ^ 54) + (1875749 / 2 ^ 22)) / 2 powr of_int (-1 - 52) = (of_int 8056282269349612 + 1 / 2 :: real)"
    by (simp add: powr_minus)
  have "rne (((8056283928194521 / 2 ^ 54) + (1875749 / 2 ^ 22)) / 2 powr of_int (-1 - 52)) = 8056282269349612"
    unfolding q rne_tie by simp
  then have "rnd ((8056283928194521 / 2 ^ 54) + (1875749 / 2 ^ 22)) = Finite (of_int 8056282269349612 * 2 powr of_int (-1 - 52))"
    by (intro rnd_eqI_rne) (simp_all add: powr_minus)
  then show ?thesis by (simp add: powr_minus)
qed

lemma ex_345_r85: "rnd ((2967431373 / 2 ^ 54) / (2014070567337403 / 2 ^ 51)) = Finite (6957699836007535 / 2 ^ 75)"
proof -
  have "rnd ((2967431373 / 2 ^ 54) / (2014070567337403 / 2 ^ 51)) = Finite (of_int 6957699836007535 * 2 powr of_int (-23 - 52))"
    by (rule rnd_eqI) (simp_all add: powr_minus)
  then show ?thesis by (simp add: powr_minus)
qed

lemma ex_345_r86: "rnd ((3602879701896397 / 2 ^ 54) * (5134586392475401 / 2 ^ 67)) = Finite (4107669113980321 / 2 ^ 69)"
proof -
  have "rnd ((3602879701896397 / 2 ^ 54) * (5134586392475401 / 2 ^ 67)) = Finite (of_int 8215338227960642 * 2 powr of_int (-18 - 52))"
    by (rule rnd_eqI) (simp_all add: powr_minus)
  then show ?thesis by (simp add: powr_minus)
qed

lemma ex_345_r87: "rnd ((912577716565585 / 2 ^ 60) + (4107669113980321 / 2 ^ 69)) = Finite (7364804062430623 / 2 ^ 63)"
proof -
  have "rnd ((912577716565585 / 2 ^ 60) + (4107669113980321 / 2 ^ 69)) = Finite (of_int 7364804062430623 * 2 powr of_int (-11 - 52))"
    by (rule rnd_eqI) (simp_all add: powr_minus)
  then show ?thesis by (simp add: powr_minus)
qed

lemma ex_345_r88: "rnd ((3602879701896397 / 2 ^ 54) * (7364804062430623 / 2 ^ 63)) = Finite (5891843249944499 / 2 ^ 65)"
proof -
  have "rnd ((3602879701896397 / 2 ^ 54) * (7364804062430623 / 2 ^ 63)) = Finite (of_int 5891843249944499 * 2 powr of_int (-13 - 52))"
    by (rule rnd_eqI) (simp_all add: powr_minus)
  then show ?thesis by (simp add: powr_minus)
qed

lemma ex_345_r89: "rnd ((- (5772610888044347 / 2 ^ 57)) + (5891843249944499 / 2 ^ 65)) = Finite (- (5749595875349251 / 2 ^ 57))"
proof -
  have "rnd ((- (5772610888044347 / 2 ^ 57)) + (5891843249944499 / 2 ^ 65)) = Finite (of_int (- 5749595875349251) * 2 powr of_int (-5 - 52))"
    by (rule rnd_eqI) (simp_all add: powr_minus)
  then show ?thesis by (simp add: powr_minus)
qed

lemma ex_345_r90: "rnd ((3602879701896397 / 2 ^ 54) * (- (5749595875349251 / 2 ^ 57))) = Finite (- (4599676700279401 / 2 ^ 59))"
proof -
  have "rnd ((3602879701896397 / 2 ^ 54) * (- (5749595875349251 / 2 ^ 57))) = Finite (of_int (- 4599676700279401) * 2 powr of_int (-7 - 52))"
    by (rule rnd_eqI) (simp_all add: powr_minus)
  then show ?thesis by (simp add: powr_minus)
qed

lemma ex_345_r91: "rnd ((7249445477958741 / 2 ^ 55) + (- (4599676700279401 / 2 ^ 59))) = Finite (3480982842095639 / 2 ^ 54)"
proof -
  have "rnd ((7249445477958741 / 2 ^ 55) + (- (4599676700279401 / 2 ^ 59))) = Finite (of_int 6961965684191278 * 2 powr of_int (-3 - 52))"
    by (rule rnd_eqI) (simp_all add: powr_minus)
  then show ?thesis by (simp add: powr_minus)
qed

lemma ex_345_r92: "rnd ((3602879701896397 / 2 ^ 54) * (3480982842095639 / 2 ^ 54)) = Finite (5569572547353023 / 2 ^ 57)"
proof -
  have "rnd ((3602879701896397 / 2 ^ 54) * (3480982842095639 / 2 ^ 54)) = Finite (of_int 5569572547353023 * 2 powr of_int (-5 - 52))"
    by (rule rnd_eqI) (simp_all add: powr_minus)
  then show ?thesis by (simp add: powr_minus)
qed

lemma ex_345_r93: "rnd ((- (5864872397729661 / 2 ^ 54)) + (5569572547353023 / 2 ^ 57)) = Finite (- (5168675829310533 / 2 ^ 54))"
proof -
  have "rnd ((- (5864872397729661 / 2 ^ 54)) + (5569572547353023 / 2 ^ 57)) = Finite (of_int (- 5168675829310533) * 2 powr of_int (-2 - 52))"
    by (rule rnd_eqI) (simp_all add: powr_minus)
  then show ?thesis by (simp add: powr_minus)
qed

lemma ex_345_r94: "rnd ((3602879701896397 / 2 ^ 54) * (- (5168675829310533 / 2 ^ 54))) = Finite (- (8269881326896853 / 2 ^ 57))"
proof -
  have "rnd ((3602879701896397 / 2 ^ 54) * (- (5168675829310533 / 2 ^ 54))) = Finite (of_int (- 8269881326896853) * 2 powr of_int (-5 - 52))"
    by (rule rnd_eqI) (simp_all add: powr_minus)
  then show ?thesis by (simp add: powr_minus)
qed

lemma ex_345_r95: "rnd ((6004799503160661 / 2 ^ 55) + (- (8269881326896853 / 2 ^ 57))) = Finite (123041536607389 / 2 ^ 50)"
proof -
  have q: "((6004799503160661 / 2 ^ 55) + (- (8269881326896853 / 2 ^ 57))) / 2 powr of_int (-4 - 52) = (of_int 7874658342872895 + 1 / 2 :: real)"
    by (simp add: powr_minus)
  have "rne (((6004799503160661 / 2 ^ 55) + (- (8269881326896853 / 2 ^ 57))) / 2 powr of_int (-4 - 52)) = 7874658342872896"
    unfolding q rne_tie by simp
  then have "rnd ((6004799503160661 / 2 ^ 55) + (- (8269881326896853 / 2 ^ 57))) = Finite (of_int 7874658342872896 * 2 powr of_int (-4 - 52))"
    by (intro rnd_eqI_rne) (simp_all add: powr_minus)
  then show ?thesis by (simp add: powr_minus)
qed

lemma ex_345_r96: "rnd ((3602879701896397 / 2 ^ 54) * (123041536607389 / 2 ^ 50)) = Finite (6299726674298317 / 2 ^ 58)"
proof -
  have "rnd ((3602879701896397 / 2 ^ 54) * (123041536607389 / 2 ^ 50)) = Finite (of_int 6299726674298317 * 2 powr of_int (-6 - 52))"
    by (rule rnd_eqI) (simp_all add: powr_minus)
  then show ?thesis by (simp add: powr_minus)
qed

lemma ex_345_r97: "rnd ((3602879701896397 / 2 ^ 54) * (2775591889094977 / 2 ^ 55)) = Finite (8881894045103927 / 2 ^ 59)"
proof -
  have "rnd ((3602879701896397 / 2 ^ 54) * (2775591889094977 / 2 ^ 55)) = Finite (of_int 8881894045103927 * 2 powr of_int (-7 - 52))"
    by (rule rnd_eqI) (simp_all add: powr_minus)
  then show ?thesis by (simp add: powr_minus)
qed

lemma ex_345_r98: "rnd ((- (6199510876094809 / 2 ^ 53)) + (8881894045103927 / 2 ^ 59)) = Finite (- (1515182820410015 / 2 ^ 51))"
proof -
  have "rnd ((- (6199510876094809 / 2 ^ 53)) + (8881894045103927 / 2 ^ 59)) = Finite (of_int (- 6060731281640060) * 2 powr of_int (-1 - 52))"
    by (rule rnd_eqI) (simp_all add: powr_minus)
  then show ?thesis by (simp add: powr_minus)
qed

lemma ex_345_r99: "rnd ((3602879701896397 / 2 ^ 54) * (- (1515182820410015 / 2 ^ 51))) = Finite (- (303036564082003 / 2 ^ 51))"
proof -
  have "rnd ((3602879701896397 / 2 ^ 54) * (- (1515182820410015 / 2 ^ 51))) = Finite (of_int (- 4848585025312048) * 2 powr of_int (-3 - 52))"
    by (rule rnd_eqI) (simp_all add: powr_minus)
  then show ?thesis by (simp add: powr_minus)
qed

lemma ex_345_r100: "rnd ((568845660795225 / 2 ^ 48) + (- (303036564082003 / 2 ^ 51))) = Finite (4247728722279797 / 2 ^ 51)"
proof -
  have "rnd ((568845660795225 / 2 ^ 48) + (- (303036564082003 / 2 ^ 51))) = Finite (of_int 8495457444559594 * 2 powr of_int (0 - 52))"
    by (rule rnd_eqI) (simp_all add: powr_minus)
  then show ?thesis by (simp add: powr_minus)
qed

lemma ex_345_r101: "rnd ((3602879701896397 / 2 ^ 54) * (4247728722279797 / 2 ^ 51)) = Finite (1699091488911919 / 2 ^ 52)"
proof -
  have "rnd ((3602879701896397 / 2 ^ 54) * (4247728722279797 / 2 ^ 51)) = Finite (of_int 6796365955647676 * 2 powr of_int (-2 - 52))"
    by (rule rnd_eqI) (simp_all add: powr_minus)
  then show ?thesis by (simp add: powr_minus)
qed

lemma ex_345_r102: "rnd ((- (5411964214455627 / 2 ^ 51)) + (1699091488911919 / 2 ^ 52)) = Finite (- (1140604617499917 / 2 ^ 49))"
proof -
  have q: "((- (5411964214455627 / 2 ^ 51)) + (1699091488911919 / 2 ^ 52)) / 2 powr of_int (1 - 52) = (of_int (- 4562418469999668) + 1 / 2 :: real)"
    by (simp add: powr_minus)
  have "rne (((- (5411964214455627 / 2 ^ 51)) + (1699091488911919 / 2 ^ 52)) / 2 powr of_int (1 - 52)) = (- 4562418469999668)"
    unfolding q rne_tie by simp
  then have "rnd ((- (5411964214455627 / 2 ^ 51)) + (1699091488911919 / 2 ^ 52)) = Finite (of_int (- 4562418469999668) * 2 powr of_int (1 - 52))"
    by (intro rnd_eqI_rne) (simp_all add: powr_minus)
  then show ?thesis by (simp add: powr_minus)
qed

lemma ex_345_r103: "rnd ((3602879701896397 / 2 ^ 54) * (- (1140604617499917 / 2 ^ 49))) = Finite (- (7299869551999469 / 2 ^ 54))"
proof -
  have "rnd ((3602879701896397 / 2 ^ 54) * (- (1140604617499917 / 2 ^ 49))) = Finite (of_int (- 7299869551999469) * 2 powr of_int (-2 - 52))"
    by (rule rnd_eqI) (simp_all add: powr_minus)
  then show ?thesis by (simp add: powr_minus)
qed

lemma ex_345_r104: "rnd (1 + (- (7299869551999469 / 2 ^ 54))) = Finite (2678632239370629 / 2 ^ 52)"
proof -
  have q: "(1 + (- (7299869551999469 / 2 ^ 54))) / 2 powr of_int (-1 - 52) = (of_int 5357264478741257 + 1 / 2 :: real)"
    by (simp add: powr_minus)
  have "rne ((1 + (- (7299869551999469 / 2 ^ 54))) / 2 powr of_int (-1 - 52)) = 5357264478741258"
    unfolding q rne_tie by simp
  then have "rnd (1 + (- (7299869551999469 / 2 ^ 54))) = Finite (of_int 5357264478741258 * 2 powr of_int (-1 - 52))"
    by (intro rnd_eqI_rne) (simp_all add: powr_minus)
  then show ?thesis by (simp add: powr_minus)
qed

lemma ex_345_r105: "rnd ((6299726674298317 / 2 ^ 58) / (2678632239370629 / 2 ^ 52)) = Finite (2647941576852299 / 2 ^ 56)"
proof -
  have "rnd ((6299726674298317 / 2 ^ 58) / (2678632239370629 / 2 ^ 52)) = Finite (of_int 5295883153704598 * 2 powr of_int (-5 - 52))"
    by (rule rnd_eqI) (simp_all add: powr_minus)
  then show ?thesis by (simp add: powr_minus)
qed

lemma ex_345_r106: "acos_ratio (Finite (3602879701896397 / 2 ^ 54)) = Finite (2647941576852299 / 2 ^ 56)"
  by (rule acos_ratio_eval[unfolded pS0_def pS1_def pS2_def pS3_def pS4_def pS5_def qS1_def qS2_def qS3_def qS4_def pio2_hi_def pio2_lo_def pi_dbl_def, OF ex_345_r86 ex_345_r87 ex_345_r88 ex_345_r89 ex_345_r90 ex_345_r91 ex_345_r92 ex_345_r93 ex_345_r94 ex_345_r95 ex_345_r96 ex_345_r97 ex_345_r98 ex_345_r99 ex_345_r100 ex_345_r101 ex_345_r102 ex_345_r103 ex_345_r104 _ ex_345_r105]) simp

lemma ex_345_r107: "rnd ((2647941576852299 / 2 ^ 56) * (8056283928194521 / 2 ^ 54)) = Finite (4736781893031779 / 2 ^ 58)"
proof -
  have "rnd ((2647941576852299 / 2 ^ 56) * (8056283928194521 / 2 ^ 54)) = Finite (of_int 4736781893031779 * 2 powr of_int (-6 - 52))"
    by (rule rnd_eqI) (simp_all add: powr_minus)
  then show ?thesis by (simp add: powr_minus)
qed

lemma ex_345_r108: "rnd ((4736781893031779 / 2 ^ 58) + (6957699836007535 / 2 ^ 75)) = Finite (2368417488034429 / 2 ^ 57)"
proof -
  have "rnd ((4736781893031779 / 2 ^ 58) + (6957699836007535 / 2 ^ 75)) = Finite (of_int 4736834976068858 * 2 powr of_int (-6 - 52))"
    by (rule rnd_eqI) (simp_all add: powr_minus)
  then show ?thesis by (simp add: powr_minus)
qed

lemma ex_345_r109: "rnd ((1875749 / 2 ^ 22) + (2368417488034429 / 2 ^ 57)) = Finite (522020799781813 / 2 ^ 50)"
proof -
  have "rnd ((1875749 / 2 ^ 22) + (2368417488034429 / 2 ^ 57)) = Finite (of_int 8352332796509008 * 2 powr of_int (-2 - 52))"
    by (rule rnd_eqI) (simp_all add: powr_minus)
  then show ?thesis by (simp add: powr_minus)
qed

lemma ex_345_r110: "rnd (2 * (522020799781813 / 2 ^ 50)) = Finite (522020799781813 / 2 ^ 49)"
proof -
  have "rnd (2 * (522020799781813 / 2 ^ 50)) = Finite (of_int 8352332796509008 * 2 powr of_int (-1 - 52))"
    by (rule rnd_eqI) (simp_all add: powr_minus)
  then show ?thesis by (simp add: powr_minus)
qed

lemma ex_345_acos3: "Math_acos (Finite (5404319552844595 / 2 ^ 53)) = Finite (522020799781813 / 2 ^ 49)"
  by (rule acos_pos_eval[OF _ _ ex_345_r78 ex_345_r79 _ ex_345_r80 ex_345_r81 ex_345_r82 ex_345_r83 ex_345_r84 _ ex_345_r85 ex_345_r106 ex_345_r107 ex_345_r108 ex_345_r109 ex_345_r110]) simp_all

lemma ex_345_r111: "rnd ((522020799781813 / 2 ^ 49) * 180) = Finite (1468183499386349 / 2 ^ 43)"
proof -
  have "rnd ((522020799781813 / 2 ^ 49) * 180) = Finite (of_int 5872733997545396 * 2 powr of_int (7 - 52))"
    by (rule rnd_eqI) (simp_all add: powr_minus)
  then show ?thesis by (simp add: powr_minus)
qed

lemma ex_345_r112: "rnd ((1468183499386349 / 2 ^ 43) / (884279719003555 / 2 ^ 48)) = Finite (1869349290346353 / 2 ^ 45)"
proof -
  have "rnd ((1468183499386349 / 2 ^ 43) / (884279719003555 / 2 ^ 48)) = Finite (of_int 7477397161385412 * 2 powr of_int (5 - 52))"
    by (rule rnd_eqI) (simp_all add: powr_minus)
  then show ?thesis by (simp add: powr_minus)
qed

lemma ex_345_angles:
  "toDeg (Math_acos (law_of_cosines (Finite 3) (Finite 4) (Finite 5))) = Finite 90"
  "toDeg (Math_acos (law_of_cosines (Finite 5) (Finite 4) (Finite 3))) = Finite (5188976790594107 / 2 ^ 47)"
  "toDeg (Math_acos (law_of_cosines (Finite 5) (Finite 3) (Finite 4))) = Finite (1869349290346353 / 2 ^ 45)"
  unfolding ex_345_cos1 ex_345_cos2 ex_345_cos3 ex_345_acos1 ex_345_acos2 ex_345_acos3
  by (rule toDeg_eval[OF ex_345_r32 ex_345_r33] toDeg_eval[OF ex_345_r72 ex_345_r73] toDeg_eval[OF ex_345_r111 ex_345_r112])+

lemma ex_345_result:
  "sides (triangleData ((pt 0 0), (pt 4 0), (pt 0 3))) = Some \<lparr>side_a = Finite 5, side_b = Finite 3, side_c = Finite 4\<rparr>"
  "angles (triangleData ((pt 0 0), (pt 4 0), (pt 0 3))) = Some \<lparr>angle_A = Finite 90, angle_B = Finite (5188976790594107 / 2 ^ 47), angle_C = Finite (1869349290346353 / 2 ^ 45)\<rparr>"
  "perimeter (triangleData ((pt 0 0), (pt 4 0), (pt 0 3))) = Some (Finite 12)"
  "area (triangleData ((pt 0 0), (pt 4 0), (pt 0 3))) = Some (Finite 6)"
  unfolding triangleData_valid[OF ex_345_not_coincide ex_345_finite ex_345_area_ok]
  by (simp_all only: TriangleData.select_convs ex_345_sides ex_345_angles ex_345_perimeter ex_345_area)

lemma ex_345b_r1: "rnd (0 - 0) = Finite 0"
  by (simp add: rnd_zero)

lemma ex_345b_r2: "rnd (0 - 3) = Finite (- 3)"
proof -
  have "rnd (0 - 3) = Finite (of_int (- 6755399441055744) * 2 powr of_int (1 - 52))"
    by (rule rnd_eqI) (simp_all add: powr_minus)
  then show ?thesis by (simp add: powr_minus)
qed

lemma ex_345b_r3: "rnd (0 - 4) = Finite (- 4)"
proof -
  have "rnd (0 - 4) = Finite (of_int (- 4503599627370496) * 2 powr of_int (2 - 52))"
    by (rule rnd_eqI) (simp_all add: powr_minus)
  then show ?thesis by (simp add: powr_minus)
qed

lemma ex_345b_r4: "rnd (3 - 0) = Finite 3"
proof -
  have "rnd (3 - 0) = Finite (of_int 6755399441055744 * 2 powr of_int (1 - 52))"
    by (rule rnd_eqI) (simp_all add: powr_minus)
  then show ?thesis by (simp add: powr_minus)
qed

lemma ex_345b_not_coincide: "\<not> any_coincide (pt 0 0) (pt 0 3) (pt 4 0)"
  using coincide_eval[OF ex_345b_r1 ex_345b_r2] coincide_eval[OF ex_345b_r3 ex_345b_r1] coincide_eval[OF ex_345b_r3 ex_345b_r4]
  by (simp add: any_coincide_def)

lemma ex_345b_r5: "rnd (4 - 0) = Finite 4"
proof -
  have "rnd (4 - 0) = Finite (of_int 4503599627370496 * 2 powr of_int (2 - 52))"
    by (rule rnd_eqI) (simp_all add: powr_minus)
  then show ?thesis by (simp add: powr_minus)
qed

lemma ex_345b_r6: "rnd (\<bar>4\<bar> / 4) = Finite 1"
proof -
  have "rnd (\<bar>4\<bar> / 4) = Finite (of_int 4503599627370496 * 2 powr of_int (0 - 52))"
    by (rule rnd_eqI) (simp_all add: powr_minus)
  then show ?thesis by (simp add: powr_minus)
qed

lemma ex_345b_r7: "rnd (1 * 1) = Finite 1"
proof -
  have "rnd (1 * 1) = Finite (of_int 4503599627370496 * 2 powr of_int (0 - 52))"
    by (rule rnd_eqI) (simp_all add: powr_minus)
  then show ?thesis by (simp add: powr_minus)
qed

lemma ex_345b_r8: "rnd (\<bar>(- 3)\<bar> / 4) = Finite (3 / 2 ^ 2)"
proof -
  have "rnd (\<bar>(- 3)\<bar> / 4) = Finite (of_int 6755399441055744 * 2 powr of_int (-1 - 52))"
    by (rule rnd_eqI) (simp_all add: powr_minus)
  then show ?thesis by (simp add: powr_minus)
qed

lemma ex_345b_r9: "rnd ((3 / 2 ^ 2) * (3 / 2 ^ 2)) = Finite (9 / 2 ^ 4)"
proof -
  have "rnd ((3 / 2 ^ 2) * (3 / 2 ^ 2)) = Finite (of_int 5066549580791808 * 2 powr of_int (-1 - 52))"
    by (rule rnd_eqI) (simp_all add: powr_minus)
  then show ?thesis by (simp add: powr_minus)
qed

lemma ex_345b_r10: "rnd (1 + (9 / 2 ^ 4)) = Finite (25 / 2 ^ 4)"
proof -
  have "rnd (1 + (9 / 2 ^ 4)) = Finite (of_int 7036874417766400 * 2 powr of_int (0 - 52))"
    by (rule rnd_eqI) (simp_all add: powr_minus)
  then show ?thesis by (simp add: powr_minus)
qed

lemma ex_345b_r12: "rnd ((5 / 2 ^ 2)) = Finite (5 / 2 ^ 2)"
proof -
  have "rnd ((5 / 2 ^ 2)) = Finite (of_int 5629499534213120 * 2 powr of_int (0 - 52))"
    by (rule rnd_eqI) (simp_all add: powr_minus)
  then show ?thesis by (simp add: powr_minus)
qed

lemma ex_345b_r11: "rnd (sqrt (25 / 2 ^ 4)) = Finite (5 / 2 ^ 2)"
  using ex_345b_r12 by (intro rnd_sqrt_exact) simp_all

lemma ex_345b_r13: "rnd ((5 / 2 ^ 2) * 4) = Finite 5"
proof -
  have "rnd ((5 / 2 ^ 2) * 4) = Finite (of_int 5629499534213120 * 2 powr of_int (2 - 52))"
    by (rule rnd_eqI) (simp_all add: powr_minus)
  then show ?thesis by (simp add: powr_minus)
qed

lemma ex_345b_hyp1: "Math_hypot (Finite 4) (Finite (- 3)) = Finite 5"
  using Math_hypot_eval[OF _ _ ex_345b_r6 ex_345b_r7 ex_345b_r8 ex_345b_r9 ex_345b_r10 ex_345b_r11] ex_345b_r13 by simp

lemma ex_345b_r14: "rnd (4) = Finite 4"
proof -
  have "rnd (4) = Finite (of_int 4503599627370496 * 2 powr of_int (2 - 52))"
    by (rule rnd_eqI) (simp_all add: powr_minus)
  then show ?thesis by (simp add: powr_minus)
qed

lemma ex_345b_hyp2: "Math_hypot (Finite 4) (Finite 0) = Finite 4"
proof -
  have "Math_hypot (Finite 4) (Finite 0) = rnd 4" by (rule Math_hypot_axis) simp_all
  then show ?thesis by (simp only: ex_345b_r14)
qed

lemma ex_345b_r15: "rnd (3) = Finite 3"
proof -
  have "rnd (3) = Finite (of_int 6755399441055744 * 2 powr of_int (1 - 52))"
    by (rule rnd_eqI) (simp_all add: powr_minus)
  then show ?thesis by (simp add: powr_minus)
qed

lemma ex_345b_hyp3: "Math_hypot (Finite 0) (Finite 3) = Finite 3"
proof -
  have "Math_hypot (Finite 0) (Finite 3) = rnd 3" by (rule Math_hypot_axis) simp_all
  then show ?thesis by (simp only: ex_345b_r15)
qed

lemma ex_345b_sides:
  "distance (pt 0 3) (pt 4 0) = Finite 5"
  "distance (pt 0 0) (pt 4 0) = Finite 4"
  "distance (pt 0 0) (pt 0 3) = Finite 3"
  by (rule distance_eval[OF ex_345b_r5 ex_345b_r2 ex_345b_hyp1] distance_eval[OF ex_345b_r5 ex_345b_r1 ex_345b_hyp2] distance_eval[OF ex_345b_r1 ex_345b_r4 ex_345b_hyp3])+

lemma ex_345b_finite: "sides_finite (pt 0 0) (pt 0 3) (pt 4 0)"
  by (simp only: sides_finite_def ex_345b_sides isFinite.simps simp_thms)

lemma ex_345b_r16: "rnd (0 * 3) = Finite 0"
  by (simp add: rnd_zero)

lemma ex_345b_r17: "rnd (0 * 0) = Finite 0"
  by (simp add: rnd_zero)

lemma ex_345b_r18: "rnd (4 * (- 3)) = Finite (- 12)"
proof -
  have "rnd (4 * (- 3)) = Finite (of_int (- 6755399441055744) * 2 powr of_int (3 - 52))"
    by (rule rnd_eqI) (simp_all add: powr_minus)
  then show ?thesis by (simp add: powr_minus)
qed

lemma ex_345b_r19: "rnd (0 + 0) = Finite 0"
  by (simp add: rnd_zero)

lemma ex_345b_r20: "rnd (0 + (- 12)) = Finite (- 12)"
proof -
  have "rnd (0 + (- 12)) = Finite (of_int (- 6755399441055744) * 2 powr of_int (3 - 52))"
    by (rule rnd_eqI) (simp_all add: powr_minus)
  then show ?thesis by (simp add: powr_minus)
qed

lemma ex_345b_r21: "rnd (\<bar>(- 12)\<bar> / 2) = Finite 6"
proof -
  have "rnd (\<bar>(- 12)\<bar> / 2) = Finite (of_int 6755399441055744 * 2 powr of_int (2 - 52))"
    by (rule rnd_eqI) (simp_all add: powr_minus)
  then show ?thesis by (simp add: powr_minus)
qed

lemma ex_345b_area: "unsigned_area (pt 0 0) (pt 0 3) (pt 4 0) = Finite 6"
  by (rule area_eval[OF ex_345b_r4 ex_345b_r16 ex_345b_r1 ex_345b_r17 ex_345b_r2 ex_345b_r18 ex_345b_r19 ex_345b_r20 ex_345b_r21])

lemma ex_345b_area_ok: "\<not> js_le (unsigned_area (pt 0 0) (pt 0 3) (pt 4 0)) EPS"
  unfolding ex_345b_area EPS_val by simp

lemma ex_345b_valid: "valid (triangleData ((pt 0 0), (pt 0 3), (pt 4 0)))"
  using ex_345b_not_coincide ex_345b_finite ex_345b_area_ok by (simp only: valid_iff simp_thms)

lemma ex_345b_r22: "rnd (5 + 4) = Finite 9"
proof -
  have "rnd (5 + 4) = Finite (of_int 5066549580791808 * 2 powr of_int (3 - 52))"
    by (rule rnd_eqI) (simp_all add: powr_minus)
  then show ?thesis by (simp add: powr_minus)
qed

lemma ex_345b_r23: "rnd (9 + 3) = Finite 12"
proof -
  have "rnd (9 + 3) = Finite (of_int 6755399441055744 * 2 powr of_int (3 - 52))"
    by (rule rnd_eqI) (simp_all add: powr_minus)
  then show ?thesis by (simp add: powr_minus)
qed

lemma ex_345b_perimeter: "js_add (js_add (Finite 5) (Finite 4)) (Finite 3) = Finite 12"
  by (rule perimeter_eval[OF ex_345b_r22 ex_345b_r23])

lemma ex_345b_result:
  "sides (triangleData ((pt 0 0), (pt 0 3), (pt 4 0))) = Some \<lparr>side_a = Finite 5, side_b = Finite 4, side_c = Finite 3\<rparr>"
  "perimeter (triangleData ((pt 0 0), (pt 0 3), (pt 4 0))) = Some (Finite 12)"
  "area (triangleData ((pt 0 0), (pt 0 3), (pt 4 0))) = Some (Finite 6)"
  unfolding triangleData_valid[OF ex_345b_not_coincide ex_345b_finite ex_345b_area_ok]
  by (simp_all only: TriangleData.select_convs ex_345b_sides ex_345b_perimeter ex_345b_area)

lemma ex_345c_r1: "rnd (0 - 4) = Finite (- 4)"
proof -
  have "rnd (0 - 4) = Finite (of_int (- 4503599627370496) * 2 powr of_int (2 - 52))"
    by (rule rnd_eqI) (simp_all add: powr_minus)
  then show ?thesis by (simp add: powr_minus)
qed

lemma ex_345c_r2: "rnd (3 - 0) = Finite 3"
proof -
  have "rnd (3 - 0) = Finite (of_int 6755399441055744 * 2 powr of_int (1 - 52))"
    by (rule rnd_eqI) (simp_all add: powr_minus)
  then show ?thesis by (simp add: powr_minus)
qed

lemma ex_345c_r3: "rnd (0 - 0) = Finite 0"
  by (simp add: rnd_zero)

lemma ex_345c_r4: "rnd (4 - 0) = Finite 4"
proof -
  have "rnd (4 - 0) = Finite (of_int 4503599627370496 * 2 powr of_int (2 - 52))"
    by (rule rnd_eqI) (simp_all add: powr_minus)
  then show ?thesis by (simp add: powr_minus)
qed

lemma ex_345c_not_coincide: "\<not> any_coincide (pt 0 3) (pt 4 0) (pt 0 0)"
  using coincide_eval[OF ex_345c_r1 ex_345c_r2] coincide_eval[OF ex_345c_r3 ex_345c_r2] coincide_eval[OF ex_345c_r4 ex_345c_r3]
  by (simp add: any_coincide_def)

lemma ex_345c_r5: "rnd (4) = Finite 4"
proof -
  have "rnd (4) = Finite (of_int 4503599627370496 * 2 powr of_int (2 - 52))"
    by (rule rnd_eqI) (simp_all add: powr_minus)
  then show ?thesis by (simp add: powr_minus)
qed

lemma ex_345c_hyp1: "Math_hypot (Finite (- 4)) (Finite 0) = Finite 4"
proof -
  have "Math_hypot (Finite (- 4)) (Finite 0) = rnd 4" by (rule Math_hypot_axis) simp_all
  then show ?thesis by (simp only: ex_345c_r5)
qed

lemma ex_345c_r6: "rnd (0 - 3) = Finite (- 3)"
proof -
  have "rnd (0 - 3) = Finite (of_int (- 6755399441055744) * 2 powr of_int (1 - 52))"
    by (rule rnd_eqI) (simp_all add: powr_minus)
  then show ?thesis by (simp add: powr_minus)
qed

lemma ex_345c_r7: "rnd (3) = Finite 3"
proof -
  have "rnd (3) = Finite (of_int 6755399441055744 * 2 powr of_int (1 - 52))"
    by (rule rnd_eqI) (simp_all add: powr_minus)
  then show ?thesis by (simp add: powr_minus)
qed

lemma ex_345c_hyp2: "Math_hypot (Finite 0) (Finite (- 3)) = Finite 3"
proof -
  have "Math_hypot (Finite 0) (Finite (- 3)) = rnd 3" by (rule Math_hypot_axis) simp_all
  then show ?thesis by (simp only: ex_345c_r7)
qed

lemma ex_345c_r8: "rnd (\<bar>4\<bar> / 4) = Finite 1"
proof -
  have "rnd (\<bar>4\<bar> / 4) = Finite (of_int 4503599627370496 * 2 powr of_int (0 - 52))"
    by (rule rnd_eqI) (simp_all add: powr_minus)
  then show ?thesis by (simp add: powr_minus)
qed

lemma ex_345c_r9: "rnd (1 * 1) = Finite 1"
proof -
  have "rnd (1 * 1) = Finite (of_int 4503599627370496 * 2 powr of_int (0 - 52))"
    by (rule rnd_eqI) (simp_all add: powr_minus)
  then show ?thesis by (simp add: powr_minus)
qed

lemma ex_345c_r10: "rnd (\<bar>(- 3)\<bar> / 4) = Finite (3 / 2 ^ 2)"
proof -
  have "rnd (\<bar>(- 3)\<bar> / 4) = Finite (of_int 6755399441055744 * 2 powr of_int (-1 - 52))"
    by (rule rnd_eqI) (simp_all add: powr_minus)
  then show ?thesis by (simp add: powr_minus)
qed

lemma ex_345c_r11: "rnd ((3 / 2 ^ 2) * (3 / 2 ^ 2)) = Finite (9 / 2 ^ 4)"
proof -
  have "rnd ((3 / 2 ^ 2) * (3 / 2 ^ 2)) = Finite (of_int 5066549580791808 * 2 powr of_int (-1 - 52))"
    by (rule rnd_eqI) (simp_all add: powr_minus)
  then show ?thesis by (simp add: powr_minus)
qed

lemma ex_345c_r12: "rnd (1 + (9 / 2 ^ 4)) = Finite (25 / 2 ^ 4)"
proof -
  have "rnd (1 + (9 / 2 ^ 4)) = Finite (of_int 7036874417766400 * 2 powr of_int (0 - 52))"
    by (rule rnd_eqI) (simp_all add: powr_minus)
  then show ?thesis by (simp add: powr_minus)
qed

lemma ex_345c_r14: "rnd ((5 / 2 ^ 2)) = Finite (5 / 2 ^ 2)"
proof -
  have "rnd ((5 / 2 ^ 2)) = Finite (of_int 5629499534213120 * 2 powr of_int (0 - 52))"
    by (rule rnd_eqI) (simp_all add: powr_minus)
  then show ?thesis by (simp add: powr_minus)
qed

lemma ex_345c_r13: "rnd (sqrt (25 / 2 ^ 4)) = Finite (5 / 2 ^ 2)"
  using ex_345c_r14 by (intro rnd_sqrt_exact) simp_all

lemma ex_345c_r15: "rnd ((5 / 2 ^ 2) * 4) = Finite 5"
proof -
  have "rnd ((5 / 2 ^ 2) * 4) = Finite (of_int 5629499534213120 * 2 powr of_int (2 - 52))"
    by (rule rnd_eqI) (simp_all add: powr_minus)
  then show ?thesis by (simp add: powr_minus)
qed

lemma ex_345c_hyp3: "Math_hypot (Finite 4) (Finite (- 3)) = Finite 5"
  using Math_hypot_eval[OF _ _ ex_345c_r8 ex_345c_r9 ex_345c_r10 ex_345c_r11 ex_345c_r12 ex_345c_r13] ex_345c_r15 by simp

lemma ex_345c_sides:
  "distance (pt 4 0) (pt 0 0) = Finite 4"
  "distance (pt 0 3) (pt 0 0) = Finite 3"
  "distance (pt 0 3) (pt 4 0) = Finite 5"
  by (rule distance_eval[OF ex_345c_r1 ex_345c_r3 ex_345c_hyp1] distance_eval[OF ex_345c_r3 ex_345c_r6 ex_345c_hyp2] distance_eval[OF ex_345c_r4 ex_345c_r6 ex_345c_hyp3])+

lemma ex_345c_finite: "sides_finite (pt 0 3) (pt 4 0) (pt 0 0)"
  by (simp only: sides_finite_def ex_345c_sides isFinite.simps simp_thms)

lemma ex_345c_r16: "rnd (0 * 0) = Finite 0"
  by (simp add: rnd_zero)

lemma ex_345c_r17: "rnd (4 * (- 3)) = Finite (- 12)"
proof -
  have "rnd (4 * (- 3)) = Finite (of_int (- 6755399441055744) * 2 powr of_int (3 - 52))"
    by (rule rnd_eqI) (simp_all add: powr_minus)
  then show ?thesis by (simp add: powr_minus)
qed

lemma ex_345c_r18: "rnd (0 * 3) = Finite 0"
  by (simp add: rnd_zero)

lemma ex_345c_r19: "rnd (0 + (- 12)) = Finite (- 12)"
proof -
  have "rnd (0 + (- 12)) = Finite (of_int (- 6755399441055744) * 2 powr of_int (3 - 52))"
    by (rule rnd_eqI) (simp_all add: powr_minus)
  then show ?thesis by (simp add: powr_minus)
qed

lemma ex_345c_r20: "rnd ((- 12) + 0) = Finite (- 12)"
proof -
  have "rnd ((- 12) + 0) = Finite (of_int (- 6755399441055744) * 2 powr of_int (3 - 52))"
    by (rule rnd_eqI) (simp_all add: powr_minus)
  then show ?thesis by (simp add: powr_minus)
qed

lemma ex_345c_r21: "rnd (\<bar>(- 12)\<bar> / 2) = Finite 6"
proof -
  have "rnd (\<bar>(- 12)\<bar> / 2) = Finite (of_int 6755399441055744 * 2 powr of_int (2 - 52))"
    by (rule rnd_eqI) (simp_all add: powr_minus)
  then show ?thesis by (simp add: powr_minus)
qed

lemma ex_345c_area: "unsigned_area (pt 0 3) (pt 4 0) (pt 0 0) = Finite 6"
  by (rule area_eval[OF ex_345c_r3 ex_345c_r16 ex_345c_r6 ex_345c_r17 ex_345c_r2 ex_345c_r18 ex_345c_r19 ex_345c_r20 ex_345c_r21])

lemma ex_345c_area_ok: "\<not> js_le (unsigned_area (pt 0 3) (pt 4 0) (pt 0 0)) EPS"
  unfolding ex_345c_area EPS_val by simp

lemma ex_345c_valid: "valid (triangleData ((pt 0 3), (pt 4 0), (pt 0 0)))"
  using ex_345c_not_coincide ex_345c_finite ex_345c_area_ok by (simp only: valid_iff simp_thms)

lemma ex_345c_r22: "rnd (4 + 3) = Finite 7"
proof -
  have "rnd (4 + 3) = Finite (of_int 7881299347898368 * 2 powr of_int (2 - 52))"
    by (rule rnd_eqI) (simp_all add: powr_minus)
  then show ?thesis by (simp add: powr_minus)
qed

lemma ex_345c_r23: "rnd (7 + 5) = Finite 12"
proof -
  have "rnd (7 + 5) = Finite (of_int 6755399441055744 * 2 powr of_int (3 - 52))"
    by (rule rnd_eqI) (simp_all add: powr_minus)
  then show ?thesis by (simp add: powr_minus)
qed

lemma ex_345c_perimeter: "js_add (js_add (Finite 4) (Finite 3)) (Finite 5) = Finite 12"
  by (rule perimeter_eval[OF ex_345c_r22 ex_345c_r23])

lemma ex_345c_result:
  "sides (triangleData ((pt 0 3), (pt 4 0), (pt 0 0))) = Some \<lparr>side_a = Finite 4, side_b = Finite 3, side_c = Finite 5\<rparr>"
  "perimeter (triangleData ((pt 0 3), (pt 4 0), (pt 0 0))) = Some (Finite 12)"
  "area (triangleData ((pt 0 3), (pt 4 0), (pt 0 0))) = Some (Finite 6)"
  unfolding triangleData_valid[OF ex_345c_not_coincide ex_345c_finite ex_345c_area_ok]
  by (simp_all only: TriangleData.select_convs ex_345c_sides ex_345c_perimeter ex_345c_area)

section \<open>A needle triangle\<close>

lemma thin_r1: "rnd (0 - 2) = Finite (- 2)"
proof -
  have "rnd (0 - 2) = Finite (of_int (- 4503599627370496) * 2 powr of_int (1 - 52))"
    by (rule rnd_eqI) (simp_all add: powr_minus)
  then show ?thesis by (simp add: powr_minus)
qed

lemma thin_r2: "rnd (0 - 0) = Finite 0"
  by (simp add: rnd_zero)

lemma thin_r3: "rnd (0 - 1) = Finite (- 1)"
proof -
  have "rnd (0 - 1) = Finite (of_int (- 4503599627370496) * 2 powr of_int (0 - 52))"
    by (rule rnd_eqI) (simp_all add: powr_minus)
  then show ?thesis by (simp add: powr_minus)
qed

lemma thin_r4: "rnd (0 - (1 / 2 ^ 27)) = Finite (- (1 / 2 ^ 27))"
proof -
  have "rnd (0 - (1 / 2 ^ 27)) = Finite (of_int (- 4503599627370496) * 2 powr of_int (-27 - 52))"
    by (rule rnd_eqI) (simp_all add: powr_minus)
  then show ?thesis by (simp add: powr_minus)
qed

lemma thin_r5: "rnd (2 - 1) = Finite 1"
proof -
  have "rnd (2 - 1) = Finite (of_int 4503599627370496 * 2 powr of_int (0 - 52))"
    by (rule rnd_eqI) (simp_all add: powr_minus)
  then show ?thesis by (simp add: powr_minus)
qed

lemma thin_not_coincide: "\<not> any_coincide (pt 0 0) (pt 2 0) (pt 1 (1 / 2 ^ 27))"
  using coincide_eval[OF thin_r1 thin_r2] coincide_eval[OF thin_r3 thin_r4] coincide_eval[OF thin_r5 thin_r4]
  by (simp add: any_coincide_def)

lemma thin_r6: "rnd (1 - 2) = Finite (- 1)"
proof -
  have "rnd (1 - 2) = Finite (of_int (- 4503599627370496) * 2 powr of_int (0 - 52))"
    by (rule rnd_eqI) (simp_all add: powr_minus)
  then show ?thesis by (simp add: powr_minus)
qed

lemma thin_r7: "rnd ((1 / 2 ^ 27) - 0) = Finite (1 / 2 ^ 27)"
proof -
  have "rnd ((1 / 2 ^ 27) - 0) = Finite (of_int 4503599627370496 * 2 powr of_int (-27 - 52))"
    by (rule rnd_eqI) (simp_all add: powr_minus)
  then show ?thesis by (simp add: powr_minus)
qed

lemma thin_r8: "rnd (\<bar>(- 1)\<bar> / 1) = Finite 1"
proof -
  have "rnd (\<bar>(- 1)\<bar> / 1) = Finite (of_int 4503599627370496 * 2 powr of_int (0 - 52))"
    by (rule rnd_eqI) (simp_all add: powr_minus)
  then show ?thesis by (simp add: powr_minus)
qed

lemma thin_r9: "rnd (1 * 1) = Finite 1"
proof -
  have "rnd (1 * 1) = Finite (of_int 4503599627370496 * 2 powr of_int (0 - 52))"
    by (rule rnd_eqI) (simp_all add: powr_minus)
  then show ?thesis by (simp add: powr_minus)
qed

lemma thin_r10: "rnd (\<bar>(1 / 2 ^ 27)\<bar> / 1) = Finite (1 / 2 ^ 27)"
proof -
  have "rnd (\<bar>(1 / 2 ^ 27)\<bar> / 1) = Finite (of_int 4503599627370496 * 2 powr of_int (-27 - 52))"
    by (rule rnd_eqI) (simp_all add: powr_minus)
  then show ?thesis by (simp add: powr_minus)
qed

lemma thin_r11: "rnd ((1 / 2 ^ 27) * (1 / 2 ^ 27)) = Finite (1 / 2 ^ 54)"
proof -
  have "rnd ((1 / 2 ^ 27) * (1 / 2 ^ 27)) = Finite (of_int 4503599627370496 * 2 powr of_int (-54 - 52))"
    by (rule rnd_eqI) (simp_all add: powr_minus)
  then show ?thesis by (simp add: powr_minus)
qed

lemma thin_r12: "rnd (1 + (1 / 2 ^ 54)) = Finite 1"
proof -
  have "rnd (1 + (1 / 2 ^ 54)) = Finite (of_int 4503599627370496 * 2 powr of_int (0 - 52))"
    by (rule rnd_eqI) (simp_all add: powr_minus)
  then show ?thesis by (simp add: powr_minus)
qed

lemma thin_r14: "rnd (1) = Finite 1"
proof -
  have "rnd (1) = Finite (of_int 4503599627370496 * 2 powr of_int (0 - 52))"
    by (rule rnd_eqI) (simp_all add: powr_minus)
  then show ?thesis by (simp add: powr_minus)
qed

lemma thin_r13: "rnd (sqrt 1) = Finite 1"
  using thin_r14 by (intro rnd_sqrt_exact) simp_all

lemma thin_hyp1: "Math_hypot (Finite (- 1)) (Finite (1 / 2 ^ 27)) = Finite 1"
  using Math_hypot_eval[OF _ _ thin_r8 thin_r9 thin_r10 thin_r11 thin_r12 thin_r13] thin_r9 by simp

lemma thin_r15: "rnd (1 - 0) = Finite 1"
proof -
  have "rnd (1 - 0) = Finite (of_int 4503599627370496 * 2 powr of_int (0 - 52))"
    by (rule rnd_eqI) (simp_all add: powr_minus)
  then show ?thesis by (simp add: powr_minus)
qed

lemma thin_r16: "rnd (\<bar>1\<bar> / 1) = Finite 1"
proof -
  have "rnd (\<bar>1\<bar> / 1) = Finite (of_int 4503599627370496 * 2 powr of_int (0 - 52))"
    by (rule rnd_eqI) (simp_all add: powr_minus)
  then show ?thesis by (simp add: powr_minus)
qed

lemma thin_hyp2: "Math_hypot (Finite 1) (Finite (1 / 2 ^ 27)) = Finite 1"
  using Math_hypot_eval[OF _ _ thin_r16 thin_r9 thin_r10 thin_r11 thin_r12 thin_r13] thin_r9 by simp

lemma thin_r17: "rnd (2 - 0) = Finite 2"
proof -
  have "rnd (2 - 0) = Finite (of_int 4503599627370496 * 2 powr of_int (1 - 52))"
    by (rule rnd_eqI) (simp_all add: powr_minus)
  then show ?thesis by (simp add: powr_minus)
qed

lemma thin_r18: "rnd (2) = Finite 2"
proof -
  have "rnd (2) = Finite (of_int 4503599627370496 * 2 powr of_int (1 - 52))"
    by (rule rnd_eqI) (simp_all add: powr_minus)
  then show ?thesis by (simp add: powr_minus)
qed

lemma thin_hyp3: "Math_hypot (Finite 2) (Finite 0) = Finite 2"
proof -
  have "Math_hypot (Finite 2) (Finite 0) = rnd 2" by (rule Math_hypot_axis) simp_all
  then show ?thesis by (simp only: thin_r18)
qed

lemma thin_sides:
  "distance (pt 2 0) (pt 1 (1 / 2 ^ 27)) = Finite 1"
  "distance (pt 0 0) (pt 1 (1 / 2 ^ 27)) = Finite 1"
  "distance (pt 0 0) (pt 2 0) = Finite 2"
  by (rule distance_eval[OF thin_r6 thin_r7 thin_hyp1] distance_eval[OF thin_r15 thin_r7 thin_hyp2] distance_eval[OF thin_r17 thin_r2 thin_hyp3])+

lemma thin_finite: "sides_finite (pt 0 0) (pt 2 0) (pt 1 (1 / 2 ^ 27))"
  by (simp only: sides_finite_def thin_sides isFinite.simps simp_thms)

lemma thin_r19: "rnd (0 * (- (1 / 2 ^ 27))) = Finite 0"
  by (simp add: rnd_zero)

lemma thin_r20: "rnd (2 * (1 / 2 ^ 27)) = Finite (1 / 2 ^ 26)"
proof -
  have "rnd (2 * (1 / 2 ^ 27)) = Finite (of_int 4503599627370496 * 2 powr of_int (-26 - 52))"
    by (rule rnd_eqI) (simp_all add: powr_minus)
  then show ?thesis by (simp add: powr_minus)
qed

lemma thin_r21: "rnd (1 * 0) = Finite 0"
  by (simp add: rnd_zero)

lemma thin_r22: "rnd (0 + (1 / 2 ^ 26)) = Finite (1 / 2 ^ 26)"
proof -
  have "rnd (0 + (1 / 2 ^ 26)) = Finite (of_int 4503599627370496 * 2 powr of_int (-26 - 52))"
    by (rule rnd_eqI) (simp_all add: powr_minus)
  then show ?thesis by (simp add: powr_minus)
qed

lemma thin_r23: "rnd ((1 / 2 ^ 26) + 0) = Finite (1 / 2 ^ 26)"
proof -
  have "rnd ((1 / 2 ^ 26) + 0) = Finite (of_int 4503599627370496 * 2 powr of_int (-26 - 52))"
    by (rule rnd_eqI) (simp_all add: powr_minus)
  then show ?thesis by (simp add: powr_minus)
qed

lemma thin_r24: "rnd (\<bar>(1 / 2 ^ 26)\<bar> / 2) = Finite (1 / 2 ^ 27)"
proof -
  have "rnd (\<bar>(1 / 2 ^ 26)\<bar> / 2) = Finite (of_int 4503599627370496 * 2 powr of_int (-27 - 52))"
    by (rule rnd_eqI) (simp_all add: powr_minus)
  then show ?thesis by (simp add: powr_minus)
qed

lemma thin_area: "unsigned_area (pt 0 0) (pt 2 0) (pt 1 (1 / 2 ^ 27)) = Finite (1 / 2 ^ 27)"
  by (rule area_eval[OF thin_r4 thin_r19 thin_r7 thin_r20 thin_r2 thin_r21 thin_r22 thin_r23 thin_r24])

lemma thin_area_ok: "\<not> js_le (unsigned_area (pt 0 0) (pt 2 0) (pt 1 (1 / 2 ^ 27))) EPS"
  unfolding thin_area EPS_val by simp

lemma thin_valid: "valid (triangleData ((pt 0 0), (pt 2 0), (pt 1 (1 / 2 ^ 27))))"
  using thin_not_coincide thin_finite thin_area_ok by (simp only: valid_iff simp_thms)

lemma thin_r25: "rnd (1 + 1) = Finite 2"
proof -
  have "rnd (1 + 1) = Finite (of_int 4503599627370496 * 2 powr of_int (1 - 52))"
    by (rule rnd_eqI) (simp_all add: powr_minus)
  then show ?thesis by (simp add: powr_minus)
qed

lemma thin_r26: "rnd (2 + 2) = Finite 4"
proof -
  have "rnd (2 + 2) = Finite (of_int 4503599627370496 * 2 powr of_int (2 - 52))"
    by (rule rnd_eqI) (simp_all add: powr_minus)
  then show ?thesis by (simp add: powr_minus)
qed

lemma thin_perimeter: "js_add (js_add (Finite 1) (Finite 1)) (Finite 2) = Finite 4"
  by (rule perimeter_eval[OF thin_r25 thin_r26])

lemma thin_r27: "rnd (2 * 2) = Finite 4"
proof -
  have "rnd (2 * 2) = Finite (of_int 4503599627370496 * 2 powr of_int (2 - 52))"
    by (rule rnd_eqI) (simp_all add: powr_minus)
  then show ?thesis by (simp add: powr_minus)
qed

lemma thin_r28: "rnd (1 + 4) = Finite 5"
proof -
  have "rnd (1 + 4) = Finite (of_int 5629499534213120 * 2 powr of_int (2 - 52))"
    by (rule rnd_eqI) (simp_all add: powr_minus)
  then show ?thesis by (simp add: powr_minus)
qed

lemma thin_r29: "rnd (5 - 1) = Finite 4"
proof -
  have "rnd (5 - 1) = Finite (of_int 4503599627370496 * 2 powr of_int (2 - 52))"
    by (rule rnd_eqI) (simp_all add: powr_minus)
  then show ?thesis by (simp add: powr_minus)
qed

lemma thin_r30: "rnd (2 * 1) = Finite 2"
proof -
  have "rnd (2 * 1) = Finite (of_int 4503599627370496 * 2 powr of_int (1 - 52))"
    by (rule rnd_eqI) (simp_all add: powr_minus)
  then show ?thesis by (simp add: powr_minus)
qed

lemma thin_r31: "rnd (4 / 4) = Finite 1"
proof -
  have "rnd (4 / 4) = Finite (of_int 4503599627370496 * 2 powr of_int (0 - 52))"
    by (rule rnd_eqI) (simp_all add: powr_minus)
  then show ?thesis by (simp add: powr_minus)
qed

lemma thin_cos1: "law_of_cosines (Finite 1) (Finite 2) (Finite 1) = Finite 1"
proof -
  have "law_of_cosines (Finite 1) (Finite 2) (Finite 1) = clamp (Finite 1) (Finite (- 1)) (Finite 1)"
    by (rule cosine_eval[OF thin_r9 thin_r27 thin_r28 thin_r9 thin_r29 thin_r30 thin_r27 _ thin_r31]) simp
  also have "\<dots> = Finite 1" by (simp add: clamp_def)
  finally show ?thesis .
qed

lemma thin_acos1: "Math_acos (Finite 1) = Finite 0"
  by (rule acos_one)

lemma thin_r32: "rnd (0 * 180) = Finite 0"
  by (simp add: rnd_zero)

lemma thin_r33: "rnd (0 / (884279719003555 / 2 ^ 48)) = Finite 0"
  by (simp add: rnd_zero)

lemma thin_r34: "rnd (2 - 4) = Finite (- 2)"
proof -
  have "rnd (2 - 4) = Finite (of_int (- 4503599627370496) * 2 powr of_int (1 - 52))"
    by (rule rnd_eqI) (simp_all add: powr_minus)
  then show ?thesis by (simp add: powr_minus)
qed

lemma thin_r35: "rnd ((- 2) / 2) = Finite (- 1)"
proof -
  have "rnd ((- 2) / 2) = Finite (of_int (- 4503599627370496) * 2 powr of_int (0 - 52))"
    by (rule rnd_eqI) (simp_all add: powr_minus)
  then show ?thesis by (simp add: powr_minus)
qed

lemma thin_cos2: "law_of_cosines (Finite 1) (Finite 1) (Finite 2) = Finite (- 1)"
proof -
  have "law_of_cosines (Finite 1) (Finite 1) (Finite 2) = clamp (Finite (- 1)) (Finite (- 1)) (Finite 1)"
    by (rule cosine_eval[OF thin_r9 thin_r9 thin_r25 thin_r27 thin_r34 thin_r30 thin_r30 _ thin_r35]) simp
  also have "\<dots> = Finite (- 1)" by (simp add: clamp_def)
  finally show ?thesis .
qed

lemma thin_acos2: "Math_acos (Finite (- 1)) = Finite (884279719003555 / 2 ^ 48)"
  by (rule acos_minus_one[unfolded pi_dbl_def])

lemma thin_r36: "rnd ((884279719003555 / 2 ^ 48) * 180) = Finite (4974073419394997 / 2 ^ 43)"
proof -
  have "rnd ((884279719003555 / 2 ^ 48) * 180) = Finite (of_int 4974073419394997 * 2 powr of_int (9 - 52))"
    by (rule rnd_eqI) (simp_all add: powr_minus)
  then show ?thesis by (simp add: powr_minus)
qed

lemma thin_r37: "rnd ((4974073419394997 / 2 ^ 43) / (884279719003555 / 2 ^ 48)) = Finite 180"
proof -
  have "rnd ((4974073419394997 / 2 ^ 43) / (884279719003555 / 2 ^ 48)) = Finite (of_int 6333186975989760 * 2 powr of_int (7 - 52))"
    by (rule rnd_eqI) (simp_all add: powr_minus)
  then show ?thesis by (simp add: powr_minus)
qed

lemma thin_angles:
  "toDeg (Math_acos (law_of_cosines (Finite 1) (Finite 2) (Finite 1))) = Finite 0"
  "toDeg (Math_acos (law_of_cosines (Finite 1) (Finite 2) (Finite 1))) = Finite 0"
  "toDeg (Math_acos (law_of_cosines (Finite 1) (Finite 1) (Finite 2))) = Finite 180"
  unfolding thin_cos1 thin_cos1 thin_cos2 thin_acos1 thin_acos1 thin_acos2
  by (rule toDeg_eval[OF thin_r32 thin_r33] toDeg_eval[OF thin_r32 thin_r33] toDeg_eval[OF thin_r36 thin_r37])+

lemma thin_result:
  "sides (triangleData ((pt 0 0), (pt 2 0), (pt 1 (1 / 2 ^ 27)))) = Some \<lparr>side_a = Finite 1, side_b = Finite 1, side_c = Finite 2\<rparr>"
  "angles (triangleData ((pt 0 0), (pt 2 0), (pt 1 (1 / 2 ^ 27)))) = Some \<lparr>angle_A = Finite 0, angle_B = Finite 0, angle_C = Finite 180\<rparr>"
  "perimeter (triangleData ((pt 0 0), (pt 2 0), (pt 1 (1 / 2 ^ 27)))) = Some (Finite 4)"
  "area (triangleData ((pt 0 0), (pt 2 0), (pt 1 (1 / 2 ^ 27)))) = Some (Finite (1 / 2 ^ 27))"
  unfolding triangleData_valid[OF thin_not_coincide thin_finite thin_area_ok]
  by (simp_all only: TriangleData.select_convs thin_sides thin_angles thin_perimeter thin_area)

section \<open>A long needle triangle\<close>

lemma long_r1: "rnd (0 - 1152921504606847232) = Finite (- 1152921504606847232)"
proof -
  have "rnd (0 - 1152921504606847232) = Finite (of_int (- 4503599627370497) * 2 powr of_int (60 - 52))"
    by (rule rnd_eqI) (simp_all add: powr_minus)
  then show ?thesis by (simp add: powr_minus)
qed

lemma long_r2: "rnd (0 - 0) = Finite 0"
  by (simp add: rnd_zero)

lemma long_r3: "rnd (0 - 128) = Finite (- 128)"
proof -
  have "rnd (0 - 128) = Finite (of_int (- 4503599627370496) * 2 powr of_int (7 - 52))"
    by (rule rnd_eqI) (simp_all add: powr_minus)
  then show ?thesis by (simp add: powr_minus)
qed

lemma long_r4: "rnd (0 - (1 / 2 ^ 20)) = Finite (- (1 / 2 ^ 20))"
proof -
  have "rnd (0 - (1 / 2 ^ 20)) = Finite (of_int (- 4503599627370496) * 2 powr of_int (-20 - 52))"
    by (rule rnd_eqI) (simp_all add: powr_minus)
  then show ?thesis by (simp add: powr_minus)
qed

lemma long_r5: "rnd (1152921504606847232 - 128) = Finite 1152921504606846976"
proof -
  have q: "(1152921504606847232 - 128) / 2 powr of_int (60 - 52) = (of_int 4503599627370496 + 1 / 2 :: real)"
    by (simp add: powr_minus)
  have "rne ((1152921504606847232 - 128) / 2 powr of_int (60 - 52)) = 4503599627370496"
    unfolding q rne_tie by simp
  then have "rnd (1152921504606847232 - 128) = Finite (of_int 4503599627370496 * 2 powr of_int (60 - 52))"
    by (intro rnd_eqI_rne) (simp_all add: powr_minus)
  then show ?thesis by (simp add: powr_minus)
qed

lemma long_not_coincide: "\<not> any_coincide (pt 0 0) (pt 1152921504606847232 0) (pt 128 (1 / 2 ^ 20))"
  using coincide_eval[OF long_r1 long_r2] coincide_eval[OF long_r3 long_r4] coincide_eval[OF long_r5 long_r4]
  by (simp add: any_coincide_def)

lemma long_r6: "rnd (128 - 1152921504606847232) = Finite (- 1152921504606846976)"
proof -
  have q: "(128 - 1152921504606847232) / 2 powr of_int (60 - 52) = (of_int (- 4503599627370497) + 1 / 2 :: real)"
    by (simp add: powr_minus)
  have "rne ((128 - 1152921504606847232) / 2 powr of_int (60 - 52)) = (- 4503599627370496)"
    unfolding q rne_tie by simp
  then have "rnd (128 - 1152921504606847232) = Finite (of_int (- 4503599627370496) * 2 powr of_int (60 - 52))"
    by (intro rnd_eqI_rne) (simp_all add: powr_minus)
  then show ?thesis by (simp add: powr_minus)
qed

lemma long_r7: "rnd ((1 / 2 ^ 20) - 0) = Finite (1 / 2 ^ 20)"
proof -
  have "rnd ((1 / 2 ^ 20) - 0) = Finite (of_int 4503599627370496 * 2 powr of_int (-20 - 52))"
    by (rule rnd_eqI) (simp_all add: powr_minus)
  then show ?thesis by (simp add: powr_minus)
qed

lemma long_r8: "rnd (\<bar>(- 1152921504606846976)\<bar> / 1152921504606846976) = Finite 1"
proof -
  have "rnd (\<bar>(- 1152921504606846976)\<bar> / 1152921504606846976) = Finite (of_int 4503599627370496 * 2 powr of_int (0 - 52))"
    by (rule rnd_eqI) (simp_all add: powr_minus)
  then show ?thesis by (simp add: powr_minus)
qed

lemma long_r9: "rnd (1 * 1) = Finite 1"
proof -
  have "rnd (1 * 1) = Finite (of_int 4503599627370496 * 2 powr of_int (0 - 52))"
    by (rule rnd_eqI) (simp_all add: powr_minus)
  then show ?thesis by (simp add: powr_minus)
qed

lemma long_r10: "rnd (\<bar>(1 / 2 ^ 20)\<bar> / 1152921504606846976) = Finite (1 / 2 ^ 80)"
proof -
  have "rnd (\<bar>(1 / 2 ^ 20)\<bar> / 1152921504606846976) = Finite (of_int 4503599627370496 * 2 powr of_int (-80 - 52))"
    by (rule rnd_eqI) (simp_all add: powr_minus)
  then show ?thesis by (simp add: powr_minus)
qed

lemma long_r11: "rnd ((1 / 2 ^ 80) * (1 / 2 ^ 80)) = Finite (1 / 2 ^ 160)"
proof -
  have "rnd ((1 / 2 ^ 80) * (1 / 2 ^ 80)) = Finite (of_int 4503599627370496 * 2 powr of_int (-160 - 52))"
    by (rule rnd_eqI) (simp_all add: powr_minus)
  then show ?thesis by (simp add: powr_minus)
qed

lemma long_r12: "rnd (1 + (1 / 2 ^ 160)) = Finite 1"
proof -
  have "rnd (1 + (1 / 2 ^ 160)) = Finite (of_int 4503599627370496 * 2 powr of_int (0 - 52))"
    by (rule rnd_eqI) (simp_all add: powr_minus)
  then show ?thesis by (simp add: powr_minus)
qed

lemma long_r14: "rnd (1) = Finite 1"
proof -
  have "rnd (1) = Finite (of_int 4503599627370496 * 2 powr of_int (0 - 52))"
    by (rule rnd_eqI) (simp_all add: powr_minus)
  then show ?thesis by (simp add: powr_minus)
qed

lemma long_r13: "rnd (sqrt 1) = Finite 1"
  using long_r14 by (intro rnd_sqrt_exact) simp_all

lemma long_r15: "rnd (1 * 1152921504606846976) = Finite 1152921504606846976"
proof -
  have "rnd (1 * 1152921504606846976) = Finite (of_int 4503599627370496 * 2 powr of_int (60 - 52))"
    by (rule rnd_eqI) (simp_all add: powr_minus)
  then show ?thesis by (simp add: powr_minus)
qed

lemma long_hyp1: "Math_hypot (Finite (- 1152921504606846976)) (Finite (1 / 2 ^ 20)) = Finite 1152921504606846976"
  using Math_hypot_eval[OF _ _ long_r8 long_r9 long_r10 long_r11 long_r12 long_r13] long_r15 by simp

lemma long_r16: "rnd (128 - 0) = Finite 128"
proof -
  have "rnd (128 - 0) = Finite (of_int 4503599627370496 * 2 powr of_int (7 - 52))"
    by (rule rnd_eqI) (simp_all add: powr_minus)
  then show ?thesis by (simp add: powr_minus)
qed

lemma long_r17: "rnd (\<bar>128\<bar> / 128) = Finite 1"
proof -
  have "rnd (\<bar>128\<bar> / 128) = Finite (of_int 4503599627370496 * 2 powr of_int (0 - 52))"
    by (rule rnd_eqI) (simp_all add: powr_minus)
  then show ?thesis by (simp add: powr_minus)
qed

lemma long_r18: "rnd (\<bar>(1 / 2 ^ 20)\<bar> / 128) = Finite (1 / 2 ^ 27)"
proof -
  have "rnd (\<bar>(1 / 2 ^ 20)\<bar> / 128) = Finite (of_int 4503599627370496 * 2 powr of_int (-27 - 52))"
    by (rule rnd_eqI) (simp_all add: powr_minus)
  then show ?thesis by (simp add: powr_minus)
qed

lemma long_r19: "rnd ((1 / 2 ^ 27) * (1 / 2 ^ 27)) = Finite (1 / 2 ^ 54)"
proof -
  have "rnd ((1 / 2 ^ 27) * (1 / 2 ^ 27)) = Finite (of_int 4503599627370496 * 2 powr of_int (-54 - 52))"
    by (rule rnd_eqI) (simp_all add: powr_minus)
  then show ?thesis by (simp add: powr_minus)
qed

lemma long_r20: "rnd (1 + (1 / 2 ^ 54)) = Finite 1"
proof -
  have "rnd (1 + (1 / 2 ^ 54)) = Finite (of_int 4503599627370496 * 2 powr of_int (0 - 52))"
    by (rule rnd_eqI) (simp_all add: powr_minus)
  then show ?thesis by (simp add: powr_minus)
qed

lemma long_r21: "rnd (1 * 128) = Finite 128"
proof -
  have "rnd (1 * 128) = Finite (of_int 4503599627370496 * 2 powr of_int (7 - 52))"
    by (rule rnd_eqI) (simp_all add: powr_minus)
  then show ?thesis by (simp add: powr_minus)
qed

lemma long_hyp2: "Math_hypot (Finite 128) (Finite (1 / 2 ^ 20)) = Finite 128"
  using Math_hypot_eval[OF _ _ long_r17 long_r9 long_r18 long_r19 long_r20 long_r13] long_r21 by simp

lemma long_r22: "rnd (1152921504606847232 - 0) = Finite 1152921504606847232"
proof -
  have "rnd (1152921504606847232 - 0) = Finite (of_int 4503599627370497 * 2 powr of_int (60 - 52))"
    by (rule rnd_eqI) (simp_all add: powr_minus)
  then show ?thesis by (simp add: powr_minus)
qed

lemma long_r23: "rnd (1152921504606847232) = Finite 1152921504606847232"
proof -
  have "rnd (1152921504606847232) = Finite (of_int 4503599627370497 * 2 powr of_int (60 - 52))"
    by (rule rnd_eqI) (simp_all add: powr_minus)
  then show ?thesis by (simp add: powr_minus)
qed

lemma long_hyp3: "Math_hypot (Finite 1152921504606847232) (Finite 0) = Finite 1152921504606847232"
proof -
  have "Math_hypot (Finite 1152921504606847232) (Finite 0) = rnd 1152921504606847232" by (rule Math_hypot_axis) simp_all
  then show ?thesis by (simp only: long_r23)
qed

lemma long_sides:
  "distance (pt 1152921504606847232 0) (pt 128 (1 / 2 ^ 20)) = Finite 1152921504606846976"
  "distance (pt 0 0) (pt 128 (1 / 2 ^ 20)) = Finite 128"
  "distance (pt 0 0) (pt 1152921504606847232 0) = Finite 1152921504606847232"
  by (rule distance_eval[OF long_r6 long_r7 long_hyp1] distance_eval[OF long_r16 long_r7 long_hyp2] distance_eval[OF long_r22 long_r2 long_hyp3])+

lemma long_finite: "sides_finite (pt 0 0) (pt 1152921504606847232 0) (pt 128 (1 / 2 ^ 20))"
  by (simp only: sides_finite_def long_sides isFinite.simps simp_thms)

lemma long_r24: "rnd (0 * (- (1 / 2 ^ 20))) = Finite 0"
  by (simp add: rnd_zero)

lemma long_r25: "rnd (1152921504606847232 * (1 / 2 ^ 20)) = Finite (4503599627370497 / 2 ^ 12)"
proof -
  have "rnd (1152921504606847232 * (1 / 2 ^ 20)) = Finite (of_int 4503599627370497 * 2 powr of_int (40 - 52))"
    by (rule rnd_eqI) (simp_all add: powr_minus)
  then show ?thesis by (simp add: powr_minus)
qed

lemma long_r26: "rnd (128 * 0) = Finite 0"
  by (simp add: rnd_zero)

lemma long_r27: "rnd (0 + (4503599627370497 / 2 ^ 12)) = Finite (4503599627370497 / 2 ^ 12)"
proof -
  have "rnd (0 + (4503599627370497 / 2 ^ 12)) = Finite (of_int 4503599627370497 * 2 powr of_int (40 - 52))"
    by (rule rnd_eqI) (simp_all add: powr_minus)
  then show ?thesis by (simp add: powr_minus)
qed

lemma long_r28: "rnd ((4503599627370497 / 2 ^ 12) + 0) = Finite (4503599627370497 / 2 ^ 12)"
proof -
  have "rnd ((4503599627370497 / 2 ^ 12) + 0) = Finite (of_int 4503599627370497 * 2 powr of_int (40 - 52))"
    by (rule rnd_eqI) (simp_all add: powr_minus)
  then show ?thesis by (simp add: powr_minus)
qed

lemma long_r29: "rnd (\<bar>(4503599627370497 / 2 ^ 12)\<bar> / 2) = Finite (4503599627370497 / 2 ^ 13)"
proof -
  have "rnd (\<bar>(4503599627370497 / 2 ^ 12)\<bar> / 2) = Finite (of_int 4503599627370497 * 2 powr of_int (39 - 52))"
    by (rule rnd_eqI) (simp_all add: powr_minus)
  then show ?thesis by (simp add: powr_minus)
qed

lemma long_area: "unsigned_area (pt 0 0) (pt 1152921504606847232 0) (pt 128 (1 / 2 ^ 20)) = Finite (4503599627370497 / 2 ^ 13)"
  by (rule area_eval[OF long_r4 long_r24 long_r7 long_r25 long_r2 long_r26 long_r27 long_r28 long_r29])

lemma long_area_ok: "\<not> js_le (unsigned_area (pt 0 0) (pt 1152921504606847232 0) (pt 128 (1 / 2 ^ 20))) EPS"
  unfolding long_area EPS_val by simp

lemma long_valid: "valid (triangleData ((pt 0 0), (pt 1152921504606847232 0), (pt 128 (1 / 2 ^ 20))))"
  using long_not_coincide long_finite long_area_ok by (simp only: valid_iff simp_thms)

lemma long_r30: "rnd (1152921504606846976 + 128) = Finite 1152921504606846976"
proof -
  have q: "(1152921504606846976 + 128) / 2 powr of_int (60 - 52) = (of_int 4503599627370496 + 1 / 2 :: real)"
    by (simp add: powr_minus)
  have "rne ((1152921504606846976 + 128) / 2 powr of_int (60 - 52)) = 4503599627370496"
    unfolding q rne_tie by simp
  then have "rnd (1152921504606846976 + 128) = Finite (of_int 4503599627370496 * 2 powr of_int (60 - 52))"
    by (intro rnd_eqI_rne) (simp_all add: powr_minus)
  then show ?thesis by (simp add: powr_minus)
qed

lemma long_r31: "rnd (1152921504606846976 + 1152921504606847232) = Finite 2305843009213693952"
proof -
  have q: "(1152921504606846976 + 1152921504606847232) / 2 powr of_int (61 - 52) = (of_int 4503599627370496 + 1 / 2 :: real)"
    by (simp add: powr_minus)
  have "rne ((1152921504606846976 + 1152921504606847232) / 2 powr of_int (61 - 52)) = 4503599627370496"
    unfolding q rne_tie by simp
  then have "rnd (1152921504606846976 + 1152921504606847232) = Finite (of_int 4503599627370496 * 2 powr of_int (61 - 52))"
    by (intro rnd_eqI_rne) (simp_all add: powr_minus)
  then show ?thesis by (simp add: powr_minus)
qed

lemma long_perimeter: "js_add (js_add (Finite 1152921504606846976) (Finite 128)) (Finite 1152921504606847232) = Finite 2305843009213693952"
  by (rule perimeter_eval[OF long_r30 long_r31])

lemma long_result:
  "sides (triangleData ((pt 0 0), (pt 1152921504606847232 0), (pt 128 (1 / 2 ^ 20)))) = Some \<lparr>side_a = Finite 1152921504606846976, side_b = Finite 128, side_c = Finite 1152921504606847232\<rparr>"
  "perimeter (triangleData ((pt 0 0), (pt 1152921504606847232 0), (pt 128 (1 / 2 ^ 20)))) = Some (Finite 2305843009213693952)"
  "area (triangleData ((pt 0 0), (pt 1152921504606847232 0), (pt 128 (1 / 2 ^ 20)))) = Some (Finite (4503599627370497 / 2 ^ 13))"
  unfolding triangleData_valid[OF long_not_coincide long_finite long_area_ok]
  by (simp_all only: TriangleData.select_convs long_sides long_perimeter long_area)

lemmas long_sum = long_r30

section \<open>A triangle whose area depends on the order of the points\<close>

lemma skew_r1: "rnd ((- 67108864) - (1 / 2 ^ 26)) = Finite (- (4503599627370497 / 2 ^ 26))"
proof -
  have "rnd ((- 67108864) - (1 / 2 ^ 26)) = Finite (of_int (- 4503599627370497) * 2 powr of_int (26 - 52))"
    by (rule rnd_eqI) (simp_all add: powr_minus)
  then show ?thesis by (simp add: powr_minus)
qed

lemma skew_r2: "rnd (0 - (- (1 / 2 ^ 26))) = Finite (1 / 2 ^ 26)"
proof -
  have "rnd (0 - (- (1 / 2 ^ 26))) = Finite (of_int 4503599627370496 * 2 powr of_int (-26 - 52))"
    by (rule rnd_eqI) (simp_all add: powr_minus)
  then show ?thesis by (simp add: powr_minus)
qed

lemma skew_r3: "rnd ((- 67108864) - (1 / 2 ^ 25)) = Finite (- (2251799813685249 / 2 ^ 25))"
proof -
  have "rnd ((- 67108864) - (1 / 2 ^ 25)) = Finite (of_int (- 4503599627370498) * 2 powr of_int (26 - 52))"
    by (rule rnd_eqI) (simp_all add: powr_minus)
  then show ?thesis by (simp add: powr_minus)
qed

lemma skew_r4: "rnd (0 - (1 / 2 ^ 26)) = Finite (- (1 / 2 ^ 26))"
proof -
  have "rnd (0 - (1 / 2 ^ 26)) = Finite (of_int (- 4503599627370496) * 2 powr of_int (-26 - 52))"
    by (rule rnd_eqI) (simp_all add: powr_minus)
  then show ?thesis by (simp add: powr_minus)
qed

lemma skew_r5: "rnd ((1 / 2 ^ 26) - (1 / 2 ^ 25)) = Finite (- (1 / 2 ^ 26))"
proof -
  have "rnd ((1 / 2 ^ 26) - (1 / 2 ^ 25)) = Finite (of_int (- 4503599627370496) * 2 powr of_int (-26 - 52))"
    by (rule rnd_eqI) (simp_all add: powr_minus)
  then show ?thesis by (simp add: powr_minus)
qed

lemma skew_r6: "rnd ((- (1 / 2 ^ 26)) - (1 / 2 ^ 26)) = Finite (- (1 / 2 ^ 25))"
proof -
  have "rnd ((- (1 / 2 ^ 26)) - (1 / 2 ^ 26)) = Finite (of_int (- 4503599627370496) * 2 powr of_int (-25 - 52))"
    by (rule rnd_eqI) (simp_all add: powr_minus)
  then show ?thesis by (simp add: powr_minus)
qed

lemma skew_not_coincide: "\<not> any_coincide (pt (- 67108864) 0) (pt (1 / 2 ^ 26) (- (1 / 2 ^ 26))) (pt (1 / 2 ^ 25) (1 / 2 ^ 26))"
  using coincide_eval[OF skew_r1 skew_r2] coincide_eval[OF skew_r3 skew_r4] coincide_eval[OF skew_r5 skew_r6]
  by (simp add: any_coincide_def)

lemma skew_r7: "rnd ((1 / 2 ^ 25) - (1 / 2 ^ 26)) = Finite (1 / 2 ^ 26)"
proof -
  have "rnd ((1 / 2 ^ 25) - (1 / 2 ^ 26)) = Finite (of_int 4503599627370496 * 2 powr of_int (-26 - 52))"
    by (rule rnd_eqI) (simp_all add: powr_minus)
  then show ?thesis by (simp add: powr_minus)
qed

lemma skew_r8: "rnd ((1 / 2 ^ 26) - (- (1 / 2 ^ 26))) = Finite (1 / 2 ^ 25)"
proof -
  have "rnd ((1 / 2 ^ 26) - (- (1 / 2 ^ 26))) = Finite (of_int 4503599627370496 * 2 powr of_int (-25 - 52))"
    by (rule rnd_eqI) (simp_all add: powr_minus)
  then show ?thesis by (simp add: powr_minus)
qed

lemma skew_r9: "rnd (\<bar>(1 / 2 ^ 26)\<bar> / (1 / 2 ^ 25)) = Finite (1 / 2)"
proof -
  have "rnd (\<bar>(1 / 2 ^ 26)\<bar> / (1 / 2 ^ 25)) = Finite (of_int 4503599627370496 * 2 powr of_int (-1 - 52))"
    by (rule rnd_eqI) (simp_all add: powr_minus)
  then show ?thesis by (simp add: powr_minus)
qed

lemma skew_r10: "rnd ((1 / 2) * (1 / 2)) = Finite (1 / 2 ^ 2)"
proof -
  have "rnd ((1 / 2) * (1 / 2)) = Finite (of_int 4503599627370496 * 2 powr of_int (-2 - 52))"
    by (rule rnd_eqI) (simp_all add: powr_minus)
  then show ?thesis by (simp add: powr_minus)
qed

lemma skew_r11: "rnd (\<bar>(1 / 2 ^ 25)\<bar> / (1 / 2 ^ 25)) = Finite 1"
proof -
  have "rnd (\<bar>(1 / 2 ^ 25)\<bar> / (1 / 2 ^ 25)) = Finite (of_int 4503599627370496 * 2 powr of_int (0 - 52))"
    by (rule rnd_eqI) (simp_all add: powr_minus)
  then show ?thesis by (simp add: powr_minus)
qed

lemma skew_r12: "rnd (1 * 1) = Finite 1"
proof -
  have "rnd (1 * 1) = Finite (of_int 4503599627370496 * 2 powr of_int (0 - 52))"
    by (rule rnd_eqI) (simp_all add: powr_minus)
  then show ?thesis by (simp add: powr_minus)
qed

lemma skew_r13: "rnd ((1 / 2 ^ 2) + 1) = Finite (5 / 2 ^ 2)"
proof -
  have "rnd ((1 / 2 ^ 2) + 1) = Finite (of_int 5629499534213120 * 2 powr of_int (0 - 52))"
    by (rule rnd_eqI) (simp_all add: powr_minus)
  then show ?thesis by (simp add: powr_minus)
qed

lemma skew_r14: "rnd (sqrt (5 / 2 ^ 2)) = Finite (629397181890197 / 2 ^ 49)"
proof -
  define s :: real where "s = sqrt (5 / 2 ^ 2)"
  define P :: real where "P = s / (1 / 2 ^ 52)"
  have b: "(80562839281945209 / 2 ^ 56) \<le> s" "s < (10070354910243153 / 2 ^ 53)"
    unfolding s_def by (rule sqrt_between[of "(80562839281945209 / 2 ^ 56)" _ "(10070354910243153 / 2 ^ 53)"]; simp)+
  have "(80562839281945209 / 2 ^ 56) / (1 / 2 ^ 52) \<le> P" "P < (10070354910243153 / 2 ^ 53) / (1 / 2 ^ 52)"
    unfolding P_def using b by (simp_all add: divide_right_mono divide_strict_right_mono)
  moreover have "(of_int 5035177455121576 - 1 / 2 :: real) < (80562839281945209 / 2 ^ 56) / (1 / 2 ^ 52)"
    "((10070354910243153 / 2 ^ 53) / (1 / 2 ^ 52) :: real) \<le> of_int 5035177455121576 + 1 / 2"
    by simp_all
  ultimately have "of_int 5035177455121576 - 1 / 2 < P" "P < of_int 5035177455121576 + 1 / 2" by linarith+
  then have "\<bar>P - of_int 5035177455121576\<bar> < 1 / 2" by (simp only: abs_less_iff) linarith
  moreover have "s / 2 powr of_int (0 - 52) = P" by (simp add: P_def powr_minus)
  ultimately have n: "\<bar>s / 2 powr of_int (0 - 52) - of_int 5035177455121576\<bar> < 1 / 2" by (simp only:)
  have "(2::real) powr of_int (0) \<le> (80562839281945209 / 2 ^ 56)" "((10070354910243153 / 2 ^ 53) :: real) \<le> 2 powr of_int (0 + 1)"
    by (simp_all add: powr_minus)
  then have "2 powr of_int (0) \<le> s" "s < 2 powr of_int (0 + 1)"
    using b by linarith+
  moreover have "\<bar>s\<bar> = s" unfolding s_def by simp
  ultimately have k: "2 powr of_int (0) \<le> \<bar>s\<bar>" "\<bar>s\<bar> < 2 powr of_int (0 + 1)"
    by (simp_all only:)
  have "rnd s = Finite (of_int 5035177455121576 * 2 powr of_int (0 - 52))"
    by (rule rnd_eqI[OF k _ _ n]) simp_all
  then show ?thesis unfolding s_def by (simp add: powr_minus)
qed

lemma skew_r15: "rnd ((629397181890197 / 2 ^ 49) * (1 / 2 ^ 25)) = Finite (629397181890197 / 2 ^ 74)"
proof -
  have "rnd ((629397181890197 / 2 ^ 49) * (1 / 2 ^ 25)) = Finite (of_int 5035177455121576 * 2 powr of_int (-25 - 52))"
    by (rule rnd_eqI) (simp_all add: powr_minus)
  then show ?thesis by (simp add: powr_minus)
qed

lemma skew_hyp1: "Math_hypot (Finite (1 / 2 ^ 26)) (Finite (1 / 2 ^ 25)) = Finite (629397181890197 / 2 ^ 74)"
  using Math_hypot_eval[OF _ _ skew_r9 skew_r10 skew_r11 skew_r12 skew_r13 skew_r14] skew_r15 by simp

lemma skew_r16: "rnd ((1 / 2 ^ 25) - (- 67108864)) = Finite (2251799813685249 / 2 ^ 25)"
proof -
  have "rnd ((1 / 2 ^ 25) - (- 67108864)) = Finite (of_int 4503599627370498 * 2 powr of_int (26 - 52))"
    by (rule rnd_eqI) (simp_all add: powr_minus)
  then show ?thesis by (simp add: powr_minus)
qed

lemma skew_r17: "rnd ((1 / 2 ^ 26) - 0) = Finite (1 / 2 ^ 26)"
proof -
  have "rnd ((1 / 2 ^ 26) - 0) = Finite (of_int 4503599627370496 * 2 powr of_int (-26 - 52))"
    by (rule rnd_eqI) (simp_all add: powr_minus)
  then show ?thesis by (simp add: powr_minus)
qed

lemma skew_r18: "rnd (\<bar>(2251799813685249 / 2 ^ 25)\<bar> / (2251799813685249 / 2 ^ 25)) = Finite 1"
proof -
  have "rnd (\<bar>(2251799813685249 / 2 ^ 25)\<bar> / (2251799813685249 / 2 ^ 25)) = Finite (of_int 4503599627370496 * 2 powr of_int (0 - 52))"
    by (rule rnd_eqI) (simp_all add: powr_minus)
  then show ?thesis by (simp add: powr_minus)
qed

lemma skew_r19: "rnd (\<bar>(1 / 2 ^ 26)\<bar> / (2251799813685249 / 2 ^ 25)) = Finite (2251799813685247 / 2 ^ 103)"
proof -
  have "rnd (\<bar>(1 / 2 ^ 26)\<bar> / (2251799813685249 / 2 ^ 25)) = Finite (of_int 9007199254740988 * 2 powr of_int (-53 - 52))"
    by (rule rnd_eqI) (simp_all add: powr_minus)
  then show ?thesis by (simp add: powr_minus)
qed

lemma skew_r20: "rnd ((2251799813685247 / 2 ^ 103) * (2251799813685247 / 2 ^ 103)) = Finite (1125899906842623 / 2 ^ 154)"
proof -
  have "rnd ((2251799813685247 / 2 ^ 103) * (2251799813685247 / 2 ^ 103)) = Finite (of_int 9007199254740984 * 2 powr of_int (-105 - 52))"
    by (rule rnd_eqI) (simp_all add: powr_minus)
  then show ?thesis by (simp add: powr_minus)
qed

lemma skew_r21: "rnd (1 + (1125899906842623 / 2 ^ 154)) = Finite 1"
proof -
  have "rnd (1 + (1125899906842623 / 2 ^ 154)) = Finite (of_int 4503599627370496 * 2 powr of_int (0 - 52))"
    by (rule rnd_eqI) (simp_all add: powr_minus)
  then show ?thesis by (simp add: powr_minus)
qed

lemma skew_r23: "rnd (1) = Finite 1"
proof -
  have "rnd (1) = Finite (of_int 4503599627370496 * 2 powr of_int (0 - 52))"
    by (rule rnd_eqI) (simp_all add: powr_minus)
  then show ?thesis by (simp add: powr_minus)
qed

lemma skew_r22: "rnd (sqrt 1) = Finite 1"
  using skew_r23 by (intro rnd_sqrt_exact) simp_all

lemma skew_r24: "rnd (1 * (2251799813685249 / 2 ^ 25)) = Finite (2251799813685249 / 2 ^ 25)"
proof -
  have "rnd (1 * (2251799813685249 / 2 ^ 25)) = Finite (of_int 4503599627370498 * 2 powr of_int (26 - 52))"
    by (rule rnd_eqI) (simp_all add: powr_minus)
  then show ?thesis by (simp add: powr_minus)
qed

lemma skew_hyp2: "Math_hypot (Finite (2251799813685249 / 2 ^ 25)) (Finite (1 / 2 ^ 26)) = Finite (2251799813685249 / 2 ^ 25)"
  using Math_hypot_eval[OF _ _ skew_r18 skew_r12 skew_r19 skew_r20 skew_r21 skew_r22] skew_r24 by simp

lemma skew_r25: "rnd ((1 / 2 ^ 26) - (- 67108864)) = Finite (4503599627370497 / 2 ^ 26)"
proof -
  have "rnd ((1 / 2 ^ 26) - (- 67108864)) = Finite (of_int 4503599627370497 * 2 powr of_int (26 - 52))"
    by (rule rnd_eqI) (simp_all add: powr_minus)
  then show ?thesis by (simp add: powr_minus)
qed

lemma skew_r26: "rnd ((- (1 / 2 ^ 26)) - 0) = Finite (- (1 / 2 ^ 26))"
proof -
  have "rnd ((- (1 / 2 ^ 26)) - 0) = Finite (of_int (- 4503599627370496) * 2 powr of_int (-26 - 52))"
    by (rule rnd_eqI) (simp_all add: powr_minus)
  then show ?thesis by (simp add: powr_minus)
qed

lemma skew_r27: "rnd (\<bar>(4503599627370497 / 2 ^ 26)\<bar> / (4503599627370497 / 2 ^ 26)) = Finite 1"
proof -
  have "rnd (\<bar>(4503599627370497 / 2 ^ 26)\<bar> / (4503599627370497 / 2 ^ 26)) = Finite (of_int 4503599627370496 * 2 powr of_int (0 - 52))"
    by (rule rnd_eqI) (simp_all add: powr_minus)
  then show ?thesis by (simp add: powr_minus)
qed

lemma skew_r28: "rnd (\<bar>(- (1 / 2 ^ 26))\<bar> / (4503599627370497 / 2 ^ 26)) = Finite (4503599627370495 / 2 ^ 104)"
proof -
  have "rnd (\<bar>(- (1 / 2 ^ 26))\<bar> / (4503599627370497 / 2 ^ 26)) = Finite (of_int 9007199254740990 * 2 powr of_int (-53 - 52))"
    by (rule rnd_eqI) (simp_all add: powr_minus)
  then show ?thesis by (simp add: powr_minus)
qed

lemma skew_r29: "rnd ((4503599627370495 / 2 ^ 104) * (4503599627370495 / 2 ^ 104)) = Finite (2251799813685247 / 2 ^ 155)"
proof -
  have "rnd ((4503599627370495 / 2 ^ 104) * (4503599627370495 / 2 ^ 104)) = Finite (of_int 9007199254740988 * 2 powr of_int (-105 - 52))"
    by (rule rnd_eqI) (simp_all add: powr_minus)
  then show ?thesis by (simp add: powr_minus)
qed

lemma skew_r30: "rnd (1 + (2251799813685247 / 2 ^ 155)) = Finite 1"
proof -
  have "rnd (1 + (2251799813685247 / 2 ^ 155)) = Finite (of_int 4503599627370496 * 2 powr of_int (0 - 52))"
    by (rule rnd_eqI) (simp_all add: powr_minus)
  then show ?thesis by (simp add: powr_minus)
qed

lemma skew_r31: "rnd (1 * (4503599627370497 / 2 ^ 26)) = Finite (4503599627370497 / 2 ^ 26)"
proof -
  have "rnd (1 * (4503599627370497 / 2 ^ 26)) = Finite (of_int 4503599627370497 * 2 powr of_int (26 - 52))"
    by (rule rnd_eqI) (simp_all add: powr_minus)
  then show ?thesis by (simp add: powr_minus)
qed

lemma skew_hyp3: "Math_hypot (Finite (4503599627370497 / 2 ^ 26)) (Finite (- (1 / 2 ^ 26))) = Finite (4503599627370497 / 2 ^ 26)"
  using Math_hypot_eval[OF _ _ skew_r27 skew_r12 skew_r28 skew_r29 skew_r30 skew_r22] skew_r31 by simp

lemma skew_sides:
  "distance (pt (1 / 2 ^ 26) (- (1 / 2 ^ 26))) (pt (1 / 2 ^ 25) (1 / 2 ^ 26)) = Finite (629397181890197 / 2 ^ 74)"
  "distance (pt (- 67108864) 0) (pt (1 / 2 ^ 25) (1 / 2 ^ 26)) = Finite (2251799813685249 / 2 ^ 25)"
  "distance (pt (- 67108864) 0) (pt (1 / 2 ^ 26) (- (1 / 2 ^ 26))) = Finite (4503599627370497 / 2 ^ 26)"
  by (rule distance_eval[OF skew_r7 skew_r8 skew_hyp1] distance_eval[OF skew_r16 skew_r17 skew_hyp2] distance_eval[OF skew_r25 skew_r26 skew_hyp3])+

lemma skew_finite: "sides_finite (pt (- 67108864) 0) (pt (1 / 2 ^ 26) (- (1 / 2 ^ 26))) (pt (1 / 2 ^ 25) (1 / 2 ^ 26))"
  by (simp only: sides_finite_def skew_sides isFinite.simps simp_thms)

lemma skew_r32: "rnd ((- 67108864) * (- (1 / 2 ^ 25))) = Finite 2"
proof -
  have "rnd ((- 67108864) * (- (1 / 2 ^ 25))) = Finite (of_int 4503599627370496 * 2 powr of_int (1 - 52))"
    by (rule rnd_eqI) (simp_all add: powr_minus)
  then show ?thesis by (simp add: powr_minus)
qed

lemma skew_r33: "rnd ((1 / 2 ^ 26) * (1 / 2 ^ 26)) = Finite (1 / 2 ^ 52)"
proof -
  have "rnd ((1 / 2 ^ 26) * (1 / 2 ^ 26)) = Finite (of_int 4503599627370496 * 2 powr of_int (-52 - 52))"
    by (rule rnd_eqI) (simp_all add: powr_minus)
  then show ?thesis by (simp add: powr_minus)
qed

lemma skew_r34: "rnd ((1 / 2 ^ 25) * (1 / 2 ^ 26)) = Finite (1 / 2 ^ 51)"
proof -
  have "rnd ((1 / 2 ^ 25) * (1 / 2 ^ 26)) = Finite (of_int 4503599627370496 * 2 powr of_int (-51 - 52))"
    by (rule rnd_eqI) (simp_all add: powr_minus)
  then show ?thesis by (simp add: powr_minus)
qed

lemma skew_r35: "rnd (2 + (1 / 2 ^ 52)) = Finite 2"
proof -
  have q: "(2 + (1 / 2 ^ 52)) / 2 powr of_int (1 - 52) = (of_int 4503599627370496 + 1 / 2 :: real)"
    by (simp add: powr_minus)
  have "rne ((2 + (1 / 2 ^ 52)) / 2 powr of_int (1 - 52)) = 4503599627370496"
    unfolding q rne_tie by simp
  then have "rnd (2 + (1 / 2 ^ 52)) = Finite (of_int 4503599627370496 * 2 powr of_int (1 - 52))"
    by (intro rnd_eqI_rne) (simp_all add: powr_minus)
  then show ?thesis by (simp add: powr_minus)
qed

lemma skew_r36: "rnd (2 + (1 / 2 ^ 51)) = Finite (4503599627370497 / 2 ^ 51)"
proof -
  have "rnd (2 + (1 / 2 ^ 51)) = Finite (of_int 4503599627370497 * 2 powr of_int (1 - 52))"
    by (rule rnd_eqI) (simp_all add: powr_minus)
  then show ?thesis by (simp add: powr_minus)
qed

lemma skew_r37: "rnd (\<bar>(4503599627370497 / 2 ^ 51)\<bar> / 2) = Finite (4503599627370497 / 2 ^ 52)"
proof -
  have "rnd (\<bar>(4503599627370497 / 2 ^ 51)\<bar> / 2) = Finite (of_int 4503599627370497 * 2 powr of_int (0 - 52))"
    by (rule rnd_eqI) (simp_all add: powr_minus)
  then show ?thesis by (simp add: powr_minus)
qed

lemma skew_area: "unsigned_area (pt (- 67108864) 0) (pt (1 / 2 ^ 26) (- (1 / 2 ^ 26))) (pt (1 / 2 ^ 25) (1 / 2 ^ 26)) = Finite (4503599627370497 / 2 ^ 52)"
  by (rule area_eval[OF skew_r6 skew_r32 skew_r17 skew_r33 skew_r2 skew_r34 skew_r35 skew_r36 skew_r37])

lemma skew_area_ok: "\<not> js_le (unsigned_area (pt (- 67108864) 0) (pt (1 / 2 ^ 26) (- (1 / 2 ^ 26))) (pt (1 / 2 ^ 25) (1 / 2 ^ 26))) EPS"
  unfolding skew_area EPS_val by simp

lemma skew_valid: "valid (triangleData ((pt (- 67108864) 0), (pt (1 / 2 ^ 26) (- (1 / 2 ^ 26))), (pt (1 / 2 ^ 25) (1 / 2 ^ 26))))"
  using skew_not_coincide skew_finite skew_area_ok by (simp only: valid_iff simp_thms)

lemma skew_r38: "rnd ((629397181890197 / 2 ^ 74) + (2251799813685249 / 2 ^ 25)) = Finite (1125899906842625 / 2 ^ 24)"
proof -
  have "rnd ((629397181890197 / 2 ^ 74) + (2251799813685249 / 2 ^ 25)) = Finite (of_int 4503599627370500 * 2 powr of_int (26 - 52))"
    by (rule rnd_eqI) (simp_all add: powr_minus)
  then show ?thesis by (simp add: powr_minus)
qed

lemma skew_r39: "rnd ((1125899906842625 / 2 ^ 24) + (4503599627370497 / 2 ^ 26)) = Finite (2251799813685249 / 2 ^ 24)"
proof -
  have q: "((1125899906842625 / 2 ^ 24) + (4503599627370497 / 2 ^ 26)) / 2 powr of_int (27 - 52) = (of_int 4503599627370498 + 1 / 2 :: real)"
    by (simp add: powr_minus)
  have "rne (((1125899906842625 / 2 ^ 24) + (4503599627370497 / 2 ^ 26)) / 2 powr of_int (27 - 52)) = 4503599627370498"
    unfolding q rne_tie by simp
  then have "rnd ((1125899906842625 / 2 ^ 24) + (4503599627370497 / 2 ^ 26)) = Finite (of_int 4503599627370498 * 2 powr of_int (27 - 52))"
    by (intro rnd_eqI_rne) (simp_all add: powr_minus)
  then show ?thesis by (simp add: powr_minus)
qed

lemma skew_perimeter: "js_add (js_add (Finite (629397181890197 / 2 ^ 74)) (Finite (2251799813685249 / 2 ^ 25))) (Finite (4503599627370497 / 2 ^ 26)) = Finite (2251799813685249 / 2 ^ 24)"
  by (rule perimeter_eval[OF skew_r38 skew_r39])

lemma skew_result:
  "sides (triangleData ((pt (- 67108864) 0), (pt (1 / 2 ^ 26) (- (1 / 2 ^ 26))), (pt (1 / 2 ^ 25) (1 / 2 ^ 26)))) = Some \<lparr>side_a = Finite (629397181890197 / 2 ^ 74), side_b = Finite (2251799813685249 / 2 ^ 25), side_c = Finite (4503599627370497 / 2 ^ 26)\<rparr>"
  "perimeter (triangleData ((pt (- 67108864) 0), (pt (1 / 2 ^ 26) (- (1 / 2 ^ 26))), (pt (1 / 2 ^ 25) (1 / 2 ^ 26)))) = Some (Finite (2251799813685249 / 2 ^ 24))"
  "area (triangleData ((pt (- 67108864) 0), (pt (1 / 2 ^ 26) (- (1 / 2 ^ 26))), (pt (1 / 2 ^ 25) (1 / 2 ^ 26)))) = Some (Finite (4503599627370497 / 2 ^ 52))"
  unfolding triangleData_valid[OF skew_not_coincide skew_finite skew_area_ok]
  by (simp_all only: TriangleData.select_convs skew_sides skew_perimeter skew_area)

lemma skewr_r1: "rnd ((- 67108864) - (1 / 2 ^ 25)) = Finite (- (2251799813685249 / 2 ^ 25))"
proof -
  have "rnd ((- 67108864) - (1 / 2 ^ 25)) = Finite (of_int (- 4503599627370498) * 2 powr of_int (26 - 52))"
    by (rule rnd_eqI) (simp_all add: powr_minus)
  then show ?thesis by (simp add: powr_minus)
qed

lemma skewr_r2: "rnd (0 - (1 / 2 ^ 26)) = Finite (- (1 / 2 ^ 26))"
proof -
  have "rnd (0 - (1 / 2 ^ 26)) = Finite (of_int (- 4503599627370496) * 2 powr of_int (-26 - 52))"
    by (rule rnd_eqI) (simp_all add: powr_minus)
  then show ?thesis by (simp add: powr_minus)
qed

lemma skewr_r3: "rnd ((- 67108864) - (1 / 2 ^ 26)) = Finite (- (4503599627370497 / 2 ^ 26))"
proof -
  have "rnd ((- 67108864) - (1 / 2 ^ 26)) = Finite (of_int (- 4503599627370497) * 2 powr of_int (26 - 52))"
    by (rule rnd_eqI) (simp_all add: powr_minus)
  then show ?thesis by (simp add: powr_minus)
qed

lemma skewr_r4: "rnd (0 - (- (1 / 2 ^ 26))) = Finite (1 / 2 ^ 26)"
proof -
  have "rnd (0 - (- (1 / 2 ^ 26))) = Finite (of_int 4503599627370496 * 2 powr of_int (-26 - 52))"
    by (rule rnd_eqI) (simp_all add: powr_minus)
  then show ?thesis by (simp add: powr_minus)
qed

lemma skewr_r5: "rnd ((1 / 2 ^ 25) - (1 / 2 ^ 26)) = Finite (1 / 2 ^ 26)"
proof -
  have "rnd ((1 / 2 ^ 25) - (1 / 2 ^ 26)) = Finite (of_int 4503599627370496 * 2 powr of_int (-26 - 52))"
    by (rule rnd_eqI) (simp_all add: powr_minus)
  then show ?thesis by (simp add: powr_minus)
qed

lemma skewr_r6: "rnd ((1 / 2 ^ 26) - (- (1 / 2 ^ 26))) = Finite (1 / 2 ^ 25)"
proof -
  have "rnd ((1 / 2 ^ 26) - (- (1 / 2 ^ 26))) = Finite (of_int 4503599627370496 * 2 powr of_int (-25 - 52))"
    by (rule rnd_eqI) (simp_all add: powr_minus)
  then show ?thesis by (simp add: powr_minus)
qed

lemma skewr_not_coincide: "\<not> any_coincide (pt (- 67108864) 0) (pt (1 / 2 ^ 25) (1 / 2 ^ 26)) (pt (1 / 2 ^ 26) (- (1 / 2 ^ 26)))"
  using coincide_eval[OF skewr_r1 skewr_r2] coincide_eval[OF skewr_r3 skewr_r4] coincide_eval[OF skewr_r5 skewr_r6]
  by (simp add: any_coincide_def)

lemma skewr_r7: "rnd ((1 / 2 ^ 26) - (1 / 2 ^ 25)) = Finite (- (1 / 2 ^ 26))"
proof -
  have "rnd ((1 / 2 ^ 26) - (1 / 2 ^ 25)) = Finite (of_int (- 4503599627370496) * 2 powr of_int (-26 - 52))"
    by (rule rnd_eqI) (simp_all add: powr_minus)
  then show ?thesis by (simp add: powr_minus)
qed

lemma skewr_r8: "rnd ((- (1 / 2 ^ 26)) - (1 / 2 ^ 26)) = Finite (- (1 / 2 ^ 25))"
proof -
  have "rnd ((- (1 / 2 ^ 26)) - (1 / 2 ^ 26)) = Finite (of_int (- 4503599627370496) * 2 powr of_int (-25 - 52))"
    by (rule rnd_eqI) (simp_all add: powr_minus)
  then show ?thesis by (simp add: powr_minus)
qed

lemma skewr_r9: "rnd (\<bar>(- (1 / 2 ^ 26))\<bar> / (1 / 2 ^ 25)) = Finite (1 / 2)"
proof -
  have "rnd (\<bar>(- (1 / 2 ^ 26))\<bar> / (1 / 2 ^ 25)) = Finite (of_int 4503599627370496 * 2 powr of_int (-1 - 52))"
    by (rule rnd_eqI) (simp_all add: powr_minus)
  then show ?thesis by (simp add: powr_minus)
qed

lemma skewr_r10: "rnd ((1 / 2) * (1 / 2)) = Finite (1 / 2 ^ 2)"
proof -
  have "rnd ((1 / 2) * (1 / 2)) = Finite (of_int 4503599627370496 * 2 powr of_int (-2 - 52))"
    by (rule rnd_eqI) (simp_all add: powr_minus)
  then show ?thesis by (simp add: powr_minus)
qed

lemma skewr_r11: "rnd (\<bar>(- (1 / 2 ^ 25))\<bar> / (1 / 2 ^ 25)) = Finite 1"
proof -
  have "rnd (\<bar>(- (1 / 2 ^ 25))\<bar> / (1 / 2 ^ 25)) = Finite (of_int 4503599627370496 * 2 powr of_int (0 - 52))"
    by (rule rnd_eqI) (simp_all add: powr_minus)
  then show ?thesis by (simp add: powr_minus)
qed

lemma skewr_r12: "rnd (1 * 1) = Finite 1"
proof -
  have "rnd (1 * 1) = Finite (of_int 4503599627370496 * 2 powr of_int (0 - 52))"
    by (rule rnd_eqI) (simp_all add: powr_minus)
  then show ?thesis by (simp add: powr_minus)
qed

lemma skewr_r13: "rnd ((1 / 2 ^ 2) + 1) = Finite (5 / 2 ^ 2)"
proof -
  have "rnd ((1 / 2 ^ 2) + 1) = Finite (of_int 5629499534213120 * 2 powr of_int (0 - 52))"
    by (rule rnd_eqI) (simp_all add: powr_minus)
  then show ?thesis by (simp add: powr_minus)
qed

lemma skewr_r14: "rnd (sqrt (5 / 2 ^ 2)) = Finite (629397181890197 / 2 ^ 49)"
proof -
  define s :: real where "s = sqrt (5 / 2 ^ 2)"
  define P :: real where "P = s / (1 / 2 ^ 52)"
  have b: "(80562839281945209 / 2 ^ 56) \<le> s" "s < (10070354910243153 / 2 ^ 53)"
    unfolding s_def by (rule sqrt_between[of "(80562839281945209 / 2 ^ 56)" _ "(10070354910243153 / 2 ^ 53)"]; simp)+
  have "(80562839281945209 / 2 ^ 56) / (1 / 2 ^ 52) \<le> P" "P < (10070354910243153 / 2 ^ 53) / (1 / 2 ^ 52)"
    unfolding P_def using b by (simp_all add: divide_right_mono divide_strict_right_mono)
  moreover have "(of_int 5035177455121576 - 1 / 2 :: real) < (80562839281945209 / 2 ^ 56) / (1 / 2 ^ 52)"
    "((10070354910243153 / 2 ^ 53) / (1 / 2 ^ 52) :: real) \<le> of_int 5035177455121576 + 1 / 2"
    by simp_all
  ultimately have "of_int 5035177455121576 - 1 / 2 < P" "P < of_int 5035177455121576 + 1 / 2" by linarith+
  then have "\<bar>P - of_int 5035177455121576\<bar> < 1 / 2" by (simp only: abs_less_iff) linarith
  moreover have "s / 2 powr of_int (0 - 52) = P" by (simp add: P_def powr_minus)
  ultimately have n: "\<bar>s / 2 powr of_int (0 - 52) - of_int 5035177455121576\<bar> < 1 / 2" by (simp only:)
  have "(2::real) powr of_int (0) \<le> (80562839281945209 / 2 ^ 56)" "((10070354910243153 / 2 ^ 53) :: real) \<le> 2 powr of_int (0 + 1)"
    by (simp_all add: powr_minus)
  then have "2 powr of_int (0) \<le> s" "s < 2 powr of_int (0 + 1)"
    using b by linarith+
  moreover have "\<bar>s\<bar> = s" unfolding s_def by simp
  ultimately have k: "2 powr of_int (0) \<le> \<bar>s\<bar>" "\<bar>s\<bar> < 2 powr of_int (0 + 1)"
    by (simp_all only:)
  have "rnd s = Finite (of_int 5035177455121576 * 2 powr of_int (0 - 52))"
    by (rule rnd_eqI[OF k _ _ n]) simp_all
  then show ?thesis unfolding s_def by (simp add: powr_minus)
qed

lemma skewr_r15: "rnd ((629397181890197 / 2 ^ 49) * (1 / 2 ^ 25)) = Finite (629397181890197 / 2 ^ 74)"
proof -
  have "rnd ((629397181890197 / 2 ^ 49) * (1 / 2 ^ 25)) = Finite (of_int 5035177455121576 * 2 powr of_int (-25 - 52))"
    by (rule rnd_eqI) (simp_all add: powr_minus)
  then show ?thesis by (simp add: powr_minus)
qed

lemma skewr_hyp1: "Math_hypot (Finite (- (1 / 2 ^ 26))) (Finite (- (1 / 2 ^ 25))) = Finite (629397181890197 / 2 ^ 74)"
  using Math_hypot_eval[OF _ _ skewr_r9 skewr_r10 skewr_r11 skewr_r12 skewr_r13 skewr_r14] skewr_r15 by simp

lemma skewr_r16: "rnd ((1 / 2 ^ 26) - (- 67108864)) = Finite (4503599627370497 / 2 ^ 26)"
proof -
  have "rnd ((1 / 2 ^ 26) - (- 67108864)) = Finite (of_int 4503599627370497 * 2 powr of_int (26 - 52))"
    by (rule rnd_eqI) (simp_all add: powr_minus)
  then show ?thesis by (simp add: powr_minus)
qed

lemma skewr_r17: "rnd ((- (1 / 2 ^ 26)) - 0) = Finite (- (1 / 2 ^ 26))"
proof -
  have "rnd ((- (1 / 2 ^ 26)) - 0) = Finite (of_int (- 4503599627370496) * 2 powr of_int (-26 - 52))"
    by (rule rnd_eqI) (simp_all add: powr_minus)
  then show ?thesis by (simp add: powr_minus)
qed

lemma skewr_r18: "rnd (\<bar>(4503599627370497 / 2 ^ 26)\<bar> / (4503599627370497 / 2 ^ 26)) = Finite 1"
proof -
  have "rnd (\<bar>(4503599627370497 / 2 ^ 26)\<bar> / (4503599627370497 / 2 ^ 26)) = Finite (of_int 4503599627370496 * 2 powr of_int (0 - 52))"
    by (rule rnd_eqI) (simp_all add: powr_minus)
  then show ?thesis by (simp add: powr_minus)
qed

lemma skewr_r19: "rnd (\<bar>(- (1 / 2 ^ 26))\<bar> / (4503599627370497 / 2 ^ 26)) = Finite (4503599627370495 / 2 ^ 104)"
proof -
  have "rnd (\<bar>(- (1 / 2 ^ 26))\<bar> / (4503599627370497 / 2 ^ 26)) = Finite (of_int 9007199254740990 * 2 powr of_int (-53 - 52))"
    by (rule rnd_eqI) (simp_all add: powr_minus)
  then show ?thesis by (simp add: powr_minus)
qed

lemma skewr_r20: "rnd ((4503599627370495 / 2 ^ 104) * (4503599627370495 / 2 ^ 104)) = Finite (2251799813685247 / 2 ^ 155)"
proof -
  have "rnd ((4503599627370495 / 2 ^ 104) * (4503599627370495 / 2 ^ 104)) = Finite (of_int 9007199254740988 * 2 powr of_int (-105 - 52))"
    by (rule rnd_eqI) (simp_all add: powr_minus)
  then show ?thesis by (simp add: powr_minus)
qed

lemma skewr_r21: "rnd (1 + (2251799813685247 / 2 ^ 155)) = Finite 1"
proof -
  have "rnd (1 + (2251799813685247 / 2 ^ 155)) = Finite (of_int 4503599627370496 * 2 powr of_int (0 - 52))"
    by (rule rnd_eqI) (simp_all add: powr_minus)
  then show ?thesis by (simp add: powr_minus)
qed

lemma skewr_r23: "rnd (1) = Finite 1"
proof -
  have "rnd (1) = Finite (of_int 4503599627370496 * 2 powr of_int (0 - 52))"
    by (rule rnd_eqI) (simp_all add: powr_minus)
  then show ?thesis by (simp add: powr_minus)
qed

lemma skewr_r22: "rnd (sqrt 1) = Finite 1"
  using skewr_r23 by (intro rnd_sqrt_exact) simp_all

lemma skewr_r24: "rnd (1 * (4503599627370497 / 2 ^ 26)) = Finite (4503599627370497 / 2 ^ 26)"
proof -
  have "rnd (1 * (4503599627370497 / 2 ^ 26)) = Finite (of_int 4503599627370497 * 2 powr of_int (26 - 52))"
    by (rule rnd_eqI) (simp_all add: powr_minus)
  then show ?thesis by (simp add: powr_minus)
qed

lemma skewr_hyp2: "Math_hypot (Finite (4503599627370497 / 2 ^ 26)) (Finite (- (1 / 2 ^ 26))) = Finite (4503599627370497 / 2 ^ 26)"
  using Math_hypot_eval[OF _ _ skewr_r18 skewr_r12 skewr_r19 skewr_r20 skewr_r21 skewr_r22] skewr_r24 by simp

lemma skewr_r25: "rnd ((1 / 2 ^ 25) - (- 67108864)) = Finite (2251799813685249 / 2 ^ 25)"
proof -
  have "rnd ((1 / 2 ^ 25) - (- 67108864)) = Finite (of_int 4503599627370498 * 2 powr of_int (26 - 52))"
    by (rule rnd_eqI) (simp_all add: powr_minus)
  then show ?thesis by (simp add: powr_minus)
qed

lemma skewr_r26: "rnd ((1 / 2 ^ 26) - 0) = Finite (1 / 2 ^ 26)"
proof -
  have "rnd ((1 / 2 ^ 26) - 0) = Finite (of_int 4503599627370496 * 2 powr of_int (-26 - 52))"
    by (rule rnd_eqI) (simp_all add: powr_minus)
  then show ?thesis by (simp add: powr_minus)
qed

lemma skewr_r27: "rnd (\<bar>(2251799813685249 / 2 ^ 25)\<bar> / (2251799813685249 / 2 ^ 25)) = Finite 1"
proof -
  have "rnd (\<bar>(2251799813685249 / 2 ^ 25)\<bar> / (2251799813685249 / 2 ^ 25)) = Finite (of_int 4503599627370496 * 2 powr of_int (0 - 52))"
    by (rule rnd_eqI) (simp_all add: powr_minus)
  then show ?thesis by (simp add: powr_minus)
qed

lemma skewr_r28: "rnd (\<bar>(1 / 2 ^ 26)\<bar> / (2251799813685249 / 2 ^ 25)) = Finite (2251799813685247 / 2 ^ 103)"
proof -
  have "rnd (\<bar>(1 / 2 ^ 26)\<bar> / (2251799813685249 / 2 ^ 25)) = Finite (of_int 9007199254740988 * 2 powr of_int (-53 - 52))"
    by (rule rnd_eqI) (simp_all add: powr_minus)
  then show ?thesis by (simp add: powr_minus)
qed

lemma skewr_r29: "rnd ((2251799813685247 / 2 ^ 103) * (2251799813685247 / 2 ^ 103)) = Finite (1125899906842623 / 2 ^ 154)"
proof -
  have "rnd ((2251799813685247 / 2 ^ 103) * (2251799813685247 / 2 ^ 103)) = Finite (of_int 9007199254740984 * 2 powr of_int (-105 - 52))"
    by (rule rnd_eqI) (simp_all add: powr_minus)
  then show ?thesis by (simp add: powr_minus)
qed

lemma skewr_r30: "rnd (1 + (1125899906842623 / 2 ^ 154)) = Finite 1"
proof -
  have "rnd (1 + (1125899906842623 / 2 ^ 154)) = Finite (of_int 4503599627370496 * 2 powr of_int (0 - 52))"
    by (rule rnd_eqI) (simp_all add: powr_minus)
  then show ?thesis by (simp add: powr_minus)
qed

lemma skewr_r31: "rnd (1 * (2251799813685249 / 2 ^ 25)) = Finite (2251799813685249 / 2 ^ 25)"
proof -
  have "rnd (1 * (2251799813685249 / 2 ^ 25)) = Finite (of_int 4503599627370498 * 2 powr of_int (26 - 52))"
    by (rule rnd_eqI) (simp_all add: powr_minus)
  then show ?thesis by (simp add: powr_minus)
qed

lemma skewr_hyp3: "Math_hypot (Finite (2251799813685249 / 2 ^ 25)) (Finite (1 / 2 ^ 26)) = Finite (2251799813685249 / 2 ^ 25)"
  using Math_hypot_eval[OF _ _ skewr_r27 skewr_r12 skewr_r28 skewr_r29 skewr_r30 skewr_r22] skewr_r31 by simp

lemma skewr_sides:
  "distance (pt (1 / 2 ^ 25) (1 / 2 ^ 26)) (pt (1 / 2 ^ 26) (- (1 / 2 ^ 26))) = Finite (629397181890197 / 2 ^ 74)"
  "distance (pt (- 67108864) 0) (pt (1 / 2 ^ 26) (- (1 / 2 ^ 26))) = Finite (4503599627370497 / 2 ^ 26)"
  "distance (pt (- 67108864) 0) (pt (1 / 2 ^ 25) (1 / 2 ^ 26)) = Finite (2251799813685249 / 2 ^ 25)"
  by (rule distance_eval[OF skewr_r7 skewr_r8 skewr_hyp1] distance_eval[OF skewr_r16 skewr_r17 skewr_hyp2] distance_eval[OF skewr_r25 skewr_r26 skewr_hyp3])+

lemma skewr_finite: "sides_finite (pt (- 67108864) 0) (pt (1 / 2 ^ 25) (1 / 2 ^ 26)) (pt (1 / 2 ^ 26) (- (1 / 2 ^ 26)))"
  by (simp only: sides_finite_def skewr_sides isFinite.simps simp_thms)

lemma skewr_r32: "rnd ((- 67108864) * (1 / 2 ^ 25)) = Finite (- 2)"
proof -
  have "rnd ((- 67108864) * (1 / 2 ^ 25)) = Finite (of_int (- 4503599627370496) * 2 powr of_int (1 - 52))"
    by (rule rnd_eqI) (simp_all add: powr_minus)
  then show ?thesis by (simp add: powr_minus)
qed

lemma skewr_r33: "rnd ((1 / 2 ^ 25) * (- (1 / 2 ^ 26))) = Finite (- (1 / 2 ^ 51))"
proof -
  have "rnd ((1 / 2 ^ 25) * (- (1 / 2 ^ 26))) = Finite (of_int (- 4503599627370496) * 2 powr of_int (-51 - 52))"
    by (rule rnd_eqI) (simp_all add: powr_minus)
  then show ?thesis by (simp add: powr_minus)
qed

lemma skewr_r34: "rnd ((1 / 2 ^ 26) * (- (1 / 2 ^ 26))) = Finite (- (1 / 2 ^ 52))"
proof -
  have "rnd ((1 / 2 ^ 26) * (- (1 / 2 ^ 26))) = Finite (of_int (- 4503599627370496) * 2 powr of_int (-52 - 52))"
    by (rule rnd_eqI) (simp_all add: powr_minus)
  then show ?thesis by (simp add: powr_minus)
qed

lemma skewr_r35: "rnd ((- 2) + (- (1 / 2 ^ 51))) = Finite (- (4503599627370497 / 2 ^ 51))"
proof -
  have "rnd ((- 2) + (- (1 / 2 ^ 51))) = Finite (of_int (- 4503599627370497) * 2 powr of_int (1 - 52))"
    by (rule rnd_eqI) (simp_all add: powr_minus)
  then show ?thesis by (simp add: powr_minus)
qed

lemma skewr_r36: "rnd ((- (4503599627370497 / 2 ^ 51)) + (- (1 / 2 ^ 52))) = Finite (- (2251799813685249 / 2 ^ 50))"
proof -
  have q: "((- (4503599627370497 / 2 ^ 51)) + (- (1 / 2 ^ 52))) / 2 powr of_int (1 - 52) = (of_int (- 4503599627370498) + 1 / 2 :: real)"
    by (simp add: powr_minus)
  have "rne (((- (4503599627370497 / 2 ^ 51)) + (- (1 / 2 ^ 52))) / 2 powr of_int (1 - 52)) = (- 4503599627370498)"
    unfolding q rne_tie by simp
  then have "rnd ((- (4503599627370497 / 2 ^ 51)) + (- (1 / 2 ^ 52))) = Finite (of_int (- 4503599627370498) * 2 powr of_int (1 - 52))"
    by (intro rnd_eqI_rne) (simp_all add: powr_minus)
  then show ?thesis by (simp add: powr_minus)
qed

lemma skewr_r37: "rnd (\<bar>(- (2251799813685249 / 2 ^ 50))\<bar> / 2) = Finite (2251799813685249 / 2 ^ 51)"
proof -
  have "rnd (\<bar>(- (2251799813685249 / 2 ^ 50))\<bar> / 2) = Finite (of_int 4503599627370498 * 2 powr of_int (0 - 52))"
    by (rule rnd_eqI) (simp_all add: powr_minus)
  then show ?thesis by (simp add: powr_minus)
qed

lemma skewr_area: "unsigned_area (pt (- 67108864) 0) (pt (1 / 2 ^ 25) (1 / 2 ^ 26)) (pt (1 / 2 ^ 26) (- (1 / 2 ^ 26))) = Finite (2251799813685249 / 2 ^ 51)"
  by (rule area_eval[OF skewr_r6 skewr_r32 skewr_r17 skewr_r33 skewr_r2 skewr_r34 skewr_r35 skewr_r36 skewr_r37])

lemma skewr_area_ok: "\<not> js_le (unsigned_area (pt (- 67108864) 0) (pt (1 / 2 ^ 25) (1 / 2 ^ 26)) (pt (1 / 2 ^ 26) (- (1 / 2 ^ 26)))) EPS"
  unfolding skewr_area EPS_val by simp

lemma skewr_valid: "valid (triangleData ((pt (- 67108864) 0), (pt (1 / 2 ^ 25) (1 / 2 ^ 26)), (pt (1 / 2 ^ 26) (- (1 / 2 ^ 26)))))"
  using skewr_not_coincide skewr_finite skewr_area_ok by (simp only: valid_iff simp_thms)

lemma skewr_r38: "rnd ((629397181890197 / 2 ^ 74) + (4503599627370497 / 2 ^ 26)) = Finite (4503599627370499 / 2 ^ 26)"
proof -
  have "rnd ((629397181890197 / 2 ^ 74) + (4503599627370497 / 2 ^ 26)) = Finite (of_int 4503599627370499 * 2 powr of_int (26 - 52))"
    by (rule rnd_eqI) (simp_all add: powr_minus)
  then show ?thesis by (simp add: powr_minus)
qed

lemma skewr_r39: "rnd ((4503599627370499 / 2 ^ 26) + (2251799813685249 / 2 ^ 25)) = Finite (2251799813685249 / 2 ^ 24)"
proof -
  have q: "((4503599627370499 / 2 ^ 26) + (2251799813685249 / 2 ^ 25)) / 2 powr of_int (27 - 52) = (of_int 4503599627370498 + 1 / 2 :: real)"
    by (simp add: powr_minus)
  have "rne (((4503599627370499 / 2 ^ 26) + (2251799813685249 / 2 ^ 25)) / 2 powr of_int (27 - 52)) = 4503599627370498"
    unfolding q rne_tie by simp
  then have "rnd ((4503599627370499 / 2 ^ 26) + (2251799813685249 / 2 ^ 25)) = Finite (of_int 4503599627370498 * 2 powr of_int (27 - 52))"
    by (intro rnd_eqI_rne) (simp_all add: powr_minus)
  then show ?thesis by (simp add: powr_minus)
qed

lemma skewr_perimeter: "js_add (js_add (Finite (629397181890197 / 2 ^ 74)) (Finite (4503599627370497 / 2 ^ 26))) (Finite (2251799813685249 / 2 ^ 25)) = Finite (2251799813685249 / 2 ^ 24)"
  by (rule perimeter_eval[OF skewr_r38 skewr_r39])

lemma skewr_result:
  "sides (triangleData ((pt (- 67108864) 0), (pt (1 / 2 ^ 25) (1 / 2 ^ 26)), (pt (1 / 2 ^ 26) (- (1 / 2 ^ 26))))) = Some \<lparr>side_a = Finite (629397181890197 / 2 ^ 74), side_b = Finite (4503599627370497 / 2 ^ 26), side_c = Finite (2251799813685249 / 2 ^ 25)\<rparr>"
  "perimeter (triangleData ((pt (- 67108864) 0), (pt (1 / 2 ^ 25) (1 / 2 ^ 26)), (pt (1 / 2 ^ 26) (- (1 / 2 ^ 26))))) = Some (Finite (2251799813685249 / 2 ^ 24))"
  "area (triangleData ((pt (- 67108864) 0), (pt (1 / 2 ^ 25) (1 / 2 ^ 26)), (pt (1 / 2 ^ 26) (- (1 / 2 ^ 26))))) = Some (Finite (2251799813685249 / 2 ^ 51))"
  unfolding triangleData_valid[OF skewr_not_coincide skewr_finite skewr_area_ok]
  by (simp_all only: TriangleData.select_convs skewr_sides skewr_perimeter skewr_area)

section \<open>A triangle that is Valid in one order of the points only\<close>

lemma lost_r1: "rnd (17179869184 - 17179885568) = Finite (- 16384)"
proof -
  have "rnd (17179869184 - 17179885568) = Finite (of_int (- 4503599627370496) * 2 powr of_int (14 - 52))"
    by (rule rnd_eqI) (simp_all add: powr_minus)
  then show ?thesis by (simp add: powr_minus)
qed

lemma lost_r2: "rnd (0 - (- (1 / 2 ^ 20))) = Finite (1 / 2 ^ 20)"
proof -
  have "rnd (0 - (- (1 / 2 ^ 20))) = Finite (of_int 4503599627370496 * 2 powr of_int (-20 - 52))"
    by (rule rnd_eqI) (simp_all add: powr_minus)
  then show ?thesis by (simp add: powr_minus)
qed

lemma lost_r3: "rnd (17179869184 - 1) = Finite 17179869183"
proof -
  have "rnd (17179869184 - 1) = Finite (of_int 9007199254216704 * 2 powr of_int (33 - 52))"
    by (rule rnd_eqI) (simp_all add: powr_minus)
  then show ?thesis by (simp add: powr_minus)
qed

lemma lost_r4: "rnd (0 - 1) = Finite (- 1)"
proof -
  have "rnd (0 - 1) = Finite (of_int (- 4503599627370496) * 2 powr of_int (0 - 52))"
    by (rule rnd_eqI) (simp_all add: powr_minus)
  then show ?thesis by (simp add: powr_minus)
qed

lemma lost_r5: "rnd (17179885568 - 1) = Finite 17179885567"
proof -
  have "rnd (17179885568 - 1) = Finite (of_int 4503603922075648 * 2 powr of_int (34 - 52))"
    by (rule rnd_eqI) (simp_all add: powr_minus)
  then show ?thesis by (simp add: powr_minus)
qed

lemma lost_r6: "rnd ((- (1 / 2 ^ 20)) - 1) = Finite (- (1048577 / 2 ^ 20))"
proof -
  have "rnd ((- (1 / 2 ^ 20)) - 1) = Finite (of_int (- 4503603922337792) * 2 powr of_int (0 - 52))"
    by (rule rnd_eqI) (simp_all add: powr_minus)
  then show ?thesis by (simp add: powr_minus)
qed

lemma lost_not_coincide: "\<not> any_coincide (pt 17179869184 0) (pt 17179885568 (- (1 / 2 ^ 20))) (pt 1 1)"
  using coincide_eval[OF lost_r1 lost_r2] coincide_eval[OF lost_r3 lost_r4] coincide_eval[OF lost_r5 lost_r6]
  by (simp add: any_coincide_def)

lemma lost_r7: "rnd (1 - 17179885568) = Finite (- 17179885567)"
proof -
  have "rnd (1 - 17179885568) = Finite (of_int (- 4503603922075648) * 2 powr of_int (34 - 52))"
    by (rule rnd_eqI) (simp_all add: powr_minus)
  then show ?thesis by (simp add: powr_minus)
qed

lemma lost_r8: "rnd (1 - (- (1 / 2 ^ 20))) = Finite (1048577 / 2 ^ 20)"
proof -
  have "rnd (1 - (- (1 / 2 ^ 20))) = Finite (of_int 4503603922337792 * 2 powr of_int (0 - 52))"
    by (rule rnd_eqI) (simp_all add: powr_minus)
  then show ?thesis by (simp add: powr_minus)
qed

lemma lost_r9: "rnd (\<bar>(- 17179885567)\<bar> / 17179885567) = Finite 1"
proof -
  have "rnd (\<bar>(- 17179885567)\<bar> / 17179885567) = Finite (of_int 4503599627370496 * 2 powr of_int (0 - 52))"
    by (rule rnd_eqI) (simp_all add: powr_minus)
  then show ?thesis by (simp add: powr_minus)
qed

lemma lost_r10: "rnd (1 * 1) = Finite 1"
proof -
  have "rnd (1 * 1) = Finite (of_int 4503599627370496 * 2 powr of_int (0 - 52))"
    by (rule rnd_eqI) (simp_all add: powr_minus)
  then show ?thesis by (simp add: powr_minus)
qed

lemma lost_r11: "rnd (\<bar>(1048577 / 2 ^ 20)\<bar> / 17179885567) = Finite (17179869185 / 2 ^ 68)"
proof -
  have "rnd (\<bar>(1048577 / 2 ^ 20)\<bar> / 17179885567) = Finite (of_int 4503599627632640 * 2 powr of_int (-34 - 52))"
    by (rule rnd_eqI) (simp_all add: powr_minus)
  then show ?thesis by (simp add: powr_minus)
qed

lemma lost_r12: "rnd ((17179869185 / 2 ^ 68) * (17179869185 / 2 ^ 68)) = Finite (8589934593 / 2 ^ 101)"
proof -
  have "rnd ((17179869185 / 2 ^ 68) * (17179869185 / 2 ^ 68)) = Finite (of_int 4503599627894784 * 2 powr of_int (-68 - 52))"
    by (rule rnd_eqI) (simp_all add: powr_minus)
  then show ?thesis by (simp add: powr_minus)
qed

lemma lost_r13: "rnd (1 + (8589934593 / 2 ^ 101)) = Finite 1"
proof -
  have "rnd (1 + (8589934593 / 2 ^ 101)) = Finite (of_int 4503599627370496 * 2 powr of_int (0 - 52))"
    by (rule rnd_eqI) (simp_all add: powr_minus)
  then show ?thesis by (simp add: powr_minus)
qed

lemma lost_r15: "rnd (1) = Finite 1"
proof -
  have "rnd (1) = Finite (of_int 4503599627370496 * 2 powr of_int (0 - 52))"
    by (rule rnd_eqI) (simp_all add: powr_minus)
  then show ?thesis by (simp add: powr_minus)
qed

lemma lost_r14: "rnd (sqrt 1) = Finite 1"
  using lost_r15 by (intro rnd_sqrt_exact) simp_all

lemma lost_r16: "rnd (1 * 17179885567) = Finite 17179885567"
proof -
  have "rnd (1 * 17179885567) = Finite (of_int 4503603922075648 * 2 powr of_int (34 - 52))"
    by (rule rnd_eqI) (simp_all add: powr_minus)
  then show ?thesis by (simp add: powr_minus)
qed

lemma lost_hyp1: "Math_hypot (Finite (- 17179885567)) (Finite (1048577 / 2 ^ 20)) = Finite 17179885567"
  using Math_hypot_eval[OF _ _ lost_r9 lost_r10 lost_r11 lost_r12 lost_r13 lost_r14] lost_r16 by simp

lemma lost_r17: "rnd (1 - 17179869184) = Finite (- 17179869183)"
proof -
  have "rnd (1 - 17179869184) = Finite (of_int (- 9007199254216704) * 2 powr of_int (33 - 52))"
    by (rule rnd_eqI) (simp_all add: powr_minus)
  then show ?thesis by (simp add: powr_minus)
qed

lemma lost_r18: "rnd (1 - 0) = Finite 1"
proof -
  have "rnd (1 - 0) = Finite (of_int 4503599627370496 * 2 powr of_int (0 - 52))"
    by (rule rnd_eqI) (simp_all add: powr_minus)
  then show ?thesis by (simp add: powr_minus)
qed

lemma lost_r19: "rnd (\<bar>(- 17179869183)\<bar> / 17179869183) = Finite 1"
proof -
  have "rnd (\<bar>(- 17179869183)\<bar> / 17179869183) = Finite (of_int 4503599627370496 * 2 powr of_int (0 - 52))"
    by (rule rnd_eqI) (simp_all add: powr_minus)
  then show ?thesis by (simp add: powr_minus)
qed

lemma lost_r20: "rnd (\<bar>1\<bar> / 17179869183) = Finite (17179869185 / 2 ^ 68)"
proof -
  have "rnd (\<bar>1\<bar> / 17179869183) = Finite (of_int 4503599627632640 * 2 powr of_int (-34 - 52))"
    by (rule rnd_eqI) (simp_all add: powr_minus)
  then show ?thesis by (simp add: powr_minus)
qed

lemma lost_r21: "rnd (1 * 17179869183) = Finite 17179869183"
proof -
  have "rnd (1 * 17179869183) = Finite (of_int 9007199254216704 * 2 powr of_int (33 - 52))"
    by (rule rnd_eqI) (simp_all add: powr_minus)
  then show ?thesis by (simp add: powr_minus)
qed

lemma lost_hyp2: "Math_hypot (Finite (- 17179869183)) (Finite 1) = Finite 17179869183"
  using Math_hypot_eval[OF _ _ lost_r19 lost_r10 lost_r20 lost_r12 lost_r13 lost_r14] lost_r21 by simp

lemma lost_r22: "rnd (17179885568 - 17179869184) = Finite 16384"
proof -
  have "rnd (17179885568 - 17179869184) = Finite (of_int 4503599627370496 * 2 powr of_int (14 - 52))"
    by (rule rnd_eqI) (simp_all add: powr_minus)
  then show ?thesis by (simp add: powr_minus)
qed

lemma lost_r23: "rnd ((- (1 / 2 ^ 20)) - 0) = Finite (- (1 / 2 ^ 20))"
proof -
  have "rnd ((- (1 / 2 ^ 20)) - 0) = Finite (of_int (- 4503599627370496) * 2 powr of_int (-20 - 52))"
    by (rule rnd_eqI) (simp_all add: powr_minus)
  then show ?thesis by (simp add: powr_minus)
qed

lemma lost_r24: "rnd (\<bar>16384\<bar> / 16384) = Finite 1"
proof -
  have "rnd (\<bar>16384\<bar> / 16384) = Finite (of_int 4503599627370496 * 2 powr of_int (0 - 52))"
    by (rule rnd_eqI) (simp_all add: powr_minus)
  then show ?thesis by (simp add: powr_minus)
qed

lemma lost_r25: "rnd (\<bar>(- (1 / 2 ^ 20))\<bar> / 16384) = Finite (1 / 2 ^ 34)"
proof -
  have "rnd (\<bar>(- (1 / 2 ^ 20))\<bar> / 16384) = Finite (of_int 4503599627370496 * 2 powr of_int (-34 - 52))"
    by (rule rnd_eqI) (simp_all add: powr_minus)
  then show ?thesis by (simp add: powr_minus)
qed

lemma lost_r26: "rnd ((1 / 2 ^ 34) * (1 / 2 ^ 34)) = Finite (1 / 2 ^ 68)"
proof -
  have "rnd ((1 / 2 ^ 34) * (1 / 2 ^ 34)) = Finite (of_int 4503599627370496 * 2 powr of_int (-68 - 52))"
    by (rule rnd_eqI) (simp_all add: powr_minus)
  then show ?thesis by (simp add: powr_minus)
qed

lemma lost_r27: "rnd (1 + (1 / 2 ^ 68)) = Finite 1"
proof -
  have "rnd (1 + (1 / 2 ^ 68)) = Finite (of_int 4503599627370496 * 2 powr of_int (0 - 52))"
    by (rule rnd_eqI) (simp_all add: powr_minus)
  then show ?thesis by (simp add: powr_minus)
qed

lemma lost_r28: "rnd (1 * 16384) = Finite 16384"
proof -
  have "rnd (1 * 16384) = Finite (of_int 4503599627370496 * 2 powr of_int (14 - 52))"
    by (rule rnd_eqI) (simp_all add: powr_minus)
  then show ?thesis by (simp add: powr_minus)
qed

lemma lost_hyp3: "Math_hypot (Finite 16384) (Finite (- (1 / 2 ^ 20))) = Finite 16384"
  using Math_hypot_eval[OF _ _ lost_r24 lost_r10 lost_r25 lost_r26 lost_r27 lost_r14] lost_r28 by simp

lemma lost_sides:
  "distance (pt 17179885568 (- (1 / 2 ^ 20))) (pt 1 1) = Finite 17179885567"
  "distance (pt 17179869184 0) (pt 1 1) = Finite 17179869183"
  "distance (pt 17179869184 0) (pt 17179885568 (- (1 / 2 ^ 20))) = Finite 16384"
  by (rule distance_eval[OF lost_r7 lost_r8 lost_hyp1] distance_eval[OF lost_r17 lost_r18 lost_hyp2] distance_eval[OF lost_r22 lost_r23 lost_hyp3])+

lemma lost_finite: "sides_finite (pt 17179869184 0) (pt 17179885568 (- (1 / 2 ^ 20))) (pt 1 1)"
  by (simp only: sides_finite_def lost_sides isFinite.simps simp_thms)

lemma lost_r29: "rnd (17179869184 * (- (1048577 / 2 ^ 20))) = Finite (- 17179885568)"
proof -
  have "rnd (17179869184 * (- (1048577 / 2 ^ 20))) = Finite (of_int (- 4503603922337792) * 2 powr of_int (34 - 52))"
    by (rule rnd_eqI) (simp_all add: powr_minus)
  then show ?thesis by (simp add: powr_minus)
qed

lemma lost_r30: "rnd (17179885568 * 1) = Finite 17179885568"
proof -
  have "rnd (17179885568 * 1) = Finite (of_int 4503603922337792 * 2 powr of_int (34 - 52))"
    by (rule rnd_eqI) (simp_all add: powr_minus)
  then show ?thesis by (simp add: powr_minus)
qed

lemma lost_r31: "rnd (1 * (1 / 2 ^ 20)) = Finite (1 / 2 ^ 20)"
proof -
  have "rnd (1 * (1 / 2 ^ 20)) = Finite (of_int 4503599627370496 * 2 powr of_int (-20 - 52))"
    by (rule rnd_eqI) (simp_all add: powr_minus)
  then show ?thesis by (simp add: powr_minus)
qed

lemma lost_r32: "rnd ((- 17179885568) + 17179885568) = Finite 0"
  by (simp add: rnd_zero)

lemma lost_r33: "rnd (0 + (1 / 2 ^ 20)) = Finite (1 / 2 ^ 20)"
proof -
  have "rnd (0 + (1 / 2 ^ 20)) = Finite (of_int 4503599627370496 * 2 powr of_int (-20 - 52))"
    by (rule rnd_eqI) (simp_all add: powr_minus)
  then show ?thesis by (simp add: powr_minus)
qed

lemma lost_r34: "rnd (\<bar>(1 / 2 ^ 20)\<bar> / 2) = Finite (1 / 2 ^ 21)"
proof -
  have "rnd (\<bar>(1 / 2 ^ 20)\<bar> / 2) = Finite (of_int 4503599627370496 * 2 powr of_int (-21 - 52))"
    by (rule rnd_eqI) (simp_all add: powr_minus)
  then show ?thesis by (simp add: powr_minus)
qed

lemma lost_area: "unsigned_area (pt 17179869184 0) (pt 17179885568 (- (1 / 2 ^ 20))) (pt 1 1) = Finite (1 / 2 ^ 21)"
  by (rule area_eval[OF lost_r6 lost_r29 lost_r18 lost_r30 lost_r2 lost_r31 lost_r32 lost_r33 lost_r34])

lemma lost_area_ok: "\<not> js_le (unsigned_area (pt 17179869184 0) (pt 17179885568 (- (1 / 2 ^ 20))) (pt 1 1)) EPS"
  unfolding lost_area EPS_val by simp

lemma lost_valid: "valid (triangleData ((pt 17179869184 0), (pt 17179885568 (- (1 / 2 ^ 20))), (pt 1 1)))"
  using lost_not_coincide lost_finite lost_area_ok by (simp only: valid_iff simp_thms)

lemma lost_r35: "rnd (17179885567 + 17179869183) = Finite 34359754750"
proof -
  have "rnd (17179885567 + 17179869183) = Finite (of_int 4503601774592000 * 2 powr of_int (35 - 52))"
    by (rule rnd_eqI) (simp_all add: powr_minus)
  then show ?thesis by (simp add: powr_minus)
qed

lemma lost_r36: "rnd (34359754750 + 16384) = Finite 34359771134"
proof -
  have "rnd (34359754750 + 16384) = Finite (of_int 4503603922075648 * 2 powr of_int (35 - 52))"
    by (rule rnd_eqI) (simp_all add: powr_minus)
  then show ?thesis by (simp add: powr_minus)
qed

lemma lost_perimeter: "js_add (js_add (Finite 17179885567) (Finite 17179869183)) (Finite 16384) = Finite 34359771134"
  by (rule perimeter_eval[OF lost_r35 lost_r36])

lemma lost_result:
  "sides (triangleData ((pt 17179869184 0), (pt 17179885568 (- (1 / 2 ^ 20))), (pt 1 1))) = Some \<lparr>side_a = Finite 17179885567, side_b = Finite 17179869183, side_c = Finite 16384\<rparr>"
  "perimeter (triangleData ((pt 17179869184 0), (pt 17179885568 (- (1 / 2 ^ 20))), (pt 1 1))) = Some (Finite 34359771134)"
  "area (triangleData ((pt 17179869184 0), (pt 17179885568 (- (1 / 2 ^ 20))), (pt 1 1))) = Some (Finite (1 / 2 ^ 21))"
  unfolding triangleData_valid[OF lost_not_coincide lost_finite lost_area_ok]
  by (simp_all only: TriangleData.select_convs lost_sides lost_perimeter lost_area)

lemma lostr_r1: "rnd (17179869184 - 1) = Finite 17179869183"
proof -
  have "rnd (17179869184 - 1) = Finite (of_int 9007199254216704 * 2 powr of_int (33 - 52))"
    by (rule rnd_eqI) (simp_all add: powr_minus)
  then show ?thesis by (simp add: powr_minus)
qed

lemma lostr_r2: "rnd (0 - 1) = Finite (- 1)"
proof -
  have "rnd (0 - 1) = Finite (of_int (- 4503599627370496) * 2 powr of_int (0 - 52))"
    by (rule rnd_eqI) (simp_all add: powr_minus)
  then show ?thesis by (simp add: powr_minus)
qed

lemma lostr_r3: "rnd (17179869184 - 17179885568) = Finite (- 16384)"
proof -
  have "rnd (17179869184 - 17179885568) = Finite (of_int (- 4503599627370496) * 2 powr of_int (14 - 52))"
    by (rule rnd_eqI) (simp_all add: powr_minus)
  then show ?thesis by (simp add: powr_minus)
qed

lemma lostr_r4: "rnd (0 - (- (1 / 2 ^ 20))) = Finite (1 / 2 ^ 20)"
proof -
  have "rnd (0 - (- (1 / 2 ^ 20))) = Finite (of_int 4503599627370496 * 2 powr of_int (-20 - 52))"
    by (rule rnd_eqI) (simp_all add: powr_minus)
  then show ?thesis by (simp add: powr_minus)
qed

lemma lostr_r5: "rnd (1 - 17179885568) = Finite (- 17179885567)"
proof -
  have "rnd (1 - 17179885568) = Finite (of_int (- 4503603922075648) * 2 powr of_int (34 - 52))"
    by (rule rnd_eqI) (simp_all add: powr_minus)
  then show ?thesis by (simp add: powr_minus)
qed

lemma lostr_r6: "rnd (1 - (- (1 / 2 ^ 20))) = Finite (1048577 / 2 ^ 20)"
proof -
  have "rnd (1 - (- (1 / 2 ^ 20))) = Finite (of_int 4503603922337792 * 2 powr of_int (0 - 52))"
    by (rule rnd_eqI) (simp_all add: powr_minus)
  then show ?thesis by (simp add: powr_minus)
qed

lemma lostr_not_coincide: "\<not> any_coincide (pt 17179869184 0) (pt 1 1) (pt 17179885568 (- (1 / 2 ^ 20)))"
  using coincide_eval[OF lostr_r1 lostr_r2] coincide_eval[OF lostr_r3 lostr_r4] coincide_eval[OF lostr_r5 lostr_r6]
  by (simp add: any_coincide_def)

lemma lostr_r7: "rnd (17179885568 - 1) = Finite 17179885567"
proof -
  have "rnd (17179885568 - 1) = Finite (of_int 4503603922075648 * 2 powr of_int (34 - 52))"
    by (rule rnd_eqI) (simp_all add: powr_minus)
  then show ?thesis by (simp add: powr_minus)
qed

lemma lostr_r8: "rnd ((- (1 / 2 ^ 20)) - 1) = Finite (- (1048577 / 2 ^ 20))"
proof -
  have "rnd ((- (1 / 2 ^ 20)) - 1) = Finite (of_int (- 4503603922337792) * 2 powr of_int (0 - 52))"
    by (rule rnd_eqI) (simp_all add: powr_minus)
  then show ?thesis by (simp add: powr_minus)
qed

lemma lostr_r9: "rnd (\<bar>17179885567\<bar> / 17179885567) = Finite 1"
proof -
  have "rnd (\<bar>17179885567\<bar> / 17179885567) = Finite (of_int 4503599627370496 * 2 powr of_int (0 - 52))"
    by (rule rnd_eqI) (simp_all add: powr_minus)
  then show ?thesis by (simp add: powr_minus)
qed

lemma lostr_r10: "rnd (1 * 1) = Finite 1"
proof -
  have "rnd (1 * 1) = Finite (of_int 4503599627370496 * 2 powr of_int (0 - 52))"
    by (rule rnd_eqI) (simp_all add: powr_minus)
  then show ?thesis by (simp add: powr_minus)
qed

lemma lostr_r11: "rnd (\<bar>(- (1048577 / 2 ^ 20))\<bar> / 17179885567) = Finite (17179869185 / 2 ^ 68)"
proof -
  have "rnd (\<bar>(- (1048577 / 2 ^ 20))\<bar> / 17179885567) = Finite (of_int 4503599627632640 * 2 powr of_int (-34 - 52))"
    by (rule rnd_eqI) (simp_all add: powr_minus)
  then show ?thesis by (simp add: powr_minus)
qed

lemma lostr_r12: "rnd ((17179869185 / 2 ^ 68) * (17179869185 / 2 ^ 68)) = Finite (8589934593 / 2 ^ 101)"
proof -
  have "rnd ((17179869185 / 2 ^ 68) * (17179869185 / 2 ^ 68)) = Finite (of_int 4503599627894784 * 2 powr of_int (-68 - 52))"
    by (rule rnd_eqI) (simp_all add: powr_minus)
  then show ?thesis by (simp add: powr_minus)
qed

lemma lostr_r13: "rnd (1 + (8589934593 / 2 ^ 101)) = Finite 1"
proof -
  have "rnd (1 + (8589934593 / 2 ^ 101)) = Finite (of_int 4503599627370496 * 2 powr of_int (0 - 52))"
    by (rule rnd_eqI) (simp_all add: powr_minus)
  then show ?thesis by (simp add: powr_minus)
qed

lemma lostr_r15: "rnd (1) = Finite 1"
proof -
  have "rnd (1) = Finite (of_int 4503599627370496 * 2 powr of_int (0 - 52))"
    by (rule rnd_eqI) (simp_all add: powr_minus)
  then show ?thesis by (simp add: powr_minus)
qed

lemma lostr_r14: "rnd (sqrt 1) = Finite 1"
  using lostr_r15 by (intro rnd_sqrt_exact) simp_all

lemma lostr_r16: "rnd (1 * 17179885567) = Finite 17179885567"
proof -
  have "rnd (1 * 17179885567) = Finite (of_int 4503603922075648 * 2 powr of_int (34 - 52))"
    by (rule rnd_eqI) (simp_all add: powr_minus)
  then show ?thesis by (simp add: powr_minus)
qed

lemma lostr_hyp1: "Math_hypot (Finite 17179885567) (Finite (- (1048577 / 2 ^ 20))) = Finite 17179885567"
  using Math_hypot_eval[OF _ _ lostr_r9 lostr_r10 lostr_r11 lostr_r12 lostr_r13 lostr_r14] lostr_r16 by simp

lemma lostr_r17: "rnd (17179885568 - 17179869184) = Finite 16384"
proof -
  have "rnd (17179885568 - 17179869184) = Finite (of_int 4503599627370496 * 2 powr of_int (14 - 52))"
    by (rule rnd_eqI) (simp_all add: powr_minus)
  then show ?thesis by (simp add: powr_minus)
qed

lemma lostr_r18: "rnd ((- (1 / 2 ^ 20)) - 0) = Finite (- (1 / 2 ^ 20))"
proof -
  have "rnd ((- (1 / 2 ^ 20)) - 0) = Finite (of_int (- 4503599627370496) * 2 powr of_int (-20 - 52))"
    by (rule rnd_eqI) (simp_all add: powr_minus)
  then show ?thesis by (simp add: powr_minus)
qed

lemma lostr_r19: "rnd (\<bar>16384\<bar> / 16384) = Finite 1"
proof -
  have "rnd (\<bar>16384\<bar> / 16384) = Finite (of_int 4503599627370496 * 2 powr of_int (0 - 52))"
    by (rule rnd_eqI) (simp_all add: powr_minus)
  then show ?thesis by (simp add: powr_minus)
qed

lemma lostr_r20: "rnd (\<bar>(- (1 / 2 ^ 20))\<bar> / 16384) = Finite (1 / 2 ^ 34)"
proof -
  have "rnd (\<bar>(- (1 / 2 ^ 20))\<bar> / 16384) = Finite (of_int 4503599627370496 * 2 powr of_int (-34 - 52))"
    by (rule rnd_eqI) (simp_all add: powr_minus)
  then show ?thesis by (simp add: powr_minus)
qed

lemma lostr_r21: "rnd ((1 / 2 ^ 34) * (1 / 2 ^ 34)) = Finite (1 / 2 ^ 68)"
proof -
  have "rnd ((1 / 2 ^ 34) * (1 / 2 ^ 34)) = Finite (of_int 4503599627370496 * 2 powr of_int (-68 - 52))"
    by (rule rnd_eqI) (simp_all add: powr_minus)
  then show ?thesis by (simp add: powr_minus)
qed

lemma lostr_r22: "rnd (1 + (1 / 2 ^ 68)) = Finite 1"
proof -
  have "rnd (1 + (1 / 2 ^ 68)) = Finite (of_int 4503599627370496 * 2 powr of_int (0 - 52))"
    by (rule rnd_eqI) (simp_all add: powr_minus)
  then show ?thesis by (simp add: powr_minus)
qed

lemma lostr_r23: "rnd (1 * 16384) = Finite 16384"
proof -
  have "rnd (1 * 16384) = Finite (of_int 4503599627370496 * 2 powr of_int (14 - 52))"
    by (rule rnd_eqI) (simp_all add: powr_minus)
  then show ?thesis by (simp add: powr_minus)
qed

lemma lostr_hyp2: "Math_hypot (Finite 16384) (Finite (- (1 / 2 ^ 20))) = Finite 16384"
  using Math_hypot_eval[OF _ _ lostr_r19 lostr_r10 lostr_r20 lostr_r21 lostr_r22 lostr_r14] lostr_r23 by simp

lemma lostr_r24: "rnd (1 - 17179869184) = Finite (- 17179869183)"
proof -
  have "rnd (1 - 17179869184) = Finite (of_int (- 9007199254216704) * 2 powr of_int (33 - 52))"
    by (rule rnd_eqI) (simp_all add: powr_minus)
  then show ?thesis by (simp add: powr_minus)
qed

lemma lostr_r25: "rnd (1 - 0) = Finite 1"
proof -
  have "rnd (1 - 0) = Finite (of_int 4503599627370496 * 2 powr of_int (0 - 52))"
    by (rule rnd_eqI) (simp_all add: powr_minus)
  then show ?thesis by (simp add: powr_minus)
qed

lemma lostr_r26: "rnd (\<bar>(- 17179869183)\<bar> / 17179869183) = Finite 1"
proof -
  have "rnd (\<bar>(- 17179869183)\<bar> / 17179869183) = Finite (of_int 4503599627370496 * 2 powr of_int (0 - 52))"
    by (rule rnd_eqI) (simp_all add: powr_minus)
  then show ?thesis by (simp add: powr_minus)
qed

lemma lostr_r27: "rnd (\<bar>1\<bar> / 17179869183) = Finite (17179869185 / 2 ^ 68)"
proof -
  have "rnd (\<bar>1\<bar> / 17179869183) = Finite (of_int 4503599627632640 * 2 powr of_int (-34 - 52))"
    by (rule rnd_eqI) (simp_all add: powr_minus)
  then show ?thesis by (simp add: powr_minus)
qed

lemma lostr_r28: "rnd (1 * 17179869183) = Finite 17179869183"
proof -
  have "rnd (1 * 17179869183) = Finite (of_int 9007199254216704 * 2 powr of_int (33 - 52))"
    by (rule rnd_eqI) (simp_all add: powr_minus)
  then show ?thesis by (simp add: powr_minus)
qed

lemma lostr_hyp3: "Math_hypot (Finite (- 17179869183)) (Finite 1) = Finite 17179869183"
  using Math_hypot_eval[OF _ _ lostr_r26 lostr_r10 lostr_r27 lostr_r12 lostr_r13 lostr_r14] lostr_r28 by simp

lemma lostr_sides:
  "distance (pt 1 1) (pt 17179885568 (- (1 / 2 ^ 20))) = Finite 17179885567"
  "distance (pt 17179869184 0) (pt 17179885568 (- (1 / 2 ^ 20))) = Finite 16384"
  "distance (pt 17179869184 0) (pt 1 1) = Finite 17179869183"
  by (rule distance_eval[OF lostr_r7 lostr_r8 lostr_hyp1] distance_eval[OF lostr_r17 lostr_r18 lostr_hyp2] distance_eval[OF lostr_r24 lostr_r25 lostr_hyp3])+

lemma lostr_finite: "sides_finite (pt 17179869184 0) (pt 1 1) (pt 17179885568 (- (1 / 2 ^ 20)))"
  by (simp only: sides_finite_def lostr_sides isFinite.simps simp_thms)

lemma lostr_r29: "rnd (17179869184 * (1048577 / 2 ^ 20)) = Finite 17179885568"
proof -
  have "rnd (17179869184 * (1048577 / 2 ^ 20)) = Finite (of_int 4503603922337792 * 2 powr of_int (34 - 52))"
    by (rule rnd_eqI) (simp_all add: powr_minus)
  then show ?thesis by (simp add: powr_minus)
qed

lemma lostr_r30: "rnd (1 * (- (1 / 2 ^ 20))) = Finite (- (1 / 2 ^ 20))"
proof -
  have "rnd (1 * (- (1 / 2 ^ 20))) = Finite (of_int (- 4503599627370496) * 2 powr of_int (-20 - 52))"
    by (rule rnd_eqI) (simp_all add: powr_minus)
  then show ?thesis by (simp add: powr_minus)
qed

lemma lostr_r31: "rnd (17179885568 * (- 1)) = Finite (- 17179885568)"
proof -
  have "rnd (17179885568 * (- 1)) = Finite (of_int (- 4503603922337792) * 2 powr of_int (34 - 52))"
    by (rule rnd_eqI) (simp_all add: powr_minus)
  then show ?thesis by (simp add: powr_minus)
qed

lemma lostr_r32: "rnd (17179885568 + (- (1 / 2 ^ 20))) = Finite 17179885568"
proof -
  have "rnd (17179885568 + (- (1 / 2 ^ 20))) = Finite (of_int 4503603922337792 * 2 powr of_int (34 - 52))"
    by (rule rnd_eqI) (simp_all add: powr_minus)
  then show ?thesis by (simp add: powr_minus)
qed

lemma lostr_r33: "rnd (17179885568 + (- 17179885568)) = Finite 0"
  by (simp add: rnd_zero)

lemma lostr_r34: "rnd (\<bar>0\<bar> / 2) = Finite 0"
  by (simp add: rnd_zero)

lemma lostr_area: "unsigned_area (pt 17179869184 0) (pt 1 1) (pt 17179885568 (- (1 / 2 ^ 20))) = Finite 0"
  by (rule area_eval[OF lostr_r6 lostr_r29 lostr_r18 lostr_r30 lostr_r2 lostr_r31 lostr_r32 lostr_r33 lostr_r34])

lemma lostr_result: "triangleData ((pt 17179869184 0), (pt 1 1), (pt 17179885568 (- (1 / 2 ^ 20)))) = invalid ''Degenerate (collinear) triangle.''"
proof -
  have "js_le (unsigned_area (pt 17179869184 0) (pt 1 1) (pt 17179885568 (- (1 / 2 ^ 20)))) EPS" unfolding lostr_area EPS_val by simp
  then show ?thesis by (rule triangleData_degenerate[OF lostr_not_coincide lostr_finite])
qed

section \<open>A flat triangle whose angles do not sum to 180\<close>










































































































section \<open>A triangle whose perimeter depends on the order of the points\<close>

lemma perim_r1: "rnd (0 - 2) = Finite (- 2)"
proof -
  have "rnd (0 - 2) = Finite (of_int (- 4503599627370496) * 2 powr of_int (1 - 52))"
    by (rule rnd_eqI) (simp_all add: powr_minus)
  then show ?thesis by (simp add: powr_minus)
qed

lemma perim_r2: "rnd (0 - 0) = Finite 0"
  by (simp add: rnd_zero)

lemma perim_r3: "rnd (0 - (- 1)) = Finite 1"
proof -
  have "rnd (0 - (- 1)) = Finite (of_int 4503599627370496 * 2 powr of_int (0 - 52))"
    by (rule rnd_eqI) (simp_all add: powr_minus)
  then show ?thesis by (simp add: powr_minus)
qed

lemma perim_r4: "rnd (0 - 1) = Finite (- 1)"
proof -
  have "rnd (0 - 1) = Finite (of_int (- 4503599627370496) * 2 powr of_int (0 - 52))"
    by (rule rnd_eqI) (simp_all add: powr_minus)
  then show ?thesis by (simp add: powr_minus)
qed

lemma perim_r5: "rnd (2 - (- 1)) = Finite 3"
proof -
  have "rnd (2 - (- 1)) = Finite (of_int 6755399441055744 * 2 powr of_int (1 - 52))"
    by (rule rnd_eqI) (simp_all add: powr_minus)
  then show ?thesis by (simp add: powr_minus)
qed

lemma perim_not_coincide: "\<not> any_coincide (pt 0 0) (pt 2 0) (pt (- 1) 1)"
  using coincide_eval[OF perim_r1 perim_r2] coincide_eval[OF perim_r3 perim_r4] coincide_eval[OF perim_r5 perim_r4]
  by (simp add: any_coincide_def)

lemma perim_r6: "rnd ((- 1) - 2) = Finite (- 3)"
proof -
  have "rnd ((- 1) - 2) = Finite (of_int (- 6755399441055744) * 2 powr of_int (1 - 52))"
    by (rule rnd_eqI) (simp_all add: powr_minus)
  then show ?thesis by (simp add: powr_minus)
qed

lemma perim_r7: "rnd (1 - 0) = Finite 1"
proof -
  have "rnd (1 - 0) = Finite (of_int 4503599627370496 * 2 powr of_int (0 - 52))"
    by (rule rnd_eqI) (simp_all add: powr_minus)
  then show ?thesis by (simp add: powr_minus)
qed

lemma perim_r8: "rnd (\<bar>(- 3)\<bar> / 3) = Finite 1"
proof -
  have "rnd (\<bar>(- 3)\<bar> / 3) = Finite (of_int 4503599627370496 * 2 powr of_int (0 - 52))"
    by (rule rnd_eqI) (simp_all add: powr_minus)
  then show ?thesis by (simp add: powr_minus)
qed

lemma perim_r9: "rnd (1 * 1) = Finite 1"
proof -
  have "rnd (1 * 1) = Finite (of_int 4503599627370496 * 2 powr of_int (0 - 52))"
    by (rule rnd_eqI) (simp_all add: powr_minus)
  then show ?thesis by (simp add: powr_minus)
qed

lemma perim_r10: "rnd (\<bar>1\<bar> / 3) = Finite (6004799503160661 / 2 ^ 54)"
proof -
  have "rnd (\<bar>1\<bar> / 3) = Finite (of_int 6004799503160661 * 2 powr of_int (-2 - 52))"
    by (rule rnd_eqI) (simp_all add: powr_minus)
  then show ?thesis by (simp add: powr_minus)
qed

lemma perim_r11: "rnd ((6004799503160661 / 2 ^ 54) * (6004799503160661 / 2 ^ 54)) = Finite (2001599834386887 / 2 ^ 54)"
proof -
  have "rnd ((6004799503160661 / 2 ^ 54) * (6004799503160661 / 2 ^ 54)) = Finite (of_int 8006399337547548 * 2 powr of_int (-4 - 52))"
    by (rule rnd_eqI) (simp_all add: powr_minus)
  then show ?thesis by (simp add: powr_minus)
qed

lemma perim_r12: "rnd (1 + (2001599834386887 / 2 ^ 54)) = Finite (2501999792983609 / 2 ^ 51)"
proof -
  have "rnd (1 + (2001599834386887 / 2 ^ 54)) = Finite (of_int 5003999585967218 * 2 powr of_int (0 - 52))"
    by (rule rnd_eqI) (simp_all add: powr_minus)
  then show ?thesis by (simp add: powr_minus)
qed

lemma perim_r13: "rnd (sqrt (2501999792983609 / 2 ^ 51)) = Finite (2373605415329393 / 2 ^ 51)"
proof -
  define s :: real where "s = sqrt (2501999792983609 / 2 ^ 51)"
  define P :: real where "P = s / (1 / 2 ^ 52)"
  have b: "(75955373290540569 / 2 ^ 56) \<le> s" "s < (9494421661317573 / 2 ^ 53)"
    unfolding s_def by (rule sqrt_between[of "(75955373290540569 / 2 ^ 56)" _ "(9494421661317573 / 2 ^ 53)"]; simp)+
  have "(75955373290540569 / 2 ^ 56) / (1 / 2 ^ 52) \<le> P" "P < (9494421661317573 / 2 ^ 53) / (1 / 2 ^ 52)"
    unfolding P_def using b by (simp_all add: divide_right_mono divide_strict_right_mono)
  moreover have "(of_int 4747210830658786 - 1 / 2 :: real) < (75955373290540569 / 2 ^ 56) / (1 / 2 ^ 52)"
    "((9494421661317573 / 2 ^ 53) / (1 / 2 ^ 52) :: real) \<le> of_int 4747210830658786 + 1 / 2"
    by simp_all
  ultimately have "of_int 4747210830658786 - 1 / 2 < P" "P < of_int 4747210830658786 + 1 / 2" by linarith+
  then have "\<bar>P - of_int 4747210830658786\<bar> < 1 / 2" by (simp only: abs_less_iff) linarith
  moreover have "s / 2 powr of_int (0 - 52) = P" by (simp add: P_def powr_minus)
  ultimately have n: "\<bar>s / 2 powr of_int (0 - 52) - of_int 4747210830658786\<bar> < 1 / 2" by (simp only:)
  have "(2::real) powr of_int (0) \<le> (75955373290540569 / 2 ^ 56)" "((9494421661317573 / 2 ^ 53) :: real) \<le> 2 powr of_int (0 + 1)"
    by (simp_all add: powr_minus)
  then have "2 powr of_int (0) \<le> s" "s < 2 powr of_int (0 + 1)"
    using b by linarith+
  moreover have "\<bar>s\<bar> = s" unfolding s_def by simp
  ultimately have k: "2 powr of_int (0) \<le> \<bar>s\<bar>" "\<bar>s\<bar> < 2 powr of_int (0 + 1)"
    by (simp_all only:)
  have "rnd s = Finite (of_int 4747210830658786 * 2 powr of_int (0 - 52))"
    by (rule rnd_eqI[OF k _ _ n]) simp_all
  then show ?thesis unfolding s_def by (simp add: powr_minus)
qed

lemma perim_r14: "rnd ((2373605415329393 / 2 ^ 51) * 3) = Finite (7120816245988179 / 2 ^ 51)"
proof -
  have "rnd ((2373605415329393 / 2 ^ 51) * 3) = Finite (of_int 7120816245988179 * 2 powr of_int (1 - 52))"
    by (rule rnd_eqI) (simp_all add: powr_minus)
  then show ?thesis by (simp add: powr_minus)
qed

lemma perim_hyp1: "Math_hypot (Finite (- 3)) (Finite 1) = Finite (7120816245988179 / 2 ^ 51)"
  using Math_hypot_eval[OF _ _ perim_r8 perim_r9 perim_r10 perim_r11 perim_r12 perim_r13] perim_r14 by simp

lemma perim_r15: "rnd ((- 1) - 0) = Finite (- 1)"
proof -
  have "rnd ((- 1) - 0) = Finite (of_int (- 4503599627370496) * 2 powr of_int (0 - 52))"
    by (rule rnd_eqI) (simp_all add: powr_minus)
  then show ?thesis by (simp add: powr_minus)
qed

lemma perim_r16: "rnd (\<bar>(- 1)\<bar> / 1) = Finite 1"
proof -
  have "rnd (\<bar>(- 1)\<bar> / 1) = Finite (of_int 4503599627370496 * 2 powr of_int (0 - 52))"
    by (rule rnd_eqI) (simp_all add: powr_minus)
  then show ?thesis by (simp add: powr_minus)
qed

lemma perim_r17: "rnd (\<bar>1\<bar> / 1) = Finite 1"
proof -
  have "rnd (\<bar>1\<bar> / 1) = Finite (of_int 4503599627370496 * 2 powr of_int (0 - 52))"
    by (rule rnd_eqI) (simp_all add: powr_minus)
  then show ?thesis by (simp add: powr_minus)
qed

lemma perim_r18: "rnd (1 + 1) = Finite 2"
proof -
  have "rnd (1 + 1) = Finite (of_int 4503599627370496 * 2 powr of_int (1 - 52))"
    by (rule rnd_eqI) (simp_all add: powr_minus)
  then show ?thesis by (simp add: powr_minus)
qed

lemma perim_r19: "rnd (sqrt 2) = Finite (6369051672525773 / 2 ^ 52)"
proof -
  define s :: real where "s = sqrt 2"
  define P :: real where "P = s / (1 / 2 ^ 52)"
  have b: "(101904826760412361 / 2 ^ 56) \<le> s" "s < (12738103345051547 / 2 ^ 53)"
    unfolding s_def by (rule sqrt_between[of "(101904826760412361 / 2 ^ 56)" _ "(12738103345051547 / 2 ^ 53)"]; simp)+
  have "(101904826760412361 / 2 ^ 56) / (1 / 2 ^ 52) \<le> P" "P < (12738103345051547 / 2 ^ 53) / (1 / 2 ^ 52)"
    unfolding P_def using b by (simp_all add: divide_right_mono divide_strict_right_mono)
  moreover have "(of_int 6369051672525773 - 1 / 2 :: real) < (101904826760412361 / 2 ^ 56) / (1 / 2 ^ 52)"
    "((12738103345051547 / 2 ^ 53) / (1 / 2 ^ 52) :: real) \<le> of_int 6369051672525773 + 1 / 2"
    by simp_all
  ultimately have "of_int 6369051672525773 - 1 / 2 < P" "P < of_int 6369051672525773 + 1 / 2" by linarith+
  then have "\<bar>P - of_int 6369051672525773\<bar> < 1 / 2" by (simp only: abs_less_iff) linarith
  moreover have "s / 2 powr of_int (0 - 52) = P" by (simp add: P_def powr_minus)
  ultimately have n: "\<bar>s / 2 powr of_int (0 - 52) - of_int 6369051672525773\<bar> < 1 / 2" by (simp only:)
  have "(2::real) powr of_int (0) \<le> (101904826760412361 / 2 ^ 56)" "((12738103345051547 / 2 ^ 53) :: real) \<le> 2 powr of_int (0 + 1)"
    by (simp_all add: powr_minus)
  then have "2 powr of_int (0) \<le> s" "s < 2 powr of_int (0 + 1)"
    using b by linarith+
  moreover have "\<bar>s\<bar> = s" unfolding s_def by simp
  ultimately have k: "2 powr of_int (0) \<le> \<bar>s\<bar>" "\<bar>s\<bar> < 2 powr of_int (0 + 1)"
    by (simp_all only:)
  have "rnd s = Finite (of_int 6369051672525773 * 2 powr of_int (0 - 52))"
    by (rule rnd_eqI[OF k _ _ n]) simp_all
  then show ?thesis unfolding s_def by (simp add: powr_minus)
qed

lemma perim_r20: "rnd ((6369051672525773 / 2 ^ 52) * 1) = Finite (6369051672525773 / 2 ^ 52)"
proof -
  have "rnd ((6369051672525773 / 2 ^ 52) * 1) = Finite (of_int 6369051672525773 * 2 powr of_int (0 - 52))"
    by (rule rnd_eqI) (simp_all add: powr_minus)
  then show ?thesis by (simp add: powr_minus)
qed

lemma perim_hyp2: "Math_hypot (Finite (- 1)) (Finite 1) = Finite (6369051672525773 / 2 ^ 52)"
  using Math_hypot_eval[OF _ _ perim_r16 perim_r9 perim_r17 perim_r9 perim_r18 perim_r19] perim_r20 by simp

lemma perim_r21: "rnd (2 - 0) = Finite 2"
proof -
  have "rnd (2 - 0) = Finite (of_int 4503599627370496 * 2 powr of_int (1 - 52))"
    by (rule rnd_eqI) (simp_all add: powr_minus)
  then show ?thesis by (simp add: powr_minus)
qed

lemma perim_r22: "rnd (2) = Finite 2"
proof -
  have "rnd (2) = Finite (of_int 4503599627370496 * 2 powr of_int (1 - 52))"
    by (rule rnd_eqI) (simp_all add: powr_minus)
  then show ?thesis by (simp add: powr_minus)
qed

lemma perim_hyp3: "Math_hypot (Finite 2) (Finite 0) = Finite 2"
proof -
  have "Math_hypot (Finite 2) (Finite 0) = rnd 2" by (rule Math_hypot_axis) simp_all
  then show ?thesis by (simp only: perim_r22)
qed

lemma perim_sides:
  "distance (pt 2 0) (pt (- 1) 1) = Finite (7120816245988179 / 2 ^ 51)"
  "distance (pt 0 0) (pt (- 1) 1) = Finite (6369051672525773 / 2 ^ 52)"
  "distance (pt 0 0) (pt 2 0) = Finite 2"
  by (rule distance_eval[OF perim_r6 perim_r7 perim_hyp1] distance_eval[OF perim_r15 perim_r7 perim_hyp2] distance_eval[OF perim_r21 perim_r2 perim_hyp3])+

lemma perim_finite: "sides_finite (pt 0 0) (pt 2 0) (pt (- 1) 1)"
  by (simp only: sides_finite_def perim_sides isFinite.simps simp_thms)

lemma perim_r23: "rnd (0 * (- 1)) = Finite 0"
  by (simp add: rnd_zero)

lemma perim_r24: "rnd (2 * 1) = Finite 2"
proof -
  have "rnd (2 * 1) = Finite (of_int 4503599627370496 * 2 powr of_int (1 - 52))"
    by (rule rnd_eqI) (simp_all add: powr_minus)
  then show ?thesis by (simp add: powr_minus)
qed

lemma perim_r25: "rnd ((- 1) * 0) = Finite 0"
  by (simp add: rnd_zero)

lemma perim_r26: "rnd (0 + 2) = Finite 2"
proof -
  have "rnd (0 + 2) = Finite (of_int 4503599627370496 * 2 powr of_int (1 - 52))"
    by (rule rnd_eqI) (simp_all add: powr_minus)
  then show ?thesis by (simp add: powr_minus)
qed

lemma perim_r27: "rnd (2 + 0) = Finite 2"
proof -
  have "rnd (2 + 0) = Finite (of_int 4503599627370496 * 2 powr of_int (1 - 52))"
    by (rule rnd_eqI) (simp_all add: powr_minus)
  then show ?thesis by (simp add: powr_minus)
qed

lemma perim_r28: "rnd (\<bar>2\<bar> / 2) = Finite 1"
proof -
  have "rnd (\<bar>2\<bar> / 2) = Finite (of_int 4503599627370496 * 2 powr of_int (0 - 52))"
    by (rule rnd_eqI) (simp_all add: powr_minus)
  then show ?thesis by (simp add: powr_minus)
qed

lemma perim_area: "unsigned_area (pt 0 0) (pt 2 0) (pt (- 1) 1) = Finite 1"
  by (rule area_eval[OF perim_r4 perim_r23 perim_r7 perim_r24 perim_r2 perim_r25 perim_r26 perim_r27 perim_r28])

lemma perim_area_ok: "\<not> js_le (unsigned_area (pt 0 0) (pt 2 0) (pt (- 1) 1)) EPS"
  unfolding perim_area EPS_val by simp

lemma perim_valid: "valid (triangleData ((pt 0 0), (pt 2 0), (pt (- 1) 1)))"
  using perim_not_coincide perim_finite perim_area_ok by (simp only: valid_iff simp_thms)

lemma perim_r29: "rnd ((7120816245988179 / 2 ^ 51) + (6369051672525773 / 2 ^ 52)) = Finite (5152671041125533 / 2 ^ 50)"
proof -
  have "rnd ((7120816245988179 / 2 ^ 51) + (6369051672525773 / 2 ^ 52)) = Finite (of_int 5152671041125533 * 2 powr of_int (2 - 52))"
    by (rule rnd_eqI) (simp_all add: powr_minus)
  then show ?thesis by (simp add: powr_minus)
qed

lemma perim_r30: "rnd ((5152671041125533 / 2 ^ 50) + 2) = Finite (7404470854810781 / 2 ^ 50)"
proof -
  have "rnd ((5152671041125533 / 2 ^ 50) + 2) = Finite (of_int 7404470854810781 * 2 powr of_int (2 - 52))"
    by (rule rnd_eqI) (simp_all add: powr_minus)
  then show ?thesis by (simp add: powr_minus)
qed

lemma perim_perimeter: "js_add (js_add (Finite (7120816245988179 / 2 ^ 51)) (Finite (6369051672525773 / 2 ^ 52))) (Finite 2) = Finite (7404470854810781 / 2 ^ 50)"
  by (rule perimeter_eval[OF perim_r29 perim_r30])

lemma perim_result:
  "sides (triangleData ((pt 0 0), (pt 2 0), (pt (- 1) 1))) = Some \<lparr>side_a = Finite (7120816245988179 / 2 ^ 51), side_b = Finite (6369051672525773 / 2 ^ 52), side_c = Finite 2\<rparr>"
  "perimeter (triangleData ((pt 0 0), (pt 2 0), (pt (- 1) 1))) = Some (Finite (7404470854810781 / 2 ^ 50))"
  "area (triangleData ((pt 0 0), (pt 2 0), (pt (- 1) 1))) = Some (Finite 1)"
  unfolding triangleData_valid[OF perim_not_coincide perim_finite perim_area_ok]
  by (simp_all only: TriangleData.select_convs perim_sides perim_perimeter perim_area)

lemma perimr_r1: "rnd ((- 1) - 2) = Finite (- 3)"
proof -
  have "rnd ((- 1) - 2) = Finite (of_int (- 6755399441055744) * 2 powr of_int (1 - 52))"
    by (rule rnd_eqI) (simp_all add: powr_minus)
  then show ?thesis by (simp add: powr_minus)
qed

lemma perimr_r2: "rnd (1 - 0) = Finite 1"
proof -
  have "rnd (1 - 0) = Finite (of_int 4503599627370496 * 2 powr of_int (0 - 52))"
    by (rule rnd_eqI) (simp_all add: powr_minus)
  then show ?thesis by (simp add: powr_minus)
qed

lemma perimr_r3: "rnd ((- 1) - 0) = Finite (- 1)"
proof -
  have "rnd ((- 1) - 0) = Finite (of_int (- 4503599627370496) * 2 powr of_int (0 - 52))"
    by (rule rnd_eqI) (simp_all add: powr_minus)
  then show ?thesis by (simp add: powr_minus)
qed

lemma perimr_r4: "rnd (2 - 0) = Finite 2"
proof -
  have "rnd (2 - 0) = Finite (of_int 4503599627370496 * 2 powr of_int (1 - 52))"
    by (rule rnd_eqI) (simp_all add: powr_minus)
  then show ?thesis by (simp add: powr_minus)
qed

lemma perimr_r5: "rnd (0 - 0) = Finite 0"
  by (simp add: rnd_zero)

lemma perimr_not_coincide: "\<not> any_coincide (pt (- 1) 1) (pt 2 0) (pt 0 0)"
  using coincide_eval[OF perimr_r1 perimr_r2] coincide_eval[OF perimr_r3 perimr_r2] coincide_eval[OF perimr_r4 perimr_r5]
  by (simp add: any_coincide_def)

lemma perimr_r6: "rnd (0 - 2) = Finite (- 2)"
proof -
  have "rnd (0 - 2) = Finite (of_int (- 4503599627370496) * 2 powr of_int (1 - 52))"
    by (rule rnd_eqI) (simp_all add: powr_minus)
  then show ?thesis by (simp add: powr_minus)
qed

lemma perimr_r7: "rnd (2) = Finite 2"
proof -
  have "rnd (2) = Finite (of_int 4503599627370496 * 2 powr of_int (1 - 52))"
    by (rule rnd_eqI) (simp_all add: powr_minus)
  then show ?thesis by (simp add: powr_minus)
qed

lemma perimr_hyp1: "Math_hypot (Finite (- 2)) (Finite 0) = Finite 2"
proof -
  have "Math_hypot (Finite (- 2)) (Finite 0) = rnd 2" by (rule Math_hypot_axis) simp_all
  then show ?thesis by (simp only: perimr_r7)
qed

lemma perimr_r8: "rnd (0 - (- 1)) = Finite 1"
proof -
  have "rnd (0 - (- 1)) = Finite (of_int 4503599627370496 * 2 powr of_int (0 - 52))"
    by (rule rnd_eqI) (simp_all add: powr_minus)
  then show ?thesis by (simp add: powr_minus)
qed

lemma perimr_r9: "rnd (0 - 1) = Finite (- 1)"
proof -
  have "rnd (0 - 1) = Finite (of_int (- 4503599627370496) * 2 powr of_int (0 - 52))"
    by (rule rnd_eqI) (simp_all add: powr_minus)
  then show ?thesis by (simp add: powr_minus)
qed

lemma perimr_r10: "rnd (\<bar>1\<bar> / 1) = Finite 1"
proof -
  have "rnd (\<bar>1\<bar> / 1) = Finite (of_int 4503599627370496 * 2 powr of_int (0 - 52))"
    by (rule rnd_eqI) (simp_all add: powr_minus)
  then show ?thesis by (simp add: powr_minus)
qed

lemma perimr_r11: "rnd (1 * 1) = Finite 1"
proof -
  have "rnd (1 * 1) = Finite (of_int 4503599627370496 * 2 powr of_int (0 - 52))"
    by (rule rnd_eqI) (simp_all add: powr_minus)
  then show ?thesis by (simp add: powr_minus)
qed

lemma perimr_r12: "rnd (\<bar>(- 1)\<bar> / 1) = Finite 1"
proof -
  have "rnd (\<bar>(- 1)\<bar> / 1) = Finite (of_int 4503599627370496 * 2 powr of_int (0 - 52))"
    by (rule rnd_eqI) (simp_all add: powr_minus)
  then show ?thesis by (simp add: powr_minus)
qed

lemma perimr_r13: "rnd (1 + 1) = Finite 2"
proof -
  have "rnd (1 + 1) = Finite (of_int 4503599627370496 * 2 powr of_int (1 - 52))"
    by (rule rnd_eqI) (simp_all add: powr_minus)
  then show ?thesis by (simp add: powr_minus)
qed

lemma perimr_r14: "rnd (sqrt 2) = Finite (6369051672525773 / 2 ^ 52)"
proof -
  define s :: real where "s = sqrt 2"
  define P :: real where "P = s / (1 / 2 ^ 52)"
  have b: "(101904826760412361 / 2 ^ 56) \<le> s" "s < (12738103345051547 / 2 ^ 53)"
    unfolding s_def by (rule sqrt_between[of "(101904826760412361 / 2 ^ 56)" _ "(12738103345051547 / 2 ^ 53)"]; simp)+
  have "(101904826760412361 / 2 ^ 56) / (1 / 2 ^ 52) \<le> P" "P < (12738103345051547 / 2 ^ 53) / (1 / 2 ^ 52)"
    unfolding P_def using b by (simp_all add: divide_right_mono divide_strict_right_mono)
  moreover have "(of_int 6369051672525773 - 1 / 2 :: real) < (101904826760412361 / 2 ^ 56) / (1 / 2 ^ 52)"
    "((12738103345051547 / 2 ^ 53) / (1 / 2 ^ 52) :: real) \<le> of_int 6369051672525773 + 1 / 2"
    by simp_all
  ultimately have "of_int 6369051672525773 - 1 / 2 < P" "P < of_int 6369051672525773 + 1 / 2" by linarith+
  then have "\<bar>P - of_int 6369051672525773\<bar> < 1 / 2" by (simp only: abs_less_iff) linarith
  moreover have "s / 2 powr of_int (0 - 52) = P" by (simp add: P_def powr_minus)
  ultimately have n: "\<bar>s / 2 powr of_int (0 - 52) - of_int 6369051672525773\<bar> < 1 / 2" by (simp only:)
  have "(2::real) powr of_int (0) \<le> (101904826760412361 / 2 ^ 56)" "((12738103345051547 / 2 ^ 53) :: real) \<le> 2 powr of_int (0 + 1)"
    by (simp_all add: powr_minus)
  then have "2 powr of_int (0) \<le> s" "s < 2 powr of_int (0 + 1)"
    using b by linarith+
  moreover have "\<bar>s\<bar> = s" unfolding s_def by simp
  ultimately have k: "2 powr of_int (0) \<le> \<bar>s\<bar>" "\<bar>s\<bar> < 2 powr of_int (0 + 1)"
    by (simp_all only:)
  have "rnd s = Finite (of_int 6369051672525773 * 2 powr of_int (0 - 52))"
    by (rule rnd_eqI[OF k _ _ n]) simp_all
  then show ?thesis unfolding s_def by (simp add: powr_minus)
qed

lemma perimr_r15: "rnd ((6369051672525773 / 2 ^ 52) * 1) = Finite (6369051672525773 / 2 ^ 52)"
proof -
  have "rnd ((6369051672525773 / 2 ^ 52) * 1) = Finite (of_int 6369051672525773 * 2 powr of_int (0 - 52))"
    by (rule rnd_eqI) (simp_all add: powr_minus)
  then show ?thesis by (simp add: powr_minus)
qed

lemma perimr_hyp2: "Math_hypot (Finite 1) (Finite (- 1)) = Finite (6369051672525773 / 2 ^ 52)"
  using Math_hypot_eval[OF _ _ perimr_r10 perimr_r11 perimr_r12 perimr_r11 perimr_r13 perimr_r14] perimr_r15 by simp

lemma perimr_r16: "rnd (2 - (- 1)) = Finite 3"
proof -
  have "rnd (2 - (- 1)) = Finite (of_int 6755399441055744 * 2 powr of_int (1 - 52))"
    by (rule rnd_eqI) (simp_all add: powr_minus)
  then show ?thesis by (simp add: powr_minus)
qed

lemma perimr_r17: "rnd (\<bar>3\<bar> / 3) = Finite 1"
proof -
  have "rnd (\<bar>3\<bar> / 3) = Finite (of_int 4503599627370496 * 2 powr of_int (0 - 52))"
    by (rule rnd_eqI) (simp_all add: powr_minus)
  then show ?thesis by (simp add: powr_minus)
qed

lemma perimr_r18: "rnd (\<bar>(- 1)\<bar> / 3) = Finite (6004799503160661 / 2 ^ 54)"
proof -
  have "rnd (\<bar>(- 1)\<bar> / 3) = Finite (of_int 6004799503160661 * 2 powr of_int (-2 - 52))"
    by (rule rnd_eqI) (simp_all add: powr_minus)
  then show ?thesis by (simp add: powr_minus)
qed

lemma perimr_r19: "rnd ((6004799503160661 / 2 ^ 54) * (6004799503160661 / 2 ^ 54)) = Finite (2001599834386887 / 2 ^ 54)"
proof -
  have "rnd ((6004799503160661 / 2 ^ 54) * (6004799503160661 / 2 ^ 54)) = Finite (of_int 8006399337547548 * 2 powr of_int (-4 - 52))"
    by (rule rnd_eqI) (simp_all add: powr_minus)
  then show ?thesis by (simp add: powr_minus)
qed

lemma perimr_r20: "rnd (1 + (2001599834386887 / 2 ^ 54)) = Finite (2501999792983609 / 2 ^ 51)"
proof -
  have "rnd (1 + (2001599834386887 / 2 ^ 54)) = Finite (of_int 5003999585967218 * 2 powr of_int (0 - 52))"
    by (rule rnd_eqI) (simp_all add: powr_minus)
  then show ?thesis by (simp add: powr_minus)
qed

lemma perimr_r21: "rnd (sqrt (2501999792983609 / 2 ^ 51)) = Finite (2373605415329393 / 2 ^ 51)"
proof -
  define s :: real where "s = sqrt (2501999792983609 / 2 ^ 51)"
  define P :: real where "P = s / (1 / 2 ^ 52)"
  have b: "(75955373290540569 / 2 ^ 56) \<le> s" "s < (9494421661317573 / 2 ^ 53)"
    unfolding s_def by (rule sqrt_between[of "(75955373290540569 / 2 ^ 56)" _ "(9494421661317573 / 2 ^ 53)"]; simp)+
  have "(75955373290540569 / 2 ^ 56) / (1 / 2 ^ 52) \<le> P" "P < (9494421661317573 / 2 ^ 53) / (1 / 2 ^ 52)"
    unfolding P_def using b by (simp_all add: divide_right_mono divide_strict_right_mono)
  moreover have "(of_int 4747210830658786 - 1 / 2 :: real) < (75955373290540569 / 2 ^ 56) / (1 / 2 ^ 52)"
    "((9494421661317573 / 2 ^ 53) / (1 / 2 ^ 52) :: real) \<le> of_int 4747210830658786 + 1 / 2"
    by simp_all
  ultimately have "of_int 4747210830658786 - 1 / 2 < P" "P < of_int 4747210830658786 + 1 / 2" by linarith+
  then have "\<bar>P - of_int 4747210830658786\<bar> < 1 / 2" by (simp only: abs_less_iff) linarith
  moreover have "s / 2 powr of_int (0 - 52) = P" by (simp add: P_def powr_minus)
  ultimately have n: "\<bar>s / 2 powr of_int (0 - 52) - of_int 4747210830658786\<bar> < 1 / 2" by (simp only:)
  have "(2::real) powr of_int (0) \<le> (75955373290540569 / 2 ^ 56)" "((9494421661317573 / 2 ^ 53) :: real) \<le> 2 powr of_int (0 + 1)"
    by (simp_all add: powr_minus)
  then have "2 powr of_int (0) \<le> s" "s < 2 powr of_int (0 + 1)"
    using b by linarith+
  moreover have "\<bar>s\<bar> = s" unfolding s_def by simp
  ultimately have k: "2 powr of_int (0) \<le> \<bar>s\<bar>" "\<bar>s\<bar> < 2 powr of_int (0 + 1)"
    by (simp_all only:)
  have "rnd s = Finite (of_int 4747210830658786 * 2 powr of_int (0 - 52))"
    by (rule rnd_eqI[OF k _ _ n]) simp_all
  then show ?thesis unfolding s_def by (simp add: powr_minus)
qed

lemma perimr_r22: "rnd ((2373605415329393 / 2 ^ 51) * 3) = Finite (7120816245988179 / 2 ^ 51)"
proof -
  have "rnd ((2373605415329393 / 2 ^ 51) * 3) = Finite (of_int 7120816245988179 * 2 powr of_int (1 - 52))"
    by (rule rnd_eqI) (simp_all add: powr_minus)
  then show ?thesis by (simp add: powr_minus)
qed

lemma perimr_hyp3: "Math_hypot (Finite 3) (Finite (- 1)) = Finite (7120816245988179 / 2 ^ 51)"
  using Math_hypot_eval[OF _ _ perimr_r17 perimr_r11 perimr_r18 perimr_r19 perimr_r20 perimr_r21] perimr_r22 by simp

lemma perimr_sides:
  "distance (pt 2 0) (pt 0 0) = Finite 2"
  "distance (pt (- 1) 1) (pt 0 0) = Finite (6369051672525773 / 2 ^ 52)"
  "distance (pt (- 1) 1) (pt 2 0) = Finite (7120816245988179 / 2 ^ 51)"
  by (rule distance_eval[OF perimr_r6 perimr_r5 perimr_hyp1] distance_eval[OF perimr_r8 perimr_r9 perimr_hyp2] distance_eval[OF perimr_r16 perimr_r9 perimr_hyp3])+

lemma perimr_finite: "sides_finite (pt (- 1) 1) (pt 2 0) (pt 0 0)"
  by (simp only: sides_finite_def perimr_sides isFinite.simps simp_thms)

lemma perimr_r23: "rnd ((- 1) * 0) = Finite 0"
  by (simp add: rnd_zero)

lemma perimr_r24: "rnd (2 * (- 1)) = Finite (- 2)"
proof -
  have "rnd (2 * (- 1)) = Finite (of_int (- 4503599627370496) * 2 powr of_int (1 - 52))"
    by (rule rnd_eqI) (simp_all add: powr_minus)
  then show ?thesis by (simp add: powr_minus)
qed

lemma perimr_r25: "rnd (0 * 1) = Finite 0"
  by (simp add: rnd_zero)

lemma perimr_r26: "rnd (0 + (- 2)) = Finite (- 2)"
proof -
  have "rnd (0 + (- 2)) = Finite (of_int (- 4503599627370496) * 2 powr of_int (1 - 52))"
    by (rule rnd_eqI) (simp_all add: powr_minus)
  then show ?thesis by (simp add: powr_minus)
qed

lemma perimr_r27: "rnd ((- 2) + 0) = Finite (- 2)"
proof -
  have "rnd ((- 2) + 0) = Finite (of_int (- 4503599627370496) * 2 powr of_int (1 - 52))"
    by (rule rnd_eqI) (simp_all add: powr_minus)
  then show ?thesis by (simp add: powr_minus)
qed

lemma perimr_r28: "rnd (\<bar>(- 2)\<bar> / 2) = Finite 1"
proof -
  have "rnd (\<bar>(- 2)\<bar> / 2) = Finite (of_int 4503599627370496 * 2 powr of_int (0 - 52))"
    by (rule rnd_eqI) (simp_all add: powr_minus)
  then show ?thesis by (simp add: powr_minus)
qed

lemma perimr_area: "unsigned_area (pt (- 1) 1) (pt 2 0) (pt 0 0) = Finite 1"
  by (rule area_eval[OF perimr_r5 perimr_r23 perimr_r9 perimr_r24 perimr_r2 perimr_r25 perimr_r26 perimr_r27 perimr_r28])

lemma perimr_area_ok: "\<not> js_le (unsigned_area (pt (- 1) 1) (pt 2 0) (pt 0 0)) EPS"
  unfolding perimr_area EPS_val by simp

lemma perimr_valid: "valid (triangleData ((pt (- 1) 1), (pt 2 0), (pt 0 0)))"
  using perimr_not_coincide perimr_finite perimr_area_ok by (simp only: valid_iff simp_thms)

lemma perimr_r29: "rnd (2 + (6369051672525773 / 2 ^ 52)) = Finite (3844062731816691 / 2 ^ 50)"
proof -
  have q: "(2 + (6369051672525773 / 2 ^ 52)) / 2 powr of_int (1 - 52) = (of_int 7688125463633382 + 1 / 2 :: real)"
    by (simp add: powr_minus)
  have "rne ((2 + (6369051672525773 / 2 ^ 52)) / 2 powr of_int (1 - 52)) = 7688125463633382"
    unfolding q rne_tie by simp
  then have "rnd (2 + (6369051672525773 / 2 ^ 52)) = Finite (of_int 7688125463633382 * 2 powr of_int (1 - 52))"
    by (intro rnd_eqI_rne) (simp_all add: powr_minus)
  then show ?thesis by (simp add: powr_minus)
qed

lemma perimr_r30: "rnd ((3844062731816691 / 2 ^ 50) + (7120816245988179 / 2 ^ 51)) = Finite (1851117713702695 / 2 ^ 48)"
proof -
  have q: "((3844062731816691 / 2 ^ 50) + (7120816245988179 / 2 ^ 51)) / 2 powr of_int (2 - 52) = (of_int 7404470854810780 + 1 / 2 :: real)"
    by (simp add: powr_minus)
  have "rne (((3844062731816691 / 2 ^ 50) + (7120816245988179 / 2 ^ 51)) / 2 powr of_int (2 - 52)) = 7404470854810780"
    unfolding q rne_tie by simp
  then have "rnd ((3844062731816691 / 2 ^ 50) + (7120816245988179 / 2 ^ 51)) = Finite (of_int 7404470854810780 * 2 powr of_int (2 - 52))"
    by (intro rnd_eqI_rne) (simp_all add: powr_minus)
  then show ?thesis by (simp add: powr_minus)
qed

lemma perimr_perimeter: "js_add (js_add (Finite 2) (Finite (6369051672525773 / 2 ^ 52))) (Finite (7120816245988179 / 2 ^ 51)) = Finite (1851117713702695 / 2 ^ 48)"
  by (rule perimeter_eval[OF perimr_r29 perimr_r30])

lemma perimr_result:
  "sides (triangleData ((pt (- 1) 1), (pt 2 0), (pt 0 0))) = Some \<lparr>side_a = Finite 2, side_b = Finite (6369051672525773 / 2 ^ 52), side_c = Finite (7120816245988179 / 2 ^ 51)\<rparr>"
  "perimeter (triangleData ((pt (- 1) 1), (pt 2 0), (pt 0 0))) = Some (Finite (1851117713702695 / 2 ^ 48))"
  "area (triangleData ((pt (- 1) 1), (pt 2 0), (pt 0 0))) = Some (Finite 1)"
  unfolding triangleData_valid[OF perimr_not_coincide perimr_finite perimr_area_ok]
  by (simp_all only: TriangleData.select_convs perimr_sides perimr_perimeter perimr_area)

section \<open>The claims\<close>

text \<open>
  C1, as stated: \<open>triangleData\<close> returns a Valid result only when no two points coincide
  within \<open>EPS\<close> and the unsigned shoelace area strictly exceeds \<open>EPS\<close>. This fails where
  the products of the shoelace formula overflow to infinities of both signs: their sum is
  NaN, the test \<open>area2 <= EPS\<close> is false on NaN, and the result is Valid with the area NaN.
\<close>

theorem C1_counterexample:
  "valid (triangleData (pt big 0, pt (5 * big) 0, pt big (3 * big))) \<and>
   area (triangleData (pt big 0, pt (5 * big) 0, pt big (3 * big))) = Some NaN \<and>
   \<not> js_lt EPS (unsigned_area (pt big 0) (pt (5 * big) 0) (pt big (3 * big)))"
  using big_nc big_sf big_area by (simp add: triangleData_valid js_cmp_NaN)

text \<open>
  C1, amended: \<open>triangleData\<close> returns a Valid result exactly when no pair of points has
  both coordinate differences below \<open>EPS\<close> in absolute value, the three side lengths are
  finite, and the test \<open>area2 <= EPS\<close> fails, that is the computed unsigned area strictly
  exceeds \<open>EPS\<close> or is NaN; in all other cases the result is Invalid and carries a reason.
\<close>

theorem C1_valid_exactly_when:
  "(valid (triangleData (A, B, C)) \<longleftrightarrow>
      \<not> coincide A B \<and> \<not> coincide A C \<and> \<not> coincide B C \<and> sides_finite A B C \<and>
      (js_lt EPS (unsigned_area A B C) \<or> unsigned_area A B C = NaN)) \<and>
   (\<not> valid (triangleData (A, B, C)) \<longrightarrow> (\<exists>reason. triangleData (A, B, C) = invalid reason))"
proof -
  have "\<not> valid (triangleData (A, B, C)) \<longrightarrow> (\<exists>reason. triangleData (A, B, C) = invalid reason)"
    using triangleData_coincide[of A B C] triangleData_nonfinite[of A B C]
      triangleData_degenerate[of A B C] valid_iff[of A B C] by blast
  then show ?thesis
    by (simp add: valid_iff not_le_EPS_iff any_coincide_def)
qed

theorem C1_witness:
  "valid (triangleData (pt 0 0, pt 4 0, pt 0 3)) \<and>
   \<not> valid (triangleData (pt 0 0, pt 1 0, pt 2 0)) \<and>
   (\<exists>reason. triangleData (pt 0 0, pt 1 0, pt 2 0) = invalid reason)"
  using C1_valid_exactly_when[of "pt 0 0" "pt 4 0" "pt 0 3"]
    C1_valid_exactly_when[of "pt 0 0" "pt 1 0" "pt 2 0"]
    ex_345_not_coincide ex_345_finite ex_345_area ex_collinear_area
  by (simp add: any_coincide_def EPS_val)

text \<open>
  C2: the three Invalid checks run in the fixed order coincidence, finiteness of the side
  lengths, degeneracy of the area, and the first that triggers gives the reason; every
  triple of points yields a result value, Valid or Invalid with a reason.
\<close>

theorem C2_checks_in_fixed_order:
  "(any_coincide A B C \<longrightarrow>
      triangleData (A, B, C) = invalid ''Two or more points coincide.'') \<and>
   (\<not> any_coincide A B C \<and> \<not> sides_finite A B C \<longrightarrow>
      triangleData (A, B, C) = invalid ''Non-finite side length detected.'') \<and>
   (\<not> any_coincide A B C \<and> sides_finite A B C \<and> js_le (unsigned_area A B C) EPS \<longrightarrow>
      triangleData (A, B, C) = invalid ''Degenerate (collinear) triangle.'') \<and>
   (\<not> any_coincide A B C \<and> sides_finite A B C \<and> \<not> js_le (unsigned_area A B C) EPS \<longrightarrow>
      valid (triangleData (A, B, C)) \<and> reasonIfInvalid (triangleData (A, B, C)) = None) \<and>
   (valid (triangleData (A, B, C)) \<or> (\<exists>reason. triangleData (A, B, C) = invalid reason))"
proof -
  have last: "valid (triangleData (A, B, C)) \<or> (\<exists>reason. triangleData (A, B, C) = invalid reason)"
    using triangleData_coincide[of A B C] triangleData_nonfinite[of A B C]
      triangleData_degenerate[of A B C] valid_iff[of A B C] by blast
  show ?thesis
    using last
    by (simp add: triangleData_coincide triangleData_nonfinite triangleData_degenerate
        triangleData_valid)
qed

theorem C2_witness:
  "triangleData (pt 0 0, pt 0 0, pt 1 1) = invalid ''Two or more points coincide.'' \<and>
   triangleData (\<lparr>px = NaN, py = Finite 0\<rparr>, pt 1 0, pt 0 1) =
     invalid ''Non-finite side length detected.'' \<and>
   triangleData (pt 0 0, pt 1 0, pt 2 0) = invalid ''Degenerate (collinear) triangle.'' \<and>
   valid (triangleData (pt 0 0, pt 4 0, pt 0 3))"
  using C2_checks_in_fixed_order[of "pt 0 0" "pt 0 0" "pt 1 1"]
    C2_checks_in_fixed_order[of "\<lparr>px = NaN, py = Finite 0\<rparr>" "pt 1 0" "pt 0 1"]
    C2_checks_in_fixed_order[of "pt 0 0" "pt 1 0" "pt 2 0"]
    C2_checks_in_fixed_order[of "pt 0 0" "pt 4 0" "pt 0 3"]
    ex_coincident_coincide ex_nan_not_coincide ex_nan_not_finite
    ex_collinear_not_coincide ex_collinear_finite ex_collinear_area
    ex_345_not_coincide ex_345_finite ex_345_area
  by (simp add: EPS_val)




text \<open>
  C4, as stated: the reason of an Invalid result is one of the strings
  \<open>coincident points\<close>, \<open>non-finite side length\<close>, \<open>degenerate/collinear\<close>. The code carries
  other strings: on two equal points the reason is \<open>Two or more points coincide.\<close>
\<close>

theorem C4_counterexample:
  "\<not> valid (triangleData (pt 0 0, pt 0 0, pt 1 1)) \<and>
   reasonIfInvalid (triangleData (pt 0 0, pt 0 0, pt 1 1)) \<notin>
     {Some ''coincident points'', Some ''non-finite side length'', Some ''degenerate/collinear''}"
  using ex_coincident_coincide by (simp add: triangleData_coincide invalid_def)

text \<open>
  C4, amended: the reason of an Invalid result is exactly one of the three strings
  \<open>Two or more points coincide.\<close>, \<open>Non-finite side length detected.\<close> and
  \<open>Degenerate (collinear) triangle.\<close>, according to which case was detected: a coincident
  pair, else a non-finite side length, else an area not above \<open>EPS\<close>.
\<close>

theorem C4_reason_strings:
  "\<not> valid (triangleData (A, B, C)) \<Longrightarrow>
   reasonIfInvalid (triangleData (A, B, C)) =
     Some (if any_coincide A B C then ''Two or more points coincide.''
           else if \<not> sides_finite A B C then ''Non-finite side length detected.''
           else ''Degenerate (collinear) triangle.'')"
proof (cases "any_coincide A B C")
  case True
  then show ?thesis by (simp add: triangleData_coincide invalid_def)
next
  case nc: False
  assume nv: "\<not> valid (triangleData (A, B, C))"
  show ?thesis
  proof (cases "sides_finite A B C")
    case False
    with nc show ?thesis by (simp add: triangleData_nonfinite invalid_def)
  next
    case True
    with nc nv have "js_le (unsigned_area A B C) EPS" by (simp add: valid_iff)
    with nc True show ?thesis by (simp add: triangleData_degenerate invalid_def)
  qed
qed

theorem C4_witness:
  "\<not> valid (triangleData (pt 0 0, pt 1 0, pt 2 0)) \<and>
   reasonIfInvalid (triangleData (pt 0 0, pt 1 0, pt 2 0)) = Some ''Degenerate (collinear) triangle.''"
proof -
  have nv: "\<not> valid (triangleData (pt 0 0, pt 1 0, pt 2 0))"
    using ex_collinear_area by (simp add: valid_iff EPS_val)
  show ?thesis
    using nv C4_reason_strings[OF nv] ex_collinear_not_coincide ex_collinear_finite by simp
qed

text \<open>
  C5, as stated: on a Valid result \<open>a < b + c\<close>, \<open>b < a + c\<close> and \<open>c < a + b\<close>. The needle
  triangle \<open>(0,0)\<close>, \<open>(2,0)\<close>, \<open>(1, 2^-27)\<close> is Valid with the sides \<open>1\<close>, \<open>1\<close>, \<open>2\<close>, so that
  \<open>c = a + b\<close>; the triangle \<open>(0,0)\<close>, \<open>(2^60 + 2^8, 0)\<close>, \<open>(2^7, 2^-20)\<close> is Valid with the
  sides \<open>2^60\<close>, \<open>2^7\<close>, \<open>2^60 + 2^8\<close>, so that \<open>c\<close> exceeds \<open>a + b\<close>.
\<close>

theorem C5_counterexample:
  "valid (triangleData (pt 0 0, pt 2 0, pt 1 (1 / 2 ^ 27))) \<and>
   sides (triangleData (pt 0 0, pt 2 0, pt 1 (1 / 2 ^ 27))) =
     Some \<lparr>side_a = Finite 1, side_b = Finite 1, side_c = Finite 2\<rparr> \<and>
   \<not> js_lt (Finite 2) (js_add (Finite 1) (Finite 1)) \<and>
   valid (triangleData (pt 0 0, pt (2 ^ 60 + 2 ^ 8) 0, pt (2 ^ 7) (1 / 2 ^ 20))) \<and>
   sides (triangleData (pt 0 0, pt (2 ^ 60 + 2 ^ 8) 0, pt (2 ^ 7) (1 / 2 ^ 20))) =
     Some \<lparr>side_a = Finite (2 ^ 60), side_b = Finite (2 ^ 7), side_c = Finite (2 ^ 60 + 2 ^ 8)\<rparr> \<and>
   \<not> js_le (Finite (2 ^ 60 + 2 ^ 8)) (js_add (Finite (2 ^ 60)) (Finite (2 ^ 7)))"
  using thin_valid thin_result(1) long_valid long_result(1) long_sum[simplified]
  by (simp add: rnd_numeral)

text \<open>
  C5, amended: on a Valid result the returned side lengths are finite and satisfy the
  triangle inequality up to the rounding of the doubles: \<open>a \<le> (b + c) (1 + 2^-48)\<close>,
  \<open>b \<le> (a + c) (1 + 2^-48)\<close> and \<open>c \<le> (a + b) (1 + 2^-48)\<close> as real numbers.
\<close>

theorem C5_triangle_inequality_up_to_rounding:
  assumes "valid (triangleData (A, B, C))"
  shows "\<exists>a b c. sides (triangleData (A, B, C)) =
           Some \<lparr>side_a = Finite a, side_b = Finite b, side_c = Finite c\<rparr> \<and>
         a \<le> (b + c) * (1 + 1 / 2 ^ 48) \<and>
         b \<le> (a + c) * (1 + 1 / 2 ^ 48) \<and>
         c \<le> (a + b) * (1 + 1 / 2 ^ 48)"
proof -
  note V = valid_sides[OF assms]
  from assms have v: "\<not> any_coincide A B C" "sides_finite A B C" by (simp_all add: valid_iff)
  note T = triangle_up_to_rounding[OF v]
  show ?thesis using V(7) T by blast
qed

theorem C5_witness:
  "valid (triangleData (pt 0 0, pt 4 0, pt 0 3)) \<and>
   sides (triangleData (pt 0 0, pt 4 0, pt 0 3)) =
     Some \<lparr>side_a = Finite 5, side_b = Finite 3, side_c = Finite 4\<rparr> \<and>
   (\<exists>a b c. sides (triangleData (pt 0 0, pt 4 0, pt 0 3)) =
        Some \<lparr>side_a = Finite a, side_b = Finite b, side_c = Finite c\<rparr> \<and>
      a \<le> (b + c) * (1 + 1 / 2 ^ 48) \<and> b \<le> (a + c) * (1 + 1 / 2 ^ 48) \<and>
      c \<le> (a + b) * (1 + 1 / 2 ^ 48))"
  using ex_345_valid ex_345_result(1) C5_triangle_inequality_up_to_rounding[OF ex_345_valid] by simp

text \<open>
  C6: on a Valid result the perimeter is the floating-point sum of the returned sides taken
  in the order \<open>(a + b) + c\<close>.
\<close>

theorem C6_perimeter_is_sum_of_sides:
  "valid (triangleData (A, B, C)) \<Longrightarrow>
   (\<exists>s. sides (triangleData (A, B, C)) = Some s \<and>
        perimeter (triangleData (A, B, C)) = Some (js_add (js_add (side_a s) (side_b s)) (side_c s)))"
  by (simp add: valid_iff triangleData_valid)

theorem C6_witness:
  "valid (triangleData (pt 0 0, pt 4 0, pt 0 3)) \<and>
   (\<exists>s. sides (triangleData (pt 0 0, pt 4 0, pt 0 3)) = Some s \<and>
        perimeter (triangleData (pt 0 0, pt 4 0, pt 0 3)) =
          Some (js_add (js_add (side_a s) (side_b s)) (side_c s)))"
proof -
  have v: "valid (triangleData (pt 0 0, pt 4 0, pt 0 3))" by (rule ex_345_valid)
  show ?thesis using v C6_perimeter_is_sum_of_sides[OF v] by simp
qed

text \<open>
  C7: on \<open>A = (0,0)\<close>, \<open>B = (4,0)\<close>, \<open>C = (0,3)\<close> the result is Valid with the sides
  \<open>a = 5\<close>, \<open>b = 3\<close>, \<open>c = 4\<close>, the area \<open>6\<close>, the perimeter \<open>12\<close>, and the angle at \<open>A\<close>,
  opposite the side of length \<open>5\<close>, is exactly \<open>90\<close> degrees.
\<close>

theorem C7_three_four_five:
  "valid (triangleData (pt 0 0, pt 4 0, pt 0 3)) \<and>
   sides (triangleData (pt 0 0, pt 4 0, pt 0 3)) =
     Some \<lparr>side_a = Finite 5, side_b = Finite 3, side_c = Finite 4\<rparr> \<and>
   area (triangleData (pt 0 0, pt 4 0, pt 0 3)) = Some (Finite 6) \<and>
   perimeter (triangleData (pt 0 0, pt 4 0, pt 0 3)) = Some (Finite 12) \<and>
   (\<exists>deg. angles (triangleData (pt 0 0, pt 4 0, pt 0 3)) = Some deg \<and> angle_A deg = Finite 90)"
  using ex_345_valid ex_345_result by simp

theorem C7_witness:
  "\<not> any_coincide (pt 0 0) (pt 4 0) (pt 0 3) \<and> sides_finite (pt 0 0) (pt 4 0) (pt 0 3) \<and>
   \<not> js_le (unsigned_area (pt 0 0) (pt 4 0) (pt 0 3)) EPS \<and>
   valid (triangleData (pt 0 0, pt 4 0, pt 0 3)) \<and>
   perimeter (triangleData (pt 0 0, pt 4 0, pt 0 3)) = Some (Finite 12)"
  using C7_three_four_five ex_345_not_coincide ex_345_finite ex_345_area
  by (simp add: EPS_val)

text \<open>
  C8, as stated: a transposition of two input points leaves validity, the side lengths and
  the angles (up to relabeling), the area and the perimeter exactly the same. The area and
  the perimeter are floating-point sums taken in the order of the points. On
  \<open>A = (-2^26, 0)\<close>, \<open>B = (2^-26, -2^-26)\<close>, \<open>C = (2^-25, 2^-26)\<close> the area is \<open>1 + 2^-52\<close>, and
  with \<open>B\<close> and \<open>C\<close> exchanged it is \<open>1 + 2^-51\<close>. On \<open>(2^34, 0)\<close>, \<open>(2^34 + 2^14, -2^-20)\<close>,
  \<open>(1, 1)\<close> the result is Valid, and with the last two points exchanged the small term of
  the shoelace sum is lost and the result is Invalid. On \<open>A = (0, 0)\<close>, \<open>B = (2, 0)\<close>,
  \<open>C = (-1, 1)\<close> the perimeter is \<open>7404470854810781 / 2^50\<close>, and with \<open>A\<close> and \<open>C\<close> exchanged
  it is \<open>7404470854810780 / 2^50\<close>, one unit in the last place less.
\<close>

theorem C8_counterexample:
  "valid (triangleData (pt (- (2 ^ 26)) 0, pt (1 / 2 ^ 26) (- (1 / 2 ^ 26)), pt (1 / 2 ^ 25) (1 / 2 ^ 26))) \<and>
   valid (triangleData (pt (- (2 ^ 26)) 0, pt (1 / 2 ^ 25) (1 / 2 ^ 26), pt (1 / 2 ^ 26) (- (1 / 2 ^ 26)))) \<and>
   area (triangleData (pt (- (2 ^ 26)) 0, pt (1 / 2 ^ 26) (- (1 / 2 ^ 26)), pt (1 / 2 ^ 25) (1 / 2 ^ 26))) =
     Some (Finite (1 + 1 / 2 ^ 52)) \<and>
   area (triangleData (pt (- (2 ^ 26)) 0, pt (1 / 2 ^ 25) (1 / 2 ^ 26), pt (1 / 2 ^ 26) (- (1 / 2 ^ 26)))) =
     Some (Finite (1 + 1 / 2 ^ 51)) \<and>
   Finite (1 + 1 / 2 ^ 52) \<noteq> Finite (1 + 1 / 2 ^ 51) \<and>
   valid (triangleData (pt (2 ^ 34) 0, pt (2 ^ 34 + 2 ^ 14) (- (1 / 2 ^ 20)), pt 1 1)) \<and>
   triangleData (pt (2 ^ 34) 0, pt 1 1, pt (2 ^ 34 + 2 ^ 14) (- (1 / 2 ^ 20))) =
     invalid ''Degenerate (collinear) triangle.'' \<and>
   valid (triangleData (pt 0 0, pt 2 0, pt (- 1) 1)) \<and>
   valid (triangleData (pt (- 1) 1, pt 2 0, pt 0 0)) \<and>
   perimeter (triangleData (pt 0 0, pt 2 0, pt (- 1) 1)) = Some (Finite (7404470854810781 / 2 ^ 50)) \<and>
   perimeter (triangleData (pt (- 1) 1, pt 2 0, pt 0 0)) = Some (Finite (7404470854810780 / 2 ^ 50)) \<and>
   Finite (7404470854810781 / 2 ^ 50) \<noteq> Finite (7404470854810780 / 2 ^ 50)"
proof -
  have skew: "valid (triangleData (pt (- (2 ^ 26)) 0, pt (1 / 2 ^ 26) (- (1 / 2 ^ 26)), pt (1 / 2 ^ 25) (1 / 2 ^ 26))) \<and>
     valid (triangleData (pt (- (2 ^ 26)) 0, pt (1 / 2 ^ 25) (1 / 2 ^ 26), pt (1 / 2 ^ 26) (- (1 / 2 ^ 26)))) \<and>
     area (triangleData (pt (- (2 ^ 26)) 0, pt (1 / 2 ^ 26) (- (1 / 2 ^ 26)), pt (1 / 2 ^ 25) (1 / 2 ^ 26))) =
       Some (Finite (1 + 1 / 2 ^ 52)) \<and>
     area (triangleData (pt (- (2 ^ 26)) 0, pt (1 / 2 ^ 25) (1 / 2 ^ 26), pt (1 / 2 ^ 26) (- (1 / 2 ^ 26)))) =
       Some (Finite (1 + 1 / 2 ^ 51))"
    using skew_valid skewr_valid skew_result(3) skewr_result(3) by simp
  have lost: "valid (triangleData (pt (2 ^ 34) 0, pt (2 ^ 34 + 2 ^ 14) (- (1 / 2 ^ 20)), pt 1 1)) \<and>
     triangleData (pt (2 ^ 34) 0, pt 1 1, pt (2 ^ 34 + 2 ^ 14) (- (1 / 2 ^ 20))) =
       invalid ''Degenerate (collinear) triangle.''"
    using lost_valid lostr_result by simp
  have perim: "valid (triangleData (pt 0 0, pt 2 0, pt (- 1) 1)) \<and>
     valid (triangleData (pt (- 1) 1, pt 2 0, pt 0 0)) \<and>
     perimeter (triangleData (pt 0 0, pt 2 0, pt (- 1) 1)) = Some (Finite (7404470854810781 / 2 ^ 50)) \<and>
     perimeter (triangleData (pt (- 1) 1, pt 2 0, pt 0 0)) = Some (Finite (7404470854810780 / 2 ^ 50))"
    using perim_valid perimr_valid perim_result(2) perimr_result(2) by simp
  have ne: "Finite (1 + 1 / 2 ^ 52) \<noteq> Finite (1 + 1 / 2 ^ 51)"
    "Finite (7404470854810781 / 2 ^ 50) \<noteq> Finite (7404470854810780 / 2 ^ 50)" by simp_all
  show ?thesis using skew lost perim ne by blast
qed

text \<open>
  C8, amended: exchanging the first two points gives the same result up to relabeling: the
  same validity and reason, the sides \<open>a\<close>, \<open>b\<close>, the angles \<open>A\<close>, \<open>B\<close> and their midpoints
  exchanged, and exactly the same \<open>c\<close>, \<open>C\<close>, area and perimeter. For a transposition that
  involves the third point the coincidence check and the finiteness check decide the same,
  and when both results are Valid they carry the same side lengths and the same angles up
  to relabeling.
\<close>

theorem C8_transpositions:
  "triangleData (B, A, C) = swap_ab (triangleData (A, B, C)) \<and>
   (any_coincide A C B \<longleftrightarrow> any_coincide A B C) \<and> (sides_finite A C B \<longleftrightarrow> sides_finite A B C) \<and>
   (any_coincide C B A \<longleftrightarrow> any_coincide A B C) \<and> (sides_finite C B A \<longleftrightarrow> sides_finite A B C) \<and>
   (valid (triangleData (A, B, C)) \<and> valid (triangleData (A, C, B)) \<longrightarrow>
      sides (triangleData (A, C, B)) = map_option swap_bc_sides (sides (triangleData (A, B, C))) \<and>
      angles (triangleData (A, C, B)) = map_option swap_bc_angles (angles (triangleData (A, B, C)))) \<and>
   (valid (triangleData (A, B, C)) \<and> valid (triangleData (C, B, A)) \<longrightarrow>
      sides (triangleData (C, B, A)) = map_option swap_ac_sides (sides (triangleData (A, B, C))) \<and>
      angles (triangleData (C, B, A)) = map_option swap_ac_angles (angles (triangleData (A, B, C))))"
  using triangleData_swap_ab[of B A C] triangleData_swap_bc[of A B C] triangleData_swap_ac[of A B C]
    any_coincide_swap[of A B C] sides_finite_swap[of A B C]
  by blast

theorem C8_witness:
  "valid (triangleData (pt 0 0, pt 4 0, pt 0 3)) \<and> valid (triangleData (pt 0 0, pt 0 3, pt 4 0)) \<and>
   valid (triangleData (pt 0 3, pt 4 0, pt 0 0)) \<and>
   triangleData (pt 4 0, pt 0 0, pt 0 3) = swap_ab (triangleData (pt 0 0, pt 4 0, pt 0 3)) \<and>
   sides (triangleData (pt 0 0, pt 0 3, pt 4 0)) =
     Some \<lparr>side_a = Finite 5, side_b = Finite 4, side_c = Finite 3\<rparr> \<and>
   sides (triangleData (pt 0 3, pt 4 0, pt 0 0)) =
     Some \<lparr>side_a = Finite 4, side_b = Finite 3, side_c = Finite 5\<rparr>"
  using C8_transpositions[of "pt 4 0" "pt 0 0" "pt 0 3"] ex_345_valid ex_345b_valid ex_345c_valid
  by (simp add: ex_345_result(1) swap_bc_sides_def swap_ac_sides_def)

text \<open>
  C10: when a coordinate is NaN or infinite and no pair of points passes the coincidence
  test, the result is Invalid with the reason of the non-finite side length; a point with a
  NaN coordinate never passes the coincidence test against any point.
\<close>

theorem C10_nonfinite_coordinate:
  assumes "\<not> isFinite (px A) \<or> \<not> isFinite (py A) \<or> \<not> isFinite (px B) \<or> \<not> isFinite (py B) \<or>
           \<not> isFinite (px C) \<or> \<not> isFinite (py C)"
    and "\<not> any_coincide A B C"
  shows "triangleData (A, B, C) = invalid ''Non-finite side length detected.'' \<and>
         (\<forall>P Q. px P = NaN \<or> py P = NaN \<longrightarrow> \<not> coincide P Q \<and> \<not> coincide Q P)"
proof -
  have "\<not> isFinite (distance B C) \<or> \<not> isFinite (distance A C) \<or> \<not> isFinite (distance A B)"
    using assms(1) distance_nonfinite[of B C] distance_nonfinite[of A C] distance_nonfinite[of A B]
    by blast
  then have "\<not> sides_finite A B C" by (auto simp add: sides_finite_def)
  with assms(2) show ?thesis
    using NaN_never_coincides by (simp add: triangleData_nonfinite)
qed

theorem C10_witness:
  "\<not> isFinite (px \<lparr>px = NaN, py = Finite 0\<rparr>) \<and>
   \<not> any_coincide \<lparr>px = NaN, py = Finite 0\<rparr> (pt 1 0) (pt 0 1) \<and>
   triangleData (\<lparr>px = NaN, py = Finite 0\<rparr>, pt 1 0, pt 0 1) =
     invalid ''Non-finite side length detected.''"
proof -
  have h: "\<not> isFinite (px \<lparr>px = NaN, py = Finite 0\<rparr>)" by simp
  show ?thesis
    using h ex_nan_not_coincide
      C10_nonfinite_coordinate[of "\<lparr>px = NaN, py = Finite 0\<rparr>" "pt 1 0" "pt 0 1"]
    by simp
qed

end
